(* ===== verification/Prelude.thy ===== *)
theory Prelude
  imports Complex_Main "HOL-Library.Word" "HOL-Library.List_Lexorder" "HOL-Library.Char_ord"
begin

text \<open>
  Shared vocabulary of the development: the type synonyms of the model, the error values of the
  Go packages, the result/state shape of a Go function that may return an error
  (\<open>x, err := f(); if err != nil { return err }\<close>), Go maps of slices, and the generic contracts:
  a keyed table (\<open>cache_table\<close>), a step function with an invariant (\<open>step_invariant\<close>) and a step relation
  with one (\<open>relation_invariant\<close>).
\<close>

section \<open>Types and errors\<close>

type_synonym uuid = "128 word"
type_synonym float64 = rat
type_synonym int16 = "16 word"

named_theorems run_simps "unfolding of the result/state combinators"
named_theorems frame_rules "which actions leave an observation of the state unchanged"

datatype room_error =
    Room_ErrNotFound | Room_ErrNameTaken | Room_ErrNoCapability
  | Room_ErrInvalidState | Room_ErrInvalidOverride | Room_ErrInvalidTarget

datatype sched_error =
    Sched_ErrNotFound | Sched_ErrPeriodNotFound | Sched_ErrNameTaken | Sched_ErrPeriodOverlap
  | Sched_ErrInvalidTimeRange | Sched_ErrCapabilityConflict | Sched_ErrAlreadyActive
  | Sched_ErrAlreadyInactive

datatype device_error =
    Device_ErrNotFound | Device_ErrNameTaken | Device_ErrHwIDTaken | Device_ErrAlreadyOwned
  | Device_ErrRoomNotFound | Device_ErrInvalidSensor | Device_ErrInvalidActuator
  | Device_ErrDuplicateSensor | Device_ErrDuplicateActuator | Device_ErrCapabilityConflict

datatype auth_error = Auth_ErrInvalidCredentials | Auth_ErrInvalidToken | Auth_ErrTokenNotFound

datatype user_error = User_ErrEmailTaken | User_ErrNotFound | User_ErrInvalidTimezone

datatype sim_error = ErrConflict | ErrCapabilityConflict

text \<open>
  \<open>Fault\<close> is any failure of a database, broker or Redis call; \<open>UniqueViolation\<close> is the one
  PostgreSQL error the code tells apart (code 23505); \<open>Msg\<close> is an error made on the spot with
  \<open>fmt.Errorf\<close> or \<open>errors.New\<close>, which callers only log or print.
\<close>

datatype error =
    Fault
  | UniqueViolation
  | Msg string
  | RoomE room_error
  | SchedE sched_error
  | DeviceE device_error
  | AuthE auth_error
  | UserE user_error
  | SimE sim_error
  | Wrap string error
  | Panic string

section \<open>Functions that may fail and change state\<close>

type_synonym ('w, 'a) act = "'w \<Rightarrow> (error + 'a) \<times> 'w"

definition returnE :: "'a \<Rightarrow> ('w, 'a) act" where
  "returnE x = (\<lambda>w. (Inr x, w))"

definition throwE :: "error \<Rightarrow> ('w, 'a) act" where
  "throwE e = (\<lambda>w. (Inl e, w))"

text \<open>\<open>x, err := m; if err != nil { return err }; k(x)\<close>\<close>

definition bindE :: "('w, 'a) act \<Rightarrow> ('a \<Rightarrow> ('w, 'b) act) \<Rightarrow> ('w, 'b) act" where
  "bindE m k = (\<lambda>w. case m w of (Inl e, w') \<Rightarrow> (Inl e, w') | (Inr x, w') \<Rightarrow> k x w')"

text \<open>\<open>if c { return err }\<close>\<close>

definition failIf :: "bool \<Rightarrow> error \<Rightarrow> ('w, unit) act" where
  "failIf c e = (\<lambda>w. (if c then Inl e else Inr (), w))"

definition modifyE :: "('w \<Rightarrow> 'w) \<Rightarrow> ('w, unit) act" where
  "modifyE f = (\<lambda>w. (Inr (), f w))"

text \<open>\<open>if err := m; errors.Is(err, e) { return h(e) }\<close>: the error is replaced, the state kept.\<close>

definition mapErr :: "(error \<Rightarrow> error) \<Rightarrow> ('w, 'a) act \<Rightarrow> ('w, 'a) act" where
  "mapErr h m = (\<lambda>w. case m w of (Inl e, w') \<Rightarrow> (Inl (h e), w') | (Inr x, w') \<Rightarrow> (Inr x, w'))"

text \<open>A call of a function that may fail but changes no state.\<close>

definition liftE :: "error + 'a \<Rightarrow> ('w, 'a) act" where
  "liftE r = (\<lambda>w. (r, w))"

text \<open>\<open>for _, x := range xs { if err := f(x); err != nil { return err } }\<close>\<close>

fun forE :: "('a \<Rightarrow> ('w, unit) act) \<Rightarrow> 'a list \<Rightarrow> ('w, unit) act" where
  "forE f [] = returnE ()"
| "forE f (x # xs) = bindE (f x) (\<lambda>_. forE f xs)"

text \<open>\<open>for _, x := range xs { y, err := f(x); if err != nil { return err }; ys = append(ys, y) }\<close>\<close>

fun collectE :: "('a \<Rightarrow> ('w, 'b) act) \<Rightarrow> 'a list \<Rightarrow> ('w, 'b list) act" where
  "collectE f [] = returnE []"
| "collectE f (x # xs) = bindE (f x) (\<lambda>y. bindE (collectE f xs) (\<lambda>ys. returnE (y # ys)))"

lemma liftE_run [simp, run_simps]: "liftE r w = (r, w)"
  by (simp add: liftE_def)

lemma returnE_run [simp, run_simps]: "returnE x w = (Inr x, w)"
  by (simp add: returnE_def)

lemma throwE_run [simp, run_simps]: "throwE e w = (Inl e, w)"
  by (simp add: throwE_def)

lemma modifyE_run [simp, run_simps]: "modifyE f w = (Inr (), f w)"
  by (simp add: modifyE_def)

lemma failIf_run [simp, run_simps]: "failIf c e w = (if c then Inl e else Inr (), w)"
  by (simp add: failIf_def)

lemma bindE_run [run_simps]:
  "bindE m k w = (case m w of (Inl e, w') \<Rightarrow> (Inl e, w') | (Inr x, w') \<Rightarrow> k x w')"
  by (simp add: bindE_def)

lemma mapErr_run [run_simps]:
  "mapErr h m w = (case m w of (Inl e, w') \<Rightarrow> (Inl (h e), w') | (Inr x, w') \<Rightarrow> (Inr x, w'))"
  by (simp add: mapErr_def)

lemma bindE_cong_run:
  "m w = (Inr x, w') \<Longrightarrow> bindE m k w = k x w'"
  "m w = (Inl e, w') \<Longrightarrow> bindE m k w = (Inl e, w')"
  by (simp_all add: bindE_run)

text \<open>A run that succeeds went through both parts; one that fails failed in one of them.\<close>

lemma bindE_InrE:
  assumes "bindE m k w = (Inr y, w'')"
  obtains x w' where "m w = (Inr x, w')" and "k x w' = (Inr y, w'')"
  using assms by (auto simp: bindE_run split: prod.splits sum.splits)

lemma bindE_InlE:
  assumes "bindE m k w = (Inl e, w'')"
  obtains "m w = (Inl e, w'')"
  | x w' where "m w = (Inr x, w')" and "k x w' = (Inl e, w'')"
  using assms by (auto simp: bindE_run split: prod.splits sum.splits)

lemma failIf_InrD: "failIf c e w = (Inr u, w') \<Longrightarrow> \<not> c \<and> w' = w"
  by (auto split: if_splits)

lemma mapErr_InrD: "mapErr h m w = (Inr x, w') \<Longrightarrow> m w = (Inr x, w')"
  by (auto simp: mapErr_run split: prod.splits sum.splits)

subsection \<open>Frames: actions that leave an observation of the state alone\<close>

definition frames :: "('w \<Rightarrow> 'o) \<Rightarrow> ('w, 'a) act \<Rightarrow> bool" where
  "frames obs m \<longleftrightarrow> (\<forall>w. obs (snd (m w)) = obs w)"

lemma framesI: "(\<And>w. obs (snd (m w)) = obs w) \<Longrightarrow> frames obs m"
  by (simp add: frames_def)

lemma framesD: "frames obs m \<Longrightarrow> m w = (r, w') \<Longrightarrow> obs w' = obs w"
  by (metis frames_def snd_conv)

lemma frames_returnE [frame_rules]: "frames obs (returnE x)"
  by (simp add: frames_def)

lemma frames_throwE [frame_rules]: "frames obs (throwE e)"
  by (simp add: frames_def)

lemma frames_liftE [frame_rules]: "frames obs (liftE r)"
  by (simp add: frames_def)

lemma frames_failIf [frame_rules]: "frames obs (failIf c e)"
  by (simp add: frames_def)

lemma frames_bindE [frame_rules]:
  "frames obs m \<Longrightarrow> (\<And>x. frames obs (k x)) \<Longrightarrow> frames obs (bindE m k)"
  by (auto simp: frames_def bindE_run split: prod.split sum.split) (metis snd_conv)+

lemma frames_mapErr [frame_rules]: "frames obs m \<Longrightarrow> frames obs (mapErr h m)"
  by (auto simp: frames_def mapErr_run split: prod.split sum.split) (metis snd_conv)+

lemma frames_if [frame_rules]:
  "frames obs m \<Longrightarrow> frames obs n \<Longrightarrow> frames obs (if c then m else n)"
  by simp

lemma frames_case_option [frame_rules]:
  "frames obs m \<Longrightarrow> (\<And>x. frames obs (k x)) \<Longrightarrow> frames obs (case v of None \<Rightarrow> m | Some x \<Rightarrow> k x)"
  by (cases v) simp_all

lemma frames_case_sum [frame_rules]:
  "(\<And>x. frames obs (m x)) \<Longrightarrow> (\<And>x. frames obs (k x)) \<Longrightarrow>
     frames obs (case v of Inl x \<Rightarrow> m x | Inr x \<Rightarrow> k x)"
  by (cases v) simp_all

lemma frames_forE [frame_rules]: "(\<And>x. frames obs (f x)) \<Longrightarrow> frames obs (forE f xs)"
  by (induction xs) (auto intro: frame_rules)

text \<open>Actions that leave an observation alone whenever they fail.\<close>

named_theorems safe_rules "which actions keep an observation of the state when they fail"

definition safe :: "('w \<Rightarrow> 'o) \<Rightarrow> ('w, 'a) act \<Rightarrow> bool" where
  "safe obs m \<longleftrightarrow> (\<forall>w e w'. m w = (Inl e, w') \<longrightarrow> obs w' = obs w)"

lemma safeD: "safe obs m \<Longrightarrow> m w = (Inl e, w') \<Longrightarrow> obs w' = obs w"
  by (simp add: safe_def)

lemma frames_safe: "frames obs m \<Longrightarrow> safe obs m"
  by (auto simp: frames_def safe_def) (metis snd_conv)

lemma safe_modifyE [safe_rules]: "safe obs (modifyE f)"
  by (simp add: safe_def)

lemma safe_throwE [safe_rules]: "safe obs (throwE e)"
  by (simp add: safe_def)

lemma safe_returnE [safe_rules]: "safe obs (returnE x)"
  by (simp add: safe_def)

lemma safe_failIf [safe_rules]: "safe obs (failIf c e)"
  by (auto simp: safe_def split: if_splits)

lemma safe_bindE [safe_rules]:
  "frames obs m \<Longrightarrow> (\<And>x. safe obs (k x)) \<Longrightarrow> safe obs (bindE m k)"
  unfolding safe_def by (auto elim!: bindE_InlE dest: framesD)

lemma safe_mapErr [safe_rules]: "safe obs m \<Longrightarrow> safe obs (mapErr h m)"
  by (auto simp: safe_def mapErr_run split: prod.splits sum.splits)

lemma safe_if [safe_rules]: "safe obs m \<Longrightarrow> safe obs n \<Longrightarrow> safe obs (if c then m else n)"
  by simp

lemma safe_case_option [safe_rules]:
  "safe obs m \<Longrightarrow> (\<And>x. safe obs (k x)) \<Longrightarrow> safe obs (case v of None \<Rightarrow> m | Some x \<Rightarrow> k x)"
  by (cases v) simp_all

lemma forE_total:
  assumes "\<And>x w. x \<in> set xs \<Longrightarrow> \<exists>w'. f x w = (Inr (), w')"
  shows "\<exists>w'. forE f xs w = (Inr (), w')"
  using assms
proof (induction xs arbitrary: w)
  case (Cons x xs)
  obtain w1 where "f x w = (Inr (), w1)" using Cons.prems [of x w] by auto
  moreover obtain w2 where "forE f xs w1 = (Inr (), w2)" using Cons.IH [of w1] Cons.prems by auto
  ultimately show ?case by (simp add: bindE_run)
qed simp

text \<open>A collecting loop that succeeds has run its body for every element, in order.\<close>

lemma collectE_InrD:
  assumes "collectE f xs w = (Inr ys, w')"
  shows "length ys = length xs \<and> (\<forall>i < length xs. \<exists>v v'. f (xs ! i) v = (Inr (ys ! i), v'))"
  using assms
proof (induction xs arbitrary: ys w)
  case (Cons x xs)
  from Cons.prems obtain y w1 zs where "f x w = (Inr y, w1)" "collectE f xs w1 = (Inr zs, w')" "ys = y # zs"
    by (auto elim!: bindE_InrE)
  with Cons.IH [of w1 zs] show ?case by (auto simp: less_Suc_eq_0_disj)
qed simp

section \<open>Pure functions that may fail\<close>

text \<open>The same two shapes for a function without effects: \<open>x, err := f(); if err != nil { return err }\<close> and
  the loop that stops at the first error.\<close>

definition bindR :: "'e + 'a \<Rightarrow> ('a \<Rightarrow> 'e + 'b) \<Rightarrow> 'e + 'b" where
  "bindR m k = (case m of Inl e \<Rightarrow> Inl e | Inr x \<Rightarrow> k x)"

fun eachR :: "('a \<Rightarrow> 'e + 'b) \<Rightarrow> 'a list \<Rightarrow> 'e + 'b list" where
  "eachR f [] = Inr []"
| "eachR f (x # xs) = bindR (f x) (\<lambda>y. bindR (eachR f xs) (\<lambda>ys. Inr (y # ys)))"

definition mapErrR :: "('e \<Rightarrow> 'd) \<Rightarrow> 'e + 'a \<Rightarrow> 'd + 'a" where
  "mapErrR h m = (case m of Inl e \<Rightarrow> Inl (h e) | Inr x \<Rightarrow> Inr x)"

lemma bindR_simps [simp]: "bindR (Inl e) k = Inl e" "bindR (Inr x) k = k x"
  by (simp_all add: bindR_def)

lemma bindR_Inr: "bindR m k = Inr y \<longleftrightarrow> (\<exists>x. m = Inr x \<and> k x = Inr y)"
  by (cases m) simp_all

lemma mapErrR_simps [simp]: "mapErrR h (Inl e) = Inl (h e)" "mapErrR h (Inr x) = Inr x"
  by (simp_all add: mapErrR_def)

lemma mapErrR_Inr: "mapErrR h m = Inr y \<longleftrightarrow> m = Inr y"
  by (cases m) simp_all

lemma eachR_Inr: "eachR f xs = Inr ys \<longleftrightarrow> list_all2 (\<lambda>x y. f x = Inr y) xs ys"
  by (induction xs arbitrary: ys) (auto simp: bindR_Inr list_all2_Cons1)

lemma eachR_ok: "(\<exists>ys. eachR f xs = Inr ys) \<longleftrightarrow> (\<forall>x \<in> set xs. \<exists>y. f x = Inr y)"
  by (induction xs) (auto simp: bindR_Inr)

section \<open>Go maps of slices\<close>

text \<open>\<open>m[k]\<close> of a map of slices: the nil slice when the key is absent.\<close>

definition slice_at :: "('k \<rightharpoonup> 'v list) \<Rightarrow> 'k \<Rightarrow> 'v list" where
  "slice_at m k = (case m k of None \<Rightarrow> [] | Some xs \<Rightarrow> xs)"

text \<open>\<open>m[k] = append(m[k], v)\<close>\<close>

definition append_at :: "('k \<rightharpoonup> 'v list) \<Rightarrow> 'k \<Rightarrow> 'v \<Rightarrow> ('k \<rightharpoonup> 'v list)" where
  "append_at m k v = m(k \<mapsto> slice_at m k @ [v])"

text \<open>\<open>for _, x := range xs { m[key(x)] = append(m[key(x)], val(x)) }\<close>\<close>

definition group_into :: "('a \<Rightarrow> 'k) \<Rightarrow> ('a \<Rightarrow> 'v) \<Rightarrow> 'a list \<Rightarrow> ('k \<rightharpoonup> 'v list) \<Rightarrow> ('k \<rightharpoonup> 'v list)" where
  "group_into key val xs m = foldl (\<lambda>m x. append_at m (key x) (val x)) m xs"

lemma slice_at_empty [simp]: "slice_at Map.empty k = []"
  by (simp add: slice_at_def)

lemma slice_at_append_at [simp]:
  "slice_at (append_at m k v) k' = (if k' = k then slice_at m k @ [v] else slice_at m k')"
  by (simp add: slice_at_def append_at_def)

lemma dom_append_at [simp]: "dom (append_at m k v) = insert k (dom m)"
  by (simp add: append_at_def)

lemma slice_at_group_into:
  "slice_at (group_into key val xs m) k = slice_at m k @ map val (filter (\<lambda>x. key x = k) xs)"
  by (induction xs arbitrary: m) (auto simp: group_into_def)

lemma dom_group_into: "dom (group_into key val xs m) = dom m \<union> key ` set xs"
  by (induction xs arbitrary: m) (auto simp: group_into_def)

text \<open>\<open>for _, x := range xs { m[key(x)] = val(x) }\<close>\<close>

lemma foldl_upd_None:
  "foldl (\<lambda>m x. m(key x \<mapsto> val x)) m xs k = None \<longleftrightarrow> m k = None \<and> k \<notin> key ` set xs"
  by (induction xs arbitrary: m) auto

lemma foldl_upd_Some:
  "foldl (\<lambda>m x. m(key x \<mapsto> val x)) m xs k = Some v \<Longrightarrow>
     (\<exists>x \<in> set xs. key x = k \<and> v = val x) \<or> m k = Some v"
proof (induction xs arbitrary: m)
  case (Cons a xs)
  from Cons.prems have "foldl (\<lambda>m x. m(key x \<mapsto> val x)) (m(key a \<mapsto> val a)) xs k = Some v"
    by (simp only: foldl_Cons)
  from Cons.IH [OF this] show ?case by (auto split: if_splits)
qed simp

section \<open>A keyed table\<close>

text \<open>
  The contract of the in-memory tables: the clients (cache warm, reload, stream handlers) look
  entries up, put them and delete them, and rely on nothing else.
\<close>

locale cache_table =
  fixes get :: "'s \<Rightarrow> 'k \<Rightarrow> 'v option"
    and put :: "'k \<Rightarrow> 'v \<Rightarrow> 's \<Rightarrow> 's"
    and del :: "'k \<Rightarrow> 's \<Rightarrow> 's"
  assumes get_put: "get (put k v s) k' = (if k' = k then Some v else get s k')"
    and get_del: "get (del k s) k' = (if k' = k then None else get s k')"
begin

lemma get_put_same [simp]: "get (put k v s) k = Some v"
  by (simp add: get_put)

lemma get_del_same [simp]: "get (del k s) k = None"
  by (simp add: get_del)

lemma put_overwrites: "get (put k v (put k u s)) = get (put k v s)"
  by (auto simp: get_put)

lemma get_put_list:
  "get (foldl (\<lambda>s x. put (key x) (val x) s) s xs) k =
     (case map_of (rev (map (\<lambda>x. (key x, val x)) xs)) k of Some v \<Rightarrow> Some v | None \<Rightarrow> get s k)"
  by (induction xs arbitrary: s)
    (auto simp: get_put map_add_def split: option.splits)

lemma get_put_list_other:
  "k \<notin> key ` set xs \<Longrightarrow> get (foldl (\<lambda>s x. put (key x) (val x) s) s xs) k = get s k"
  by (induction xs arbitrary: s) (auto simp: get_put)

lemma get_put_list_mem:
  assumes "distinct (map key xs)" and "x \<in> set xs"
  shows "get (foldl (\<lambda>s x. put (key x) (val x) s) s xs) (key x) = Some (val x)"
  using assms
proof (induction xs arbitrary: s)
  case Nil
  then show ?case by simp
next
  case (Cons y ys)
  show ?case
  proof (cases "x = y")
    case True
    with Cons.prems have "key x \<notin> key ` set ys" by auto
    with True show ?thesis by (simp add: get_put_list_other)
  next
    case False
    with Cons show ?thesis by simp
  qed
qed

end

section \<open>Step functions and invariants\<close>

locale step_invariant =
  fixes step :: "'s \<Rightarrow> 'e \<Rightarrow> 's"
    and inv :: "'s \<Rightarrow> bool"
  assumes step_inv: "inv s \<Longrightarrow> inv (step s e)"
begin

lemma run_inv: "inv s \<Longrightarrow> inv (foldl step s es)"
  by (induction es arbitrary: s) (auto intro: step_inv)

lemma prefix_inv: "inv s \<Longrightarrow> inv (foldl step s (take n es))"
  by (rule run_inv)

end

text \<open>The same for a step relation: what every step keeps holds of every state a run reaches.\<close>

locale relation_invariant =
  fixes step :: "'s \<Rightarrow> 's \<Rightarrow> bool"
    and inv :: "'s \<Rightarrow> bool"
  assumes step_inv: "step s s' \<Longrightarrow> inv s \<Longrightarrow> inv s'"
begin

lemma reachable_inv: "step\<^sup>*\<^sup>* s s' \<Longrightarrow> inv s \<Longrightarrow> inv s'"
  by (induction rule: rtranclp_induct) (auto intro: step_inv)

end

section \<open>Actions and invariants\<close>

text \<open>An action keeps a predicate of the state, whether it fails or not.\<close>

definition stable :: "('w \<Rightarrow> bool) \<Rightarrow> ('w, 'a) act \<Rightarrow> bool" where
  "stable P m \<longleftrightarrow> (\<forall>w. P w \<longrightarrow> P (snd (m w)))"

named_theorems stable_rules "which actions keep an invariant"

lemma stableI: "(\<And>w. P w \<Longrightarrow> P (snd (m w))) \<Longrightarrow> stable P m"
  by (simp add: stable_def)

lemma stableD: "stable P m \<Longrightarrow> P w \<Longrightarrow> P (snd (m w))"
  by (simp add: stable_def)

lemma stable_basic [stable_rules]: "stable P (returnE x)" "stable P (throwE e)" "stable P (liftE r)"
  by (simp_all add: stable_def)

lemma stable_modifyE: "(\<And>w. P w \<Longrightarrow> P (f w)) \<Longrightarrow> stable P (modifyE f)"
  by (simp add: stable_def)

lemma stable_bindE [stable_rules]: "stable P m \<Longrightarrow> (\<And>x. stable P (k x)) \<Longrightarrow> stable P (bindE m k)"
  by (auto simp: stable_def bindE_run split: prod.split sum.split)

lemma stable_if [stable_rules]: "stable P m \<Longrightarrow> stable P n \<Longrightarrow> stable P (if c then m else n)"
  by simp

lemma stable_case_sum [stable_rules]:
  "(\<And>x. stable P (m x)) \<Longrightarrow> (\<And>x. stable P (k x)) \<Longrightarrow> stable P (case v of Inl x \<Rightarrow> m x | Inr x \<Rightarrow> k x)"
  by (cases v) simp_all

lemma stable_forE [stable_rules]: "(\<And>x. stable P (f x)) \<Longrightarrow> stable P (forE f xs)"
  by (induction xs) (auto intro: stable_rules)

end
