(* ===== verification/GoStd.thy ===== *)
theory GoStd
  imports Prelude
begin

text \<open>
  The part of Go's language and standard library that the services compute with: 64-bit
  \<open>int\<close> wrap-around, \<open>strconv.Atoi\<close>, \<open>strings.SplitN\<close>, decimal formatting, string order, and
  the \<open>time\<close> package (instants, saturating durations, calendar fields in a location, the
  clock layout \<open>15:04\<close>). Strings are lists of bytes and compare byte-wise
  (theories \<open>List_Lexorder\<close> and \<open>Char_ord\<close>), as in Go.
\<close>

section \<open>64-bit integers\<close>

definition in_int64 :: "int \<Rightarrow> bool" where
  "in_int64 x \<longleftrightarrow> - (2 ^ 63) \<le> x \<and> x < 2 ^ 63"

text \<open>The value a Go \<open>int\<close> (or \<open>int64\<close>) holds after an arithmetic operation.\<close>

definition wrap64 :: "int \<Rightarrow> int" where
  "wrap64 x = (x + 2 ^ 63) mod 2 ^ 64 - 2 ^ 63"

lemma wrap64_in_range: "in_int64 (wrap64 x)"
proof -
  have "0 \<le> (x + 2 ^ 63) mod 2 ^ 64" "(x + 2 ^ 63) mod 2 ^ 64 < 2 ^ 64"
    by (rule pos_mod_sign, simp) (rule pos_mod_bound, simp)
  then show ?thesis by (simp add: in_int64_def wrap64_def)
qed

lemma wrap64_id: "in_int64 x \<Longrightarrow> wrap64 x = x"
  by (simp add: in_int64_def wrap64_def)

text \<open>Go's integer division truncates toward zero.\<close>

definition quot :: "int \<Rightarrow> int \<Rightarrow> int" where
  "quot a b = sgn a * sgn b * (\<bar>a\<bar> div \<bar>b\<bar>)"

lemma quot_nonneg: "0 \<le> a \<Longrightarrow> 0 < b \<Longrightarrow> quot a b = a div b"
  by (cases "a = 0") (simp_all add: quot_def)

text \<open>Two-digit numbers in base \<open>k\<close> compare digit by digit.\<close>

lemma radix_less:
  fixes k :: int
  assumes "0 \<le> q" "q < k" "0 \<le> q'" "q' < k"
  shows "k * p + q < k * p' + q' \<longleftrightarrow> p < p' \<or> (p = p' \<and> q < q')"
proof (cases p p' rule: linorder_cases)
  case less
  then have "k * (p + 1) \<le> k * p'" using assms by (intro mult_left_mono) auto
  with less assms show ?thesis by (simp add: algebra_simps)
next
  case greater
  then have "k * (p' + 1) \<le> k * p" using assms by (intro mult_left_mono) auto
  with greater assms show ?thesis by (simp add: algebra_simps)
qed simp

lemma radix_eq:
  fixes k :: int
  assumes "0 \<le> q" "q < k" "0 \<le> q'" "q' < k"
  shows "k * p + q = k * p' + q' \<longleftrightarrow> p = p' \<and> q = q'"
proof
  assume "k * p + q = k * p' + q'"
  then have "\<not> (p < p' \<or> (p = p' \<and> q < q'))" "\<not> (p' < p \<or> (p' = p \<and> q' < q))"
    using radix_less [of q k q' p p'] radix_less [of q' k q p' p] assms by auto
  then show "p = p' \<and> q = q'" by auto
qed simp

section \<open>Strings and numbers\<close>

definition is_digit :: "char \<Rightarrow> bool" where
  "is_digit c \<longleftrightarrow> 48 \<le> (of_char c :: nat) \<and> (of_char c :: nat) \<le> 57"

definition digit_val :: "char \<Rightarrow> int" where
  "digit_val c = int (of_char c) - 48"

fun digits_value :: "int \<Rightarrow> string \<Rightarrow> int option" where
  "digits_value acc [] = Some acc"
| "digits_value acc (c # cs) =
     (if is_digit c then digits_value (10 * acc + digit_val c) cs else None)"

text \<open>\<open>strconv.Atoi\<close>: an optional sign, then decimal digits only, within \<open>int64\<close>.\<close>

definition Atoi :: "string \<Rightarrow> int option" where
  "Atoi s =
     (let neg = (case s of c # _ \<Rightarrow> c = CHR ''-'' | [] \<Rightarrow> False);
          ds = (case s of c # cs \<Rightarrow> (if c = CHR ''-'' \<or> c = CHR ''+'' then cs else s) | [] \<Rightarrow> [])
      in if ds = [] then None
         else case digits_value 0 ds of
           None \<Rightarrow> None
         | Some v \<Rightarrow> (let n = (if neg then - v else v) in if in_int64 n then Some n else None))"

text \<open>\<open>strings.SplitN(s, sep, 2)\<close> for a one-byte separator.\<close>

fun SplitN2 :: "char \<Rightarrow> string \<Rightarrow> string list" where
  "SplitN2 sep [] = [[]]"
| "SplitN2 sep (c # cs) =
     (if c = sep then [[], cs]
      else case SplitN2 sep cs of
        [a] \<Rightarrow> [c # a]
      | a # rest \<Rightarrow> (c # a) # rest
      | [] \<Rightarrow> [])"

text \<open>\<open>%d\<close> of a non-negative number, and \<open>%03d\<close>.\<close>

definition digit_char :: "nat \<Rightarrow> char" where
  "digit_char d = char_of (48 + d)"

fun dec :: "nat \<Rightarrow> string" where
  "dec n = (if n < 10 then [digit_char n] else dec (n div 10) @ [digit_char (n mod 10)])"

declare dec.simps [simp del]

text \<open>\<open>%d\<close> and \<open>%02d\<close>.\<close>

definition int_text :: "int \<Rightarrow> string" where
  "int_text i = (if i < 0 then ''-'' @ dec (nat (- i)) else dec (nat i))"

definition dec02 :: "int \<Rightarrow> string" where
  "dec02 i = (if 0 \<le> i \<and> i < 10 then ''0'' @ int_text i else int_text i)"

definition dec03 :: "nat \<Rightarrow> string" where
  "dec03 n = replicate (3 - length (dec n)) (CHR ''0'') @ dec n"

lemma digit_val_range: "is_digit c \<Longrightarrow> 0 \<le> digit_val c \<and> digit_val c \<le> 9"
  by (auto simp: is_digit_def digit_val_def)

lemma is_digit_digit_char [simp]: "d < 10 \<Longrightarrow> is_digit (digit_char d)"
  by (simp add: is_digit_def digit_char_def)

lemma digit_val_digit_char [simp]: "d < 10 \<Longrightarrow> digit_val (digit_char d) = int d"
  by (simp add: digit_val_def digit_char_def)

lemma is_digit_not_sign:
  "is_digit c \<Longrightarrow> c \<noteq> CHR ''-'' \<and> c \<noteq> CHR ''+'' \<and> c \<noteq> CHR '':''"
  by (auto simp: is_digit_def)

lemma digits_value_append:
  "digits_value acc (xs @ ys) =
     (case digits_value acc xs of None \<Rightarrow> None | Some v \<Rightarrow> digits_value v ys)"
  by (induction acc xs rule: digits_value.induct) simp_all

lemma dec_nonempty [simp]: "dec n \<noteq> []"
  by (subst dec.simps) simp

lemma digits_dec: "\<forall>c \<in> set (dec n). is_digit c"
proof (induction n rule: dec.induct)
  case (1 n)
  show ?case
  proof (cases "n < 10")
    case True
    then show ?thesis by (simp add: dec.simps [of n])
  next
    case False
    with 1 show ?thesis by (simp add: dec.simps [of n])
  qed
qed

lemma digits_value_dec: "digits_value 0 (dec n) = Some (int n)"
proof (induction n rule: dec.induct)
  case (1 n)
  show ?case
  proof (cases "n < 10")
    case True
    then show ?thesis by (simp add: dec.simps [of n])
  next
    case False
    with 1 have "digits_value 0 (dec n) = Some (10 * int (n div 10) + int (n mod 10))"
      by (simp add: dec.simps [of n] digits_value_append)
    also have "10 * int (n div 10) + int (n mod 10) = int n"
      by presburger
    finally show ?thesis .
  qed
qed

lemma Atoi_digits:
  assumes "ds \<noteq> []" and "\<forall>c \<in> set ds. is_digit c"
  shows "Atoi ds = (case digits_value 0 ds of None \<Rightarrow> None
    | Some v \<Rightarrow> if in_int64 v then Some v else None)"
proof -
  from assms(1) obtain c cs where ds: "ds = c # cs" by (cases ds) auto
  with assms(2) have "c \<noteq> CHR ''-''" "c \<noteq> CHR ''+''" by (auto dest: is_digit_not_sign)
  then show ?thesis unfolding Atoi_def Let_def ds by (simp split: option.split)
qed

text \<open>Printing a number and reading it back.\<close>

lemma Atoi_dec: "int n < 2 ^ 63 \<Longrightarrow> Atoi (dec n) = Some (int n)"
  by (simp add: Atoi_digits digits_dec digits_value_dec in_int64_def)

lemma dec_inject: "dec m = dec n \<longleftrightarrow> m = n"
  by (metis digits_value_dec of_nat_eq_iff option.inject)

lemma SplitN2_no_sep: "sep \<notin> set xs \<Longrightarrow> SplitN2 sep xs = [xs]"
  by (induction sep xs rule: SplitN2.induct) auto

lemma SplitN2_sep: "sep \<notin> set xs \<Longrightarrow> SplitN2 sep (xs @ sep # ys) = [xs, ys]"
  by (induction sep xs rule: SplitN2.induct) auto

lemma SplitN2_length: "SplitN2 sep xs = [xs] \<and> sep \<notin> set xs
  \<or> (\<exists>a b. SplitN2 sep xs = [a, b] \<and> xs = a @ sep # b \<and> sep \<notin> set a)"
proof (induction sep xs rule: SplitN2.induct)
  case (1 sep)
  then show ?case by simp
next
  case (2 sep c cs)
  show ?case
  proof (cases "c = sep")
    case True
    then show ?thesis by simp
  next
    case False
    with 2 have "SplitN2 sep cs = [cs] \<and> sep \<notin> set cs \<or>
      (\<exists>a b. SplitN2 sep cs = [a, b] \<and> cs = a @ sep # b \<and> sep \<notin> set a)" by simp
    with False show ?thesis
      by (elim disjE exE conjE) (auto intro: exI [of _ "c # _"])
  qed
qed

section \<open>Instants and durations\<close>

text \<open>
  An instant is its number of nanoseconds since the Unix epoch (UTC); a duration is a number of
  nanoseconds within \<open>int64\<close>. Monotonic clock readings are not modelled: the timestamps the
  services store are made with \<open>time.Now().UTC()\<close>, which drops them.
\<close>

type_synonym instant = int
type_synonym duration = int

definition minDuration :: duration where "minDuration = - (2 ^ 63)"
definition maxDuration :: duration where "maxDuration = 2 ^ 63 - 1"

definition Nanosecond :: duration where "Nanosecond = 1"
definition Millisecond :: duration where "Millisecond = 1000000"
definition Second :: duration where "Second = 1000000000"
definition Minute :: duration where "Minute = 60 * Second"
definition Hour :: duration where "Hour = 60 * Minute"

text \<open>\<open>t.Sub(u)\<close> saturates instead of wrapping.\<close>

definition Sub :: "instant \<Rightarrow> instant \<Rightarrow> duration" where
  "Sub t u = (if t - u < minDuration then minDuration
              else if maxDuration < t - u then maxDuration else t - u)"

definition Add :: "instant \<Rightarrow> duration \<Rightarrow> instant" where
  "Add t d = t + d"

definition After :: "instant \<Rightarrow> instant \<Rightarrow> bool" where
  "After t u \<longleftrightarrow> u < t"

definition Before :: "instant \<Rightarrow> instant \<Rightarrow> bool" where
  "Before t u \<longleftrightarrow> t < u"

text \<open>The saturation is invisible to a comparison with any threshold below the maximum.\<close>

lemma Sub_le_iff: "minDuration \<le> d \<Longrightarrow> d < maxDuration \<Longrightarrow> Sub t u \<le> d \<longleftrightarrow> t - u \<le> d"
  by (auto simp: Sub_def minDuration_def maxDuration_def)

section \<open>Locations and calendar fields\<close>

text \<open>
  A location gives the offset from UTC in force at a Unix time, in seconds. The time zone database
  is not part of the repository: it is an argument \<open>tz\<close> of \<open>LoadLocation\<close>.
\<close>

type_synonym location = "int \<Rightarrow> int"

definition UTC :: location where "UTC = (\<lambda>_. 0)"

definition LoadLocation :: "(string \<Rightarrow> location option) \<Rightarrow> string \<Rightarrow> location option" where
  "LoadLocation tz name = (if name = [] \<or> name = ''UTC'' then Some UTC else tz name)"

definition Unix :: "instant \<Rightarrow> int" where
  "Unix t = t div 1000000000"

definition local_secs :: "location \<Rightarrow> instant \<Rightarrow> int" where
  "local_secs loc t = Unix t + loc (Unix t)"

text \<open>1 January 1970 was a Thursday; \<open>time.Sunday\<close> is 0.\<close>

definition Weekday :: "location \<Rightarrow> instant \<Rightarrow> int" where
  "Weekday loc t = (local_secs loc t div 86400 + 4) mod 7"

definition clock_Hour :: "location \<Rightarrow> instant \<Rightarrow> int" where
  "clock_Hour loc t = local_secs loc t mod 86400 div 3600"

definition clock_Minute :: "location \<Rightarrow> instant \<Rightarrow> int" where
  "clock_Minute loc t = local_secs loc t mod 3600 div 60"

lemma Weekday_range: "0 \<le> Weekday loc t \<and> Weekday loc t \<le> 6"
proof -
  have "0 \<le> x mod 7 \<and> x mod 7 \<le> 6" for x :: int by presburger
  then show ?thesis by (simp add: Weekday_def)
qed

lemma minutes_of_day:
  "clock_Hour loc t * 60 + clock_Minute loc t = local_secs loc t mod 86400 div 60"
proof -
  have "r div 3600 * 60 + r mod 3600 div 60 = r div 60" for r :: int
  proof -
    have "r div 60 = (r mod 3600 + (r div 3600 * 60) * 60) div 60"
      by (simp add: algebra_simps)
    also have "\<dots> = r div 3600 * 60 + r mod 3600 div 60"
      by (subst div_mult_self1) simp_all
    finally show ?thesis by simp
  qed
  moreover have "local_secs loc t mod 86400 mod 3600 = local_secs loc t mod 3600"
    by (rule mod_mod_cancel) simp
  ultimately show ?thesis by (metis clock_Hour_def clock_Minute_def)
qed

lemma minutes_of_day_range:
  "0 \<le> clock_Hour loc t * 60 + clock_Minute loc t
   \<and> clock_Hour loc t * 60 + clock_Minute loc t < 1440"
proof -
  have "0 \<le> r \<Longrightarrow> r < 86400 \<Longrightarrow> 0 \<le> r div 60 \<and> r div 60 < 1440" for r :: int
    by linarith
  moreover have "0 \<le> local_secs loc t mod 86400" "local_secs loc t mod 86400 < 86400" by simp_all
  ultimately show ?thesis unfolding minutes_of_day by blast
qed

section \<open>The clock layout 15:04\<close>

text \<open>
  \<open>time.Parse("15:04", s)\<close>: the hour has one or two digits, the minute exactly two, and nothing
  may follow.
\<close>

definition getnum :: "bool \<Rightarrow> string \<Rightarrow> (int \<times> string) option" where
  "getnum fixed s = (case s of
     [] \<Rightarrow> None
   | c # cs \<Rightarrow>
       if \<not> is_digit c then None
       else (case cs of
          [] \<Rightarrow> if fixed then None else Some (digit_val c, [])
        | d # ds \<Rightarrow>
            if is_digit d then Some (10 * digit_val c + digit_val d, ds)
            else if fixed then None else Some (digit_val c, cs)))"

definition Parse_15_04 :: "string \<Rightarrow> (int \<times> int) option" where
  "Parse_15_04 s = (case getnum False s of
     None \<Rightarrow> None
   | Some (hour, rest) \<Rightarrow>
       if 24 \<le> hour then None
       else (case rest of
          [] \<Rightarrow> None
        | c # rest' \<Rightarrow>
            if c \<noteq> CHR '':'' then None
            else (case getnum True rest' of
               None \<Rightarrow> None
             | Some (minute, rest'') \<Rightarrow>
                 if 60 \<le> minute \<or> rest'' \<noteq> [] then None else Some (hour, minute))))"

text \<open>The strings the layout accepts are \<open>H:MM\<close> and \<open>HH:MM\<close>.\<close>

lemma getnum_True_Some:
  "getnum True s = Some (n, r) \<longleftrightarrow> (\<exists>c d. s = c # d # r \<and> is_digit c \<and> is_digit d
     \<and> n = 10 * digit_val c + digit_val d)"
  by (auto simp: getnum_def split: list.split)

lemma getnum_False_Some:
  "getnum False s = Some (n, r) \<longleftrightarrow>
     (\<exists>c d. s = c # d # r \<and> is_digit c \<and> is_digit d \<and> n = 10 * digit_val c + digit_val d)
   \<or> (\<exists>c. s = c # r \<and> is_digit c \<and> n = digit_val c \<and> (case r of d # _ \<Rightarrow> \<not> is_digit d | [] \<Rightarrow> True))"
  by (auto simp: getnum_def split: list.split)

lemma Parse_15_04_Some:
  "Parse_15_04 s = Some (h, m) \<longleftrightarrow>
     (\<exists>r. getnum False s = Some (h, CHR '':'' # r) \<and> getnum True r = Some (m, []) \<and> h < 24 \<and> m < 60)"
  by (auto simp: Parse_15_04_def split: option.split list.split)

lemma Parse_15_04_cases:
  assumes "Parse_15_04 s = Some (h, m)"
  obtains (short) a c d where "s = [a, CHR '':'', c, d]" "is_digit a" "is_digit c" "is_digit d"
      "h = digit_val a" "m = 10 * digit_val c + digit_val d" "m < 60"
  | (long) a b c d where "s = [a, b, CHR '':'', c, d]" "is_digit a" "is_digit b" "is_digit c"
      "is_digit d" "h = 10 * digit_val a + digit_val b" "h < 24"
      "m = 10 * digit_val c + digit_val d" "m < 60"
proof -
  from assms obtain r where r: "getnum False s = Some (h, CHR '':'' # r)"
    "getnum True r = Some (m, [])" "h < 24" "m < 60"
    by (auto simp: Parse_15_04_Some)
  then obtain c d where cd: "r = [c, d]" "is_digit c" "is_digit d"
    "m = 10 * digit_val c + digit_val d"
    by (auto simp: getnum_True_Some)
  from r(1) consider a b where "s = a # b # CHR '':'' # r" "is_digit a" "is_digit b"
      "h = 10 * digit_val a + digit_val b"
    | a where "s = a # CHR '':'' # r" "is_digit a" "h = digit_val a"
    unfolding getnum_False_Some by blast
  then show ?thesis
    using cd r(3,4) short long by cases blast+
qed

lemma Parse_15_04_range:
  "Parse_15_04 s = Some (h, m) \<Longrightarrow> 0 \<le> h \<and> h < 24 \<and> 0 \<le> m \<and> m < 60"
  by (elim Parse_15_04_cases) (auto dest!: digit_val_range)

end
