(* ===== verification/Cache.thy ===== *)
theory Cache
  imports GoStd
begin

text \<open>
  Package \<open>device-service/internal/cache\<close>: the cached room and device entries and the \<open>Store\<close>.
  The store maps a room id to a pointer, and an entry points to two maps (\<open>ActuatorStates\<close> and
  \<open>LatestReadings\<close>) which a reloaded entry shares with the one it replaces, so room entries and
  these maps live in an explicit heap. Device entries are never changed in place by the service
  (a reload installs a new object), so the store holds them by value.
\<close>

section \<open>Entries\<close>

record TimestampedReading =
  tr_Value :: float64
  tr_Timestamp :: instant

record DesiredStateCache =
  dsc_Mode :: string
  dsc_ManualActive :: bool
  dsc_Targets :: "string \<rightharpoonup> float64 option"
  dsc_ManualOverrideUntil :: "instant option"

text \<open>\<open>DaysOfWeek [8]bool\<close> is a list of length 8; index 0 is unused.\<close>

record SchedulePeriodCache =
  spc_ID :: uuid
  spc_DaysOfWeek :: "bool list"
  spc_StartMinutes :: int
  spc_EndMinutes :: int
  spc_Mode :: string
  spc_Targets :: "string \<rightharpoonup> float64 option"

text \<open>
  The two map-valued fields are a parameter of the record: the maps themselves in a snapshot
  (\<open>RoomView\<close>, what a reader sees under \<open>Mu.RLock\<close>), references in a heap object.
\<close>

record ('as, 'lr) RoomCache =
  rc_RoomID :: uuid
  rc_UserTimezone :: string
  rc_Location :: "location option"
  rc_DeadbandTemp :: float64
  rc_DeadbandHum :: float64
  rc_DesiredState :: DesiredStateCache
  rc_ActivePeriods :: "SchedulePeriodCache list"
  rc_ActuatorHwIDs :: "string \<rightharpoonup> string list"
  rc_ActuatorStates :: 'as
  rc_LatestReadings :: 'lr
  rc_LastActivePeriod :: "SchedulePeriodCache option"

type_synonym actuator_states = "string \<rightharpoonup> bool"
type_synonym latest_readings = "string \<rightharpoonup> TimestampedReading list"
type_synonym ref = nat
type_synonym RoomView = "(actuator_states, latest_readings) RoomCache"
type_synonym RoomObj = "(ref, ref) RoomCache"

record SensorEntry =
  se_SensorID :: uuid
  se_MeasurementType :: string

record ActuatorEntry =
  ae_ActuatorID :: uuid
  ae_ActuatorType :: string

record DeviceCache =
  dc_DeviceID :: uuid
  dc_HwID :: string
  dc_RoomID :: "uuid option"
  dc_Sensors :: "string \<rightharpoonup> SensorEntry"
  dc_Actuators :: "string \<rightharpoonup> ActuatorEntry"

definition GetRoomID :: "DeviceCache \<Rightarrow> uuid option" where
  "GetRoomID dc = dc_RoomID dc"

definition SetRoomID :: "DeviceCache \<Rightarrow> uuid option \<Rightarrow> DeviceCache" where
  "SetRoomID dc roomID = dc\<lparr>dc_RoomID := roomID\<rparr>"

section \<open>The heap and the store\<close>

text \<open>
  \<open>st_next\<close> is the next unused reference. The three kinds of object have separate heaps, so a
  fresh reference may name one of each. The fields \<open>assignedPartitions\<close> and \<open>numPartitions\<close> are
  never read by the code at this commit and are left out.
\<close>

record Store =
  st_rooms :: "uuid \<rightharpoonup> ref"
  st_devices :: "string \<rightharpoonup> DeviceCache"
  st_objs :: "ref \<rightharpoonup> RoomObj"
  st_states :: "ref \<Rightarrow> actuator_states"
  st_readings :: "ref \<Rightarrow> latest_readings"
  st_next :: ref

definition NewStore :: Store where
  "NewStore = \<lparr>st_rooms = Map.empty, st_devices = Map.empty, st_objs = Map.empty,
     st_states = (\<lambda>_. Map.empty), st_readings = (\<lambda>_. Map.empty), st_next = 0\<rparr>"

definition Room :: "Store \<Rightarrow> uuid \<Rightarrow> ref option" where
  "Room s roomID = st_rooms s roomID"

definition Device :: "Store \<Rightarrow> string \<Rightarrow> DeviceCache option" where
  "Device s hwID = st_devices s hwID"

definition AddRoom :: "uuid \<Rightarrow> ref \<Rightarrow> Store \<Rightarrow> Store" where
  "AddRoom roomID p s = s\<lparr>st_rooms := (st_rooms s)(roomID \<mapsto> p)\<rparr>"

definition DeleteRoom :: "uuid \<Rightarrow> Store \<Rightarrow> Store" where
  "DeleteRoom roomID s = s\<lparr>st_rooms := (st_rooms s)(roomID := None)\<rparr>"

definition AddDevice :: "string \<Rightarrow> DeviceCache \<Rightarrow> Store \<Rightarrow> Store" where
  "AddDevice hwID dc s = s\<lparr>st_devices := (st_devices s)(hwID \<mapsto> dc)\<rparr>"

definition DeleteDevice :: "string \<Rightarrow> Store \<Rightarrow> Store" where
  "DeleteDevice hwID s = s\<lparr>st_devices := (st_devices s)(hwID := None)\<rparr>"

definition OwnsRoom :: "Store \<Rightarrow> uuid \<Rightarrow> bool" where
  "OwnsRoom s roomID \<longleftrightarrow> True"

text \<open>
  \<open>RoomIDs\<close> and \<open>DeviceHwIDs\<close> range over a Go map, in an order the runtime picks. The possible
  results are the duplicate-free enumerations of the keys.
\<close>

definition RoomIDs :: "Store \<Rightarrow> uuid list \<Rightarrow> bool" where
  "RoomIDs s ids \<longleftrightarrow> distinct ids \<and> set ids = dom (st_rooms s)"

definition DeviceHwIDs :: "Store \<Rightarrow> string list \<Rightarrow> bool" where
  "DeviceHwIDs s hwIDs \<longleftrightarrow> distinct hwIDs \<and> set hwIDs = dom (st_devices s)"

subsection \<open>Heap access\<close>

text \<open>What a reader sees through a pointer while it holds the entry's lock.\<close>

definition view_obj :: "Store \<Rightarrow> RoomObj \<Rightarrow> RoomView" where
  "view_obj s rc =
     \<lparr>rc_RoomID = rc_RoomID rc, rc_UserTimezone = rc_UserTimezone rc,
      rc_Location = rc_Location rc, rc_DeadbandTemp = rc_DeadbandTemp rc,
      rc_DeadbandHum = rc_DeadbandHum rc, rc_DesiredState = rc_DesiredState rc,
      rc_ActivePeriods = rc_ActivePeriods rc, rc_ActuatorHwIDs = rc_ActuatorHwIDs rc,
      rc_ActuatorStates = st_states s (rc_ActuatorStates rc),
      rc_LatestReadings = st_readings s (rc_LatestReadings rc),
      rc_LastActivePeriod = rc_LastActivePeriod rc\<rparr>"

definition view :: "Store \<Rightarrow> ref \<Rightarrow> RoomView option" where
  "view s p = map_option (view_obj s) (st_objs s p)"

text \<open>The entry a lookup by room id leads to.\<close>

definition room_view :: "Store \<Rightarrow> uuid \<Rightarrow> RoomView option" where
  "room_view s roomID = Option.bind (Room s roomID) (view s)"

text \<open>\<open>&cache.RoomCache{...}\<close> with freshly made maps: allocate all three objects.\<close>

definition alloc_room :: "RoomView \<Rightarrow> Store \<Rightarrow> ref \<times> Store" where
  "alloc_room rv s = (let p = st_next s in
     (p, s\<lparr>st_objs := (st_objs s)(p \<mapsto>
            \<lparr>rc_RoomID = rc_RoomID rv, rc_UserTimezone = rc_UserTimezone rv,
             rc_Location = rc_Location rv, rc_DeadbandTemp = rc_DeadbandTemp rv,
             rc_DeadbandHum = rc_DeadbandHum rv, rc_DesiredState = rc_DesiredState rv,
             rc_ActivePeriods = rc_ActivePeriods rv, rc_ActuatorHwIDs = rc_ActuatorHwIDs rv,
             rc_ActuatorStates = p, rc_LatestReadings = p,
             rc_LastActivePeriod = rc_LastActivePeriod rv\<rparr>),
           st_states := (st_states s)(p := rc_ActuatorStates rv),
           st_readings := (st_readings s)(p := rc_LatestReadings rv),
           st_next := Suc p\<rparr>))"

definition modify_obj :: "ref \<Rightarrow> (RoomObj \<Rightarrow> RoomObj) \<Rightarrow> Store \<Rightarrow> Store" where
  "modify_obj p f s = s\<lparr>st_objs := (st_objs s)(p := map_option f (st_objs s p))\<rparr>"

text \<open>\<open>rc.ActuatorStates[typ] = v\<close> and \<open>rc.LatestReadings[typ] = rs\<close> through a pointer.\<close>

definition set_actuator_state :: "ref \<Rightarrow> string \<Rightarrow> bool \<Rightarrow> Store \<Rightarrow> Store" where
  "set_actuator_state p typ v s = (case st_objs s p of None \<Rightarrow> s | Some rc \<Rightarrow>
     s\<lparr>st_states := (st_states s)(rc_ActuatorStates rc :=
         (st_states s (rc_ActuatorStates rc))(typ \<mapsto> v))\<rparr>)"

definition set_readings :: "ref \<Rightarrow> string \<Rightarrow> TimestampedReading list \<Rightarrow> Store \<Rightarrow> Store" where
  "set_readings p typ rs s = (case st_objs s p of None \<Rightarrow> s | Some rc \<Rightarrow>
     s\<lparr>st_readings := (st_readings s)(rc_LatestReadings rc :=
         (st_readings s (rc_LatestReadings rc))(typ \<mapsto> rs))\<rparr>)"

definition set_last_period :: "ref \<Rightarrow> SchedulePeriodCache \<Rightarrow> Store \<Rightarrow> Store" where
  "set_last_period p sp s = modify_obj p (\<lambda>rc. rc\<lparr>rc_LastActivePeriod := Some sp\<rparr>) s"

lemmas store_op_defs = AddRoom_def DeleteRoom_def AddDevice_def DeleteDevice_def Room_def
  Device_def modify_obj_def set_actuator_state_def set_readings_def set_last_period_def

section \<open>The store as tables\<close>

interpretation rooms_tab: cache_table Room AddRoom DeleteRoom
  by unfold_locales (auto simp: Room_def AddRoom_def DeleteRoom_def)

interpretation devices_tab: cache_table Device AddDevice DeleteDevice
  by unfold_locales (auto simp: Device_def AddDevice_def DeleteDevice_def)

lemma rooms_devices_independent [simp]:
  "Room (AddDevice h dc s) = Room s" "Room (DeleteDevice h s) = Room s"
  "Device (AddRoom r p s) = Device s" "Device (DeleteRoom r s) = Device s"
  by (auto simp: store_op_defs)

lemma view_table_ops [simp]:
  "view (AddRoom r p s) = view s" "view (DeleteRoom r s) = view s"
  "view (AddDevice h dc s) = view s" "view (DeleteDevice h s) = view s"
  by (auto simp: view_def view_obj_def store_op_defs fun_eq_iff intro: option.map_cong0)

lemma room_view_device_ops [simp]:
  "room_view (AddDevice h dc s) = room_view s" "room_view (DeleteDevice h s) = room_view s"
  by (simp_all add: room_view_def fun_eq_iff)

lemma room_view_DeleteRoom [simp]:
  "room_view (DeleteRoom r s) r' = (if r' = r then None else room_view s r')"
  by (simp add: room_view_def rooms_tab.get_del)

section \<open>Well-formed stores\<close>

text \<open>
  Every pointer in the room table leads to an object, every reference in use is below \<open>st_next\<close>,
  and entries of different rooms share neither object nor maps.
\<close>

definition wf_store :: "Store \<Rightarrow> bool" where
  "wf_store s \<longleftrightarrow>
     ran (st_rooms s) \<subseteq> dom (st_objs s)
   \<and> (\<forall>p rc. st_objs s p = Some rc \<longrightarrow> p < st_next s \<and> rc_ActuatorStates rc < st_next s
        \<and> rc_LatestReadings rc < st_next s)
   \<and> (\<forall>r p rc. st_rooms s r = Some p \<longrightarrow> st_objs s p = Some rc \<longrightarrow> rc_RoomID rc = r)
   \<and> (\<forall>p q rc rd. st_objs s p = Some rc \<longrightarrow> st_objs s q = Some rd \<longrightarrow>
        rc_RoomID rc \<noteq> rc_RoomID rd \<longrightarrow>
        rc_ActuatorStates rc \<noteq> rc_ActuatorStates rd \<and> rc_LatestReadings rc \<noteq> rc_LatestReadings rd)"

lemma wf_NewStore: "wf_store NewStore"
  by (simp add: wf_store_def NewStore_def)

lemma wf_room_obj:
  assumes "wf_store s" and "Room s r = Some p"
  obtains rc where "st_objs s p = Some rc" and "rc_RoomID rc = r" and "view s p = Some (view_obj s rc)"
  using assms by (force simp: wf_store_def Room_def ran_def view_def)

lemma wf_AddDevice: "wf_store (AddDevice h dc s) = wf_store s"
  by (simp add: wf_store_def AddDevice_def)

lemma wf_DeleteDevice: "wf_store (DeleteDevice h s) = wf_store s"
  by (simp add: wf_store_def DeleteDevice_def)

lemma wf_DeleteRoom: "wf_store s \<Longrightarrow> wf_store (DeleteRoom r s)"
  by (auto simp: wf_store_def DeleteRoom_def ran_def split: if_splits)

lemma wf_set_actuator_state: "wf_store s \<Longrightarrow> wf_store (set_actuator_state p typ v s)"
  by (auto simp: wf_store_def set_actuator_state_def split: option.split)

lemma wf_set_readings: "wf_store s \<Longrightarrow> wf_store (set_readings p typ rs s)"
  by (auto simp: wf_store_def set_readings_def split: option.split)

lemma wf_set_last_period: "wf_store s \<Longrightarrow> wf_store (set_last_period p sp s)"
  unfolding wf_store_def set_last_period_def modify_obj_def
  by (auto simp: ran_def split: if_splits)

lemma NewStore_empty [simp]:
  "Room NewStore r = None" "Device NewStore h = None" "room_view NewStore r = None"
  by (simp_all add: room_view_def Room_def Device_def NewStore_def)

text \<open>An entry may take over the maps of another entry of the same room.\<close>

definition adopt_runtime :: "RoomObj \<Rightarrow> RoomObj \<Rightarrow> RoomObj" where
  "adopt_runtime old rc = rc\<lparr>rc_ActuatorStates := rc_ActuatorStates old,
     rc_LatestReadings := rc_LatestReadings old, rc_LastActivePeriod := rc_LastActivePeriod old\<rparr>"

lemma adopt_runtime_simps [simp]:
  "rc_RoomID (adopt_runtime old rc) = rc_RoomID rc"
  "rc_ActuatorStates (adopt_runtime old rc) = rc_ActuatorStates old"
  "rc_LatestReadings (adopt_runtime old rc) = rc_LatestReadings old"
  "rc_LastActivePeriod (adopt_runtime old rc) = rc_LastActivePeriod old"
  by (simp_all add: adopt_runtime_def)

lemma wf_adopt_runtime:
  assumes wf: "wf_store s" and p: "st_objs s p = Some rc" and q: "st_objs s q = Some old"
    and same: "rc_RoomID old = rc_RoomID rc"
  shows "wf_store (modify_obj p (adopt_runtime old) s)"
proof -
  let ?s = "modify_obj p (adopt_runtime old) s"
  have orig: "\<exists>b y. st_objs s b = Some y \<and> rc_RoomID y = rc_RoomID x
      \<and> rc_ActuatorStates y = rc_ActuatorStates x \<and> rc_LatestReadings y = rc_LatestReadings x"
    if "st_objs ?s a = Some x" for a x
  proof (cases "a = p")
    case True
    with that p q same show ?thesis
      by (intro exI [of _ q] exI [of _ old]) (auto simp: modify_obj_def)
  next
    case False
    with that show ?thesis by (auto simp: modify_obj_def)
  qed
  have ids: "\<exists>y. st_objs s a = Some y \<and> rc_RoomID y = rc_RoomID x" if "st_objs ?s a = Some x" for a x
    using that p by (auto simp: modify_obj_def split: if_splits)
  have 1: "ran (st_rooms ?s) \<subseteq> dom (st_objs ?s)"
    using wf p by (auto simp: wf_store_def modify_obj_def)
  have 2: "a < st_next ?s \<and> rc_ActuatorStates x < st_next ?s \<and> rc_LatestReadings x < st_next ?s"
    if a: "st_objs ?s a = Some x" for a x
  proof -
    have n: "st_next ?s = st_next s" by (simp add: modify_obj_def)
    from ids [OF a] wf have "a < st_next s" by (auto simp: wf_store_def)
    moreover from orig [OF a] wf have "rc_ActuatorStates x < st_next s \<and> rc_LatestReadings x < st_next s"
      unfolding wf_store_def by metis
    ultimately show ?thesis by (simp add: n)
  qed
  have 3: "rc_RoomID x = r" if "st_rooms ?s r = Some a" "st_objs ?s a = Some x" for r a x
  proof -
    from that(1) have "st_rooms s r = Some a" by (simp add: modify_obj_def)
    with ids [OF that(2)] wf show ?thesis unfolding wf_store_def by metis
  qed
  have 4: "rc_ActuatorStates x \<noteq> rc_ActuatorStates y \<and> rc_LatestReadings x \<noteq> rc_LatestReadings y"
    if "st_objs ?s a = Some x" "st_objs ?s b = Some y" "rc_RoomID x \<noteq> rc_RoomID y" for a b x y
    using orig [OF that(1)] orig [OF that(2)] that(3) wf unfolding wf_store_def by metis
  show ?thesis unfolding wf_store_def using 1 2 3 4 by blast
qed

lemma AddRoom_modify_obj: "AddRoom r p (modify_obj q f s) = modify_obj q f (AddRoom r p s)"
  by (simp add: AddRoom_def modify_obj_def)

lemma view_modify_obj_other: "q \<noteq> p \<Longrightarrow> view (modify_obj p f s) q = view s q"
  by (cases "st_objs s q") (simp_all add: view_def view_obj_def modify_obj_def)

lemma Room_modify_obj [simp]: "Room (modify_obj p f s) = Room s"
  by (simp add: Room_def modify_obj_def fun_eq_iff)

lemma Device_modify_obj [simp]: "Device (modify_obj p f s) = Device s"
  by (simp add: Device_def modify_obj_def fun_eq_iff)

section \<open>Isolation and read-back\<close>

text \<open>A freshly built entry put into the table is what a lookup then sees; other rooms are untouched.\<close>

lemma view_alloc_room_old:
  assumes "wf_store s" and "alloc_room rv s = (p, s')" and "Room s r = Some q"
  shows "view s' q = view s q"
proof -
  from assms(1,3) obtain rc where rc: "st_objs s q = Some rc" by (rule wf_room_obj)
  with assms(1) have "q < st_next s" "rc_ActuatorStates rc < st_next s"
    "rc_LatestReadings rc < st_next s" by (auto simp: wf_store_def)
  with rc assms(2) show ?thesis
    by (auto simp: alloc_room_def Let_def view_def view_obj_def)
qed

lemma view_alloc_room_new:
  assumes "alloc_room rv s = (p, s')"
  shows "view s' p = Some rv"
  using assms by (auto simp: alloc_room_def Let_def view_def view_obj_def)

lemma Room_alloc_room [simp]: "alloc_room rv s = (p, s') \<Longrightarrow> Room s' = Room s"
  by (auto simp: alloc_room_def Let_def Room_def)

lemma Device_alloc_room [simp]: "alloc_room rv s = (p, s') \<Longrightarrow> Device s' = Device s"
  by (auto simp: alloc_room_def Let_def Device_def)

lemma room_view_alloc_AddRoom:
  assumes "wf_store s" and "alloc_room rv s = (p, s')"
  shows "room_view (AddRoom r p s') r' = (if r' = r then Some rv else room_view s r')"
  using assms
  by (auto simp: room_view_def rooms_tab.get_put view_alloc_room_new view_alloc_room_old
      split: Option.bind_splits)

lemma wf_alloc_AddRoom:
  assumes "wf_store s" and "alloc_room rv s = (p, s')"
  shows "wf_store (AddRoom (rc_RoomID rv) p s')"
proof -
  from assms(2) have p: "p = st_next s" by (auto simp: alloc_room_def Let_def)
  have fresh: "st_objs s q = Some rc \<Longrightarrow> q \<noteq> p \<and> rc_ActuatorStates rc \<noteq> p \<and> rc_LatestReadings rc \<noteq> p"
    for q rc using assms(1) p by (force simp: wf_store_def)
  have "st_rooms s r \<noteq> Some p" for r
  proof
    assume "st_rooms s r = Some p"
    with assms(1) obtain rc where "st_objs s p = Some rc" by (auto simp: wf_store_def ran_def)
    with fresh show False by blast
  qed
  with assms fresh show ?thesis
    unfolding wf_store_def alloc_room_def Let_def AddRoom_def
    by (auto simp: ran_def less_Suc_eq split: if_splits) (fastforce)+
qed

text \<open>Writes through one room's pointer are seen by that room and by no other room of the table.\<close>

lemma room_view_set_actuator_state_other:
  assumes "wf_store s" and "st_objs s p = Some rc" and "rc_RoomID rc \<noteq> r"
  shows "room_view (set_actuator_state p typ v s) r = room_view s r"
proof (cases "Room s r")
  case None
  then show ?thesis
    using assms(2) by (simp add: room_view_def set_actuator_state_def Room_def)
next
  case (Some q)
  with assms(1) obtain rd where rd: "st_objs s q = Some rd" "rc_RoomID rd = r" by (rule wf_room_obj)
  with assms have "rc_ActuatorStates rd \<noteq> rc_ActuatorStates rc"
    unfolding wf_store_def by metis
  with rd assms(2) Some show ?thesis
    by (simp add: room_view_def set_actuator_state_def Room_def view_def view_obj_def)
qed

lemma room_view_set_actuator_state_same:
  assumes "Room s r = Some p" and "view s p = Some rv"
  shows "room_view (set_actuator_state p typ v s) r
     = Some (rv\<lparr>rc_ActuatorStates := (rc_ActuatorStates rv)(typ \<mapsto> v)\<rparr>)"
  using assms
  by (auto simp: room_view_def set_actuator_state_def Room_def view_def view_obj_def)

lemma room_view_set_actuator_state_shared:
  assumes "Room s r = Some q" and "view s q = Some rv"
    and "st_objs s p = Some rc" and "st_objs s q = Some rd" and "rc_ActuatorStates rd = rc_ActuatorStates rc"
  shows "room_view (set_actuator_state p typ v s) r
     = Some (rv\<lparr>rc_ActuatorStates := (rc_ActuatorStates rv)(typ \<mapsto> v)\<rparr>)"
  using assms
  by (auto simp: room_view_def set_actuator_state_def Room_def view_def view_obj_def)

lemma room_view_set_readings_other:
  assumes "wf_store s" and "st_objs s p = Some rc" and "rc_RoomID rc \<noteq> r"
  shows "room_view (set_readings p typ rs s) r = room_view s r"
proof (cases "Room s r")
  case None
  then show ?thesis
    using assms(2) by (simp add: room_view_def set_readings_def Room_def)
next
  case (Some q)
  with assms(1) obtain rd where rd: "st_objs s q = Some rd" "rc_RoomID rd = r" by (rule wf_room_obj)
  with assms have "rc_LatestReadings rd \<noteq> rc_LatestReadings rc"
    unfolding wf_store_def by metis
  with rd assms(2) Some show ?thesis
    by (simp add: room_view_def set_readings_def Room_def view_def view_obj_def)
qed

lemma room_view_set_readings_same:
  assumes "Room s r = Some p" and "view s p = Some rv"
  shows "room_view (set_readings p typ rs s) r
     = Some (rv\<lparr>rc_LatestReadings := (rc_LatestReadings rv)(typ \<mapsto> rs)\<rparr>)"
  using assms
  by (auto simp: room_view_def set_readings_def Room_def view_def view_obj_def)

lemma room_view_set_last_period_other:
  assumes "wf_store s" and "Room s r = Some p" and "r' \<noteq> r"
  shows "room_view (set_last_period p sp s) r' = room_view s r'"
proof (cases "Room s r'")
  case None
  then show ?thesis
    by (simp add: room_view_def set_last_period_def modify_obj_def Room_def)
next
  case (Some q)
  with assms(1) obtain rd where rd: "st_objs s q = Some rd" "rc_RoomID rd = r'" by (rule wf_room_obj)
  from assms(1,2) obtain rc where "st_objs s p = Some rc" "rc_RoomID rc = r" by (rule wf_room_obj)
  with rd assms(3) have "q \<noteq> p" by auto
  with Some rd show ?thesis
    by (simp add: room_view_def set_last_period_def modify_obj_def Room_def view_def view_obj_def)
qed

lemma room_view_set_last_period_same:
  assumes "Room s r = Some p" and "view s p = Some rv"
  shows "room_view (set_last_period p sp s) r = Some (rv\<lparr>rc_LastActivePeriod := Some sp\<rparr>)"
  using assms
  by (auto simp: room_view_def set_last_period_def modify_obj_def Room_def view_def view_obj_def)

end
