(* ===== verification/Control.thy ===== *)
theory Control
  imports Cache "HOL-Library.Multiset"
begin

text \<open>
  Package \<open>device-service/internal/control\<close>: the effective state of a room (manual override,
  schedule period, grace period, off) and the bang-bang evaluation of one control tick. The
  package does no I/O; \<open>Evaluate\<close> reads a snapshot of the room entry (a \<open>RoomView\<close>) under its read
  lock and returns the commands and the log row.
\<close>

section \<open>Types\<close>

record ActuatorCommand =
  ac_HwID :: string
  ac_ActuatorType :: string
  ac_State :: bool

text \<open>The JSON object published to \<open>devices/{hw_id}/cmd\<close>, by its two fields.\<close>

record CmdPayload =
  cp_actuator_type :: string
  cp_state :: bool

definition MarshalPayload :: "ActuatorCommand \<Rightarrow> CmdPayload" where
  "MarshalPayload a = \<lparr>cp_actuator_type = ac_ActuatorType a, cp_state = ac_State a\<rparr>"

text \<open>One row of \<open>room_control_logs\<close> (package \<open>metricsdb\<close>); a nil pointer is \<open>None\<close>, SQL NULL.\<close>

record ControlLogEntry =
  cle_Time :: instant
  cle_RoomID :: uuid
  cle_AvgTemp :: "float64 option"
  cle_AvgHum :: "float64 option"
  cle_Mode :: string
  cle_TargetTemp :: "float64 option"
  cle_TargetHum :: "float64 option"
  cle_ControlSource :: string
  cle_HeaterCmd :: "int16 option"
  cle_HumidifierCmd :: "int16 option"
  cle_DeadbandTemp :: "float64 option"
  cle_DeadbandHum :: "float64 option"
  cle_ReadingCountTemp :: "int16 option"
  cle_ReadingCountHum :: "int16 option"
  cle_SchedulePeriodID :: "uuid option"

record TickResult =
  tk_Commands :: "ActuatorCommand list"
  tk_LogEntry :: ControlLogEntry
  tk_LastActivePeriod :: "SchedulePeriodCache option"

text \<open>\<open>es_targets = None\<close> is the nil map.\<close>

record effectiveState =
  es_mode :: string
  es_targets :: "(string \<rightharpoonup> float64 option) option"
  es_source :: string
  es_period :: "SchedulePeriodCache option"

section \<open>Effective state resolution\<close>

text \<open>The local day (ISO: Monday 1 to Sunday 7) and minute of the day the resolution works with.\<close>

definition effective_loc :: "('as, 'lr) RoomCache \<Rightarrow> location" where
  "effective_loc rc = (case rc_Location rc of None \<Rightarrow> UTC | Some loc \<Rightarrow> loc)"

definition iso_day :: "location \<Rightarrow> instant \<Rightarrow> int" where
  "iso_day loc t = (let d = Weekday loc t in if d = 0 then 7 else d)"

definition now_minutes :: "location \<Rightarrow> instant \<Rightarrow> int" where
  "now_minutes loc t = clock_Hour loc t * 60 + clock_Minute loc t"

text \<open>The loop over \<open>rc.ActivePeriods\<close>: the first period of the day whose time range holds now.\<close>

fun first_matching :: "int \<Rightarrow> int \<Rightarrow> SchedulePeriodCache list \<Rightarrow> SchedulePeriodCache option" where
  "first_matching day mins [] = None"
| "first_matching day mins (p # ps) =
     (if \<not> spc_DaysOfWeek p ! nat day then first_matching day mins ps
      else if mins < spc_StartMinutes p \<or> mins \<ge> spc_EndMinutes p then first_matching day mins ps
      else Some p)"

definition resolveEffectiveState :: "('as, 'lr) RoomCache \<Rightarrow> instant \<Rightarrow> effectiveState" where
  "resolveEffectiveState rc now =
     (let ds = rc_DesiredState rc;
          loc = effective_loc rc;
          dayOfWeek = iso_day loc now;
          nowMinutes = now_minutes loc now
      in if dsc_ManualActive ds
            \<and> (case dsc_ManualOverrideUntil ds of None \<Rightarrow> False | Some t \<Rightarrow> After t now)
         then \<lparr>es_mode = dsc_Mode ds, es_targets = Some (dsc_Targets ds),
               es_source = ''manual_override'', es_period = None\<rparr>
         else case first_matching dayOfWeek nowMinutes (rc_ActivePeriods rc) of
           Some p \<Rightarrow> \<lparr>es_mode = spc_Mode p, es_targets = Some (spc_Targets p),
                      es_source = ''schedule'', es_period = Some p\<rparr>
         | None \<Rightarrow>
             (case rc_LastActivePeriod rc of
                Some lp \<Rightarrow>
                  if spc_DaysOfWeek lp ! nat dayOfWeek
                     \<and> wrap64 (nowMinutes - spc_EndMinutes lp) \<ge> 0
                     \<and> wrap64 (nowMinutes - spc_EndMinutes lp) < 1
                  then \<lparr>es_mode = spc_Mode lp, es_targets = Some (spc_Targets lp),
                        es_source = ''grace_period'', es_period = Some lp\<rparr>
                  else \<lparr>es_mode = ''OFF'', es_targets = None, es_source = ''none'', es_period = None\<rparr>
              | None \<Rightarrow> \<lparr>es_mode = ''OFF'', es_targets = None, es_source = ''none'',
                         es_period = None\<rparr>))"

section \<open>Evaluation\<close>

definition fresh :: "instant \<Rightarrow> duration \<Rightarrow> TimestampedReading \<Rightarrow> bool" where
  "fresh now threshold r \<longleftrightarrow> Sub now (tr_Timestamp r) \<le> threshold"

fun fresh_loop ::
    "instant \<Rightarrow> duration \<Rightarrow> TimestampedReading list \<Rightarrow> float64 \<times> nat \<Rightarrow> float64 \<times> nat" where
  "fresh_loop now threshold [] (tot, n) = (tot, n)"
| "fresh_loop now threshold (r # rs) (tot, n) =
     (if fresh now threshold r then fresh_loop now threshold rs (tot + tr_Value r, Suc n)
      else fresh_loop now threshold rs (tot, n))"

definition freshAverage ::
    "TimestampedReading list \<Rightarrow> instant \<Rightarrow> duration \<Rightarrow> float64 \<times> nat \<times> bool" where
  "freshAverage readings now threshold =
     (case fresh_loop now threshold readings (0, 0) of
        (tot, n) \<Rightarrow> if n = 0 then (0, 0, False) else (tot / of_nat n, n, True))"

definition setCmd :: "ControlLogEntry \<Rightarrow> string \<Rightarrow> int16 \<Rightarrow> ControlLogEntry" where
  "setCmd entry actuatorType v =
     (if actuatorType = ''heater'' then
        (case cle_HeaterCmd entry of None \<Rightarrow> entry | Some _ \<Rightarrow> entry\<lparr>cle_HeaterCmd := Some v\<rparr>)
      else if actuatorType = ''humidifier'' then
        (case cle_HumidifierCmd entry of None \<Rightarrow> entry
         | Some _ \<Rightarrow> entry\<lparr>cle_HumidifierCmd := Some v\<rparr>)
      else entry)"

definition commands_for :: "string \<Rightarrow> string list \<Rightarrow> bool \<Rightarrow> ActuatorCommand list" where
  "commands_for typ hwIDs state =
     map (\<lambda>hwID. \<lparr>ac_HwID = hwID, ac_ActuatorType = typ, ac_State = state\<rparr>) hwIDs"

text \<open>
  \<open>for actuatorType, hwIDs := range rc.ActuatorHwIDs\<close>: \<open>order\<close> is the order in which the runtime
  enumerates the keys.
\<close>

definition commandAllOff ::
    "string list \<Rightarrow> ('as, 'lr) RoomCache \<Rightarrow> ControlLogEntry \<Rightarrow> ActuatorCommand list
     \<Rightarrow> ControlLogEntry \<times> ActuatorCommand list" where
  "commandAllOff order rc entry commands =
     foldl (\<lambda>(entry, commands) typ.
        (setCmd entry typ 0, commands @ commands_for typ (slice_at (rc_ActuatorHwIDs rc) typ) False))
       (entry, commands) order"

definition target_at :: "(string \<rightharpoonup> float64 option) option \<Rightarrow> string \<Rightarrow> float64 option" where
  "target_at targets k = Option.bind targets (\<lambda>t. Option.bind (t k) (\<lambda>v. v))"

text \<open>\<open>rc.ActuatorStates[typ]\<close>: false when the type has not been commanded yet.\<close>

definition commanded :: "actuator_states \<Rightarrow> string \<Rightarrow> bool" where
  "commanded m typ = (case m typ of None \<Rightarrow> False | Some b \<Rightarrow> b)"

definition bang_bang :: "float64 \<Rightarrow> float64 \<Rightarrow> float64 \<Rightarrow> bool \<Rightarrow> bool" where
  "bang_bang avg target deadband currentState =
     (if avg < target - deadband then True
      else if avg > target + deadband then False
      else currentState)"

definition evaluateOrOff ::
    "RoomView \<Rightarrow> string \<Rightarrow> string \<Rightarrow> float64 \<Rightarrow> bool \<Rightarrow> (string \<rightharpoonup> float64 option) option \<Rightarrow> float64
     \<Rightarrow> ControlLogEntry \<times> ActuatorCommand list \<Rightarrow> ControlLogEntry \<times> ActuatorCommand list" where
  "evaluateOrOff rc actuatorType sensorType avg hasReadings targets deadband ec =
     (case ec of (entry, commands) \<Rightarrow>
       (case rc_ActuatorHwIDs rc actuatorType of
          None \<Rightarrow> (entry, commands)
        | Some hwIDs \<Rightarrow>
            (case target_at targets sensorType of
               Some target \<Rightarrow>
                 if \<not> hasReadings
                 then (setCmd entry actuatorType 0, commands @ commands_for actuatorType hwIDs False)
                 else (let desiredState = bang_bang avg target deadband
                             (commanded (rc_ActuatorStates rc) actuatorType)
                       in (setCmd entry actuatorType (if desiredState then 1 else 0),
                           commands @ commands_for actuatorType hwIDs desiredState))
             | None \<Rightarrow>
                 (setCmd entry actuatorType 0,
                  commands @ commands_for actuatorType hwIDs False))))"

text \<open>The log row before any command is decided.\<close>

definition initial_entry :: "RoomView \<Rightarrow> instant \<Rightarrow> duration \<Rightarrow> ControlLogEntry" where
  "initial_entry rc now staleThreshold =
     (let es = resolveEffectiveState rc now;
          (tempAvg, tempCount, hasTemp) =
            freshAverage (slice_at (rc_LatestReadings rc) ''temperature'') now staleThreshold;
          (humAvg, humCount, hasHum) =
            freshAverage (slice_at (rc_LatestReadings rc) ''humidity'') now staleThreshold;
          targetTemp = target_at (es_targets es) ''temperature'';
          targetHum = target_at (es_targets es) ''humidity''
      in \<lparr>cle_Time = now, cle_RoomID = rc_RoomID rc,
          cle_AvgTemp = (if hasTemp then Some tempAvg else None),
          cle_AvgHum = (if hasHum then Some humAvg else None),
          cle_Mode = es_mode es,
          cle_TargetTemp = targetTemp, cle_TargetHum = targetHum,
          cle_ControlSource = es_source es,
          cle_HeaterCmd = (if rc_ActuatorHwIDs rc ''heater'' = None then None else Some 0),
          cle_HumidifierCmd = (if rc_ActuatorHwIDs rc ''humidifier'' = None then None else Some 0),
          cle_DeadbandTemp = (if targetTemp = None then None else Some (rc_DeadbandTemp rc)),
          cle_DeadbandHum = (if targetHum = None then None else Some (rc_DeadbandHum rc)),
          cle_ReadingCountTemp = (if hasTemp then Some (of_nat tempCount) else None),
          cle_ReadingCountHum = (if hasHum then Some (of_nat humCount) else None),
          cle_SchedulePeriodID = map_option spc_ID (es_period es)\<rparr>)"

definition Evaluate :: "string list \<Rightarrow> RoomView \<Rightarrow> instant \<Rightarrow> duration \<Rightarrow> TickResult" where
  "Evaluate order rc now staleThreshold =
     (let es = resolveEffectiveState rc now;
          entry = initial_entry rc now staleThreshold;
          (tempAvg, _, hasTempReadings) =
            freshAverage (slice_at (rc_LatestReadings rc) ''temperature'') now staleThreshold;
          (humAvg, _, hasHumReadings) =
            freshAverage (slice_at (rc_LatestReadings rc) ''humidity'') now staleThreshold;
          lastActivePeriod =
            (if es_source es = ''schedule'' \<or> es_source es = ''grace_period'' then es_period es else None);
          (entry', commands) =
            (if es_mode es = ''OFF'' then commandAllOff order rc entry []
             else evaluateOrOff rc ''humidifier'' ''humidity'' humAvg hasHumReadings
                    (es_targets es) (rc_DeadbandHum rc)
                    (evaluateOrOff rc ''heater'' ''temperature'' tempAvg hasTempReadings
                      (es_targets es) (rc_DeadbandTemp rc) (entry, [])))
      in \<lparr>tk_Commands = commands, tk_LogEntry = entry', tk_LastActivePeriod = lastActivePeriod\<rparr>)"

section \<open>Averages over fresh readings\<close>

lemma fresh_loop_eq:
  "fresh_loop now th rs (tot, n) =
     (tot + sum_list (map tr_Value (filter (fresh now th) rs)), n + length (filter (fresh now th) rs))"
  by (induction now th rs "(tot, n)" arbitrary: tot n rule: fresh_loop.induct) simp_all

lemma freshAverage_eq:
  "freshAverage rs now th =
     (let vs = map tr_Value (filter (fresh now th) rs)
      in if vs = [] then (0, 0, False) else (sum_list vs / of_nat (length vs), length vs, True))"
  by (simp add: freshAverage_def fresh_loop_eq Let_def)

lemma freshAverage_cases:
  obtains (none) "filter (fresh now th) rs = []" "freshAverage rs now th = (0, 0, False)"
  | (some) vs where "vs = map tr_Value (filter (fresh now th) rs)" "vs \<noteq> []"
      "freshAverage rs now th = (sum_list vs / of_nat (length vs), length vs, True)"
  by (cases "filter (fresh now th) rs = []") (simp_all add: freshAverage_eq Let_def)

lemma sum_list_bounds:
  fixes vs :: "float64 list"
  assumes "\<forall>v \<in> set vs. lo \<le> v \<and> v \<le> hi"
  shows "lo * of_nat (length vs) \<le> sum_list vs \<and> sum_list vs \<le> hi * of_nat (length vs)"
  using assms by (induction vs) (auto simp: algebra_simps)

lemma freshAverage_between:
  assumes "freshAverage rs now th = (avg, n, True)"
    and "\<forall>r \<in> set rs. fresh now th r \<longrightarrow> lo \<le> tr_Value r \<and> tr_Value r \<le> hi"
  shows "lo \<le> avg \<and> avg \<le> hi"
proof (cases rule: freshAverage_cases [of now th rs])
  case none
  with assms(1) show ?thesis by simp
next
  case (some vs)
  from some(1) assms(2) have "\<forall>v \<in> set vs. lo \<le> v \<and> v \<le> hi" by auto
  from sum_list_bounds [OF this] some(2)
  have "lo \<le> sum_list vs / of_nat (length vs) \<and> sum_list vs / of_nat (length vs) \<le> hi"
    by (simp add: pos_le_divide_eq pos_divide_le_eq)
  with some(3) assms(1) show ?thesis by simp
qed

lemma freshAverage_filter:
  "freshAverage (filter (fresh now th) rs) now th = freshAverage rs now th"
  by (simp add: freshAverage_eq)

section \<open>The schedule lookup\<close>

definition covers :: "int \<Rightarrow> int \<Rightarrow> SchedulePeriodCache \<Rightarrow> bool" where
  "covers day mins p \<longleftrightarrow> spc_DaysOfWeek p ! nat day \<and> spc_StartMinutes p \<le> mins \<and> mins < spc_EndMinutes p"

lemma first_matching_find: "first_matching day mins ps = find (covers day mins) ps"
  by (induction ps) (auto simp: covers_def)

lemma first_matching_None: "first_matching day mins ps = None \<longleftrightarrow> (\<forall>p \<in> set ps. \<not> covers day mins p)"
  by (induction ps) (auto simp: covers_def)

lemma first_matching_SomeD: "first_matching day mins ps = Some p \<Longrightarrow> p \<in> set ps \<and> covers day mins p"
  by (induction ps) (auto simp: covers_def split: if_splits)

text \<open>When at most one period holds at a time, the order of the periods does not matter.\<close>

lemma first_matching_unique:
  assumes "\<forall>p \<in> set ps. \<forall>q \<in> set ps. covers day mins p \<longrightarrow> covers day mins q \<longrightarrow> p = q"
    and "set qs = set ps"
  shows "first_matching day mins qs = first_matching day mins ps"
proof (cases "first_matching day mins ps")
  case None
  with assms(2) show ?thesis by (metis first_matching_None)
next
  case (Some p)
  then have p: "p \<in> set ps" "covers day mins p" by (auto dest: first_matching_SomeD)
  with assms(2) obtain q where q: "first_matching day mins qs = Some q"
    by (metis first_matching_None not_None_eq)
  with assms p have "q = p" by (blast dest: first_matching_SomeD)
  with q Some show ?thesis by simp
qed

lemma iso_day_range: "1 \<le> iso_day loc t \<and> iso_day loc t \<le> 7"
  using Weekday_range [of loc t] by (auto simp: iso_day_def Let_def)

lemma now_minutes_range: "0 \<le> now_minutes loc t \<and> now_minutes loc t < 1440"
  using minutes_of_day_range [of loc t] by (simp add: now_minutes_def)

section \<open>Commands and the log row\<close>

lemma setCmd_fields [simp]:
  "cle_Mode (setCmd e t v) = cle_Mode e" "cle_ControlSource (setCmd e t v) = cle_ControlSource e"
  "cle_TargetTemp (setCmd e t v) = cle_TargetTemp e" "cle_TargetHum (setCmd e t v) = cle_TargetHum e"
  by (auto simp: setCmd_def split: option.split)

lemma setCmd_heater [simp]:
  "cle_HeaterCmd (setCmd e ''heater'' v) = map_option (\<lambda>_. v) (cle_HeaterCmd e)"
  "cle_HeaterCmd (setCmd e ''humidifier'' v) = cle_HeaterCmd e"
  "cle_HumidifierCmd (setCmd e ''humidifier'' v) = map_option (\<lambda>_. v) (cle_HumidifierCmd e)"
  "cle_HumidifierCmd (setCmd e ''heater'' v) = cle_HumidifierCmd e"
  by (auto simp: setCmd_def split: option.split)

text \<open>The state \<open>evaluateOrOff\<close> asks of the actuators of one type.\<close>

definition wanted ::
    "RoomView \<Rightarrow> string \<Rightarrow> float64 \<Rightarrow> bool \<Rightarrow> float64 option \<Rightarrow> float64 \<Rightarrow> bool" where
  "wanted rc typ avg hasReadings target deadband =
     (case target of None \<Rightarrow> False
      | Some t \<Rightarrow> hasReadings \<and> bang_bang avg t deadband (commanded (rc_ActuatorStates rc) typ))"

lemma evaluateOrOff_eq:
  "evaluateOrOff rc typ sens avg has targets db (entry, commands) =
     (case rc_ActuatorHwIDs rc typ of
        None \<Rightarrow> (entry, commands)
      | Some hws \<Rightarrow>
          (let w = wanted rc typ avg has (target_at targets sens) db
           in (setCmd entry typ (if w then 1 else 0), commands @ commands_for typ hws w)))"
  by (auto simp: evaluateOrOff_def wanted_def Let_def split: option.split)

lemma commandAllOff_commands:
  "snd (commandAllOff order rc entry cs) =
     cs @ concat (map (\<lambda>t. commands_for t (slice_at (rc_ActuatorHwIDs rc) t) False) order)"
  by (induction order arbitrary: entry cs) (simp_all add: commandAllOff_def)

lemma set_commands_for: "set (commands_for t hws b) =
   (\<lambda>h. \<lparr>ac_HwID = h, ac_ActuatorType = t, ac_State = b\<rparr>) ` set hws"
  by (simp add: commands_for_def)

section \<open>Specification of the effective state\<close>

datatype intent =
    ManualOverride string "string \<rightharpoonup> float64 option"
  | Scheduled SchedulePeriodCache
  | Grace SchedulePeriodCache
  | Off

definition override_live :: "DesiredStateCache \<Rightarrow> instant \<Rightarrow> bool" where
  "override_live ds now \<longleftrightarrow> dsc_ManualActive ds \<and> (\<exists>t \<in> set_option (dsc_ManualOverrideUntil ds). now < t)"

definition intent_of :: "('as, 'lr) RoomCache \<Rightarrow> instant \<Rightarrow> intent" where
  "intent_of rc now =
     (let day = iso_day (effective_loc rc) now; mins = now_minutes (effective_loc rc) now
      in if override_live (rc_DesiredState rc) now
         then ManualOverride (dsc_Mode (rc_DesiredState rc)) (dsc_Targets (rc_DesiredState rc))
         else case find (covers day mins) (rc_ActivePeriods rc) of
           Some p \<Rightarrow> Scheduled p
         | None \<Rightarrow>
             (case rc_LastActivePeriod rc of
                Some lp \<Rightarrow> if spc_DaysOfWeek lp ! nat day \<and> mins = spc_EndMinutes lp then Grace lp else Off
              | None \<Rightarrow> Off))"

fun state_of_intent :: "intent \<Rightarrow> effectiveState" where
  "state_of_intent (ManualOverride m t) =
     \<lparr>es_mode = m, es_targets = Some t, es_source = ''manual_override'', es_period = None\<rparr>"
| "state_of_intent (Scheduled p) =
     \<lparr>es_mode = spc_Mode p, es_targets = Some (spc_Targets p), es_source = ''schedule'', es_period = Some p\<rparr>"
| "state_of_intent (Grace p) =
     \<lparr>es_mode = spc_Mode p, es_targets = Some (spc_Targets p), es_source = ''grace_period'',
      es_period = Some p\<rparr>"
| "state_of_intent Off =
     \<lparr>es_mode = ''OFF'', es_targets = None, es_source = ''none'', es_period = None\<rparr>"

lemma wrap64_diff_zero:
  assumes "0 \<le> m" "m < 1440" "in_int64 e"
  shows "0 \<le> wrap64 (m - e) \<and> wrap64 (m - e) < 1 \<longleftrightarrow> m = e"
proof (cases "in_int64 (m - e)")
  case True
  then show ?thesis by (auto simp: wrap64_id)
next
  case False
  with assms have d: "2 ^ 63 \<le> m - e" "m - e < 2 ^ 63 + 1440" by (auto simp: in_int64_def)
  then have "(m - e + 2 ^ 63) mod 2 ^ 64 = m - e + 2 ^ 63 - 2 ^ 64"
    by (subst mod_pos_geq) simp_all
  with d show ?thesis by (auto simp: wrap64_def)
qed

lemma resolve_eq_intent:
  assumes "\<forall>lp \<in> set_option (rc_LastActivePeriod rc). in_int64 (spc_EndMinutes lp)"
  shows "resolveEffectiveState rc now = state_of_intent (intent_of rc now)"
proof -
  let ?day = "iso_day (effective_loc rc) now" and ?mins = "now_minutes (effective_loc rc) now"
  have live: "(dsc_ManualActive ds \<and> (case dsc_ManualOverrideUntil ds of None \<Rightarrow> False
      | Some t \<Rightarrow> After t now)) = override_live ds now" for ds
    by (auto simp: override_live_def After_def split: option.split)
  have grace: "lp \<in> set_option (rc_LastActivePeriod rc) \<Longrightarrow>
      (0 \<le> wrap64 (?mins - spc_EndMinutes lp) \<and> wrap64 (?mins - spc_EndMinutes lp) < 1)
        = (?mins = spc_EndMinutes lp)" for lp
    using assms now_minutes_range by (intro wrap64_diff_zero) auto
  show ?thesis
    unfolding resolveEffectiveState_def intent_of_def Let_def live first_matching_find
    by (auto simp: grace split: option.split)
qed

lemma intent_order_irrelevant:
  assumes "\<forall>day mins. 1 \<le> day \<longrightarrow> day \<le> 7 \<longrightarrow>
      (\<forall>p \<in> set ps. \<forall>q \<in> set ps. covers day mins p \<longrightarrow> covers day mins q \<longrightarrow> p = q)"
    and "set qs = set ps"
  shows "resolveEffectiveState (rc\<lparr>rc_ActivePeriods := qs\<rparr>) now
       = resolveEffectiveState (rc\<lparr>rc_ActivePeriods := ps\<rparr>) now"
proof -
  let ?d = "iso_day (effective_loc rc) now" and ?m = "now_minutes (effective_loc rc) now"
  have "\<forall>p \<in> set ps. \<forall>q \<in> set ps. covers ?d ?m p \<longrightarrow> covers ?d ?m q \<longrightarrow> p = q"
    using assms(1) iso_day_range [of "effective_loc rc" now] by blast
  then have "first_matching ?d ?m qs = first_matching ?d ?m ps"
    using assms(2) by (rule first_matching_unique)
  then show ?thesis by (simp add: resolveEffectiveState_def effective_loc_def Let_def cong: option.case_cong)
qed

section \<open>Specification of the control law\<close>

definition sensor_of :: "string \<Rightarrow> string" where
  "sensor_of typ = (if typ = ''heater'' then ''temperature'' else ''humidity'')"

definition deadband_of :: "('as, 'lr) RoomCache \<Rightarrow> string \<Rightarrow> float64" where
  "deadband_of rc typ = (if typ = ''heater'' then rc_DeadbandTemp rc else rc_DeadbandHum rc)"

definition fresh_values :: "RoomView \<Rightarrow> string \<Rightarrow> instant \<Rightarrow> duration \<Rightarrow> float64 list" where
  "fresh_values rc sens now th =
     map tr_Value (filter (fresh now th) (slice_at (rc_LatestReadings rc) sens))"

definition mean :: "float64 list \<Rightarrow> float64" where
  "mean vs = sum_list vs / of_nat (length vs)"

text \<open>
  The state the actuators of a type must be asked for: off unless the room is to be controlled, has
  a target for the sensor type and a fresh reading of it; then on below the deadband, off above it,
  unchanged inside it.
\<close>

definition control_law :: "RoomView \<Rightarrow> instant \<Rightarrow> duration \<Rightarrow> string \<Rightarrow> bool" where
  "control_law rc now th typ =
     (let es = resolveEffectiveState rc now; vs = fresh_values rc (sensor_of typ) now th
      in es_mode es \<noteq> ''OFF'' \<and> vs \<noteq> [] \<and>
         (case target_at (es_targets es) (sensor_of typ) of
            None \<Rightarrow> False
          | Some t \<Rightarrow> mean vs < t - deadband_of rc typ
              \<or> mean vs \<le> t + deadband_of rc typ \<and> commanded (rc_ActuatorStates rc) typ))"

definition known_types :: "('as, 'lr) RoomCache \<Rightarrow> bool" where
  "known_types rc \<longleftrightarrow> dom (rc_ActuatorHwIDs rc) \<subseteq> {''heater'', ''humidifier''}"

definition key_order :: "('k \<rightharpoonup> 'v) \<Rightarrow> 'k list \<Rightarrow> bool" where
  "key_order m ks \<longleftrightarrow> distinct ks \<and> set ks = dom m"

lemma freshAverage_mean:
  "freshAverage (slice_at (rc_LatestReadings rc) sens) now th =
     (let vs = fresh_values rc sens now th
      in if vs = [] then (0, 0, False) else (mean vs, length vs, True))"
  by (simp add: freshAverage_eq fresh_values_def mean_def Let_def)

text \<open>The commands of a tick, type by type.\<close>

lemma Evaluate_commands_off:
  "es_mode (resolveEffectiveState rc now) = ''OFF'' \<Longrightarrow>
   tk_Commands (Evaluate order rc now th) =
     concat (map (\<lambda>t. commands_for t (slice_at (rc_ActuatorHwIDs rc) t) False) order)"
  using commandAllOff_commands [of order rc "initial_entry rc now th" "[]"]
  by (simp add: Evaluate_def Let_def split_def)

lemma wanted_control_law:
  assumes "es_mode (resolveEffectiveState rc now) \<noteq> ''OFF''"
    and "freshAverage (slice_at (rc_LatestReadings rc) (sensor_of typ)) now th = (avg, n, has)"
  shows "wanted rc typ avg has
      (target_at (es_targets (resolveEffectiveState rc now)) (sensor_of typ)) (deadband_of rc typ)
    = control_law rc now th typ"
  using assms
  by (auto simp: wanted_def control_law_def Let_def bang_bang_def freshAverage_mean
      split: option.split if_splits)

lemma evaluateOrOff_None:
  "rc_ActuatorHwIDs rc typ = None \<Longrightarrow> evaluateOrOff rc typ sens avg has targets db ec = ec"
  by (cases ec) (simp add: evaluateOrOff_eq)

lemma evaluateOrOff_slice:
  "snd (evaluateOrOff rc typ sens avg has targets db ec) =
     snd ec @ commands_for typ (slice_at (rc_ActuatorHwIDs rc) typ)
       (wanted rc typ avg has (target_at targets sens) db)"
  by (cases ec)
    (auto simp: evaluateOrOff_eq slice_at_def commands_for_def Let_def split: option.split)

lemma Evaluate_commands_auto:
  assumes "es_mode (resolveEffectiveState rc now) \<noteq> ''OFF''"
  shows "tk_Commands (Evaluate order rc now th) =
     commands_for ''heater'' (slice_at (rc_ActuatorHwIDs rc) ''heater'') (control_law rc now th ''heater'')
   @ commands_for ''humidifier'' (slice_at (rc_ActuatorHwIDs rc) ''humidifier'')
       (control_law rc now th ''humidifier'')"
proof -
  obtain ta tn th' where t: "freshAverage (slice_at (rc_LatestReadings rc) ''temperature'') now th
    = (ta, tn, th')" by (metis prod_cases3)
  obtain ha hn hh where h: "freshAverage (slice_at (rc_LatestReadings rc) ''humidity'') now th
    = (ha, hn, hh)" by (metis prod_cases3)
  from wanted_control_law [OF assms, of "''heater''" th ta tn th']
    wanted_control_law [OF assms, of "''humidifier''" th ha hn hh] t h
  show ?thesis using assms
    by (simp add: Evaluate_def split_def evaluateOrOff_slice sensor_of_def deadband_of_def Let_def)
qed

lemma key_order_commands:
  assumes "known_types rc" and "key_order (rc_ActuatorHwIDs rc) order"
  shows "set order \<subseteq> {''heater'', ''humidifier''}" and "distinct order"
  using assms by (auto simp: known_types_def key_order_def)

lemma slice_outside_order:
  "key_order (rc_ActuatorHwIDs rc) order \<Longrightarrow> t \<notin> set order \<Longrightarrow> slice_at (rc_ActuatorHwIDs rc) t = []"
  by (auto simp: key_order_def slice_at_def split: option.split)

text \<open>Which (type, device) pairs get a command this tick, with multiplicity.\<close>

definition command_keys :: "ActuatorCommand list \<Rightarrow> (string \<times> string) list" where
  "command_keys cs = map (\<lambda>c. (ac_ActuatorType c, ac_HwID c)) cs"

lemma command_keys_for [simp]:
  "command_keys (xs @ ys) = command_keys xs @ command_keys ys"
  "command_keys (commands_for t hws b) = map (Pair t) hws"
  by (simp_all add: command_keys_def commands_for_def)

lemma command_keys_concat:
  "command_keys (concat (map (\<lambda>t. commands_for t (f t) b) ts)) = concat (map (\<lambda>t. map (Pair t) (f t)) ts)"
  by (induction ts) (simp_all add: command_keys_def commands_for_def)

lemma two_keys_mset:
  assumes "set order \<subseteq> {a, b}" and "distinct order" and "a \<noteq> b"
    and "a \<notin> set order \<Longrightarrow> f a = []" and "b \<notin> set order \<Longrightarrow> f b = []"
  shows "mset (concat (map f order)) = mset (f a) + mset (f b)"
proof -
  have "mset (concat (map f order)) = (\<Sum>t \<in> set order. mset (f t))"
    using assms(2) by (induction order) auto
  also have "\<dots> = (\<Sum>t \<in> {a, b}. mset (f t))"
    using assms(1,4,5) by (intro sum.mono_neutral_left) auto
  finally show ?thesis using assms(3) by simp
qed

lemma Evaluate_keys:
  assumes "known_types rc" and "key_order (rc_ActuatorHwIDs rc) order"
  shows "mset (command_keys (tk_Commands (Evaluate order rc now th)))
       = mset (concat (map (\<lambda>t. map (Pair t) (slice_at (rc_ActuatorHwIDs rc) t)) order))"
proof (cases "es_mode (resolveEffectiveState rc now) = ''OFF''")
  case True
  then show ?thesis by (simp add: Evaluate_commands_off command_keys_concat)
next
  case False
  note keys = key_order_commands [OF assms]
  from False show ?thesis
    using two_keys_mset [OF keys, of "\<lambda>t. map (Pair t) (slice_at (rc_ActuatorHwIDs rc) t)"]
      slice_outside_order [OF assms(2)]
    by (simp add: Evaluate_commands_auto)
qed

lemma Evaluate_command_law:
  assumes "c \<in> set (tk_Commands (Evaluate order rc now th))"
  shows "ac_State c = control_law rc now th (ac_ActuatorType c)"
proof (cases "es_mode (resolveEffectiveState rc now) = ''OFF''")
  case True
  with assms show ?thesis
    by (auto simp: Evaluate_commands_off set_commands_for control_law_def Let_def)
next
  case False
  with assms show ?thesis by (auto simp: Evaluate_commands_auto set_commands_for)
qed

subsection \<open>The log row\<close>

lemma commandAllOff_log:
  "cle_HeaterCmd (fst (commandAllOff order rc entry cs)) =
     (if ''heater'' \<in> set order then map_option (\<lambda>_. 0) (cle_HeaterCmd entry) else cle_HeaterCmd entry)"
  "cle_HumidifierCmd (fst (commandAllOff order rc entry cs)) =
     (if ''humidifier'' \<in> set order then map_option (\<lambda>_. 0) (cle_HumidifierCmd entry)
      else cle_HumidifierCmd entry)"
proof (induction order arbitrary: entry cs)
  case (Cons t order)
  {
    case 1
    then show ?case using Cons.IH(1)
      by (cases "t = ''heater''"; cases "cle_HeaterCmd entry")
        (simp_all add: commandAllOff_def setCmd_def split: option.split)
  next
    case 2
    then show ?case using Cons.IH(2)
      by (cases "t = ''humidifier''"; cases "cle_HumidifierCmd entry")
        (simp_all add: commandAllOff_def setCmd_def split: option.split)
  }
qed (simp_all add: commandAllOff_def)

lemma initial_entry_cmds:
  "cle_HeaterCmd (initial_entry rc now th) =
     (if rc_ActuatorHwIDs rc ''heater'' = None then None else Some 0)"
  "cle_HumidifierCmd (initial_entry rc now th) =
     (if rc_ActuatorHwIDs rc ''humidifier'' = None then None else Some 0)"
  by (simp_all add: initial_entry_def Let_def split_def)

lemma evaluateOrOff_log:
  "cle_HeaterCmd (fst (evaluateOrOff rc ''heater'' sens avg has targets db ec)) =
     (if rc_ActuatorHwIDs rc ''heater'' = None then cle_HeaterCmd (fst ec)
      else map_option (\<lambda>_. if wanted rc ''heater'' avg has (target_at targets sens) db then 1 else 0)
        (cle_HeaterCmd (fst ec)))"
  "cle_HeaterCmd (fst (evaluateOrOff rc ''humidifier'' sens avg has targets db ec)) = cle_HeaterCmd (fst ec)"
  "cle_HumidifierCmd (fst (evaluateOrOff rc ''humidifier'' sens avg has targets db ec)) =
     (if rc_ActuatorHwIDs rc ''humidifier'' = None then cle_HumidifierCmd (fst ec)
      else map_option (\<lambda>_. if wanted rc ''humidifier'' avg has (target_at targets sens) db then 1 else 0)
        (cle_HumidifierCmd (fst ec)))"
  "cle_HumidifierCmd (fst (evaluateOrOff rc ''heater'' sens avg has targets db ec)) =
     cle_HumidifierCmd (fst ec)"
  by (cases ec; auto simp: evaluateOrOff_eq Let_def split: option.split)+

definition cmd_value :: "bool \<Rightarrow> int16" where
  "cmd_value b = (if b then 1 else 0)"

lemma Evaluate_log_cmds:
  assumes "key_order (rc_ActuatorHwIDs rc) order"
  shows "cle_HeaterCmd (tk_LogEntry (Evaluate order rc now th)) =
      map_option (\<lambda>_. cmd_value (control_law rc now th ''heater'')) (rc_ActuatorHwIDs rc ''heater'')"
    and "cle_HumidifierCmd (tk_LogEntry (Evaluate order rc now th)) =
      map_option (\<lambda>_. cmd_value (control_law rc now th ''humidifier'')) (rc_ActuatorHwIDs rc ''humidifier'')"
proof -
  obtain ta tn th' where t: "freshAverage (slice_at (rc_LatestReadings rc) ''temperature'') now th
    = (ta, tn, th')" by (metis prod_cases3)
  obtain ha hn hh where h: "freshAverage (slice_at (rc_LatestReadings rc) ''humidity'') now th
    = (ha, hn, hh)" by (metis prod_cases3)
  have in_order: "k \<in> set order \<longleftrightarrow> rc_ActuatorHwIDs rc k \<noteq> None" for k
    using assms by (auto simp: key_order_def)
  note law = wanted_control_law [of rc now "''heater''" th ta tn th', unfolded sensor_of_def deadband_of_def, simplified]
    wanted_control_law [of rc now "''humidifier''" th ha hn hh, unfolded sensor_of_def deadband_of_def, simplified]
  show "cle_HeaterCmd (tk_LogEntry (Evaluate order rc now th)) =
      map_option (\<lambda>_. cmd_value (control_law rc now th ''heater'')) (rc_ActuatorHwIDs rc ''heater'')"
    using t law by (cases "es_mode (resolveEffectiveState rc now) = ''OFF''")
      (auto simp: Evaluate_def Let_def split_def commandAllOff_log evaluateOrOff_log initial_entry_cmds
        in_order cmd_value_def control_law_def)
  show "cle_HumidifierCmd (tk_LogEntry (Evaluate order rc now th)) =
      map_option (\<lambda>_. cmd_value (control_law rc now th ''humidifier'')) (rc_ActuatorHwIDs rc ''humidifier'')"
    using h law by (cases "es_mode (resolveEffectiveState rc now) = ''OFF''")
      (auto simp: Evaluate_def Let_def split_def commandAllOff_log evaluateOrOff_log initial_entry_cmds
        in_order cmd_value_def control_law_def)
qed

section \<open>Properties\<close>

text \<open>A concrete room for the witnesses: one heating device pair, a period on every day, UTC.\<close>

definition demo_period :: SchedulePeriodCache where
  "demo_period = \<lparr>spc_ID = 7, spc_DaysOfWeek = [False, True, True, True, True, True, True, True],
     spc_StartMinutes = 480, spc_EndMinutes = 540, spc_Mode = ''AUTO'',
     spc_Targets = [''temperature'' \<mapsto> Some 21, ''humidity'' \<mapsto> None]\<rparr>"

definition demo_room :: RoomView where
  "demo_room = \<lparr>rc_RoomID = 1, rc_UserTimezone = ''UTC'', rc_Location = Some UTC,
     rc_DeadbandTemp = 1, rc_DeadbandHum = 2,
     rc_DesiredState = \<lparr>dsc_Mode = ''AUTO'', dsc_ManualActive = True,
        dsc_Targets = [''temperature'' \<mapsto> Some 20, ''humidity'' \<mapsto> None],
        dsc_ManualOverrideUntil = Some 1000\<rparr>,
     rc_ActivePeriods = [demo_period],
     rc_ActuatorHwIDs = [''heater'' \<mapsto> [''a'', ''b'']],
     rc_ActuatorStates = Map.empty,
     rc_LatestReadings = [''temperature'' \<mapsto> [\<lparr>tr_Value = 18, tr_Timestamp = 0\<rparr>]],
     rc_LastActivePeriod = Some demo_period\<rparr>"

lemma demo_room_fields [simp]:
  "rc_ActuatorHwIDs demo_room = [''heater'' \<mapsto> [''a'', ''b'']]"
  "rc_LatestReadings demo_room = [''temperature'' \<mapsto> [\<lparr>tr_Value = 18, tr_Timestamp = 0\<rparr>]]"
  "rc_DeadbandTemp demo_room = 1" "rc_LastActivePeriod demo_room = Some demo_period"
  by (simp_all add: demo_room_def)

lemma demo_room_types: "known_types demo_room" "key_order (rc_ActuatorHwIDs demo_room) [''heater'']"
  by (simp_all add: known_types_def key_order_def)

lemma demo_room_resolve:
  "resolveEffectiveState demo_room 500 =
     \<lparr>es_mode = ''AUTO'', es_targets = Some [''temperature'' \<mapsto> Some 20, ''humidity'' \<mapsto> None],
      es_source = ''manual_override'', es_period = None\<rparr>"
  by (simp add: resolveEffectiveState_def demo_room_def After_def Let_def)

lemma demo_room_commands:
  "tk_Commands (Evaluate [''heater''] demo_room 500 1000) =
     [\<lparr>ac_HwID = ''a'', ac_ActuatorType = ''heater'', ac_State = True\<rparr>,
      \<lparr>ac_HwID = ''b'', ac_ActuatorType = ''heater'', ac_State = True\<rparr>]"
  by (simp add: Evaluate_commands_auto demo_room_resolve control_law_def fresh_values_def mean_def
      fresh_def sensor_of_def deadband_of_def target_at_def commands_for_def Sub_def minDuration_def
      maxDuration_def slice_at_def)

text \<open>C8: The effective state of a room is resolved by the documented priority chain: a manual override
  that is active and not yet expired (now strictly before its end), else the first schedule period
  of the local day and minute, else, in exactly the minute the last active period ends and on one
  of its days, that period, else off. The subtraction of the grace check never wraps for minutes
  that fit in an int.\<close>

theorem resolve_refines_intent:
  assumes "\<forall>lp \<in> set_option (rc_LastActivePeriod rc). in_int64 (spc_EndMinutes lp)"
  shows "resolveEffectiveState rc now = state_of_intent (intent_of rc now)"
  using assms by (rule resolve_eq_intent)

theorem resolve_refines_intent_witness:
  "resolveEffectiveState demo_room 500 = state_of_intent (intent_of demo_room 500)
   \<and> in_int64 (spc_EndMinutes demo_period)"
proof -
  have "in_int64 (spc_EndMinutes demo_period)" by (simp add: in_int64_def demo_period_def)
  with resolve_refines_intent [of demo_room 500] show ?thesis by simp
qed

text \<open>When no two periods of a room hold at the same day and minute (what the API enforces), the
  effective state does not depend on the order in which the database returned the active periods.\<close>

theorem schedule_order_irrelevant:
  assumes "\<forall>day mins. 1 \<le> day \<longrightarrow> day \<le> 7 \<longrightarrow>
      (\<forall>p \<in> set ps. \<forall>q \<in> set ps. covers day mins p \<longrightarrow> covers day mins q \<longrightarrow> p = q)"
    and "set qs = set ps"
  shows "resolveEffectiveState (rc\<lparr>rc_ActivePeriods := qs\<rparr>) now
       = resolveEffectiveState (rc\<lparr>rc_ActivePeriods := ps\<rparr>) now"
  using assms by (rule intent_order_irrelevant)

theorem schedule_order_irrelevant_witness:
  "resolveEffectiveState (demo_room\<lparr>rc_ActivePeriods :=
       [demo_period\<lparr>spc_ID := 8, spc_StartMinutes := 540, spc_EndMinutes := 600\<rparr>, demo_period]\<rparr>) 500
   = resolveEffectiveState (demo_room\<lparr>rc_ActivePeriods :=
       [demo_period, demo_period\<lparr>spc_ID := 8, spc_StartMinutes := 540, spc_EndMinutes := 600\<rparr>]\<rparr>) 500"
  by (rule schedule_order_irrelevant) (auto simp: covers_def demo_period_def)

text \<open>C14: Every tick commands every actuator of the room exactly as often as the room lists it, whatever
  the mode, the targets, the readings and the order in which the map is ranged over: no command is
  ever suppressed, so device watchdogs are always refreshed.\<close>

theorem every_actuator_commanded:
  assumes "known_types rc" and "key_order (rc_ActuatorHwIDs rc) order"
  shows "mset (command_keys (tk_Commands (Evaluate order rc now th)))
       = mset (concat (map (\<lambda>t. map (Pair t) (slice_at (rc_ActuatorHwIDs rc) t)) order))"
  using assms by (rule Evaluate_keys)

theorem every_actuator_commanded_witness:
  "mset (command_keys (tk_Commands (Evaluate [''heater''] demo_room 500 1000)))
     = {#(''heater'', ''a''), (''heater'', ''b'')#}"
  by (simp add: every_actuator_commanded [OF demo_room_types])
    (simp add: slice_at_def)

text \<open>C1: Every command of a tick carries the state the control law asks for: off when the mode is OFF,
  when the sensor type has no target or no fresh reading; otherwise on below target minus deadband,
  off above target plus deadband, and the last commanded state in between.\<close>

theorem commands_follow_control_law:
  assumes "c \<in> set (tk_Commands (Evaluate order rc now th))"
  shows "ac_State c = control_law rc now th (ac_ActuatorType c)"
  using assms by (rule Evaluate_command_law)

theorem commands_follow_control_law_witness:
  "control_law demo_room 500 1000 ''heater'' = True"
  using commands_follow_control_law
    [of "\<lparr>ac_HwID = ''a'', ac_ActuatorType = ''heater'', ac_State = True\<rparr>" "[''heater'']" demo_room 500 1000]
  by (simp add: demo_room_commands)

text \<open>The control log row agrees with the commands of its tick: the heater (humidifier) column is
  NULL exactly when the room has no device of that type, and otherwise holds 1 or 0 as the control
  law of that tick says, the same state every command of that type carries.\<close>

theorem log_row_matches_commands:
  assumes "key_order (rc_ActuatorHwIDs rc) order"
  shows "cle_HeaterCmd (tk_LogEntry (Evaluate order rc now th)) =
      map_option (\<lambda>_. cmd_value (control_law rc now th ''heater'')) (rc_ActuatorHwIDs rc ''heater'')
   \<and> cle_HumidifierCmd (tk_LogEntry (Evaluate order rc now th)) =
      map_option (\<lambda>_. cmd_value (control_law rc now th ''humidifier'')) (rc_ActuatorHwIDs rc ''humidifier'')"
  using Evaluate_log_cmds [OF assms] by blast

theorem log_row_matches_commands_witness:
  "cle_HumidifierCmd (tk_LogEntry (Evaluate [''heater''] demo_room 500 1000)) = None
   \<and> cle_HeaterCmd (tk_LogEntry (Evaluate [''heater''] demo_room 500 1000))
      = Some (cmd_value (control_law demo_room 500 1000 ''heater''))"
  using log_row_matches_commands [OF demo_room_types(2), of 500 1000]
  by simp

text \<open>C20: Fail-safe: in a room whose sensors have been silent for longer than the stale threshold, every
  actuator is commanded off, whatever the mode and targets and whatever it was last told.\<close>

theorem stale_readings_command_off:
  assumes "\<forall>sens. \<forall>r \<in> set (slice_at (rc_LatestReadings rc) sens). th < now - tr_Timestamp r"
    and "0 \<le> th" and "th < maxDuration"
    and "c \<in> set (tk_Commands (Evaluate order rc now th))"
  shows "\<not> ac_State c"
proof -
  have "\<not> fresh now th r" if "r \<in> set (slice_at (rc_LatestReadings rc) sens)" for r sens
    using that assms(1-3) Sub_le_iff [of th now "tr_Timestamp r"]
    by (force simp: fresh_def minDuration_def)
  then have "fresh_values rc sens now th = []" for sens
    by (simp add: fresh_values_def filter_empty_conv)
  with Evaluate_command_law [OF assms(4)] show ?thesis
    by (simp add: control_law_def Let_def)
qed

theorem stale_readings_command_off_witness:
  "\<not> ac_State (hd (tk_Commands (Evaluate [''heater''] demo_room 500 100)))"
proof (rule stale_readings_command_off [of demo_room 100 500 _ "[''heater'']"])
  show "hd (tk_Commands (Evaluate [''heater''] demo_room 500 100))
    \<in> set (tk_Commands (Evaluate [''heater''] demo_room 500 100))"
    by (simp add: Evaluate_commands_auto demo_room_resolve commands_for_def slice_at_def)
qed (simp_all add: slice_at_def maxDuration_def)

text \<open>The average a tick computes lies between the least and the greatest fresh reading of the type,
  and depends on the fresh readings only.\<close>

theorem average_between_fresh_readings:
  assumes "freshAverage rs now th = (avg, n, True)"
    and "\<forall>r \<in> set rs. fresh now th r \<longrightarrow> lo \<le> tr_Value r \<and> tr_Value r \<le> hi"
  shows "lo \<le> avg \<and> avg \<le> hi \<and> 0 < n \<and> n \<le> length rs
       \<and> freshAverage (filter (fresh now th) rs) now th = (avg, n, True)"
proof -
  have "0 < n \<and> n \<le> length rs"
    using assms(1) by (auto simp: freshAverage_eq Let_def split: if_splits)
  with freshAverage_between [OF assms] assms(1) show ?thesis by (simp add: freshAverage_filter)
qed

theorem average_between_fresh_readings_witness:
  "(1::rat) \<le> 2 \<and> freshAverage [\<lparr>tr_Value = 1, tr_Timestamp = 5\<rparr>, \<lparr>tr_Value = 3, tr_Timestamp = 6\<rparr>] 6 1
     = (2, 2, True)"
proof -
  have e: "freshAverage [\<lparr>tr_Value = 1, tr_Timestamp = 5\<rparr>, \<lparr>tr_Value = 3, tr_Timestamp = 6\<rparr>] 6 1
     = (2, 2, True)"
    by (simp add: freshAverage_def fresh_def Sub_def minDuration_def maxDuration_def)
  from average_between_fresh_readings [OF e, of 1 3] e show ?thesis by simp
qed

end
