(* ===== verification/Database.thy ===== *)
theory Database
  imports GoStd
begin

text \<open>
  The application database \<open>appdb\<close> as the migrations under \<open>migrations/appdb\<close> declare it: one
  record per table, the tables as row lists (in the order a query happens to return them), the
  declared CHECK, UNIQUE and FOREIGN KEY constraints on every write, and the ON DELETE actions.
  A timestamp is stored as it is
  (PostgreSQL keeps microseconds). Strings compare byte-wise (collation \<open>C\<close>). Any statement may also fail for a
  reason outside the program (\<open>Fault\<close>): \<open>w_faults\<close> says, statement by statement, which ones do.
\<close>

section \<open>Tables\<close>

record user_row =
  u_id :: uuid
  u_email :: string
  u_password_hash :: string
  u_timezone :: string
  u_created_at :: instant
  u_updated_at :: instant

record room_row =
  r_id :: uuid
  r_user_id :: uuid
  r_name :: string
  r_deadband_temp :: float64
  r_deadband_hum :: float64
  r_created_at :: instant
  r_updated_at :: instant

record device_row =
  d_id :: uuid
  d_user_id :: uuid
  d_room_id :: "uuid option"
  d_name :: string
  d_hw_id :: string
  d_device_type :: string
  d_created_at :: instant
  d_updated_at :: instant

record sensor_row =
  s_id :: uuid
  s_device_id :: uuid
  s_measurement_type :: string
  s_created_at :: instant

record actuator_row =
  a_id :: uuid
  a_device_id :: uuid
  a_actuator_type :: string
  a_created_at :: instant

record desired_row =
  ds_id :: uuid
  ds_room_id :: uuid
  ds_mode :: string
  ds_manual_active :: bool
  ds_target_temp :: "float64 option"
  ds_target_hum :: "float64 option"
  ds_manual_override_until :: "instant option"
  ds_created_at :: instant
  ds_updated_at :: instant

record schedule_row =
  sc_id :: uuid
  sc_room_id :: uuid
  sc_user_id :: uuid
  sc_name :: string
  sc_is_active :: bool
  sc_created_at :: instant
  sc_updated_at :: instant

record period_row =
  p_id :: uuid
  p_schedule_id :: uuid
  p_name :: "string option"
  p_days_of_week :: "int list"
  p_start_time :: string
  p_end_time :: string
  p_mode :: string
  p_target_temp :: "float64 option"
  p_target_hum :: "float64 option"
  p_created_at :: instant
  p_updated_at :: instant

record appdb =
  t_users :: "user_row list"
  t_rooms :: "room_row list"
  t_devices :: "device_row list"
  t_sensors :: "sensor_row list"
  t_actuators :: "actuator_row list"
  t_desired :: "desired_row list"
  t_schedules :: "schedule_row list"
  t_periods :: "period_row list"

definition empty_db :: appdb where
  "empty_db = \<lparr>t_users = [], t_rooms = [], t_devices = [], t_sensors = [], t_actuators = [],
     t_desired = [], t_schedules = [], t_periods = []\<rparr>"

section \<open>Statements, failures and transactions\<close>

record base_world =
  w_db :: appdb
  w_faults :: "bool list"

definition query :: "(appdb \<Rightarrow> 'a) \<Rightarrow> ('z base_world_scheme, 'a) act" where
  "query f w = (case w_faults w of
     [] \<Rightarrow> (Inr (f (w_db w)), w)
   | b # bs \<Rightarrow> (if b then Inl Fault else Inr (f (w_db w)), w\<lparr>w_faults := bs\<rparr>))"

definition exec :: "(appdb \<Rightarrow> error + appdb) \<Rightarrow> ('z base_world_scheme, unit) act" where
  "exec f = bindE (query f) (\<lambda>r w. case r of
     Inl e \<Rightarrow> (Inl e, w) | Inr db \<Rightarrow> (Inr (), w\<lparr>w_db := db\<rparr>))"

text \<open>
  \<open>db.Transaction(func(tx) error)\<close>: begin, run, and commit; when the function returns an error or
  the commit fails, the database is what it was before.
\<close>

definition transaction :: "('z base_world_scheme, 'a) act \<Rightarrow> ('z base_world_scheme, 'a) act" where
  "transaction m w =
     (case bindE (query (\<lambda>_. ())) (\<lambda>_. bindE m (\<lambda>x. bindE (query (\<lambda>_. ())) (\<lambda>_. returnE x))) w of
        (Inl e, w') \<Rightarrow> (Inl e, w'\<lparr>w_db := w_db w\<rparr>)
      | (Inr x, w') \<Rightarrow> (Inr x, w'))"

lemma query_ok: "w_faults w = [] \<Longrightarrow> query f w = (Inr (f (w_db w)), w)"
  by (simp add: query_def)

lemma query_InrD:
  "query f w = (Inr x, w') \<Longrightarrow> x = f (w_db w) \<and> (\<exists>fs. w' = w\<lparr>w_faults := fs\<rparr>)"
  by (auto simp: query_def split: list.splits if_splits) (metis base_world.surjective base_world.update_convs(2))

lemma query_db [simp]: "w_db (snd (query f w)) = w_db w"
  by (simp add: query_def split: list.split)

lemma query_more [simp]: "base_world.more (snd (query f w)) = base_world.more w"
  by (simp add: query_def split: list.split)

lemma query_error: "query f w = (Inl e, w') \<Longrightarrow> e = Fault"
  by (auto simp: query_def split: list.splits if_splits)

lemma frames_query_db [frame_rules]: "frames w_db (query f)"
  by (simp add: frames_def)

lemma frames_query_more [frame_rules]: "frames base_world.more (query f)"
  by (simp add: frames_def)

lemma exec_InrD:
  "exec f w = (Inr u, w') \<Longrightarrow> \<exists>db fs. f (w_db w) = Inr db \<and> w' = w\<lparr>w_db := db, w_faults := fs\<rparr>"
  by (auto simp: exec_def bindE_run query_def split: list.splits if_splits sum.splits prod.splits)
    (metis base_world.surjective base_world.update_convs(1,2))+

lemma exec_InlD: "exec f w = (Inl e, w') \<Longrightarrow> w_db w' = w_db w"
  by (auto simp: exec_def bindE_run query_def split: list.splits if_splits sum.splits prod.splits)

lemma exec_ok:
  "w_faults w = [] \<Longrightarrow> exec f w = (case f (w_db w) of Inl e \<Rightarrow> (Inl e, w) | Inr db \<Rightarrow> (Inr (), w\<lparr>w_db := db\<rparr>))"
  by (simp add: exec_def bindE_run query_def split: sum.split)

lemma frames_exec_more [frame_rules]: "frames base_world.more (exec f)"
  by (auto simp: frames_def exec_def bindE_run query_def split: list.split sum.split)

lemma transaction_InlD: "transaction m w = (Inl e, w') \<Longrightarrow> w_db w' = w_db w"
  by (auto simp: transaction_def split: prod.splits sum.splits)

lemma transaction_InrD:
  assumes "transaction m w = (Inr x, w')"
  obtains fs w1 where "m (w\<lparr>w_faults := fs\<rparr>) = (Inr x, w1)" and "w_db w' = w_db w1"
    and "base_world.more w' = base_world.more w1"
proof -
  from assms have "bindE (query (\<lambda>_. ())) (\<lambda>_. bindE m (\<lambda>x. bindE (query (\<lambda>_. ())) (\<lambda>_. returnE x))) w
      = (Inr x, w')"
    by (auto simp: transaction_def split: prod.splits sum.splits)
  then obtain u w0 where 1: "query (\<lambda>_. ()) w = (Inr u, w0)"
    and 2: "bindE m (\<lambda>x. bindE (query (\<lambda>_. ())) (\<lambda>_. returnE x)) w0 = (Inr x, w')"
    by (rule bindE_InrE)
  from 2 obtain y w1 where 3: "m w0 = (Inr y, w1)"
    and 4: "bindE (query (\<lambda>_. ())) (\<lambda>_. returnE y) w1 = (Inr x, w')"
    by (rule bindE_InrE)
  from 4 obtain v w2 where 5: "query (\<lambda>_. ()) w1 = (Inr v, w2)" and 6: "returnE y w2 = (Inr x, w')"
    by (rule bindE_InrE)
  from 1 obtain fs where "w0 = w\<lparr>w_faults := fs\<rparr>" by (auto dest: query_InrD)
  moreover from 5 6 have "w_db w' = w_db w1" "base_world.more w' = base_world.more w1" "y = x"
    using query_db [of "\<lambda>_. ()" w1] query_more [of "\<lambda>_. ()" w1] by auto
  ultimately show thesis using that 3 by blast
qed

lemma frames_transaction_more [frame_rules]:
  assumes "frames base_world.more m"
  shows "frames base_world.more (transaction m)"
proof (rule framesI)
  fix w
  let ?m = "bindE (query (\<lambda>_. ())) (\<lambda>_. bindE m (\<lambda>x. bindE (query (\<lambda>_. ())) (\<lambda>_. returnE x)))"
  have "frames base_world.more ?m" by (intro frame_rules assms)
  then have "base_world.more (snd (?m w)) = base_world.more w" by (simp add: frames_def)
  then show "base_world.more (snd (transaction m w)) = base_world.more w"
    by (auto simp: transaction_def split: prod.split sum.split)
qed

lemma safe_exec [safe_rules]: "safe w_db (exec f)"
  by (auto simp: safe_def dest: exec_InlD)

lemma safe_transaction [safe_rules]: "safe w_db (transaction m)"
  by (auto simp: safe_def dest: transaction_InlD)

section \<open>Writes\<close>

text \<open>
  Storing a number in a \<open>NUMERIC(5,2)\<close> column: rounded half away from zero to two decimals; more
  than three digits before the point is an error.
\<close>

definition numeric52 :: "float64 \<Rightarrow> float64 option" where
  "numeric52 x = (let y = sgn x * of_int \<lfloor>\<bar>x\<bar> * 100 + 1 / 2\<rfloor> / 100
                  in if \<bar>y\<bar> < 1000 then Some y else None)"

text \<open>A nullable column with a \<open>CHECK (c BETWEEN lo AND hi)\<close>: the stored value, or \<open>None\<close> for an error.\<close>

definition store_between :: "float64 \<Rightarrow> float64 \<Rightarrow> float64 option \<Rightarrow> float64 option option" where
  "store_between lo hi v = (case v of
     None \<Rightarrow> Some None
   | Some x \<Rightarrow> (case numeric52 x of
        None \<Rightarrow> None
      | Some y \<Rightarrow> if lo \<le> y \<and> y \<le> hi then Some (Some y) else None))"

definition store_positive :: "float64 \<Rightarrow> float64 option" where
  "store_positive x = (case numeric52 x of None \<Rightarrow> None | Some y \<Rightarrow> if 0 < y then Some y else None)"

definition replace_row :: "('a \<Rightarrow> uuid) \<Rightarrow> 'a \<Rightarrow> 'a list \<Rightarrow> 'a list" where
  "replace_row key r rs = map (\<lambda>x. if key x = key r then r else x) rs"

subsection \<open>Users and rooms\<close>

definition insert_user :: "user_row \<Rightarrow> appdb \<Rightarrow> error + appdb" where
  "insert_user u db =
     (if \<exists>x \<in> set (t_users db). u_id x = u_id u \<or> u_email x = u_email u then Inl UniqueViolation
      else Inr (db\<lparr>t_users := t_users db @ [u]\<rparr>))"

definition room_checked :: "room_row \<Rightarrow> room_row option" where
  "room_checked r = (case (store_positive (r_deadband_temp r), store_positive (r_deadband_hum r)) of
     (Some t, Some h) \<Rightarrow> Some (r\<lparr>r_deadband_temp := t, r_deadband_hum := h\<rparr>)
   | _ \<Rightarrow> None)"

definition insert_room :: "room_row \<Rightarrow> appdb \<Rightarrow> error + appdb" where
  "insert_room r db = (case room_checked r of
     None \<Rightarrow> Inl Fault
   | Some r' \<Rightarrow>
       if \<exists>x \<in> set (t_rooms db). r_id x = r_id r
            \<or> (r_user_id x = r_user_id r \<and> r_name x = r_name r) then Inl UniqueViolation
       else if r_user_id r \<notin> u_id ` set (t_users db) then Inl Fault
       else Inr (db\<lparr>t_rooms := t_rooms db @ [r']\<rparr>))"

definition update_room :: "room_row \<Rightarrow> appdb \<Rightarrow> error + appdb" where
  "update_room r db = (case room_checked r of
     None \<Rightarrow> Inl Fault
   | Some r' \<Rightarrow>
       if \<exists>x \<in> set (t_rooms db). r_id x \<noteq> r_id r
            \<and> r_user_id x = r_user_id r \<and> r_name x = r_name r then Inl UniqueViolation
       else if r_user_id r \<notin> u_id ` set (t_users db) then Inl Fault
       else Inr (db\<lparr>t_rooms := replace_row r_id r' (t_rooms db)\<rparr>))"

text \<open>Deletes with their cascades; deleting a room leaves its devices unassigned.\<close>

definition delete_schedules :: "(schedule_row \<Rightarrow> bool) \<Rightarrow> appdb \<Rightarrow> appdb" where
  "delete_schedules P db =
     (let dead = sc_id ` {s \<in> set (t_schedules db). P s}
      in db\<lparr>t_schedules := filter (\<lambda>s. \<not> P s) (t_schedules db),
            t_periods := filter (\<lambda>p. p_schedule_id p \<notin> dead) (t_periods db)\<rparr>)"

definition delete_rooms :: "(room_row \<Rightarrow> bool) \<Rightarrow> appdb \<Rightarrow> appdb" where
  "delete_rooms P db =
     (let dead = r_id ` {r \<in> set (t_rooms db). P r}
      in (delete_schedules (\<lambda>s. sc_room_id s \<in> dead) db)
           \<lparr>t_rooms := filter (\<lambda>r. \<not> P r) (t_rooms db),
            t_desired := filter (\<lambda>d. ds_room_id d \<notin> dead) (t_desired db),
            t_devices := map (\<lambda>d. if d_room_id d \<in> Some ` dead then d\<lparr>d_room_id := None\<rparr> else d)
                           (t_devices db)\<rparr>)"

definition delete_devices :: "(device_row \<Rightarrow> bool) \<Rightarrow> appdb \<Rightarrow> appdb" where
  "delete_devices P db =
     (let dead = d_id ` {d \<in> set (t_devices db). P d}
      in db\<lparr>t_devices := filter (\<lambda>d. \<not> P d) (t_devices db),
            t_sensors := filter (\<lambda>s. s_device_id s \<notin> dead) (t_sensors db),
            t_actuators := filter (\<lambda>a. a_device_id a \<notin> dead) (t_actuators db)\<rparr>)"

definition delete_room :: "uuid \<Rightarrow> appdb \<Rightarrow> error + appdb" where
  "delete_room i db = Inr (delete_rooms (\<lambda>r. r_id r = i) db)"

definition delete_user :: "uuid \<Rightarrow> appdb \<Rightarrow> error + appdb" where
  "delete_user i db =
     Inr ((delete_schedules (\<lambda>s. sc_user_id s = i)
            (delete_devices (\<lambda>d. d_user_id d = i) (delete_rooms (\<lambda>r. r_user_id r = i) db)))
          \<lparr>t_users := filter (\<lambda>u. u_id u \<noteq> i) (t_users db)\<rparr>)"

definition update_timezone :: "uuid \<Rightarrow> string \<Rightarrow> instant \<Rightarrow> appdb \<Rightarrow> error + appdb" where
  "update_timezone i tz now db =
     Inr (db\<lparr>t_users := map (\<lambda>u. if u_id u = i then u\<lparr>u_timezone := tz, u_updated_at := now\<rparr> else u)
                         (t_users db)\<rparr>)"

subsection \<open>Desired states\<close>

definition desired_checked :: "desired_row \<Rightarrow> desired_row option" where
  "desired_checked d =
     (if ds_mode d \<notin> {''OFF'', ''AUTO''} then None
      else case (store_between 5 40 (ds_target_temp d), store_between 0 100 (ds_target_hum d)) of
        (Some t, Some h) \<Rightarrow> Some (d\<lparr>ds_target_temp := t, ds_target_hum := h\<rparr>)
      | _ \<Rightarrow> None)"

definition insert_desired :: "desired_row \<Rightarrow> appdb \<Rightarrow> error + appdb" where
  "insert_desired d db = (case desired_checked d of
     None \<Rightarrow> Inl Fault
   | Some d' \<Rightarrow>
       if \<exists>x \<in> set (t_desired db). ds_id x = ds_id d \<or> ds_room_id x = ds_room_id d
       then Inl UniqueViolation
       else if ds_room_id d \<notin> r_id ` set (t_rooms db) then Inl Fault
       else Inr (db\<lparr>t_desired := t_desired db @ [d']\<rparr>))"

definition update_desired :: "desired_row \<Rightarrow> appdb \<Rightarrow> error + appdb" where
  "update_desired d db = (case desired_checked d of
     None \<Rightarrow> Inl Fault
   | Some d' \<Rightarrow>
       if \<exists>x \<in> set (t_desired db). ds_id x \<noteq> ds_id d \<and> ds_room_id x = ds_room_id d
       then Inl UniqueViolation
       else if ds_room_id d \<notin> r_id ` set (t_rooms db) then Inl Fault
       else Inr (db\<lparr>t_desired := replace_row ds_id d' (t_desired db)\<rparr>))"

subsection \<open>Devices\<close>

definition device_type_ok :: "device_row \<Rightarrow> bool" where
  "device_type_ok d \<longleftrightarrow> d_device_type d \<in> {''physical'', ''simulator''}"

definition insert_device :: "device_row \<Rightarrow> appdb \<Rightarrow> error + appdb" where
  "insert_device d db =
     (if \<not> device_type_ok d then Inl Fault
      else if \<exists>x \<in> set (t_devices db). d_id x = d_id d \<or> d_hw_id x = d_hw_id d
                \<or> (d_user_id x = d_user_id d \<and> d_name x = d_name d) then Inl UniqueViolation
      else if d_user_id d \<notin> u_id ` set (t_users db)
              \<or> (\<exists>r \<in> set_option (d_room_id d). r \<notin> r_id ` set (t_rooms db)) then Inl Fault
      else Inr (db\<lparr>t_devices := t_devices db @ [d]\<rparr>))"

definition update_device :: "device_row \<Rightarrow> appdb \<Rightarrow> error + appdb" where
  "update_device d db =
     (if \<not> device_type_ok d then Inl Fault
      else if \<exists>x \<in> set (t_devices db). d_id x \<noteq> d_id d \<and> (d_hw_id x = d_hw_id d
                \<or> (d_user_id x = d_user_id d \<and> d_name x = d_name d)) then Inl UniqueViolation
      else if \<exists>r \<in> set_option (d_room_id d). r \<notin> r_id ` set (t_rooms db) then Inl Fault
      else Inr (db\<lparr>t_devices := replace_row d_id d (t_devices db)\<rparr>))"

definition delete_device :: "uuid \<Rightarrow> appdb \<Rightarrow> error + appdb" where
  "delete_device i db = Inr (delete_devices (\<lambda>d. d_id d = i) db)"

definition insert_sensor :: "sensor_row \<Rightarrow> appdb \<Rightarrow> error + appdb" where
  "insert_sensor s db =
     (if s_measurement_type s \<notin> {''temperature'', ''humidity'', ''air_quality''} then Inl Fault
      else if \<exists>x \<in> set (t_sensors db). s_id x = s_id s
                \<or> (s_device_id x = s_device_id s \<and> s_measurement_type x = s_measurement_type s)
           then Inl UniqueViolation
      else if s_device_id s \<notin> d_id ` set (t_devices db) then Inl Fault
      else Inr (db\<lparr>t_sensors := t_sensors db @ [s]\<rparr>))"

definition insert_actuator :: "actuator_row \<Rightarrow> appdb \<Rightarrow> error + appdb" where
  "insert_actuator a db =
     (if a_actuator_type a \<notin> {''heater'', ''humidifier''} then Inl Fault
      else if \<exists>x \<in> set (t_actuators db). a_id x = a_id a
                \<or> (a_device_id x = a_device_id a \<and> a_actuator_type x = a_actuator_type a)
           then Inl UniqueViolation
      else if a_device_id a \<notin> d_id ` set (t_devices db) then Inl Fault
      else Inr (db\<lparr>t_actuators := t_actuators db @ [a]\<rparr>))"

subsection \<open>Schedules and periods\<close>

text \<open>The partial unique index \<open>one_active_schedule_per_room\<close> and \<open>UNIQUE(room_id, name)\<close>.\<close>

definition schedule_clash :: "schedule_row \<Rightarrow> schedule_row \<Rightarrow> bool" where
  "schedule_clash x y \<longleftrightarrow> sc_room_id x = sc_room_id y
     \<and> (sc_name x = sc_name y \<or> (sc_is_active x \<and> sc_is_active y))"

definition insert_schedule :: "schedule_row \<Rightarrow> appdb \<Rightarrow> error + appdb" where
  "insert_schedule s db =
     (if \<exists>x \<in> set (t_schedules db). sc_id x = sc_id s \<or> schedule_clash x s then Inl UniqueViolation
      else if sc_room_id s \<notin> r_id ` set (t_rooms db) \<or> sc_user_id s \<notin> u_id ` set (t_users db)
           then Inl Fault
      else Inr (db\<lparr>t_schedules := t_schedules db @ [s]\<rparr>))"

definition update_schedule :: "schedule_row \<Rightarrow> appdb \<Rightarrow> error + appdb" where
  "update_schedule s db =
     (if \<exists>x \<in> set (t_schedules db). sc_id x \<noteq> sc_id s \<and> schedule_clash x s then Inl UniqueViolation
      else if sc_room_id s \<notin> r_id ` set (t_rooms db) \<or> sc_user_id s \<notin> u_id ` set (t_users db)
           then Inl Fault
      else Inr (db\<lparr>t_schedules := replace_row sc_id s (t_schedules db)\<rparr>))"

text \<open>\<open>UPDATE schedules SET is_active = v, updated_at = now WHERE P\<close>\<close>

definition set_active :: "(schedule_row \<Rightarrow> bool) \<Rightarrow> bool \<Rightarrow> instant \<Rightarrow> appdb \<Rightarrow> error + appdb" where
  "set_active P v now db =
     (let new = map (\<lambda>s. if P s then s\<lparr>sc_is_active := v, sc_updated_at := now\<rparr> else s) (t_schedules db)
      in if \<exists>x \<in> set new. \<exists>y \<in> set new. sc_id x \<noteq> sc_id y \<and> sc_room_id x = sc_room_id y
              \<and> sc_is_active x \<and> sc_is_active y
         then Inl UniqueViolation else Inr (db\<lparr>t_schedules := new\<rparr>))"

definition delete_schedule :: "uuid \<Rightarrow> appdb \<Rightarrow> error + appdb" where
  "delete_schedule i db = Inr (delete_schedules (\<lambda>s. sc_id s = i) db)"

text \<open>
  The CHECKs of \<open>schedule_periods\<close>. \<open>array_length\<close> of an empty array is NULL, which passes a CHECK,
  so the constraint on \<open>days_of_week\<close> excludes nothing.
\<close>

definition period_checked :: "period_row \<Rightarrow> period_row option" where
  "period_checked p =
     (if \<not> p_start_time p < p_end_time p \<or> p_mode p \<notin> {''OFF'', ''AUTO''}
         \<or> (p_mode p \<noteq> ''OFF'' \<and> p_target_temp p = None \<and> p_target_hum p = None) then None
      else case (store_between 5 40 (p_target_temp p), store_between 0 100 (p_target_hum p)) of
        (Some t, Some h) \<Rightarrow> Some (p\<lparr>p_target_temp := t, p_target_hum := h\<rparr>)
      | _ \<Rightarrow> None)"

definition insert_period :: "period_row \<Rightarrow> appdb \<Rightarrow> error + appdb" where
  "insert_period p db = (case period_checked p of
     None \<Rightarrow> Inl Fault
   | Some p' \<Rightarrow>
       if \<exists>x \<in> set (t_periods db). p_id x = p_id p then Inl UniqueViolation
       else if p_schedule_id p \<notin> sc_id ` set (t_schedules db) then Inl Fault
       else Inr (db\<lparr>t_periods := t_periods db @ [p']\<rparr>))"

definition update_period :: "period_row \<Rightarrow> appdb \<Rightarrow> error + appdb" where
  "update_period p db = (case period_checked p of
     None \<Rightarrow> Inl Fault
   | Some p' \<Rightarrow>
       if p_schedule_id p \<notin> sc_id ` set (t_schedules db) then Inl Fault
       else Inr (db\<lparr>t_periods := replace_row p_id p' (t_periods db)\<rparr>))"

definition delete_period :: "uuid \<Rightarrow> appdb \<Rightarrow> error + appdb" where
  "delete_period i db = Inr (db\<lparr>t_periods := filter (\<lambda>p. p_id p \<noteq> i) (t_periods db)\<rparr>)"

subsection \<open>Save\<close>

text \<open>
  GORM's \<open>Save\<close> of a row with a primary key: an UPDATE of all columns, and an INSERT when no row has
  that key.
\<close>

definition save_room :: "room_row \<Rightarrow> appdb \<Rightarrow> error + appdb" where
  "save_room r db = (if r_id r \<in> r_id ` set (t_rooms db) then update_room r db else insert_room r db)"

definition save_desired :: "desired_row \<Rightarrow> appdb \<Rightarrow> error + appdb" where
  "save_desired d db =
     (if ds_id d \<in> ds_id ` set (t_desired db) then update_desired d db else insert_desired d db)"

definition save_device :: "device_row \<Rightarrow> appdb \<Rightarrow> error + appdb" where
  "save_device d db = (if d_id d \<in> d_id ` set (t_devices db) then update_device d db else insert_device d db)"

definition save_schedule :: "schedule_row \<Rightarrow> appdb \<Rightarrow> error + appdb" where
  "save_schedule s db =
     (if sc_id s \<in> sc_id ` set (t_schedules db) then update_schedule s db else insert_schedule s db)"

definition save_period :: "period_row \<Rightarrow> appdb \<Rightarrow> error + appdb" where
  "save_period p db = (if p_id p \<in> p_id ` set (t_periods db) then update_period p db else insert_period p db)"

end
