(* ===== verification/AppDB.thy ===== *)
theory AppDB
  imports Control Database
begin

text \<open>
  Package \<open>device-service/internal/appdb\<close>: the reads by which the device service fills its cache from
  \<open>appdb\<close>. The SQL of each query is written as a comprehension over the tables, the scan structs are
  records, and \<open>WarmCache\<close>, \<open>ReloadRoom\<close> and \<open>ReloadDevice\<close> are actions on the world of database,
  failures and cache store. The time zone database is the argument \<open>tz\<close>. Log output is left out.
\<close>

record dev_world = base_world +
  dw_store :: Store

abbreviation on_store :: "(Store \<Rightarrow> Store) \<Rightarrow> ('z dev_world_scheme, unit) act" where
  "on_store f \<equiv> modifyE (\<lambda>w. w\<lparr>dw_store := f (dw_store w)\<rparr>)"

section \<open>Scan rows and queries\<close>

record roomRow =
  rr_ID :: uuid
  rr_UserID :: uuid
  rr_DeadbandTemp :: float64
  rr_DeadbandHum :: float64
  rr_Timezone :: string

record desiredStateRow =
  dr_RoomID :: uuid
  dr_Mode :: string
  dr_ManualActive :: bool
  dr_TargetTemp :: "float64 option"
  dr_TargetHum :: "float64 option"
  dr_ManualOverrideUntil :: "instant option"

record activePeriodRow =
  ap_ID :: uuid
  ap_RoomID :: uuid
  ap_DaysOfWeek :: "int list"
  ap_StartTime :: string
  ap_EndTime :: string
  ap_Mode :: string
  ap_TargetTemp :: "float64 option"
  ap_TargetHum :: "float64 option"

record deviceRow =
  vr_ID :: uuid
  vr_HwID :: string
  vr_RoomID :: "uuid option"

text \<open>The scan structs of sensors and actuators have exactly the columns of their tables.\<close>

type_synonym sensorRow = sensor_row
type_synonym actuatorRow = actuator_row

definition desiredStateRow_zero :: desiredStateRow where
  "desiredStateRow_zero = \<lparr>dr_RoomID = 0, dr_Mode = [], dr_ManualActive = False, dr_TargetTemp = None,
     dr_TargetHum = None, dr_ManualOverrideUntil = None\<rparr>"

definition actuatorSensorTypes :: "string \<rightharpoonup> string" where
  "actuatorSensorTypes = [''heater'' \<mapsto> ''temperature'', ''humidifier'' \<mapsto> ''humidity'']"

definition room_rows :: "uuid list \<Rightarrow> appdb \<Rightarrow> roomRow list" where
  "room_rows ids db =
     [\<lparr>rr_ID = r_id r, rr_UserID = r_user_id r, rr_DeadbandTemp = r_deadband_temp r,
       rr_DeadbandHum = r_deadband_hum r, rr_Timezone = u_timezone u\<rparr>.
      r \<leftarrow> t_rooms db, u \<leftarrow> t_users db, u_id u = r_user_id r \<and> r_id r \<in> set ids]"

definition desired_rows :: "uuid list \<Rightarrow> appdb \<Rightarrow> desiredStateRow list" where
  "desired_rows ids db =
     [\<lparr>dr_RoomID = ds_room_id d, dr_Mode = ds_mode d, dr_ManualActive = ds_manual_active d,
       dr_TargetTemp = ds_target_temp d, dr_TargetHum = ds_target_hum d,
       dr_ManualOverrideUntil = ds_manual_override_until d\<rparr>.
      d \<leftarrow> t_desired db, ds_room_id d \<in> set ids]"

definition period_row_of :: "period_row \<Rightarrow> schedule_row \<Rightarrow> activePeriodRow" where
  "period_row_of p s = \<lparr>ap_ID = p_id p, ap_RoomID = sc_room_id s, ap_DaysOfWeek = p_days_of_week p,
     ap_StartTime = p_start_time p, ap_EndTime = p_end_time p, ap_Mode = p_mode p,
     ap_TargetTemp = p_target_temp p, ap_TargetHum = p_target_hum p\<rparr>"

definition active_period_rows :: "uuid list \<Rightarrow> appdb \<Rightarrow> activePeriodRow list" where
  "active_period_rows ids db =
     [period_row_of p s.
      p \<leftarrow> t_periods db, s \<leftarrow> t_schedules db,
      sc_id s = p_schedule_id p \<and> sc_room_id s \<in> set ids \<and> sc_is_active s]"

definition device_row_of :: "device_row \<Rightarrow> deviceRow" where
  "device_row_of d = \<lparr>vr_ID = d_id d, vr_HwID = d_hw_id d, vr_RoomID = d_room_id d\<rparr>"

definition device_rows :: "uuid list \<Rightarrow> appdb \<Rightarrow> deviceRow list" where
  "device_rows ids db = map device_row_of (filter (\<lambda>d. d_room_id d \<in> Some ` set ids) (t_devices db))"

definition fetchRooms :: "uuid list \<Rightarrow> ('z dev_world_scheme, roomRow list) act" where
  "fetchRooms ids = query (room_rows ids)"

definition fetchDesiredStates :: "uuid list \<Rightarrow> ('z dev_world_scheme, desiredStateRow list) act" where
  "fetchDesiredStates ids = query (desired_rows ids)"

definition fetchActivePeriods :: "uuid list \<Rightarrow> ('z dev_world_scheme, activePeriodRow list) act" where
  "fetchActivePeriods ids = query (active_period_rows ids)"

definition fetchDevicesByRoom :: "uuid list \<Rightarrow> ('z dev_world_scheme, deviceRow list) act" where
  "fetchDevicesByRoom ids = query (device_rows ids)"

definition fetchSensors :: "uuid list \<Rightarrow> ('z dev_world_scheme, sensorRow list) act" where
  "fetchSensors ids = query (\<lambda>db. filter (\<lambda>s. s_device_id s \<in> set ids) (t_sensors db))"

definition fetchActuators :: "uuid list \<Rightarrow> ('z dev_world_scheme, actuatorRow list) act" where
  "fetchActuators ids = query (\<lambda>db. filter (\<lambda>a. a_device_id a \<in> set ids) (t_actuators db))"

text \<open>
  \<open>Scan\<close> into a struct takes the first row and leaves the zero value when there is none; a row
  whose id is \<open>uuid.Nil\<close> is taken for a missing one.
\<close>

definition fetchRoom :: "uuid \<Rightarrow> ('z dev_world_scheme, roomRow option) act" where
  "fetchRoom roomID = bindE (query (room_rows [roomID])) (\<lambda>rows. returnE (case rows of
     [] \<Rightarrow> None | row # _ \<Rightarrow> if rr_ID row = 0 then None else Some row))"

definition fetchDesiredState :: "uuid \<Rightarrow> ('z dev_world_scheme, desiredStateRow) act" where
  "fetchDesiredState roomID = bindE (query (desired_rows [roomID])) (\<lambda>rows. returnE (case rows of
     [] \<Rightarrow> desiredStateRow_zero | row # _ \<Rightarrow> row))"

definition fetchActivePeriodsForRoom :: "uuid \<Rightarrow> ('z dev_world_scheme, activePeriodRow list) act" where
  "fetchActivePeriodsForRoom roomID = query (active_period_rows [roomID])"

definition fetchDevicesForRoom :: "uuid \<Rightarrow> ('z dev_world_scheme, deviceRow list) act" where
  "fetchDevicesForRoom roomID = query (device_rows [roomID])"

definition fetchDeviceByHwID :: "string \<Rightarrow> ('z dev_world_scheme, deviceRow option) act" where
  "fetchDeviceByHwID hwID =
     bindE (query (\<lambda>db. map device_row_of (filter (\<lambda>d. d_hw_id d = hwID) (t_devices db))))
       (\<lambda>rows. returnE (case rows of [] \<Rightarrow> None | row # _ \<Rightarrow> if vr_ID row = 0 then None else Some row))"

lemmas fetch_defs = fetchRooms_def fetchDesiredStates_def fetchActivePeriods_def
  fetchDevicesByRoom_def fetchSensors_def fetchActuators_def fetchRoom_def fetchDesiredState_def
  fetchActivePeriodsForRoom_def fetchDevicesForRoom_def fetchDeviceByHwID_def

section \<open>Cache assembly\<close>

definition parseTimeToMinutes :: "string \<Rightarrow> error + int" where
  "parseTimeToMinutes s = (case SplitN2 (CHR '':'') s of
     [h, m] \<Rightarrow> (case Atoi h of
        None \<Rightarrow> Inl (Msg ''invalid hour'')
      | Some hour \<Rightarrow> (case Atoi m of
          None \<Rightarrow> Inl (Msg ''invalid minute'')
        | Some minute \<Rightarrow> Inr (wrap64 (hour * 60 + minute))))
   | _ \<Rightarrow> Inl (Msg ''invalid time format''))"

text \<open>\<open>var dow [8]bool; for _, d := range days { if d >= 1 && d <= 7 { dow[d] = true } }\<close>\<close>

definition day_flags :: "int list \<Rightarrow> bool list" where
  "day_flags days = foldl (\<lambda>dow d. if 1 \<le> d \<and> d \<le> 7 then dow[nat d := True] else dow)
     (replicate 8 False) days"

definition target_map :: "float64 option \<Rightarrow> float64 option \<Rightarrow> (string \<rightharpoonup> float64 option)" where
  "target_map t h = [''temperature'' \<mapsto> t, ''humidity'' \<mapsto> h]"

fun buildPeriodCaches :: "activePeriodRow list \<Rightarrow> error + SchedulePeriodCache list" where
  "buildPeriodCaches [] = Inr []"
| "buildPeriodCaches (p # ps) = (case parseTimeToMinutes (ap_StartTime p) of
     Inl e \<Rightarrow> Inl e
   | Inr startMinutes \<Rightarrow> (case parseTimeToMinutes (ap_EndTime p) of
       Inl e \<Rightarrow> Inl e
     | Inr endMinutes \<Rightarrow> (case buildPeriodCaches ps of
         Inl e \<Rightarrow> Inl e
       | Inr result \<Rightarrow> Inr (\<lparr>spc_ID = ap_ID p, spc_DaysOfWeek = day_flags (ap_DaysOfWeek p),
           spc_StartMinutes = startMinutes, spc_EndMinutes = endMinutes, spc_Mode = ap_Mode p,
           spc_Targets = target_map (ap_TargetTemp p) (ap_TargetHum p)\<rparr> # result))))"

definition buildActuatorHwIDs :: "deviceRow list \<Rightarrow> (uuid \<rightharpoonup> actuatorRow list) \<Rightarrow> (string \<rightharpoonup> string list)" where
  "buildActuatorHwIDs devices actuatorsByDevice =
     foldl (\<lambda>result dev.
        foldl (\<lambda>result act.
           if actuatorSensorTypes (a_actuator_type act) \<noteq> None
           then append_at result (a_actuator_type act) (vr_HwID dev) else result)
          result (slice_at actuatorsByDevice (vr_ID dev)))
       Map.empty devices"

definition buildRoomCache :: "(string \<Rightarrow> location option) \<Rightarrow> roomRow \<Rightarrow> desiredStateRow \<Rightarrow>
    activePeriodRow list \<Rightarrow> deviceRow list \<Rightarrow> (uuid \<rightharpoonup> actuatorRow list) \<Rightarrow> error + RoomView" where
  "buildRoomCache tz rm ds periods devices actuatorsByDevice =
     (case LoadLocation tz (rr_Timezone rm) of
        None \<Rightarrow> Inl (Msg ''resolve timezone'')
      | Some loc \<Rightarrow> (case buildPeriodCaches periods of
          Inl e \<Rightarrow> Inl e
        | Inr periodCaches \<Rightarrow> Inr
            \<lparr>rc_RoomID = rr_ID rm, rc_UserTimezone = rr_Timezone rm, rc_Location = Some loc,
             rc_DeadbandTemp = rr_DeadbandTemp rm, rc_DeadbandHum = rr_DeadbandHum rm,
             rc_DesiredState = \<lparr>dsc_Mode = dr_Mode ds, dsc_ManualActive = dr_ManualActive ds,
                dsc_Targets = target_map (dr_TargetTemp ds) (dr_TargetHum ds),
                dsc_ManualOverrideUntil = dr_ManualOverrideUntil ds\<rparr>,
             rc_ActivePeriods = periodCaches,
             rc_ActuatorHwIDs = buildActuatorHwIDs devices actuatorsByDevice,
             rc_ActuatorStates = Map.empty, rc_LatestReadings = Map.empty,
             rc_LastActivePeriod = None\<rparr>))"

definition buildDeviceCache :: "deviceRow \<Rightarrow> sensorRow list \<Rightarrow> actuatorRow list \<Rightarrow> DeviceCache" where
  "buildDeviceCache dev sensors actuators =
     \<lparr>dc_DeviceID = vr_ID dev, dc_HwID = vr_HwID dev, dc_RoomID = vr_RoomID dev,
      dc_Sensors = foldl (\<lambda>m s. m(s_measurement_type s \<mapsto>
          \<lparr>se_SensorID = s_id s, se_MeasurementType = s_measurement_type s\<rparr>)) Map.empty sensors,
      dc_Actuators = foldl (\<lambda>m a. m(a_actuator_type a \<mapsto>
          \<lparr>ae_ActuatorID = a_id a, ae_ActuatorType = a_actuator_type a\<rparr>)) Map.empty actuators\<rparr>"

section \<open>Warm and reload\<close>

text \<open>
  The end of \<open>ReloadRoom\<close>: the new entry takes over the maps (by reference) and the last active
  period (by value) of the entry it replaces, and is then put into the table.
\<close>

definition install_room :: "uuid \<Rightarrow> RoomView \<Rightarrow> Store \<Rightarrow> Store" where
  "install_room roomID rv s =
     (case alloc_room rv s of (p, s1) \<Rightarrow>
       AddRoom roomID p
         (case Option.bind (Room s1 roomID) (st_objs s1) of
            None \<Rightarrow> s1
          | Some existing \<Rightarrow> modify_obj p (adopt_runtime existing) s1))"

text \<open>\<open>store.AddRoom(rm.ID, rc)\<close> of a freshly built entry.\<close>

definition add_new_room :: "uuid \<Rightarrow> RoomView \<Rightarrow> Store \<Rightarrow> Store" where
  "add_new_room roomID rv s = (case alloc_room rv s of (p, s1) \<Rightarrow> AddRoom roomID p s1)"

definition ReloadRoom :: "(string \<Rightarrow> location option) \<Rightarrow> uuid \<Rightarrow> ('z dev_world_scheme, unit) act" where
  "ReloadRoom tz roomID =
     bindE (fetchRoom roomID) (\<lambda>rm. case rm of
       None \<Rightarrow> on_store (DeleteRoom roomID)
     | Some rm \<Rightarrow>
         bindE (fetchDesiredState roomID) (\<lambda>ds.
         bindE (fetchActivePeriodsForRoom roomID) (\<lambda>periods.
         bindE (fetchDevicesForRoom roomID) (\<lambda>devices.
         bindE (if devices = [] then returnE [] else fetchActuators (map vr_ID devices)) (\<lambda>acts.
         bindE (liftE (buildRoomCache tz rm ds periods devices
                  (group_into a_device_id (\<lambda>a. a) acts Map.empty))) (\<lambda>rc.
         on_store (install_room roomID rc)))))))"

definition ReloadDevice :: "string \<Rightarrow> ('z dev_world_scheme, unit) act" where
  "ReloadDevice hwID =
     bindE (fetchDeviceByHwID hwID) (\<lambda>dev. case dev of
       None \<Rightarrow> on_store (DeleteDevice hwID)
     | Some dev \<Rightarrow>
         bindE (fetchSensors [vr_ID dev]) (\<lambda>sensors.
         bindE (fetchActuators [vr_ID dev]) (\<lambda>actuators.
         on_store (AddDevice hwID (buildDeviceCache dev sensors actuators)))))"

text \<open>\<open>dsMap\<close>: a later row for the same room overwrites an earlier one; a miss is the zero value.\<close>

definition dsMap_at :: "desiredStateRow list \<Rightarrow> uuid \<Rightarrow> desiredStateRow" where
  "dsMap_at rows roomID =
     (case foldl (\<lambda>m ds. m(dr_RoomID ds \<mapsto> ds)) Map.empty rows roomID of
        None \<Rightarrow> desiredStateRow_zero | Some ds \<Rightarrow> ds)"

definition devicesByRoom :: "deviceRow list \<Rightarrow> (uuid \<rightharpoonup> deviceRow list)" where
  "devicesByRoom devices = foldl (\<lambda>m dev. case vr_RoomID dev of
     None \<Rightarrow> m | Some r \<Rightarrow> append_at m r dev) Map.empty devices"

text \<open>The second half of \<open>WarmCache\<close>: group the rows and put every entry into the store.\<close>

definition warm_assemble :: "(string \<Rightarrow> location option) \<Rightarrow> roomRow list \<Rightarrow> desiredStateRow list \<Rightarrow>
    activePeriodRow list \<Rightarrow> deviceRow list \<Rightarrow> sensorRow list \<Rightarrow> actuatorRow list \<Rightarrow>
    ('z dev_world_scheme, unit) act" where
  "warm_assemble tz rooms desiredStates periods devices sensors actuators =
     (let periodsMap = group_into ap_RoomID (\<lambda>p. p) periods Map.empty;
          byRoom = devicesByRoom devices;
          sensorsByDevice = group_into s_device_id (\<lambda>s. s) sensors Map.empty;
          actuatorsByDevice = group_into a_device_id (\<lambda>a. a) actuators Map.empty
      in bindE (forE (\<lambda>rm.
           bindE (liftE (buildRoomCache tz rm (dsMap_at desiredStates (rr_ID rm))
               (slice_at periodsMap (rr_ID rm)) (slice_at byRoom (rr_ID rm)) actuatorsByDevice))
             (\<lambda>rc. on_store (add_new_room (rr_ID rm) rc))) rooms) (\<lambda>_.
         forE (\<lambda>dev. on_store (AddDevice (vr_HwID dev) (buildDeviceCache dev
              (slice_at sensorsByDevice (vr_ID dev)) (slice_at actuatorsByDevice (vr_ID dev)))))
           devices))"

definition WarmCache :: "(string \<Rightarrow> location option) \<Rightarrow> ('z dev_world_scheme, unit) act" where
  "WarmCache tz =
     bindE (query (\<lambda>db. map r_id (t_rooms db))) (\<lambda>allRoomIDs w.
       let ownedIDs = filter (OwnsRoom (dw_store w)) allRoomIDs
       in if ownedIDs = [] then returnE () w else
         (bindE (fetchRooms ownedIDs) (\<lambda>rooms.
          bindE (fetchDesiredStates ownedIDs) (\<lambda>desiredStates.
          bindE (fetchActivePeriods ownedIDs) (\<lambda>periods.
          bindE (fetchDevicesByRoom ownedIDs) (\<lambda>devices.
          bindE (if devices = [] then returnE [] else fetchSensors (map vr_ID devices)) (\<lambda>sensors.
          bindE (if devices = [] then returnE [] else fetchActuators (map vr_ID devices)) (\<lambda>actuators.
          warm_assemble tz rooms desiredStates periods devices sensors actuators)))))) w))"

section \<open>Facts about the assembly\<close>

subsection \<open>Clock strings\<close>

lemma Atoi_1: "is_digit a \<Longrightarrow> Atoi [a] = Some (digit_val a)"
  by (subst Atoi_digits) (auto simp: in_int64_def dest: digit_val_range)

lemma Atoi_2: "is_digit a \<Longrightarrow> is_digit b \<Longrightarrow> Atoi [a, b] = Some (10 * digit_val a + digit_val b)"
  using digit_val_range [of a] digit_val_range [of b]
  by (subst Atoi_digits) (auto simp: in_int64_def)

lemma parse_HMM:
  assumes "is_digit a" "is_digit c" "is_digit d"
  shows "parseTimeToMinutes [a, CHR '':'', c, d] = Inr (60 * digit_val a + (10 * digit_val c + digit_val d))"
proof -
  have "SplitN2 (CHR '':'') [a, CHR '':'', c, d] = [[a], [c, d]]"
    using assms is_digit_not_sign [of a] by simp
  with assms digit_val_range [of a] digit_val_range [of c] digit_val_range [of d] show ?thesis
    by (simp add: parseTimeToMinutes_def Atoi_1 Atoi_2 wrap64_id in_int64_def)
qed

lemma parse_HHMM:
  assumes "is_digit a" "is_digit b" "is_digit c" "is_digit d"
  shows "parseTimeToMinutes [a, b, CHR '':'', c, d]
    = Inr (60 * (10 * digit_val a + digit_val b) + (10 * digit_val c + digit_val d))"
proof -
  have "SplitN2 (CHR '':'') [a, b, CHR '':'', c, d] = [[a, b], [c, d]]"
    using assms is_digit_not_sign [of a] is_digit_not_sign [of b] by simp
  with assms digit_val_range [of a] digit_val_range [of b] digit_val_range [of c] digit_val_range [of d]
  show ?thesis
    by (simp add: parseTimeToMinutes_def Atoi_2 wrap64_id in_int64_def)
qed

lemma parseTimeToMinutes_Parse:
  "Parse_15_04 s = Some (h, m) \<Longrightarrow> parseTimeToMinutes s = Inr (60 * h + m)"
  by (erule Parse_15_04_cases) (simp_all add: parse_HMM parse_HHMM)

lemma digit_val_less_iff:
  "is_digit a \<Longrightarrow> is_digit b \<Longrightarrow> a < b \<longleftrightarrow> digit_val a < digit_val b"
  by (simp add: digit_val_def less_char_def)

lemma digit_val_eq_iff: "digit_val a = digit_val b \<longleftrightarrow> a = b"
  by (simp add: digit_val_def)

text \<open>On zero-padded clock strings the byte-wise order is the order of the minutes.\<close>

lemma padded_order:
  assumes "Parse_15_04 s = Some (h, m)" "Parse_15_04 t = Some (h', m')" "length s = 5" "length t = 5"
  shows "s < t \<longleftrightarrow> 60 * h + m < 60 * h' + m'"
proof -
  from assms(1,3) obtain a b c d where s: "s = [a, b, CHR '':'', c, d]" "is_digit a" "is_digit b"
    "is_digit c" "is_digit d" "h = 10 * digit_val a + digit_val b" "m = 10 * digit_val c + digit_val d" "m < 60"
    by (auto elim: Parse_15_04_cases)
  from assms(2,4) obtain a' b' c' d' where t: "t = [a', b', CHR '':'', c', d']" "is_digit a'" "is_digit b'"
    "is_digit c'" "is_digit d'" "h' = 10 * digit_val a' + digit_val b'" "m' = 10 * digit_val c' + digit_val d'" "m' < 60"
    by (auto elim: Parse_15_04_cases)
  note rs = s(2-5)[THEN digit_val_range] t(2-5)[THEN digit_val_range]
  have "s < t \<longleftrightarrow> a < a' \<or> (a = a' \<and> (b < b' \<or> (b = b' \<and> (c < c' \<or> (c = c' \<and> d < d')))))"
    by (auto simp: s(1) t(1))
  also have "\<dots> \<longleftrightarrow> digit_val a < digit_val a' \<or> (digit_val a = digit_val a' \<and> (digit_val b < digit_val b'
      \<or> (digit_val b = digit_val b' \<and> (digit_val c < digit_val c' \<or> (digit_val c = digit_val c'
      \<and> digit_val d < digit_val d')))))"
    using s t by (simp add: digit_val_less_iff digit_val_eq_iff)
  also have "\<dots> \<longleftrightarrow> 60 * h + m < 60 * h' + m'"
    unfolding s(6,7) t(6,7) using rs s(7,8) t(7,8) by (auto simp: radix_less radix_eq)
  finally show ?thesis .
qed

subsection \<open>Days, periods and actuators\<close>

lemma day_flags_snoc:
  "day_flags (ds @ [d]) = (if 1 \<le> d \<and> d \<le> 7 then (day_flags ds)[nat d := True] else day_flags ds)"
  by (simp add: day_flags_def)

lemma length_day_flags [simp]: "length (day_flags ds) = 8"
  by (induction ds rule: rev_induct) (simp_all add: day_flags_snoc, simp add: day_flags_def)

lemma day_flags_nth: "i < 8 \<Longrightarrow> day_flags ds ! i \<longleftrightarrow> 1 \<le> i \<and> int i \<in> set ds"
proof (induction ds rule: rev_induct)
  case Nil
  then show ?case by (simp add: day_flags_def)
next
  case (snoc d ds)
  then show ?case by (auto simp: day_flags_snoc nth_list_update split: if_splits)
qed

definition period_matches :: "activePeriodRow \<Rightarrow> SchedulePeriodCache \<Rightarrow> bool" where
  "period_matches p c \<longleftrightarrow> spc_ID c = ap_ID p \<and> spc_Mode c = ap_Mode p
     \<and> parseTimeToMinutes (ap_StartTime p) = Inr (spc_StartMinutes c)
     \<and> parseTimeToMinutes (ap_EndTime p) = Inr (spc_EndMinutes c)
     \<and> length (spc_DaysOfWeek c) = 8
     \<and> (\<forall>d. 1 \<le> d \<longrightarrow> d \<le> 7 \<longrightarrow> spc_DaysOfWeek c ! nat d = (d \<in> set (ap_DaysOfWeek p)))
     \<and> spc_Targets c = target_map (ap_TargetTemp p) (ap_TargetHum p)"

lemma buildPeriodCaches_matches:
  "buildPeriodCaches ps = Inr cs \<Longrightarrow> list_all2 period_matches ps cs"
  by (induction ps arbitrary: cs)
    (auto simp: period_matches_def day_flags_nth split: sum.splits)

lemma buildPeriodCaches_ok:
  assumes "\<forall>p \<in> set ps. \<exists>a b. parseTimeToMinutes (ap_StartTime p) = Inr a \<and> parseTimeToMinutes (ap_EndTime p) = Inr b"
  shows "\<exists>cs. buildPeriodCaches ps = Inr cs"
  using assms by (induction ps) (auto split: sum.split)

lemma slice_at_hw_inner:
  "slice_at (foldl (\<lambda>result act. if actuatorSensorTypes (a_actuator_type act) \<noteq> None
       then append_at result (a_actuator_type act) h else result) m acts) t
   = slice_at m t @ (if actuatorSensorTypes t \<noteq> None
       then map (\<lambda>_. h) (filter (\<lambda>a. a_actuator_type a = t) acts) else [])"
  by (induction acts arbitrary: m) auto

lemma slice_at_buildActuatorHwIDs:
  "slice_at (buildActuatorHwIDs devs m) t = (if actuatorSensorTypes t = None then []
     else concat (map (\<lambda>d. map (\<lambda>_. vr_HwID d)
            (filter (\<lambda>a. a_actuator_type a = t) (slice_at m (vr_ID d)))) devs))"
proof -
  have "slice_at (foldl (\<lambda>result dev.
        foldl (\<lambda>result act.
           if actuatorSensorTypes (a_actuator_type act) \<noteq> None
           then append_at result (a_actuator_type act) (vr_HwID dev) else result)
          result (slice_at m (vr_ID dev))) m0 devs) t
     = slice_at m0 t @ (if actuatorSensorTypes t = None then []
     else concat (map (\<lambda>d. map (\<lambda>_. vr_HwID d)
            (filter (\<lambda>a. a_actuator_type a = t) (slice_at m (vr_ID d)))) devs))" for m0
    by (induction devs arbitrary: m0) (simp_all add: slice_at_hw_inner del: not_None_eq)
  from this [of Map.empty] show ?thesis by (simp add: buildActuatorHwIDs_def)
qed

lemma dom_hw_inner:
  "dom (foldl (\<lambda>result act. if actuatorSensorTypes (a_actuator_type act) \<noteq> None
       then append_at result (a_actuator_type act) h else result) m acts)
   = dom m \<union> (a_actuator_type ` set acts \<inter> dom actuatorSensorTypes)"
  by (induction acts arbitrary: m) (simp_all add: Int_insert_left domIff del: not_None_eq)

lemma dom_buildActuatorHwIDs: "dom (buildActuatorHwIDs devs m) \<subseteq> {''heater'', ''humidifier''}"
proof -
  have "dom (foldl (\<lambda>result dev.
        foldl (\<lambda>result act.
           if actuatorSensorTypes (a_actuator_type act) \<noteq> None
           then append_at result (a_actuator_type act) (vr_HwID dev) else result)
          result (slice_at m (vr_ID dev))) m0 devs) \<subseteq> dom m0 \<union> dom actuatorSensorTypes" for m0
  proof (induction devs arbitrary: m0)
    case (Cons d devs)
    show ?case by (simp only: foldl_Cons, rule subset_trans [OF Cons.IH]) (simp only: dom_hw_inner, blast)
  qed simp
  from this [of Map.empty] show ?thesis
    by (auto simp: buildActuatorHwIDs_def actuatorSensorTypes_def split: if_splits)
qed

section \<open>Installing an entry\<close>

text \<open>What a reload keeps of the entry it replaces.\<close>

definition preserve :: "RoomView option \<Rightarrow> RoomView \<Rightarrow> RoomView" where
  "preserve old rv = (case old of None \<Rightarrow> rv | Some o' \<Rightarrow>
     rv\<lparr>rc_ActuatorStates := rc_ActuatorStates o', rc_LatestReadings := rc_LatestReadings o',
        rc_LastActivePeriod := rc_LastActivePeriod o'\<rparr>)"

lemma preserve_simps [simp]:
  "rc_RoomID (preserve v rv) = rc_RoomID rv" "rc_UserTimezone (preserve v rv) = rc_UserTimezone rv"
  "rc_Location (preserve v rv) = rc_Location rv" "rc_DeadbandTemp (preserve v rv) = rc_DeadbandTemp rv"
  "rc_DeadbandHum (preserve v rv) = rc_DeadbandHum rv"
  "rc_DesiredState (preserve v rv) = rc_DesiredState rv"
  "rc_ActivePeriods (preserve v rv) = rc_ActivePeriods rv"
  "rc_ActuatorHwIDs (preserve v rv) = rc_ActuatorHwIDs rv"
  by (simp_all add: preserve_def split: option.split)

lemma install_room_cases:
  assumes "wf_store s" and "alloc_room rv s = (p, s1)"
  shows "Room s r = None \<and> install_room r rv s = AddRoom r p s1
    \<or> (\<exists>q rc. Room s r = Some q \<and> st_objs s q = Some rc \<and> rc_RoomID rc = r \<and> q < p \<and> p = st_next s \<and>
        install_room r rv s = AddRoom r p (modify_obj p (adopt_runtime rc) s1))"
proof (cases "Room s r")
  case None
  with assms(2) show ?thesis by (simp add: install_room_def)
next
  case (Some q)
  with assms(1) obtain rc where rc: "st_objs s q = Some rc" "rc_RoomID rc = r" by (rule wf_room_obj)
  with assms(1) have "q < st_next s" by (auto simp: wf_store_def)
  moreover from assms(2) have "p = st_next s" "st_objs s1 = (st_objs s)(p \<mapsto> the (st_objs s1 p))"
    by (auto simp: alloc_room_def Let_def)
  ultimately have "st_objs s1 q = Some rc" using rc by (metis fun_upd_other less_irrefl)
  with Some rc assms(2) \<open>q < st_next s\<close> \<open>p = st_next s\<close> show ?thesis by (simp add: install_room_def)
qed

lemma wf_install_room:
  assumes wf: "wf_store s" and r: "rc_RoomID rv = r"
  shows "wf_store (install_room r rv s)"
proof -
  obtain p s1 where a: "alloc_room rv s = (p, s1)" by fastforce
  from wf_alloc_AddRoom [OF wf a] have wf1: "wf_store (AddRoom r p s1)" by (simp add: r)
  from install_room_cases [OF wf a, of r] show ?thesis
  proof (elim disjE exE conjE)
    fix q rc
    assume q: "st_objs s q = Some rc" "rc_RoomID rc = r" "q < p"
      and i: "install_room r rv s = AddRoom r p (modify_obj p (adopt_runtime rc) s1)"
    from a q have "st_objs s1 q = Some rc" by (auto simp: alloc_room_def Let_def)
    moreover from a r obtain x where "st_objs s1 p = Some x" "rc_RoomID x = r"
      by (auto simp: alloc_room_def Let_def)
    ultimately show ?thesis
      unfolding i AddRoom_modify_obj using wf1 q(2)
      by (intro wf_adopt_runtime [where rc = x and q = q]) (simp_all add: AddRoom_def)
  qed (use wf1 in simp)
qed

lemma room_view_install_room:
  assumes wf: "wf_store s" and r: "rc_RoomID rv = r"
  shows "room_view (install_room r rv s) r' =
    (if r' = r then Some (preserve (room_view s r) rv) else room_view s r')"
proof -
  obtain p s1 where a: "alloc_room rv s = (p, s1)" by fastforce
  note base = room_view_alloc_AddRoom [OF wf a, of r]
  from install_room_cases [OF wf a, of r] show ?thesis
  proof (elim disjE exE conjE)
    assume "Room s r = None" and i: "install_room r rv s = AddRoom r p s1"
    then have "room_view s r = None" by (simp add: room_view_def)
    then show ?thesis by (simp add: i base preserve_def)
  next
    fix q rc
    assume q: "Room s r = Some q" "st_objs s q = Some rc" "rc_RoomID rc = r" "q < p" "p = st_next s"
      and i: "install_room r rv s = AddRoom r p (modify_obj p (adopt_runtime rc) s1)"
    have lt: "rc_ActuatorStates rc < p" "rc_LatestReadings rc < p"
      using wf q by (auto simp: wf_store_def)
    show ?thesis
    proof (cases "r' = r")
      case True
      from a q lt have "view (modify_obj p (adopt_runtime rc) s1) p = Some (preserve (Some (view_obj s rc)) rv)"
        by (auto simp: alloc_room_def Let_def view_def view_obj_def modify_obj_def preserve_def adopt_runtime_def)
      with True q show ?thesis
        by (simp add: i room_view_def rooms_tab.get_put view_def)
    next
      case False
      note view_modify_obj_other [of _ p "adopt_runtime rc" s1]
      moreover have "Room s r' \<noteq> Some p"
      proof
        assume "Room s r' = Some p"
        with wf obtain z where "st_objs s p = Some z" by (rule wf_room_obj)
        with wf q(5) show False by (auto simp: wf_store_def)
      qed
      ultimately show ?thesis using False base [of r'] a
        by (cases "Room s r'") (auto simp: i room_view_def rooms_tab.get_put)
    qed
  qed
qed

lemma view_install_room_old:
  assumes "wf_store s" and "st_objs s q = Some rc"
  shows "view (install_room r rv s) q = view s q"
proof -
  obtain p s1 where a: "alloc_room rv s = (p, s1)" by fastforce
  from assms have lt: "q < st_next s" "rc_ActuatorStates rc < st_next s" "rc_LatestReadings rc < st_next s"
    by (auto simp: wf_store_def)
  with a assms(2) have "view s1 q = view s q" "q \<noteq> p"
    by (auto simp: view_def view_obj_def alloc_room_def Let_def)
  with install_room_cases [OF assms(1) a, of r] show ?thesis
    by (elim disjE exE conjE) (simp_all add: view_modify_obj_other)
qed

lemma Device_install_room [simp]: "Device (install_room r rv s) = Device s"
  by (auto simp: install_room_def modify_obj_def Device_def AddRoom_def alloc_room_def Let_def
      split: prod.split option.split)

lemma rooms_install_room [simp]: "st_rooms (install_room r rv s) = (st_rooms s)(r \<mapsto> st_next s)"
  by (auto simp: install_room_def modify_obj_def AddRoom_def alloc_room_def Let_def
      split: prod.split option.split)

section \<open>Successful and failed reloads\<close>

lemma query_readE:
  assumes "query f w = (Inr x, w')"
  obtains fs where "x = f (w_db w)" and "w' = w\<lparr>w_faults := fs\<rparr>"
  using query_InrD [OF assms] by blast

definition first_desired :: "uuid \<Rightarrow> appdb \<Rightarrow> desiredStateRow" where
  "first_desired r db = (case desired_rows [r] db of [] \<Rightarrow> desiredStateRow_zero | row # _ \<Rightarrow> row)"

definition actuators_of :: "deviceRow list \<Rightarrow> appdb \<Rightarrow> (uuid \<rightharpoonup> actuatorRow list)" where
  "actuators_of devs db = group_into a_device_id (\<lambda>a. a)
     (filter (\<lambda>a. a_device_id a \<in> vr_ID ` set devs) (t_actuators db)) Map.empty"

lemma room_rows_id: "rm \<in> set (room_rows ids db) \<Longrightarrow> rr_ID rm \<in> set ids"
  by (auto simp: room_rows_def)

lemma room_rowsI:
  assumes "room \<in> set (t_rooms db)" "u \<in> set (t_users db)" "u_id u = r_user_id room" "r_id room \<in> set ids"
  shows "\<exists>rm \<in> set (room_rows ids db). rr_ID rm = r_id room"
  unfolding room_rows_def using assms
  by (intro bexI [of _ "\<lparr>rr_ID = r_id room, rr_UserID = r_user_id room, rr_DeadbandTemp = r_deadband_temp room,
       rr_DeadbandHum = r_deadband_hum room, rr_Timezone = u_timezone u\<rparr>"]) auto

lemma fetchRoom_InrE:
  assumes "fetchRoom r w = (Inr x, w')"
  obtains (gone) fs where "x = None" and "r = 0 \<or> room_rows [r] (w_db w) = []" and "w' = w\<lparr>w_faults := fs\<rparr>"
  | (found) fs rm where "x = Some rm" and "rm \<in> set (room_rows [r] (w_db w))" and "rr_ID rm = r"
      and "w' = w\<lparr>w_faults := fs\<rparr>"
proof -
  from assms obtain rows where q: "query (room_rows [r]) w = (Inr rows, w')"
    and x: "x = (case rows of [] \<Rightarrow> None | row # _ \<Rightarrow> if rr_ID row = 0 then None else Some row)"
    unfolding fetchRoom_def by (elim bindE_InrE) auto
  from q obtain fs where rows: "rows = room_rows [r] (w_db w)" and w': "w' = w\<lparr>w_faults := fs\<rparr>"
    by (rule query_readE)
  show thesis
  proof (cases rows)
    case Nil
    with x rows w' show thesis by (auto intro: gone)
  next
    case (Cons rm rest)
    then have "rm \<in> set (room_rows [r] (w_db w))" using rows by (metis list.set_intros(1))
    moreover from this have "rr_ID rm = r" by (auto dest: room_rows_id)
    ultimately show thesis using x Cons w' by (cases "r = 0") (auto intro: gone found)
  qed
qed

lemma ReloadRoom_InrE:
  assumes "ReloadRoom tz r w = (Inr u, w')"
  obtains (gone) fs where "r = 0 \<or> room_rows [r] (w_db w) = []"
      and "w' = w\<lparr>w_faults := fs, dw_store := DeleteRoom r (dw_store w)\<rparr>"
  | (found) fs rm rc where "rm \<in> set (room_rows [r] (w_db w))" and "rr_ID rm = r"
      and "buildRoomCache tz rm (first_desired r (w_db w)) (active_period_rows [r] (w_db w))
         (device_rows [r] (w_db w)) (actuators_of (device_rows [r] (w_db w)) (w_db w)) = Inr rc"
      and "w' = w\<lparr>w_faults := fs, dw_store := install_room r rc (dw_store w)\<rparr>"
proof -
  from assms obtain x w1 where f: "fetchRoom r w = (Inr x, w1)"
    and rest: "(case x of None \<Rightarrow> on_store (DeleteRoom r) | Some rm \<Rightarrow>
         bindE (fetchDesiredState r) (\<lambda>ds.
         bindE (fetchActivePeriodsForRoom r) (\<lambda>periods.
         bindE (fetchDevicesForRoom r) (\<lambda>devices.
         bindE (if devices = [] then returnE [] else fetchActuators (map vr_ID devices)) (\<lambda>acts.
         bindE (liftE (buildRoomCache tz rm ds periods devices
                  (group_into a_device_id (\<lambda>a. a) acts Map.empty))) (\<lambda>rc.
         on_store (install_room r rc))))))) w1 = (Inr u, w')"
    unfolding ReloadRoom_def by (rule bindE_InrE)
  from f show thesis
  proof (cases rule: fetchRoom_InrE)
    case (gone fs)
    with rest that(1) show thesis by auto
  next
    case (found fs rm)
    from rest [unfolded found(1) option.case(2)]
    obtain ds w2 periods w3 devices w4 acts w5 rc w6
      where ds: "fetchDesiredState r w1 = (Inr ds, w2)"
        and ps: "fetchActivePeriodsForRoom r w2 = (Inr periods, w3)"
        and devs: "fetchDevicesForRoom r w3 = (Inr devices, w4)"
        and acts: "(if devices = [] then returnE [] else fetchActuators (map vr_ID devices)) w4 = (Inr acts, w5)"
        and rc: "liftE (buildRoomCache tz rm ds periods devices
            (group_into a_device_id (\<lambda>a. a) acts Map.empty)) w5 = (Inr rc, w6)"
        and fin: "on_store (install_room r rc) w6 = (Inr u, w')"
      by (elim bindE_InrE [of _ _ w1] bindE_InrE [of _ _ w2] bindE_InrE) blast
    from ds obtain rows f2 where "query (desired_rows [r]) w1 = (Inr rows, w2)"
      and "ds = (case rows of [] \<Rightarrow> desiredStateRow_zero | row # _ \<Rightarrow> row)"
      unfolding fetchDesiredState_def by (elim bindE_InrE) auto
    then obtain f2 where ds': "ds = first_desired r (w_db w)" and w2: "w2 = w\<lparr>w_faults := f2\<rparr>"
      using found(4) by (elim query_readE) (simp add: first_desired_def)
    from ps obtain f3 where ps': "periods = active_period_rows [r] (w_db w)" and w3: "w3 = w\<lparr>w_faults := f3\<rparr>"
      unfolding fetchActivePeriodsForRoom_def w2 by (elim query_readE) simp
    from devs obtain f4 where devs': "devices = device_rows [r] (w_db w)" and w4: "w4 = w\<lparr>w_faults := f4\<rparr>"
      unfolding fetchDevicesForRoom_def w3 by (elim query_readE) simp
    from acts obtain f5 where acts': "acts = filter (\<lambda>a. a_device_id a \<in> vr_ID ` set devices) (t_actuators (w_db w))"
      and w5: "w5 = w\<lparr>w_faults := f5\<rparr>"
      unfolding fetchActuators_def w4 by (cases "devices = []") (auto elim: query_readE)
    from rc fin have "w' = w\<lparr>w_faults := f5, dw_store := install_room r rc (dw_store w)\<rparr>"
      unfolding w5 by auto
    moreover from rc have "buildRoomCache tz rm (first_desired r (w_db w)) (active_period_rows [r] (w_db w))
         (device_rows [r] (w_db w)) (actuators_of (device_rows [r] (w_db w)) (w_db w)) = Inr rc"
      unfolding ds' ps' devs' acts' actuators_of_def by simp
    ultimately show thesis using that(2) found by blast
  qed
qed

section \<open>What a cached entry has to be\<close>

text \<open>
  The declarative reading of a cached room: its fields are those of the room, its owner and its
  desired state; its periods are exactly the periods of the room's active schedules, with the clock
  strings converted and the days as flags; and under each controllable type it lists exactly the
  hardware ids of the room's devices that have such an actuator.
\<close>

definition desired_matches :: "appdb \<Rightarrow> uuid \<Rightarrow> DesiredStateCache \<Rightarrow> bool" where
  "desired_matches db r c \<longleftrightarrow>
     (if \<exists>d \<in> set (t_desired db). ds_room_id d = r
      then \<exists>d \<in> set (t_desired db). ds_room_id d = r \<and> dsc_Mode c = ds_mode d
             \<and> dsc_ManualActive c = ds_manual_active d
             \<and> dsc_Targets c = target_map (ds_target_temp d) (ds_target_hum d)
             \<and> dsc_ManualOverrideUntil c = ds_manual_override_until d
      else dsc_Mode c = [] \<and> \<not> dsc_ManualActive c \<and> dsc_ManualOverrideUntil c = None)"

definition active_pairs :: "appdb \<Rightarrow> uuid \<Rightarrow> (period_row \<times> schedule_row) set" where
  "active_pairs db r = {(p, s). p \<in> set (t_periods db) \<and> s \<in> set (t_schedules db)
     \<and> sc_id s = p_schedule_id p \<and> sc_room_id s = r \<and> sc_is_active s}"

definition room_actuators :: "appdb \<Rightarrow> uuid \<Rightarrow> string \<Rightarrow> string set" where
  "room_actuators db r t = {d_hw_id d | d a. d \<in> set (t_devices db) \<and> d_room_id d = Some r
     \<and> a \<in> set (t_actuators db) \<and> a_device_id a = d_id d \<and> a_actuator_type a = t
     \<and> t \<in> {''heater'', ''humidifier''}}"

definition represents_room :: "(string \<Rightarrow> location option) \<Rightarrow> appdb \<Rightarrow> uuid \<Rightarrow> RoomView \<Rightarrow> bool" where
  "represents_room tz db r rv \<longleftrightarrow> rc_RoomID rv = r
   \<and> (\<exists>room \<in> set (t_rooms db). \<exists>u \<in> set (t_users db). r_id room = r \<and> u_id u = r_user_id room
        \<and> rc_UserTimezone rv = u_timezone u
        \<and> rc_Location rv = LoadLocation tz (u_timezone u) \<and> rc_Location rv \<noteq> None
        \<and> rc_DeadbandTemp rv = r_deadband_temp room \<and> rc_DeadbandHum rv = r_deadband_hum room)
   \<and> desired_matches db r (rc_DesiredState rv)
   \<and> (\<forall>(p, s) \<in> active_pairs db r. \<exists>c \<in> set (rc_ActivePeriods rv). period_matches (period_row_of p s) c)
   \<and> (\<forall>c \<in> set (rc_ActivePeriods rv). \<exists>(p, s) \<in> active_pairs db r. period_matches (period_row_of p s) c)
   \<and> (\<forall>t. set (slice_at (rc_ActuatorHwIDs rv) t) = room_actuators db r t)
   \<and> dom (rc_ActuatorHwIDs rv) \<subseteq> {''heater'', ''humidifier''}"

lemma active_period_rows_pairs:
  "set (active_period_rows [r] db) = (\<lambda>(p, s). period_row_of p s) ` active_pairs db r"
  by (auto simp: active_period_rows_def active_pairs_def image_iff)

lemma slice_at_actuators_of:
  "d \<in> set devs \<Longrightarrow> slice_at (actuators_of devs db) (vr_ID d)
     = filter (\<lambda>a. a_device_id a = vr_ID d) (t_actuators db)"
  unfolding actuators_of_def by (auto simp: slice_at_group_into intro!: filter_cong)

definition actuators_by :: "appdb \<Rightarrow> deviceRow list \<Rightarrow> (uuid \<rightharpoonup> actuatorRow list) \<Rightarrow> bool" where
  "actuators_by db devs m \<longleftrightarrow> (\<forall>d \<in> set devs.
     slice_at m (vr_ID d) = filter (\<lambda>a. a_device_id a = vr_ID d) (t_actuators db))"

lemma room_actuators_built:
  assumes "actuators_by db (device_rows [r] db) m"
  shows "set (slice_at (buildActuatorHwIDs (device_rows [r] db) m) t) = room_actuators db r t"
proof -
  have "set (slice_at (buildActuatorHwIDs (device_rows [r] db) m) t)
    = (if t \<in> {''heater'', ''humidifier''} then
       (\<Union>d \<in> set (device_rows [r] db). {vr_HwID d | a. a \<in> set (t_actuators db)
          \<and> a_device_id a = vr_ID d \<and> a_actuator_type a = t}) else {})"
    using assms by (auto simp: actuators_by_def slice_at_buildActuatorHwIDs actuatorSensorTypes_def)
  also have "\<dots> = room_actuators db r t"
    by (auto simp: device_rows_def device_row_of_def room_actuators_def)
  finally show ?thesis .
qed

definition desired_cache :: "desiredStateRow \<Rightarrow> DesiredStateCache" where
  "desired_cache ds = \<lparr>dsc_Mode = dr_Mode ds, dsc_ManualActive = dr_ManualActive ds,
     dsc_Targets = target_map (dr_TargetTemp ds) (dr_TargetHum ds),
     dsc_ManualOverrideUntil = dr_ManualOverrideUntil ds\<rparr>"

lemma desired_row_matches:
  assumes "ds \<in> set (desired_rows ids db)" and "dr_RoomID ds = r"
  shows "desired_matches db r (desired_cache ds)"
proof -
  from assms obtain d where "d \<in> set (t_desired db)" "ds_room_id d = r"
    "ds = \<lparr>dr_RoomID = ds_room_id d, dr_Mode = ds_mode d, dr_ManualActive = ds_manual_active d,
       dr_TargetTemp = ds_target_temp d, dr_TargetHum = ds_target_hum d,
       dr_ManualOverrideUntil = ds_manual_override_until d\<rparr>"
    by (auto simp: desired_rows_def)
  then show ?thesis by (auto simp: desired_matches_def desired_cache_def)
qed

lemma desired_zero_matches:
  "r \<notin> ds_room_id ` set (t_desired db) \<Longrightarrow> desired_matches db r (desired_cache desiredStateRow_zero)"
  by (auto simp: desired_matches_def desired_cache_def desiredStateRow_zero_def)

lemma first_desired_matches: "desired_matches db r (desired_cache (first_desired r db))"
proof (cases "desired_rows [r] db")
  case Nil
  then have "r \<notin> ds_room_id ` set (t_desired db)" by (auto simp: desired_rows_def)
  with Nil show ?thesis by (simp add: first_desired_def desired_zero_matches)
next
  case (Cons ds rest)
  then have "ds \<in> set (desired_rows [r] db)" by simp
  moreover from this have "dr_RoomID ds = r" by (auto simp: desired_rows_def)
  ultimately have "desired_matches db r (desired_cache ds)" by (rule desired_row_matches)
  with Cons show ?thesis by (simp add: first_desired_def)
qed

lemma dsMap_at_matches:
  assumes "r \<in> set ids"
  shows "desired_matches db r (desired_cache (dsMap_at (desired_rows ids db) r))"
proof (cases "foldl (\<lambda>m ds. m(dr_RoomID ds \<mapsto> ds)) Map.empty (desired_rows ids db) r")
  case None
  then have "r \<notin> dr_RoomID ` set (desired_rows ids db)" by (simp add: foldl_upd_None)
  with assms have "r \<notin> ds_room_id ` set (t_desired db)" by (force simp: desired_rows_def)
  with None show ?thesis by (simp add: dsMap_at_def desired_zero_matches)
next
  case (Some ds)
  from foldl_upd_Some [OF Some] have "ds \<in> set (desired_rows ids db)" "dr_RoomID ds = r" by auto
  with Some show ?thesis by (simp add: dsMap_at_def desired_row_matches)
qed

text \<open>Both ways of collecting the rows, for one room and in bulk, build an entry that represents the room.\<close>

lemma built_represents:
  assumes "rm \<in> set (room_rows ids db)" and "rr_ID rm = r"
    and ds: "desired_matches db r (desired_cache ds)"
    and acts: "actuators_by db (device_rows [r] db) m"
    and build: "buildRoomCache tz rm ds (active_period_rows [r] db) (device_rows [r] db) m = Inr rc"
  shows "represents_room tz db r rc"
proof -
  from assms(1,2) obtain room u where ru: "room \<in> set (t_rooms db)" "u \<in> set (t_users db)"
    "u_id u = r_user_id room" "r_id room = r"
    "rm = \<lparr>rr_ID = r, rr_UserID = r_user_id room, rr_DeadbandTemp = r_deadband_temp room,
       rr_DeadbandHum = r_deadband_hum room, rr_Timezone = u_timezone u\<rparr>"
    by (auto simp: room_rows_def)
  from build ru(5) obtain loc pcs where loc: "LoadLocation tz (u_timezone u) = Some loc"
    and pcs: "buildPeriodCaches (active_period_rows [r] db) = Inr pcs"
    and rc: "rc_RoomID rc = r" "rc_UserTimezone rc = u_timezone u" "rc_Location rc = Some loc"
      "rc_DeadbandTemp rc = r_deadband_temp room" "rc_DeadbandHum rc = r_deadband_hum room"
      "rc_ActivePeriods rc = pcs"
      "rc_ActuatorHwIDs rc = buildActuatorHwIDs (device_rows [r] db) m"
      "rc_DesiredState rc = desired_cache ds"
    by (auto simp: buildRoomCache_def desired_cache_def split: option.splits sum.splits)
  from buildPeriodCaches_matches [OF pcs]
  have "\<forall>p \<in> set (active_period_rows [r] db). \<exists>c \<in> set pcs. period_matches p c"
    and "\<forall>c \<in> set pcs. \<exists>p \<in> set (active_period_rows [r] db). period_matches p c"
    by (metis list_all2_conv_all_nth in_set_conv_nth)+
  then have "\<forall>(p, s) \<in> active_pairs db r. \<exists>c \<in> set (rc_ActivePeriods rc). period_matches (period_row_of p s) c"
    "\<forall>c \<in> set (rc_ActivePeriods rc). \<exists>(p, s) \<in> active_pairs db r. period_matches (period_row_of p s) c"
    by (simp_all only: rc(6) active_period_rows_pairs ball_simps bex_simps split_def)
  moreover have "\<exists>room \<in> set (t_rooms db). \<exists>u \<in> set (t_users db). r_id room = r \<and> u_id u = r_user_id room
        \<and> rc_UserTimezone rc = u_timezone u
        \<and> rc_Location rc = LoadLocation tz (u_timezone u) \<and> rc_Location rc \<noteq> None
        \<and> rc_DeadbandTemp rc = r_deadband_temp room \<and> rc_DeadbandHum rc = r_deadband_hum room"
    using ru(1-4) loc rc(2-5) by (intro bexI [of _ room] bexI [of _ u]) simp_all
  moreover have "desired_matches db r (rc_DesiredState rc)"
    by (simp only: rc(8) ds)
  moreover have "set (slice_at (rc_ActuatorHwIDs rc) t) = room_actuators db r t" for t
    by (simp only: rc(7) room_actuators_built [OF acts])
  moreover have "dom (rc_ActuatorHwIDs rc) \<subseteq> {''heater'', ''humidifier''}"
    by (simp only: rc(7) dom_buildActuatorHwIDs)
  ultimately show ?thesis unfolding represents_room_def using rc(1) by blast
qed

subsection \<open>Devices\<close>

definition represents_device :: "appdb \<Rightarrow> string \<Rightarrow> DeviceCache \<Rightarrow> bool" where
  "represents_device db h dc \<longleftrightarrow>
     (\<exists>d \<in> set (t_devices db). d_hw_id d = h \<and> dc_HwID dc = h \<and> dc_DeviceID dc = d_id d
        \<and> dc_RoomID dc = d_room_id d)
   \<and> (\<forall>t. case dc_Sensors dc t of
         None \<Rightarrow> \<forall>s \<in> set (t_sensors db). s_device_id s = dc_DeviceID dc \<longrightarrow> s_measurement_type s \<noteq> t
       | Some e \<Rightarrow> \<exists>s \<in> set (t_sensors db). s_device_id s = dc_DeviceID dc \<and> s_measurement_type s = t
             \<and> e = \<lparr>se_SensorID = s_id s, se_MeasurementType = t\<rparr>)
   \<and> (\<forall>t. case dc_Actuators dc t of
         None \<Rightarrow> \<forall>a \<in> set (t_actuators db). a_device_id a = dc_DeviceID dc \<longrightarrow> a_actuator_type a \<noteq> t
       | Some e \<Rightarrow> \<exists>a \<in> set (t_actuators db). a_device_id a = dc_DeviceID dc \<and> a_actuator_type a = t
             \<and> e = \<lparr>ae_ActuatorID = a_id a, ae_ActuatorType = t\<rparr>)"

lemma case_upd_fold:
  assumes "set xs = {x \<in> A. P x}"
  shows "case foldl (\<lambda>m x. m(key x \<mapsto> val x)) Map.empty xs t of
      None \<Rightarrow> \<forall>x \<in> A. P x \<longrightarrow> key x \<noteq> t | Some e \<Rightarrow> \<exists>x \<in> A. P x \<and> key x = t \<and> e = val x"
  using assms foldl_upd_None [of key val Map.empty xs t] foldl_upd_Some [of key val Map.empty xs t]
  by (fastforce split: option.split)

lemma built_represents_device:
  assumes "d \<in> set (t_devices db)" and "dev = device_row_of d"
    and "set sensors = {s \<in> set (t_sensors db). s_device_id s = vr_ID dev}"
    and "set actuators = {a \<in> set (t_actuators db). a_device_id a = vr_ID dev}"
  shows "represents_device db (vr_HwID dev) (buildDeviceCache dev sensors actuators)"
proof -
  note s = case_upd_fold [OF assms(3), where key = s_measurement_type and
      val = "\<lambda>s. \<lparr>se_SensorID = s_id s, se_MeasurementType = s_measurement_type s\<rparr>"]
  note a = case_upd_fold [OF assms(4), where key = a_actuator_type and
      val = "\<lambda>a. \<lparr>ae_ActuatorID = a_id a, ae_ActuatorType = a_actuator_type a\<rparr>"]
  show ?thesis
    unfolding represents_device_def
  proof (intro conjI allI)
    show "\<exists>d\<in>set (t_devices db). d_hw_id d = vr_HwID dev \<and>
        dc_HwID (buildDeviceCache dev sensors actuators) = vr_HwID dev \<and>
        dc_DeviceID (buildDeviceCache dev sensors actuators) = d_id d \<and>
        dc_RoomID (buildDeviceCache dev sensors actuators) = d_room_id d"
      using assms(1,2) by (auto simp: buildDeviceCache_def device_row_of_def)
  next
    fix t
    let ?dc = "buildDeviceCache dev sensors actuators"
    have dc: "dc_DeviceID ?dc = vr_ID dev"
      "dc_Sensors ?dc = foldl (\<lambda>m s. m(s_measurement_type s \<mapsto>
          \<lparr>se_SensorID = s_id s, se_MeasurementType = s_measurement_type s\<rparr>)) Map.empty sensors"
      "dc_Actuators ?dc = foldl (\<lambda>m a. m(a_actuator_type a \<mapsto>
          \<lparr>ae_ActuatorID = a_id a, ae_ActuatorType = a_actuator_type a\<rparr>)) Map.empty actuators"
      by (simp_all add: buildDeviceCache_def)
    show "case dc_Sensors ?dc t of
         None \<Rightarrow> \<forall>s \<in> set (t_sensors db). s_device_id s = dc_DeviceID ?dc \<longrightarrow> s_measurement_type s \<noteq> t
       | Some e \<Rightarrow> \<exists>s \<in> set (t_sensors db). s_device_id s = dc_DeviceID ?dc \<and> s_measurement_type s = t
             \<and> e = \<lparr>se_SensorID = s_id s, se_MeasurementType = t\<rparr>"
      unfolding dc using s [of t] by (simp split: option.splits) blast
    show "case dc_Actuators ?dc t of
         None \<Rightarrow> \<forall>a \<in> set (t_actuators db). a_device_id a = dc_DeviceID ?dc \<longrightarrow> a_actuator_type a \<noteq> t
       | Some e \<Rightarrow> \<exists>a \<in> set (t_actuators db). a_device_id a = dc_DeviceID ?dc \<and> a_actuator_type a = t
             \<and> e = \<lparr>ae_ActuatorID = a_id a, ae_ActuatorType = t\<rparr>"
      unfolding dc using a [of t] by (simp split: option.splits) blast
  qed
qed

lemma fetchDeviceByHwID_InrE:
  assumes "fetchDeviceByHwID h w = (Inr x, w')"
  obtains (gone) fs where "x = None"
      and "h \<notin> d_hw_id ` set (t_devices (w_db w)) \<or> (\<exists>d \<in> set (t_devices (w_db w)). d_id d = 0)"
      and "w' = w\<lparr>w_faults := fs\<rparr>"
  | (found) fs d where "x = Some (device_row_of d)" and "d \<in> set (t_devices (w_db w))" and "d_hw_id d = h"
      and "w' = w\<lparr>w_faults := fs\<rparr>"
proof -
  from assms obtain rows where q: "query (\<lambda>db. map device_row_of (filter (\<lambda>d. d_hw_id d = h) (t_devices db))) w
      = (Inr rows, w')"
    and x: "x = (case rows of [] \<Rightarrow> None | row # _ \<Rightarrow> if vr_ID row = 0 then None else Some row)"
    unfolding fetchDeviceByHwID_def by (elim bindE_InrE) auto
  from q obtain fs where rows: "rows = map device_row_of (filter (\<lambda>d. d_hw_id d = h) (t_devices (w_db w)))"
    and w': "w' = w\<lparr>w_faults := fs\<rparr>"
    by (rule query_readE)
  show thesis
  proof (cases "filter (\<lambda>d. d_hw_id d = h) (t_devices (w_db w))")
    case Nil
    then have "h \<notin> d_hw_id ` set (t_devices (w_db w))" by (auto simp: filter_empty_conv)
    with Nil x rows w' show thesis by (intro gone) auto
  next
    case (Cons d rest)
    then have "d \<in> set (filter (\<lambda>d. d_hw_id d = h) (t_devices (w_db w)))" by simp
    then have d: "d \<in> set (t_devices (w_db w))" "d_hw_id d = h" by simp_all
    then show thesis using x rows Cons w'
      by (cases "d_id d = 0") (auto simp: device_row_of_def intro: gone found)
  qed
qed

subsection \<open>The bulk load\<close>

lemma room_view_add_new_room:
  "wf_store s \<Longrightarrow> room_view (add_new_room r rv s) r' = (if r' = r then Some rv else room_view s r')"
  by (simp add: add_new_room_def room_view_alloc_AddRoom split: prod.split)

lemma wf_add_new_room: "wf_store s \<Longrightarrow> rc_RoomID rv = r \<Longrightarrow> wf_store (add_new_room r rv s)"
  using wf_alloc_AddRoom [of s rv] by (auto simp: add_new_room_def split: prod.split)

lemma Device_add_new_room [simp]: "Device (add_new_room r rv s) = Device s"
  by (simp add: add_new_room_def split: prod.split)

lemma forE_add_rooms:
  assumes "forE (\<lambda>rm. bindE (liftE (B rm)) (\<lambda>rc. on_store (add_new_room (rr_ID rm) rc))) rooms w = (Inr u, w')"
    and "wf_store (dw_store w)" and "\<And>rm rc. B rm = Inr rc \<Longrightarrow> rc_RoomID rc = rr_ID rm"
  shows "wf_store (dw_store w') \<and> Device (dw_store w') = Device (dw_store w)
     \<and> (\<forall>r. (r \<notin> rr_ID ` set rooms \<and> room_view (dw_store w') r = room_view (dw_store w) r)
          \<or> (\<exists>rm \<in> set rooms. \<exists>rc. rr_ID rm = r \<and> B rm = Inr rc \<and> room_view (dw_store w') r = Some rc))"
  using assms(1,2)
proof (induction rooms arbitrary: w)
  case (Cons rm rooms)
  from Cons.prems(1) obtain rc w1 where rc: "B rm = Inr rc"
    and w1: "w1 = w\<lparr>dw_store := add_new_room (rr_ID rm) rc (dw_store w)\<rparr>"
    and rest: "forE (\<lambda>rm. bindE (liftE (B rm)) (\<lambda>rc. on_store (add_new_room (rr_ID rm) rc))) rooms w1 = (Inr u, w')"
    by (simp only: forE.simps) (elim bindE_InrE, auto)
  from Cons.prems(2) rc assms(3) have wf1: "wf_store (dw_store w1)"
    by (simp add: w1 wf_add_new_room)
  note ih = Cons.IH [OF rest wf1]
  have v1: "room_view (dw_store w1) r = (if r = rr_ID rm then Some rc else room_view (dw_store w) r)" for r
    by (simp add: w1 room_view_add_new_room Cons.prems(2))
  show ?case
  proof (intro conjI allI)
    show "wf_store (dw_store w')" and "Device (dw_store w') = Device (dw_store w)"
      using ih by (simp_all add: w1)
    fix r
    from ih consider "r \<notin> rr_ID ` set rooms" "room_view (dw_store w') r = room_view (dw_store w1) r"
      | rm' rc' where "rm' \<in> set rooms" "rr_ID rm' = r" "B rm' = Inr rc'" "room_view (dw_store w') r = Some rc'"
      by blast
    then show "(r \<notin> rr_ID ` set (rm # rooms) \<and> room_view (dw_store w') r = room_view (dw_store w) r)
        \<or> (\<exists>rm' \<in> set (rm # rooms). \<exists>rc. rr_ID rm' = r \<and> B rm' = Inr rc \<and> room_view (dw_store w') r = Some rc)"
      using rc v1 [of r] by cases (cases "r = rr_ID rm"; auto)+
  qed
qed simp

lemma forE_add_devices:
  assumes "forE (\<lambda>dev. on_store (AddDevice (vr_HwID dev) (D dev))) devs w = (Inr u, w')"
  shows "wf_store (dw_store w') = wf_store (dw_store w) \<and> room_view (dw_store w') = room_view (dw_store w)
     \<and> (\<forall>h. (h \<notin> vr_HwID ` set devs \<and> Device (dw_store w') h = Device (dw_store w) h)
          \<or> (\<exists>dev \<in> set devs. vr_HwID dev = h \<and> Device (dw_store w') h = Some (D dev)))"
  using assms
proof (induction devs arbitrary: w)
  case (Cons dev devs)
  let ?w1 = "w\<lparr>dw_store := AddDevice (vr_HwID dev) (D dev) (dw_store w)\<rparr>"
  from Cons.prems have rest: "forE (\<lambda>dev. on_store (AddDevice (vr_HwID dev) (D dev))) devs ?w1 = (Inr u, w')"
    by (simp add: bindE_run modifyE_def)
  note ih = Cons.IH [OF rest]
  have d1: "Device (dw_store ?w1) h = (if h = vr_HwID dev then Some (D dev) else Device (dw_store w) h)" for h
    by (simp add: devices_tab.get_put)
  show ?case
  proof (intro conjI allI)
    show "wf_store (dw_store w') = wf_store (dw_store w)" and "room_view (dw_store w') = room_view (dw_store w)"
      using ih by (simp_all add: wf_AddDevice)
    fix h
    from ih consider "h \<notin> vr_HwID ` set devs" "Device (dw_store w') h = Device (dw_store ?w1) h"
      | dev' where "dev' \<in> set devs" "vr_HwID dev' = h" "Device (dw_store w') h = Some (D dev')"
      by blast
    then show "(h \<notin> vr_HwID ` set (dev # devs) \<and> Device (dw_store w') h = Device (dw_store w) h)
        \<or> (\<exists>dev' \<in> set (dev # devs). vr_HwID dev' = h \<and> Device (dw_store w') h = Some (D dev'))"
      using d1 [of h] by cases (cases "h = vr_HwID dev"; auto)+
  qed
qed simp

lemma slice_at_devicesByRoom:
  "slice_at (devicesByRoom devs) r = filter (\<lambda>d. vr_RoomID d = Some r) devs"
proof -
  have "slice_at (foldl (\<lambda>m dev. case vr_RoomID dev of
     None \<Rightarrow> m | Some r \<Rightarrow> append_at m r dev) m devs) r = slice_at m r @ filter (\<lambda>d. vr_RoomID d = Some r) devs" for m
    by (induction devs arbitrary: m) (auto split: option.split)
  then show ?thesis by (simp add: devicesByRoom_def)
qed

lemma filter_device_rows:
  "r \<in> set ids \<Longrightarrow> filter (\<lambda>d. vr_RoomID d = Some r) (device_rows ids db) = device_rows [r] db"
  by (auto simp: device_rows_def filter_map comp_def device_row_of_def intro!: arg_cong [where f = "map _"] filter_cong)

lemma filter_active_period_rows:
  "r \<in> set ids \<Longrightarrow> filter (\<lambda>p. ap_RoomID p = r) (active_period_rows ids db) = active_period_rows [r] db"
  by (auto simp: active_period_rows_def filter_concat map_concat comp_def period_row_of_def
      intro!: arg_cong [where f = concat] map_cong)

definition owned_ids :: "appdb \<Rightarrow> uuid list" where
  "owned_ids db = map r_id (t_rooms db)"

lemma WarmCache_InrE:
  assumes "WarmCache tz w = (Inr u, w')"
  obtains (empty) "t_rooms (w_db w) = []" and "dw_store w' = dw_store w"
  | (warm) fs devs where "devs = device_rows (owned_ids (w_db w)) (w_db w)"
      and "warm_assemble tz (room_rows (owned_ids (w_db w)) (w_db w)) (desired_rows (owned_ids (w_db w)) (w_db w))
         (active_period_rows (owned_ids (w_db w)) (w_db w)) devs
         (filter (\<lambda>s. s_device_id s \<in> vr_ID ` set devs) (t_sensors (w_db w)))
         (filter (\<lambda>a. a_device_id a \<in> vr_ID ` set devs) (t_actuators (w_db w))) (w\<lparr>w_faults := fs\<rparr>) = (Inr u, w')"
proof -
  let ?ids = "owned_ids (w_db w)"
  have owned: "filter (OwnsRoom s) xs = xs" for s xs by (simp add: OwnsRoom_def)
  let ?load = "\<lambda>ids. bindE (fetchRooms ids) (\<lambda>rooms.
          bindE (fetchDesiredStates ids) (\<lambda>desiredStates.
          bindE (fetchActivePeriods ids) (\<lambda>periods.
          bindE (fetchDevicesByRoom ids) (\<lambda>devices.
          bindE (if devices = [] then returnE [] else fetchSensors (map vr_ID devices)) (\<lambda>sensors.
          bindE (if devices = [] then returnE [] else fetchActuators (map vr_ID devices)) (\<lambda>actuators.
          warm_assemble tz rooms desiredStates periods devices sensors actuators))))))"
  from assms obtain all w0 where q: "query (\<lambda>db. map r_id (t_rooms db)) w = (Inr all, w0)"
    and r0: "(if filter (OwnsRoom (dw_store w0)) all = [] then returnE () w0
        else ?load (filter (OwnsRoom (dw_store w0)) all) w0) = (Inr u, w')"
    unfolding WarmCache_def Let_def by (rule bindE_InrE)
  from q obtain f0 where "all = ?ids" and w0: "w0 = w\<lparr>w_faults := f0\<rparr>"
    unfolding owned_ids_def by (rule query_readE)
  with r0 have rest: "(if ?ids = [] then returnE () w0 else ?load ?ids w0) = (Inr u, w')"
    by (simp only: owned)
  show thesis
  proof (cases "?ids = []")
    case True
    with rest show thesis by (intro empty) (auto simp: owned_ids_def w0)
  next
    case False
    with rest obtain rooms w1 dss w2 ps w3 devs w4 ss w5 acts w6 where
      1: "fetchRooms ?ids w0 = (Inr rooms, w1)" and 2: "fetchDesiredStates ?ids w1 = (Inr dss, w2)"
      and 3: "fetchActivePeriods ?ids w2 = (Inr ps, w3)" and 4: "fetchDevicesByRoom ?ids w3 = (Inr devs, w4)"
      and 5: "(if devs = [] then returnE [] else fetchSensors (map vr_ID devs)) w4 = (Inr ss, w5)"
      and 6: "(if devs = [] then returnE [] else fetchActuators (map vr_ID devs)) w5 = (Inr acts, w6)"
      and fin: "warm_assemble tz rooms dss ps devs ss acts w6 = (Inr u, w')"
      unfolding if_not_P [OF False] by (elim bindE_InrE) blast
    from 1 2 3 4 obtain f4 where r: "rooms = room_rows ?ids (w_db w)" "dss = desired_rows ?ids (w_db w)"
      "ps = active_period_rows ?ids (w_db w)" "devs = device_rows ?ids (w_db w)" "w4 = w\<lparr>w_faults := f4\<rparr>"
      unfolding fetch_defs w0 by (elim query_readE) simp
    from 5 obtain f5 where s: "ss = filter (\<lambda>s. s_device_id s \<in> vr_ID ` set devs) (t_sensors (w_db w))"
      "w5 = w\<lparr>w_faults := f5\<rparr>"
      unfolding fetchSensors_def r(5) by (cases "devs = []") (auto elim: query_readE)
    from 6 obtain f6 where "acts = filter (\<lambda>a. a_device_id a \<in> vr_ID ` set devs) (t_actuators (w_db w))"
      "w6 = w\<lparr>w_faults := f6\<rparr>"
      unfolding fetchActuators_def s(2) by (cases "devs = []") (auto elim: query_readE)
    with fin r(1-3) s(1) show thesis by (intro warm [OF r(4)]) simp
  qed
qed

lemma warm_assemble_InrD:
  assumes run: "warm_assemble tz (room_rows ids db) (desired_rows ids db) (active_period_rows ids db)
         (device_rows ids db) (filter (\<lambda>s. s_device_id s \<in> vr_ID ` set (device_rows ids db)) (t_sensors db))
         (filter (\<lambda>a. a_device_id a \<in> vr_ID ` set (device_rows ids db)) (t_actuators db)) w = (Inr u, w')"
    and wf: "wf_store (dw_store w)"
  shows "wf_store (dw_store w')"
    and "(r \<notin> rr_ID ` set (room_rows ids db) \<and> room_view (dw_store w') r = room_view (dw_store w) r)
       \<or> (r \<in> rr_ID ` set (room_rows ids db)
          \<and> (\<exists>rc. room_view (dw_store w') r = Some rc \<and> represents_room tz db r rc
            \<and> rc_ActuatorStates rc = Map.empty \<and> rc_LatestReadings rc = Map.empty \<and> rc_LastActivePeriod rc = None))"
    and "(h \<notin> vr_HwID ` set (device_rows ids db) \<and> Device (dw_store w') h = Device (dw_store w) h)
       \<or> (\<exists>dc. Device (dw_store w') h = Some dc \<and> represents_device db h dc)"
proof -
  let ?devs = "device_rows ids db"
  let ?B = "\<lambda>rm. buildRoomCache tz rm (dsMap_at (desired_rows ids db) (rr_ID rm))
    (slice_at (group_into ap_RoomID (\<lambda>p. p) (active_period_rows ids db) Map.empty) (rr_ID rm))
    (slice_at (devicesByRoom ?devs) (rr_ID rm)) (actuators_of ?devs db)"
  let ?sm = "group_into s_device_id (\<lambda>s. s)
    (filter (\<lambda>s. s_device_id s \<in> vr_ID ` set ?devs) (t_sensors db)) Map.empty"
  let ?D = "\<lambda>dev. buildDeviceCache dev (slice_at ?sm (vr_ID dev)) (slice_at (actuators_of ?devs db) (vr_ID dev))"
  have B: "represents_room tz db (rr_ID rm) rc \<and> rc_RoomID rc = rr_ID rm \<and> rc_ActuatorStates rc = Map.empty
      \<and> rc_LatestReadings rc = Map.empty \<and> rc_LastActivePeriod rc = None"
    if rm: "rm \<in> set (room_rows ids db)" and b: "?B rm = Inr rc" for rm rc
  proof -
    from rm have r: "rr_ID rm \<in> set ids" by (rule room_rows_id)
    have sub: "set (device_rows [rr_ID rm] db) \<subseteq> set ?devs" using r by (auto simp: device_rows_def)
    from b have b': "buildRoomCache tz rm (dsMap_at (desired_rows ids db) (rr_ID rm))
        (active_period_rows [rr_ID rm] db) (device_rows [rr_ID rm] db) (actuators_of ?devs db) = Inr rc"
      by (simp add: slice_at_group_into slice_at_devicesByRoom filter_active_period_rows [OF r]
          filter_device_rows [OF r])
    have "represents_room tz db (rr_ID rm) rc"
      using sub by (intro built_represents [OF rm refl dsMap_at_matches [OF r] _ b'])
        (auto simp: actuators_by_def slice_at_actuators_of)
    with b show ?thesis
      by (auto simp: represents_room_def buildRoomCache_def split: option.splits sum.splits)
  qed
  have D: "represents_device db (vr_HwID dev) (?D dev)" if "dev \<in> set ?devs" for dev
  proof -
    from that obtain d where "d \<in> set (t_devices db)" "dev = device_row_of d"
      by (auto simp: device_rows_def)
    then show ?thesis using that
      by (intro built_represents_device) (auto simp: slice_at_group_into slice_at_actuators_of)
  qed
  from run obtain w1 where rooms: "forE (\<lambda>rm. bindE (liftE (?B rm)) (\<lambda>rc. on_store (add_new_room (rr_ID rm) rc)))
        (room_rows ids db) w = (Inr (), w1)"
    and devs: "forE (\<lambda>dev. on_store (AddDevice (vr_HwID dev) (?D dev))) ?devs w1 = (Inr u, w')"
    unfolding warm_assemble_def Let_def actuators_of_def by (elim bindE_InrE) auto
  have id: "?B rm = Inr rc \<Longrightarrow> rc_RoomID rc = rr_ID rm" for rm rc
    by (auto simp: buildRoomCache_def split: option.splits sum.splits)
  note R = forE_add_rooms [OF rooms wf id] and V = forE_add_devices [OF devs]
  show "wf_store (dw_store w')" using R V by blast
  from R consider "r \<notin> rr_ID ` set (room_rows ids db)" "room_view (dw_store w1) r = room_view (dw_store w) r"
    | rm rc where "rm \<in> set (room_rows ids db)" "rr_ID rm = r" "?B rm = Inr rc" "room_view (dw_store w1) r = Some rc"
    by blast
  then show "(r \<notin> rr_ID ` set (room_rows ids db) \<and> room_view (dw_store w') r = room_view (dw_store w) r)
       \<or> (r \<in> rr_ID ` set (room_rows ids db)
          \<and> (\<exists>rc. room_view (dw_store w') r = Some rc \<and> represents_room tz db r rc
            \<and> rc_ActuatorStates rc = Map.empty \<and> rc_LatestReadings rc = Map.empty \<and> rc_LastActivePeriod rc = None))"
  proof cases
    case 1
    with V show ?thesis by simp
  next
    case (2 rm rc)
    with V B [OF 2(1,3)] show ?thesis by auto
  qed
  from V consider "h \<notin> vr_HwID ` set ?devs" "Device (dw_store w') h = Device (dw_store w1) h"
    | dev where "dev \<in> set ?devs" "vr_HwID dev = h" "Device (dw_store w') h = Some (?D dev)" by blast
  then show "(h \<notin> vr_HwID ` set ?devs \<and> Device (dw_store w') h = Device (dw_store w) h)
       \<or> (\<exists>dc. Device (dw_store w') h = Some dc \<and> represents_device db h dc)"
  proof cases
    case 1
    with R show ?thesis by simp
  next
    case (2 dev)
    with D [OF 2(1)] show ?thesis by auto
  qed
qed

subsection \<open>Reloads that succeed\<close>

text \<open>The rows a reload has to convert are convertible: what the API's validation guarantees.\<close>

definition convertible :: "(string \<Rightarrow> location option) \<Rightarrow> appdb \<Rightarrow> bool" where
  "convertible tz db \<longleftrightarrow> (\<forall>u \<in> set (t_users db). LoadLocation tz (u_timezone u) \<noteq> None)
     \<and> (\<forall>p \<in> set (t_periods db). Parse_15_04 (p_start_time p) \<noteq> None \<and> Parse_15_04 (p_end_time p) \<noteq> None)"

lemma buildRoomCache_ok:
  assumes "convertible tz db" and "rm \<in> set (room_rows ids db)"
  shows "\<exists>rc. buildRoomCache tz rm ds (active_period_rows rs db) devs m = Inr rc"
proof -
  from assms obtain loc where "LoadLocation tz (rr_Timezone rm) = Some loc"
    by (fastforce simp: convertible_def room_rows_def)
  moreover have "\<forall>p \<in> set (active_period_rows rs db). \<exists>a b. parseTimeToMinutes (ap_StartTime p) = Inr a
      \<and> parseTimeToMinutes (ap_EndTime p) = Inr b"
  proof
    fix p assume "p \<in> set (active_period_rows rs db)"
    then obtain q where "q \<in> set (t_periods db)" "ap_StartTime p = p_start_time q" "ap_EndTime p = p_end_time q"
      by (auto simp: active_period_rows_def period_row_of_def)
    with assms(1) show "\<exists>a b. parseTimeToMinutes (ap_StartTime p) = Inr a \<and> parseTimeToMinutes (ap_EndTime p) = Inr b"
      by (fastforce simp: convertible_def dest: parseTimeToMinutes_Parse)
  qed
  then obtain cs where "buildPeriodCaches (active_period_rows rs db) = Inr cs"
    using buildPeriodCaches_ok by blast
  ultimately show ?thesis by (simp add: buildRoomCache_def)
qed

lemma ReloadRoom_no_faults:
  assumes "w_faults w = []" and "room_rows [r] (w_db w) = rm # rest" and "r \<noteq> 0"
    and "buildRoomCache tz rm (first_desired r (w_db w)) (active_period_rows [r] (w_db w))
         (device_rows [r] (w_db w)) (actuators_of (device_rows [r] (w_db w)) (w_db w)) = Inr rc"
  shows "ReloadRoom tz r w = (Inr (), w\<lparr>dw_store := install_room r rc (dw_store w)\<rparr>)"
proof -
  have "rm \<in> set (room_rows [r] (w_db w))" by (simp add: assms(2))
  then have "rr_ID rm \<noteq> 0" using assms(3) by (auto dest: room_rows_id)
  with assms(1,2,4) show ?thesis
    by (auto simp: ReloadRoom_def fetch_defs run_simps query_ok first_desired_def actuators_of_def)
qed

lemma WarmCache_no_faults:
  assumes "w_faults w = []" and "convertible tz (w_db w)"
  shows "\<exists>w'. WarmCache tz w = (Inr (), w')"
proof (cases "owned_ids (w_db w) = []")
  case True
  with assms(1) show ?thesis
    by (simp add: WarmCache_def run_simps query_ok OwnsRoom_def owned_ids_def)
next
  case False
  let ?ids = "owned_ids (w_db w)" and ?db = "w_db w"
  let ?devs = "device_rows ?ids ?db"
  have owned: "filter (OwnsRoom s) xs = xs" for s xs by (simp add: OwnsRoom_def)
  have assembled: "\<exists>w'. warm_assemble tz (room_rows ?ids ?db) (desired_rows ?ids ?db) (active_period_rows ?ids ?db)
      ?devs ss acts v = (Inr (), w')" for v ss acts
  proof -
    let ?B = "\<lambda>rm. buildRoomCache tz rm (dsMap_at (desired_rows ?ids ?db) (rr_ID rm))
      (slice_at (group_into ap_RoomID (\<lambda>p. p) (active_period_rows ?ids ?db) Map.empty) (rr_ID rm))
      (slice_at (devicesByRoom ?devs) (rr_ID rm)) (group_into a_device_id (\<lambda>a. a) acts Map.empty)"
    have step: "\<exists>w'. bindE (liftE (?B rm)) (\<lambda>rc. on_store (add_new_room (rr_ID rm) rc)) u = (Inr (), w')"
      if rm: "rm \<in> set (room_rows ?ids ?db)" for rm u
    proof -
      from room_rows_id [OF rm] have "filter (\<lambda>p. ap_RoomID p = rr_ID rm) (active_period_rows ?ids ?db)
          = active_period_rows [rr_ID rm] ?db" by (rule filter_active_period_rows)
      then obtain rc where "?B rm = Inr rc"
        using buildRoomCache_ok [OF assms(2) rm] by (simp add: slice_at_group_into) blast
      then show ?thesis by (simp add: bindE_run)
    qed
    have "\<exists>w1. forE (\<lambda>rm. bindE (liftE (?B rm)) (\<lambda>rc. on_store (add_new_room (rr_ID rm) rc)))
        (room_rows ?ids ?db) v = (Inr (), w1)" by (rule forE_total) (rule step)
    then obtain w1 where "forE (\<lambda>rm. bindE (liftE (?B rm)) (\<lambda>rc. on_store (add_new_room (rr_ID rm) rc)))
        (room_rows ?ids ?db) v = (Inr (), w1)" by (rule exE)
    moreover have "\<exists>w'. forE (\<lambda>dev. on_store (F dev)) ?devs w1 = (Inr (), w')" for F w1
      by (rule forE_total) simp
    ultimately show ?thesis by (simp add: warm_assemble_def Let_def bindE_run)
  qed
  have "query (\<lambda>db. map r_id (t_rooms db)) w = (Inr ?ids, w)"
    using assms(1) by (simp add: query_ok owned_ids_def)
  then show ?thesis
    using False assms(1) assembled [of "[]" "[]" w] assembled
    by (cases "?devs = []") (simp_all add: WarmCache_def Let_def bindE_run fetch_defs query_ok owned)
qed

section \<open>Properties\<close>

text \<open>A database for the witnesses: one user, one room, one active schedule with one period, and one
  device with a heater.\<close>

definition demo_db :: appdb where
  "demo_db = \<lparr>t_users = [\<lparr>u_id = 10, u_email = ''a@b.c'', u_password_hash = ''h'', u_timezone = ''UTC'',
       u_created_at = 1, u_updated_at = 1\<rparr>],
     t_rooms = [\<lparr>r_id = 1, r_user_id = 10, r_name = ''den'', r_deadband_temp = 1, r_deadband_hum = 2,
       r_created_at = 1, r_updated_at = 1\<rparr>],
     t_devices = [\<lparr>d_id = 20, d_user_id = 10, d_room_id = Some 1, d_name = ''dev'', d_hw_id = ''hw-1'',
       d_device_type = ''physical'', d_created_at = 1, d_updated_at = 1\<rparr>],
     t_sensors = [\<lparr>s_id = 30, s_device_id = 20, s_measurement_type = ''temperature'', s_created_at = 1\<rparr>],
     t_actuators = [\<lparr>a_id = 40, a_device_id = 20, a_actuator_type = ''heater'', a_created_at = 1\<rparr>],
     t_desired = [\<lparr>ds_id = 50, ds_room_id = 1, ds_mode = ''OFF'', ds_manual_active = False,
       ds_target_temp = None, ds_target_hum = None, ds_manual_override_until = None,
       ds_created_at = 1, ds_updated_at = 1\<rparr>],
     t_schedules = [\<lparr>sc_id = 60, sc_room_id = 1, sc_user_id = 10, sc_name = ''week'', sc_is_active = True,
       sc_created_at = 1, sc_updated_at = 1\<rparr>],
     t_periods = [\<lparr>p_id = 7, p_schedule_id = 60, p_name = None, p_days_of_week = [1, 2],
       p_start_time = ''08:00'', p_end_time = ''09:00'', p_mode = ''AUTO'', p_target_temp = Some 21,
       p_target_hum = None, p_created_at = 1, p_updated_at = 1\<rparr>]\<rparr>"

definition demo_world :: dev_world where
  "demo_world = \<lparr>w_db = demo_db, w_faults = [], dw_store = NewStore\<rparr>"

lemma ReloadRoom_coherent:
  assumes "ReloadRoom tz r w = (Inr u, w')" and "wf_store (dw_store w)"
  shows "(case room_view (dw_store w') r of
       None \<Rightarrow> r = 0 \<or> (\<forall>room \<in> set (t_rooms (w_db w)). \<forall>u \<in> set (t_users (w_db w)).
                  u_id u = r_user_id room \<longrightarrow> r_id room \<noteq> r)
     | Some rv \<Rightarrow> represents_room tz (w_db w) r rv
         \<and> rv = preserve (room_view (dw_store w) r) rv)
   \<and> (\<forall>r'. r' \<noteq> r \<longrightarrow> room_view (dw_store w') r' = room_view (dw_store w) r')
   \<and> Device (dw_store w') = Device (dw_store w) \<and> w_db w' = w_db w \<and> wf_store (dw_store w')"
  using assms(1)
proof (cases rule: ReloadRoom_InrE)
  case (gone fs)
  then show ?thesis using assms(2)
    by (auto simp: room_view_def rooms_tab.get_del wf_DeleteRoom room_rows_def)
next
  case (found fs rm rc)
  from found have rep: "represents_room tz (w_db w) r rc" 
    by (auto intro!: built_represents first_desired_matches simp: actuators_by_def slice_at_actuators_of)
  then have id: "rc_RoomID rc = r" by (simp add: represents_room_def)
  from rep have "represents_room tz (w_db w) r (preserve (room_view (dw_store w) r) rc)"
    by (simp add: represents_room_def)
  moreover have "preserve v rc = preserve v (preserve v rc)" for v
    by (simp add: preserve_def split: option.split)
  ultimately show ?thesis using found(4) assms(2) id
    by (simp add: room_view_install_room wf_install_room)
qed

text \<open>C10: Reload coherence: a successful reload of a room leaves the room's cache entry representing what
  the database holds for it (fields, desired state, exactly the periods of its active schedules,
  exactly its actuators), with the actuator states, the readings and the last active period of the
  old entry kept; when the database has no such room, the entry is gone. Every other room's entry,
  the device table and the database are unchanged, and the store stays well formed.\<close>

theorem reload_room_coherent:
  assumes "ReloadRoom tz r w = (Inr u, w')" and "wf_store (dw_store w)"
  shows "(case room_view (dw_store w') r of
       None \<Rightarrow> r = 0 \<or> (\<forall>room \<in> set (t_rooms (w_db w)). \<forall>u \<in> set (t_users (w_db w)).
                  u_id u = r_user_id room \<longrightarrow> r_id room \<noteq> r)
     | Some rv \<Rightarrow> represents_room tz (w_db w) r rv
         \<and> rv = preserve (room_view (dw_store w) r) rv)
   \<and> (\<forall>r'. r' \<noteq> r \<longrightarrow> room_view (dw_store w') r' = room_view (dw_store w) r')
   \<and> Device (dw_store w') = Device (dw_store w) \<and> w_db w' = w_db w \<and> wf_store (dw_store w')"
  using assms by (rule ReloadRoom_coherent)

lemma demo_convertible: "convertible (\<lambda>_. None) demo_db"
  by (simp add: convertible_def demo_db_def LoadLocation_def Parse_15_04_def getnum_def is_digit_def
      digit_val_def)

lemma demo_room_rows: "room_rows [1] demo_db = [\<lparr>rr_ID = 1, rr_UserID = 10, rr_DeadbandTemp = 1,
     rr_DeadbandHum = 2, rr_Timezone = ''UTC''\<rparr>]"
  by (simp add: room_rows_def demo_db_def)

lemma demo_reload: "\<exists>rc. rc_RoomID rc = 1 \<and>
    ReloadRoom (\<lambda>_. None) 1 demo_world = (Inr (), demo_world\<lparr>dw_store := install_room 1 rc NewStore\<rparr>)"
proof -
  let ?rm = "\<lparr>rr_ID = 1, rr_UserID = 10, rr_DeadbandTemp = 1, rr_DeadbandHum = 2, rr_Timezone = ''UTC''\<rparr>"
  obtain rc where rc: "buildRoomCache (\<lambda>_. None) ?rm (first_desired 1 demo_db) (active_period_rows [1] demo_db)
      (device_rows [1] demo_db) (actuators_of (device_rows [1] demo_db) demo_db) = Inr rc"
    using buildRoomCache_ok [OF demo_convertible, of ?rm "[1]"] demo_room_rows by force
  then have "rc_RoomID rc = 1" by (auto simp: buildRoomCache_def split: option.splits sum.splits)
  with rc ReloadRoom_no_faults [of demo_world 1 ?rm "[]" "\<lambda>_. None" rc] demo_room_rows show ?thesis
    by (auto simp: demo_world_def)
qed

theorem reload_room_coherent_witness:
  "\<exists>w'. ReloadRoom (\<lambda>_. None) 1 demo_world = (Inr (), w') \<and> wf_store (dw_store w')
     \<and> room_view (dw_store w') 2 = None"
proof -
  from demo_reload obtain w' where "ReloadRoom (\<lambda>_. None) 1 demo_world = (Inr (), w')" by blast
  moreover have "wf_store (dw_store demo_world)" by (simp add: demo_world_def wf_NewStore)
  ultimately show ?thesis using reload_room_coherent [of "\<lambda>_. None" 1 demo_world "()" w']
    by (auto simp: demo_world_def room_view_def Room_def NewStore_def)
qed

text \<open>A reload of a room that exists succeeds when the database answers and the stored time zones
  and clock strings are ones the API accepts; the room then has a cache entry.\<close>

theorem reload_room_succeeds:
  assumes "w_faults w = []" and "convertible tz (w_db w)" and "wf_store (dw_store w)" and "r \<noteq> 0"
    and "room \<in> set (t_rooms (w_db w))" and "u \<in> set (t_users (w_db w))"
    and "r_id room = r" and "u_id u = r_user_id room"
  shows "\<exists>w'. ReloadRoom tz r w = (Inr (), w') \<and> room_view (dw_store w') r \<noteq> None \<and> w_faults w' = []"
proof -
  have "room_rows [r] (w_db w) \<noteq> []"
    using room_rowsI [OF assms(5,6,8), of "[r]"] assms(7) by auto
  then obtain rm rest where rm: "room_rows [r] (w_db w) = rm # rest" by (cases "room_rows [r] (w_db w)") auto
  then have in_rm: "rm \<in> set (room_rows [r] (w_db w))" by simp
  obtain rc where rc: "buildRoomCache tz rm (first_desired r (w_db w)) (active_period_rows [r] (w_db w))
         (device_rows [r] (w_db w)) (actuators_of (device_rows [r] (w_db w)) (w_db w)) = Inr rc"
    using buildRoomCache_ok [OF assms(2) in_rm] by blast
  from rc room_rows_id [OF in_rm] have "rc_RoomID rc = r"
    by (auto simp: buildRoomCache_def split: option.splits sum.splits)
  then show ?thesis
    using ReloadRoom_no_faults [OF assms(1) rm assms(4) rc] assms(1,3)
    by (simp add: room_view_install_room)
qed

theorem reload_room_succeeds_witness:
  "\<exists>w'. ReloadRoom (\<lambda>_. None) 1 demo_world = (Inr (), w') \<and> room_view (dw_store w') 1 \<noteq> None \<and> w_faults w' = []"
  by (rule reload_room_succeeds [of _ _ _ "hd (t_rooms demo_db)" "hd (t_users demo_db)"])
    (use demo_convertible in \<open>simp_all add: demo_world_def wf_NewStore, simp_all add: demo_db_def\<close>)



lemma frames_store_query [frame_rules]: "frames dw_store (query f)"
  by (simp add: frames_def query_def split: list.split)

lemma frames_db_on_store [frame_rules]: "frames w_db (on_store f)"
  by (simp add: frames_def)

lemma frames_db_ReloadRoom [frame_rules]: "frames w_db (ReloadRoom tz r)"
  unfolding ReloadRoom_def fetch_defs by (intro frame_rules)

lemma frames_db_ReloadDevice [frame_rules]: "frames w_db (ReloadDevice h)"
  unfolding ReloadDevice_def fetch_defs by (intro frame_rules)

lemma safe_store_ReloadRoom: "safe dw_store (ReloadRoom tz r)"
  unfolding ReloadRoom_def fetch_defs by (intro safe_rules frame_rules)

lemma safe_store_ReloadDevice: "safe dw_store (ReloadDevice h)"
  unfolding ReloadDevice_def fetch_defs by (intro safe_rules frame_rules)

text \<open>A reload of a room or of a device that fails, whichever query failed and whatever row could
  not be converted, changes neither the cache nor the database.\<close>

theorem reload_failure_harmless:
  assumes "m = ReloadRoom tz r \<or> m = ReloadDevice h" and "m w = (Inl e, w')"
  shows "dw_store w' = dw_store w \<and> w_db w' = w_db w"
  using assms safeD [OF safe_store_ReloadRoom] safeD [OF safe_store_ReloadDevice]
    framesD [OF frames_db_ReloadRoom] framesD [OF frames_db_ReloadDevice] by metis

theorem reload_failure_harmless_witness:
  "dw_store (snd (ReloadRoom (\<lambda>_. None) 1 (demo_world\<lparr>w_faults := [True]\<rparr>))) = NewStore"
proof -
  have "ReloadRoom (\<lambda>_. None) 1 (demo_world\<lparr>w_faults := [True]\<rparr>) = (Inl Fault, demo_world)"
    by (simp add: ReloadRoom_def fetchRoom_def bindE_run query_def demo_world_def)
  from reload_failure_harmless [OF disjI1 [OF refl] this] this show ?thesis
    by (simp add: demo_world_def)
qed

lemma WarmCache_eq:
  "WarmCache tz = bindE (query (\<lambda>db. map r_id (t_rooms db))) (\<lambda>ids. if ids = [] then returnE () else
      bindE (fetchRooms ids) (\<lambda>rooms.
      bindE (fetchDesiredStates ids) (\<lambda>desiredStates.
      bindE (fetchActivePeriods ids) (\<lambda>periods.
      bindE (fetchDevicesByRoom ids) (\<lambda>devices.
      bindE (if devices = [] then returnE [] else fetchSensors (map vr_ID devices)) (\<lambda>sensors.
      bindE (if devices = [] then returnE [] else fetchActuators (map vr_ID devices)) (\<lambda>actuators.
      warm_assemble tz rooms desiredStates periods devices sensors actuators)))))))"
proof -
  have all: "filter (OwnsRoom s) ids = ids" for s ids by (simp add: OwnsRoom_def)
  have eta: "(\<lambda>ids w. if ids = [] then returnE () w else K ids w) = (\<lambda>ids. if ids = [] then returnE () else K ids)"
    for K :: "uuid list \<Rightarrow> ('b dev_world_scheme, unit) act" by (simp add: fun_eq_iff)
  show ?thesis unfolding WarmCache_def all Let_def eta ..
qed

lemma frames_db_WarmCache [frame_rules]: "frames w_db (WarmCache tz)"
  unfolding WarmCache_eq warm_assemble_def Let_def fetch_defs by (intro frame_rules)

lemma WarmCache_facts:
  assumes "WarmCache tz w = (Inr u, w')" and "wf_store (dw_store w)"
  shows "wf_store (dw_store w')
   \<and> (\<forall>r. if r \<in> rr_ID ` set (room_rows (owned_ids (w_db w)) (w_db w))
          then \<exists>rv. room_view (dw_store w') r = Some rv \<and> represents_room tz (w_db w) r rv
             \<and> rc_ActuatorStates rv = Map.empty \<and> rc_LatestReadings rv = Map.empty
             \<and> rc_LastActivePeriod rv = None
          else room_view (dw_store w') r = room_view (dw_store w) r)
   \<and> (\<forall>d \<in> set (t_devices (w_db w)). d_room_id d \<in> Some ` set (owned_ids (w_db w)) \<longrightarrow>
        (\<exists>dc. Device (dw_store w') (d_hw_id d) = Some dc \<and> represents_device (w_db w) (d_hw_id d) dc))"
  using assms(1)
proof (cases rule: WarmCache_InrE)
  case empty
  then show ?thesis using assms(2) by (simp add: owned_ids_def room_rows_def)
next
  case (warm fs devs)
  note D = warm_assemble_InrD [OF warm(2) [unfolded warm(1)], simplified]
  show ?thesis
  proof (intro conjI allI ballI impI)
    show "wf_store (dw_store w')" using D(1) assms(2) by simp
    show "if r \<in> rr_ID ` set (room_rows (owned_ids (w_db w)) (w_db w))
        then \<exists>rv. room_view (dw_store w') r = Some rv \<and> represents_room tz (w_db w) r rv
             \<and> rc_ActuatorStates rv = Map.empty \<and> rc_LatestReadings rv = Map.empty
             \<and> rc_LastActivePeriod rv = None
        else room_view (dw_store w') r = room_view (dw_store w) r" for r
      using D(2) [of r] assms(2) by (auto split: if_splits)
    fix d assume "d \<in> set (t_devices (w_db w))" "d_room_id d \<in> Some ` set (owned_ids (w_db w))"
    then have "d_hw_id d \<in> vr_HwID ` set (device_rows (owned_ids (w_db w)) (w_db w))"
      by (force simp: device_rows_def device_row_of_def)
    with D(3) [of "d_hw_id d"] assms(2)
    show "\<exists>dc. Device (dw_store w') (d_hw_id d) = Some dc \<and> represents_device (w_db w) (d_hw_id d) dc"
      by blast
  qed
qed



text \<open>The two services agree on clock strings: whatever the API's layout check accepts, the device
  service's parser converts to the same hour and minute, as minutes of the day; and among zero-padded
  strings the byte-wise order by which the API compares periods is the order of the minutes by
  which the control loop does.\<close>

theorem clock_strings_agree:
  assumes "Parse_15_04 s = Some (h, m)" and "Parse_15_04 t = Some (h', m')"
  shows "parseTimeToMinutes s = Inr (60 * h + m) \<and> 0 \<le> 60 * h + m \<and> 60 * h + m < 1440
     \<and> (length s = 5 \<and> length t = 5 \<longrightarrow> (s < t) = (60 * h + m < 60 * h' + m'))"
  using assms Parse_15_04_range [OF assms(1)] parseTimeToMinutes_Parse [OF assms(1)] padded_order
  by auto

theorem clock_strings_agree_witness:
  "parseTimeToMinutes ''08:30'' = Inr 510 \<and> ''08:30'' < (''21:05'' :: string)"
proof -
  have "Parse_15_04 ''08:30'' = Some (8, 30)" "Parse_15_04 ''21:05'' = Some (21, 5)"
    by (simp_all add: Parse_15_04_def getnum_def is_digit_def digit_val_def)
  from clock_strings_agree [OF this] show ?thesis by simp
qed

text \<open>A control tick that holds the entry it looked up before a reload still writes into the maps the
  new entry shares, so the new entry sees its actuator states; the last active period it records
  goes to the abandoned entry and is lost to the new one.\<close>

theorem reload_races_with_tick:
  assumes "wf_store s" and "Room s r = Some p" and "rc_RoomID rv = r"
  shows "room_view (set_actuator_state p typ b (install_room r rv s)) r
       = Some ((preserve (room_view s r) rv)
           \<lparr>rc_ActuatorStates := (rc_ActuatorStates (the (room_view s r)))(typ \<mapsto> b)\<rparr>)
     \<and> room_view (set_last_period p sp (install_room r rv s)) r = room_view (install_room r rv s) r"
proof -
  obtain np s1 where a: "alloc_room rv s = (np, s1)" by fastforce
  from install_room_cases [OF assms(1) a, of r] assms(2) obtain rc
    where rc: "st_objs s p = Some rc" "p < np"
      and i: "install_room r rv s = AddRoom r np (modify_obj np (adopt_runtime rc) s1)"
    by auto
  let ?s = "install_room r rv s"
  from a rc have objs: "st_objs ?s p = Some rc" "\<exists>rd. st_objs ?s np = Some rd \<and> rc_ActuatorStates rd = rc_ActuatorStates rc"
    by (auto simp: i alloc_room_def Let_def AddRoom_def modify_obj_def)
  have R: "Room ?s r = Some np" by (simp add: i)
  have V: "room_view ?s r = Some (preserve (room_view s r) rv)"
    by (simp add: room_view_install_room assms(1,3))
  with R have v: "view ?s np = Some (preserve (room_view s r) rv)" by (simp add: room_view_def)
  from assms(2) rc(1) have "room_view s r = Some (view_obj s rc)" by (simp add: room_view_def view_def)
  then have states: "rc_ActuatorStates (preserve (room_view s r) rv) = rc_ActuatorStates (the (room_view s r))"
    by (simp add: preserve_def)
  from objs(2) obtain rd where "st_objs ?s np = Some rd" "rc_ActuatorStates rd = rc_ActuatorStates rc" by blast
  note room_view_set_actuator_state_shared [OF R v objs(1) this, of "typ" b]
  moreover have "room_view (set_last_period p sp ?s) r = room_view ?s r"
    using R rc(2) by (simp add: room_view_def set_last_period_def view_modify_obj_other)
  ultimately show ?thesis by (simp add: states)
qed

theorem reload_races_with_tick_witness:
  "\<exists>p s. Room s 1 = Some p \<and> room_view (set_last_period p demo_period (install_room 1 demo_room s)) 1
     = room_view (install_room 1 demo_room s) 1"
proof -
  let ?s = "install_room 1 demo_room NewStore"
  have id: "rc_RoomID demo_room = 1" by (simp add: demo_room_def)
  have "wf_store ?s" by (simp add: wf_install_room wf_NewStore id)
  moreover have "room_view ?s 1 = Some demo_room"
    by (simp add: room_view_install_room wf_NewStore id preserve_def)
  then obtain p where "Room ?s 1 = Some p" by (auto simp: room_view_def split: Option.bind_splits)
  ultimately show ?thesis using reload_races_with_tick [OF _ _ id, of ?s p] by blast
qed

end
