(* ===== verification/Service.thy ===== *)
theory Service
  imports AppDB
begin

text \<open>
  The state of the running device service: the cache and its database (theory AppDB), the rows it has
  written to \<open>metricsdb\<close> (package \<open>device-service/internal/metricsdb\<close>), the commands the MQTT broker has
  taken from it, and the scheduler's goroutines. Calls of the broker and of \<open>metricsdb\<close> fail as the
  list \<open>w_faults\<close> says, like any other statement.
\<close>

section \<open>State\<close>

record SensorReading =
  sr_Time :: instant
  sr_SensorID :: uuid
  sr_RoomID :: "uuid option"
  sr_Value :: float64
  sr_RawValue :: float64

text \<open>A message the broker accepted: topic and payload. The room is kept for the statements only.\<close>

record Published =
  pu_room :: uuid
  pu_topic :: string
  pu_payload :: CmdPayload

text \<open>
  A goroutine of the scheduler, by the room context it runs under (a context is a number, its
  \<open>CancelFunc\<close> adds the number to \<open>sd_cancelled\<close>), its room, its loop and its initial delay.
\<close>

datatype loop_kind = ControlLoop | CacheRefresh

record Goroutine =
  gr_ctx :: nat
  gr_room :: uuid
  gr_kind :: loop_kind
  gr_stagger :: duration

record svc_world = dev_world +
  mw_readings :: "SensorReading list"
  mw_logs :: "ControlLogEntry list"
  mq_published :: "Published list"
  sd_activeRooms :: "uuid \<rightharpoonup> nat"
  sd_cancelled :: "nat list"
  sd_goroutines :: "Goroutine list"
  sd_next :: nat

definition init_svc :: "appdb \<Rightarrow> svc_world" where
  "init_svc db = \<lparr>w_db = db, w_faults = [], dw_store = NewStore, mw_readings = [], mw_logs = [],
     mq_published = [], sd_activeRooms = Map.empty, sd_cancelled = [], sd_goroutines = [], sd_next = 0\<rparr>"

section \<open>Calls that may fail\<close>

text \<open>A call outside the program that either happens or fails without effect.\<close>

definition ext_call :: "('z svc_world_scheme \<Rightarrow> 'z svc_world_scheme) \<Rightarrow> ('z svc_world_scheme, unit) act" where
  "ext_call f = bindE (query (\<lambda>_. ())) (\<lambda>_. modifyE f)"

text \<open>\<open>if err := m; err != nil { log.Printf(...) }\<close>: the outcome, never an error.\<close>

definition attempt :: "('w, 'a) act \<Rightarrow> ('w, bool) act" where
  "attempt m w = (case m w of (Inl _, w') \<Rightarrow> (Inr False, w') | (Inr _, w') \<Rightarrow> (Inr True, w'))"

text \<open>\<open>SendBatch\<close> runs the inserts of one message as one implicit transaction.\<close>

definition WriteSensorReadings :: "SensorReading list \<Rightarrow> ('z svc_world_scheme, unit) act" where
  "WriteSensorReadings readings =
     (if readings = [] then returnE ()
      else ext_call (\<lambda>w. w\<lparr>mw_readings := mw_readings w @ readings\<rparr>))"

text \<open>The CHECKs of \<open>room_control_logs\<close>; a NULL passes.\<close>

definition log_row_ok :: "ControlLogEntry \<Rightarrow> bool" where
  "log_row_ok e \<longleftrightarrow> cle_Mode e \<in> {''OFF'', ''AUTO''}
     \<and> cle_ControlSource e \<in> {''manual_override'', ''schedule'', ''grace_period'', ''none''}
     \<and> cle_HeaterCmd e \<in> {None, Some 0, Some 1} \<and> cle_HumidifierCmd e \<in> {None, Some 0, Some 1}"

definition WriteControlLogEntry :: "ControlLogEntry \<Rightarrow> ('z svc_world_scheme, unit) act" where
  "WriteControlLogEntry entry =
     (if log_row_ok entry then ext_call (\<lambda>w. w\<lparr>mw_logs := mw_logs w @ [entry]\<rparr>) else throwE Fault)"

definition Publish :: "uuid \<Rightarrow> string \<Rightarrow> CmdPayload \<Rightarrow> ('z svc_world_scheme, unit) act" where
  "Publish room topic payload =
     ext_call (\<lambda>w. w\<lparr>mq_published := mq_published w
        @ [\<lparr>pu_room = room, pu_topic = topic, pu_payload = payload\<rparr>]\<rparr>)"

lemma ext_call_cases:
  obtains (fail) fs where "ext_call f w = (Inl Fault, w\<lparr>w_faults := fs\<rparr>)"
  | (happens) fs where "ext_call f w = (Inr (), f (w\<lparr>w_faults := fs\<rparr>))"
proof (cases "w_faults w")
  case Nil
  then have "ext_call f w = (Inr (), f w)" by (simp add: ext_call_def bindE_run query_def)
  moreover have "w = w\<lparr>w_faults := w_faults w\<rparr>" by simp
  ultimately show thesis using happens by metis
next
  case (Cons b bs)
  then show thesis using fail [of bs] happens [of bs]
    by (cases b) (simp_all add: ext_call_def bindE_run query_def)
qed

lemma ext_call_ok: "w_faults w = [] \<Longrightarrow> ext_call f w = (Inr (), f w)"
  by (simp add: ext_call_def bindE_run query_ok)

lemma attempt_never_fails [simp]: "attempt m w \<noteq> (Inl e, w')"
  by (simp add: attempt_def split: prod.split sum.split)

lemma attempt_state [simp]: "snd (attempt m w) = snd (m w)"
  by (simp add: attempt_def split: prod.split sum.split)

lemma attempt_ok: "m w = (Inr x, w') \<Longrightarrow> attempt m w = (Inr True, w')"
  by (simp add: attempt_def)

lemma frames_attempt [frame_rules]: "frames obs m \<Longrightarrow> frames obs (attempt m)"
  by (simp add: frames_def)

lemma frames_ext_call:
  assumes "frames obs (query (\<lambda>_. ()))" and "\<And>w. obs (f w) = obs w"
  shows "frames obs (ext_call f)"
  unfolding ext_call_def using assms by (intro frame_rules) (auto simp: frames_def)

lemma frames_service_query [frame_rules]:
  "frames mw_readings (query f)" "frames mw_logs (query f)" "frames mq_published (query f)"
  "frames sd_activeRooms (query f)" "frames sd_cancelled (query f)" "frames sd_goroutines (query f)"
  "frames sd_next (query f)"
  by (simp_all add: frames_def query_def split: list.split)

lemma frames_store_writes [frame_rules]:
  "frames dw_store (WriteSensorReadings rs)" "frames dw_store (WriteControlLogEntry e)"
  "frames dw_store (Publish r t p)"
  unfolding WriteSensorReadings_def WriteControlLogEntry_def Publish_def
  by (auto intro!: frame_rules frames_ext_call)

lemma frames_db_writes [frame_rules]:
  "frames w_db (WriteSensorReadings rs)" "frames w_db (WriteControlLogEntry e)"
  "frames w_db (Publish r t p)"
  unfolding WriteSensorReadings_def WriteControlLogEntry_def Publish_def
  by (auto intro!: frame_rules frames_ext_call)

lemma frames_published_writes [frame_rules]:
  "frames mq_published (WriteSensorReadings rs)" "frames mq_published (WriteControlLogEntry e)"
  unfolding WriteSensorReadings_def WriteControlLogEntry_def
  by (auto intro!: frame_rules frames_ext_call)

end
