(* ===== verification/Ingestion.thy ===== *)
theory Ingestion
  imports Service
begin

text \<open>
  Package \<open>device-service/internal/ingestion\<close> and the telemetry handler of
  \<open>device-service/internal/mqtt/source.go\<close>: a telemetry message is resolved against the device cache,
  appended to the room's readings, trimmed, and written to \<open>metricsdb\<close>.
\<close>

section \<open>Messages\<close>

record Reading =
  rd_Type :: string
  rd_Value :: float64

record TelemetryMessage =
  tm_HwID :: string
  tm_RoomID :: "uuid option"
  tm_Readings :: "Reading list"
  tm_Timestamp :: instant

record readingPayload =
  rp_Type :: string
  rp_Value :: float64

record telemetryPayload =
  tp_HwID :: string
  tp_Readings :: "readingPayload list"

section \<open>Processing\<close>

definition trimStale :: "TimestampedReading list \<Rightarrow> instant \<Rightarrow> duration \<Rightarrow> TimestampedReading list" where
  "trimStale readings now threshold =
     (let cutoff = Add now (wrap64 (- threshold))
      in dropWhile (\<lambda>r. Before (tr_Timestamp r) cutoff) readings)"

text \<open>The readings with a sensor entry, with that entry.\<close>

definition resolve_readings :: "DeviceCache \<Rightarrow> Reading list \<Rightarrow> (SensorEntry \<times> Reading) list" where
  "resolve_readings dc rs = concat (map (\<lambda>r. case dc_Sensors dc (rd_Type r) of
     None \<Rightarrow> [] | Some entry \<Rightarrow> [(entry, r)]) rs)"

definition readings_at :: "ref \<Rightarrow> string \<Rightarrow> Store \<Rightarrow> TimestampedReading list" where
  "readings_at p typ s = (case st_objs s p of None \<Rightarrow> []
     | Some rc \<Rightarrow> slice_at (st_readings s (rc_LatestReadings rc)) typ)"

definition record_reading :: "ref \<Rightarrow> instant \<Rightarrow> duration \<Rightarrow> Reading \<Rightarrow> Store \<Rightarrow> Store" where
  "record_reading p now stale r s =
     set_readings p (rd_Type r)
       (trimStale (readings_at p (rd_Type r) s @ [\<lparr>tr_Value = rd_Value r, tr_Timestamp = now\<rparr>]) now stale) s"

definition record_readings :: "ref \<Rightarrow> instant \<Rightarrow> duration \<Rightarrow> Reading list \<Rightarrow> Store \<Rightarrow> Store" where
  "record_readings p now stale rs s = foldl (\<lambda>s r. record_reading p now stale r s) s rs"

definition reading_rows :: "uuid \<Rightarrow> instant \<Rightarrow> (SensorEntry \<times> Reading) list \<Rightarrow> SensorReading list" where
  "reading_rows roomID now resolved = map (\<lambda>(entry, r).
     \<lparr>sr_Time = now, sr_SensorID = se_SensorID entry, sr_RoomID = Some roomID,
      sr_Value = rd_Value r, sr_RawValue = rd_Value r\<rparr>) resolved"

definition Process :: "duration \<Rightarrow> TelemetryMessage \<Rightarrow> ('z svc_world_scheme, unit) act" where
  "Process stale msg w =
     (case Device (dw_store w) (tm_HwID msg) of
        None \<Rightarrow> (Inr (), w)
      | Some dc \<Rightarrow> (case GetRoomID dc of
          None \<Rightarrow> (Inr (), w)
        | Some roomID \<Rightarrow>
            if \<not> OwnsRoom (dw_store w) roomID then (Inr (), w)
            else (case Room (dw_store w) roomID of
              None \<Rightarrow> (Inr (), w)
            | Some p \<Rightarrow>
                (let resolved = resolve_readings dc (tm_Readings msg)
                 in if resolved = [] then (Inr (), w)
                    else bindE (on_store (record_readings p (tm_Timestamp msg) stale (map snd resolved)))
                      (\<lambda>_. WriteSensorReadings (reading_rows roomID (tm_Timestamp msg) resolved)) w))))"

text \<open>
  The MQTT handler: the payload is the argument as \<open>json.Unmarshal\<close> decodes it (\<open>None\<close> when it does
  not), the time of arrival is the message's timestamp, and an error of \<open>Process\<close> is only logged.
\<close>

definition on_telemetry ::
    "duration \<Rightarrow> instant \<Rightarrow> telemetryPayload option \<Rightarrow> ('z svc_world_scheme, bool) act" where
  "on_telemetry stale now payload = (case payload of
     None \<Rightarrow> returnE False
   | Some p \<Rightarrow>
       if tp_HwID p = [] then returnE False
       else attempt (Process stale \<lparr>tm_HwID = tp_HwID p, tm_RoomID = None,
              tm_Readings = map (\<lambda>r. \<lparr>rd_Type = rp_Type r, rd_Value = rp_Value r\<rparr>) (tp_Readings p),
              tm_Timestamp = now\<rparr>))"

section \<open>Trimming\<close>

definition sane_threshold :: "duration \<Rightarrow> bool" where
  "sane_threshold th \<longleftrightarrow> 0 \<le> th \<and> th < maxDuration"

lemma trimStale_eq:
  "sane_threshold th \<Longrightarrow> trimStale rs now th = dropWhile (\<lambda>r. tr_Timestamp r < now - th) rs"
  by (simp add: trimStale_def Add_def Before_def sane_threshold_def maxDuration_def wrap64_id in_int64_def)

text \<open>What trimming at one instant removes is stale at every later instant.\<close>

lemma fresh_dropWhile:
  assumes "sane_threshold th" and "now \<le> later"
  shows "filter (fresh later th) (dropWhile (\<lambda>r. tr_Timestamp r < now - th) rs) = filter (fresh later th) rs"
proof (induction rs)
  case (Cons r rs)
  have "\<not> fresh later th r" if "tr_Timestamp r < now - th"
    using that assms Sub_le_iff [of th later "tr_Timestamp r"]
    by (simp add: fresh_def sane_threshold_def minDuration_def)
  with Cons show ?case by simp
qed simp

lemma freshAverage_cong_filter:
  "filter (fresh now th) xs = filter (fresh now th) ys \<Longrightarrow> freshAverage xs now th = freshAverage ys now th"
  by (metis freshAverage_filter)

lemma filter_fresh_trimStale:
  "sane_threshold th \<Longrightarrow> now \<le> later \<Longrightarrow>
     filter (fresh later th) (trimStale rs now th) = filter (fresh later th) rs"
  by (simp add: trimStale_eq fresh_dropWhile)

lemma sorted_dropWhile_all:
  assumes "sorted (map tr_Timestamp rs)"
  shows "\<forall>r \<in> set (dropWhile (\<lambda>r. tr_Timestamp r < c) rs). c \<le> tr_Timestamp r"
  using assms by (induction rs) auto

section \<open>Recording\<close>

lemma record_reading_view:
  assumes "Room s r = Some p" and "view s p = Some rv"
  shows "room_view (record_reading p now th rd s) r = Some (rv\<lparr>rc_LatestReadings := (rc_LatestReadings rv)
     (rd_Type rd \<mapsto> trimStale (slice_at (rc_LatestReadings rv) (rd_Type rd)
        @ [\<lparr>tr_Value = rd_Value rd, tr_Timestamp = now\<rparr>]) now th)\<rparr>)"
proof -
  from assms(2) have "readings_at p (rd_Type rd) s = slice_at (rc_LatestReadings rv) (rd_Type rd)"
    by (auto simp: view_def view_obj_def readings_at_def)
  with assms show ?thesis by (simp add: record_reading_def room_view_set_readings_same)
qed

lemma set_readings_tables [simp]:
  "Room (set_readings p t rs s) = Room s" "Device (set_readings p t rs s) = Device s"
  "st_objs (set_readings p t rs s) = st_objs s"
  by (auto simp: set_readings_def Room_def Device_def fun_eq_iff split: option.split)

lemma record_reading_tables [simp]:
  "Room (record_reading p now th rd s) = Room s" "Device (record_reading p now th rd s) = Device s"
  "st_objs (record_reading p now th rd s) = st_objs s"
  by (simp_all add: record_reading_def)

lemma record_readings_tables [simp]:
  "Room (record_readings p now th rs s) = Room s" "Device (record_readings p now th rs s) = Device s"
  "st_objs (record_readings p now th rs s) = st_objs s"
  by (induction rs arbitrary: s) (simp_all add: record_readings_def)

lemma wf_record_readings: "wf_store s \<Longrightarrow> wf_store (record_readings p now th rs s)"
  by (induction rs arbitrary: s) (simp_all add: record_readings_def record_reading_def wf_set_readings)

lemma record_readings_other:
  assumes "wf_store s" and "st_objs s p = Some rc" and "rc_RoomID rc \<noteq> r"
  shows "room_view (record_readings p now th rs s) r = room_view s r"
  using assms
proof (induction rs arbitrary: s)
  case (Cons x rs)
  from Cons.IH [of "record_reading p now th x s"] Cons.prems
  have "room_view (record_readings p now th rs (record_reading p now th x s)) r
      = room_view (record_reading p now th x s) r"
    by (simp add: record_reading_def wf_set_readings)
  also have "\<dots> = room_view s r"
    using Cons.prems by (simp add: record_reading_def room_view_set_readings_other)
  finally show ?case by (simp add: record_readings_def)
qed (simp add: record_readings_def)

text \<open>
  The recorded room differs from the old one in its readings only, and for every later control tick
  its readings of a type are as good as all readings ever accepted.
\<close>

lemma record_readings_view:
  assumes "Room s r = Some p" and "view s p = Some rv" and "sane_threshold th"
  shows "\<exists>lr. room_view (record_readings p now th rs s) r = Some (rv\<lparr>rc_LatestReadings := lr\<rparr>)
     \<and> (\<forall>ty later. now \<le> later \<longrightarrow> filter (fresh later th) (slice_at lr ty)
          = filter (fresh later th) (slice_at (rc_LatestReadings rv) ty
              @ map (\<lambda>x. \<lparr>tr_Value = rd_Value x, tr_Timestamp = now\<rparr>) (filter (\<lambda>x. rd_Type x = ty) rs)))"
  using assms(1,2)
proof (induction rs arbitrary: s rv)
  case Nil
  then show ?case by (intro exI [of _ "rc_LatestReadings rv"]) (simp add: record_readings_def room_view_def)
next
  case (Cons x rs)
  let ?s = "record_reading p now th x s"
  let ?lr = "(rc_LatestReadings rv) (rd_Type x \<mapsto> trimStale (slice_at (rc_LatestReadings rv) (rd_Type x)
        @ [\<lparr>tr_Value = rd_Value x, tr_Timestamp = now\<rparr>]) now th)"
  have v: "Room ?s r = Some p" "view ?s p = Some (rv\<lparr>rc_LatestReadings := ?lr\<rparr>)"
    using Cons.prems record_reading_view [OF Cons.prems, of now th x] by (simp_all add: room_view_def)
  have sl: "slice_at ?lr ty = (if ty = rd_Type x then trimStale (slice_at (rc_LatestReadings rv) ty
        @ [\<lparr>tr_Value = rd_Value x, tr_Timestamp = now\<rparr>]) now th else slice_at (rc_LatestReadings rv) ty)" for ty
    by (simp add: slice_at_def)
  from Cons.IH [OF v] obtain lr where
    1: "room_view (record_readings p now th rs ?s) r = Some (rv\<lparr>rc_LatestReadings := lr\<rparr>)"
    and 2: "\<forall>ty later. now \<le> later \<longrightarrow> filter (fresh later th) (slice_at lr ty)
          = filter (fresh later th) (slice_at ?lr ty
              @ map (\<lambda>x. \<lparr>tr_Value = rd_Value x, tr_Timestamp = now\<rparr>) (filter (\<lambda>x. rd_Type x = ty) rs))"
    by (auto simp del: fun_upd_apply filter_append)
  have "filter (fresh later th) (slice_at lr ty) = filter (fresh later th) (slice_at (rc_LatestReadings rv) ty
      @ map (\<lambda>x. \<lparr>tr_Value = rd_Value x, tr_Timestamp = now\<rparr>) (filter (\<lambda>x. rd_Type x = ty) (x # rs)))"
    if "now \<le> later" for ty later
    using 2 that by (cases "ty = rd_Type x")
      (auto simp: sl filter_fresh_trimStale [OF assms(3) that] simp del: fun_upd_apply)
  with 1 show ?case by (auto simp: record_readings_def)
qed

section \<open>What a message does\<close>

definition accepted :: "DeviceCache \<Rightarrow> TelemetryMessage \<Rightarrow> (SensorEntry \<times> Reading) list" where
  "accepted dc msg = resolve_readings dc (tm_Readings msg)"

text \<open>The device and room a message is for, when the service takes it.\<close>

definition target :: "Store \<Rightarrow> TelemetryMessage \<Rightarrow> (DeviceCache \<times> uuid \<times> ref) option" where
  "target s msg = Option.bind (Device s (tm_HwID msg)) (\<lambda>dc. Option.bind (GetRoomID dc) (\<lambda>r.
     map_option (\<lambda>p. (dc, r, p)) (Room s r)))"

lemma Process_no_target: "target (dw_store w) msg = None \<Longrightarrow> Process stale msg w = (Inr (), w)"
  by (auto simp: target_def Process_def split: option.splits)

lemma Process_target:
  "target (dw_store w) msg = Some (dc, r, p) \<Longrightarrow> Process stale msg w =
     (if accepted dc msg = [] then (Inr (), w)
      else WriteSensorReadings (reading_rows r (tm_Timestamp msg) (accepted dc msg))
        (w\<lparr>dw_store := record_readings p (tm_Timestamp msg) stale (map snd (accepted dc msg)) (dw_store w)\<rparr>))"
  by (auto simp: target_def Process_def accepted_def OwnsRoom_def Let_def bindE_run bind_eq_Some_conv
      split: option.splits)

lemma target_room: "target s msg = Some (dc, r, p) \<Longrightarrow> Room s r = Some p"
  by (auto simp: target_def bind_eq_Some_conv)

lemma Process_store:
  assumes "target (dw_store w) msg = Some (dc, r, p)"
  shows "dw_store (snd (Process stale msg w))
     = record_readings p (tm_Timestamp msg) stale (map snd (accepted dc msg)) (dw_store w)"
proof (cases "accepted dc msg = []")
  case True
  with assms show ?thesis by (simp add: Process_target record_readings_def)
next
  case False
  let ?w = "w\<lparr>dw_store := record_readings p (tm_Timestamp msg) stale (map snd (accepted dc msg)) (dw_store w)\<rparr>"
  have "dw_store (snd (WriteSensorReadings (reading_rows r (tm_Timestamp msg) (accepted dc msg)) ?w)) = dw_store ?w"
    using frames_store_writes(1) unfolding frames_def by blast
  with False show ?thesis by (simp add: Process_target [OF assms])
qed

section \<open>Properties\<close>

definition demo_device :: DeviceCache where
  "demo_device = \<lparr>dc_DeviceID = 20, dc_HwID = ''hw-1'', dc_RoomID = Some 1,
     dc_Sensors = [''temperature'' \<mapsto> \<lparr>se_SensorID = 30, se_MeasurementType = ''temperature''\<rparr>],
     dc_Actuators = Map.empty\<rparr>"

definition demo_svc :: svc_world where
  "demo_svc = (init_svc demo_db)\<lparr>dw_store := AddDevice ''hw-1'' demo_device (install_room 1 demo_room NewStore)\<rparr>"

definition demo_msg :: TelemetryMessage where
  "demo_msg = \<lparr>tm_HwID = ''hw-1'', tm_RoomID = None,
     tm_Readings = [\<lparr>rd_Type = ''temperature'', rd_Value = 19\<rparr>, \<lparr>rd_Type = ''co2'', rd_Value = 400\<rparr>],
     tm_Timestamp = 500\<rparr>"

lemma demo_room_ID: "rc_RoomID demo_room = 1"
  by (simp add: demo_room_def)

lemma demo_svc_facts:
  "wf_store (dw_store demo_svc)" "room_view (dw_store demo_svc) 1 = Some demo_room"
  "Device (dw_store demo_svc) ''hw-1'' = Some demo_device" "w_faults demo_svc = []"
  "mw_readings demo_svc = []"
  by (simp_all add: demo_svc_def init_svc_def wf_AddDevice wf_install_room wf_NewStore demo_room_ID
      devices_tab.get_put room_view_install_room preserve_def)

lemma demo_target: "\<exists>p. target (dw_store demo_svc) demo_msg = Some (demo_device, 1, p)"
proof -
  from demo_svc_facts(2) obtain p where "Room (dw_store demo_svc) 1 = Some p"
    by (auto simp: room_view_def bind_eq_Some_conv)
  with demo_svc_facts(3) show ?thesis
    by (simp add: target_def demo_msg_def GetRoomID_def) (simp add: demo_device_def)
qed

lemma demo_accepted: "accepted demo_device demo_msg =
   [(\<lparr>se_SensorID = 30, se_MeasurementType = ''temperature''\<rparr>, \<lparr>rd_Type = ''temperature'', rd_Value = 19\<rparr>)]"
  by (simp add: accepted_def resolve_readings_def demo_msg_def demo_device_def)



text \<open>A message is stored exactly when it is accepted and the insert succeeds: one row per reading the
  device has a sensor for, carrying the sensor, the room of that moment and the arrival time; a
  message without a target device and room changes nothing at all, and a failed batch stores no row.\<close>

theorem ingestion_rows:
  "(target (dw_store w) msg = None \<longrightarrow> Process stale msg w = (Inr (), w))
   \<and> (\<forall>dc r p w'. target (dw_store w) msg = Some (dc, r, p) \<longrightarrow> Process stale msg w = (Inr (), w') \<longrightarrow>
        mw_readings w' = mw_readings w @ reading_rows r (tm_Timestamp msg) (accepted dc msg))
   \<and> (\<forall>e w'. Process stale msg w = (Inl e, w') \<longrightarrow> mw_readings w' = mw_readings w \<and> e = Fault)"
proof (intro conjI allI impI)
  show "target (dw_store w) msg = None \<Longrightarrow> Process stale msg w = (Inr (), w)"
    by (rule Process_no_target)
next
  fix dc r p w'
  assume t: "target (dw_store w) msg = Some (dc, r, p)" and run: "Process stale msg w = (Inr (), w')"
  let ?rows = "reading_rows r (tm_Timestamp msg) (accepted dc msg)"
  let ?w = "w\<lparr>dw_store := record_readings p (tm_Timestamp msg) stale (map snd (accepted dc msg)) (dw_store w)\<rparr>"
  show "mw_readings w' = mw_readings w @ ?rows"
  proof (cases "accepted dc msg = []")
    case True
    with run t show ?thesis by (simp add: Process_target reading_rows_def)
  next
    case False
    then have "?rows \<noteq> []" by (simp add: reading_rows_def)
    with run t False show ?thesis
      by (cases rule: ext_call_cases [of "\<lambda>w. w\<lparr>mw_readings := mw_readings w @ ?rows\<rparr>" ?w])
        (auto simp: Process_target WriteSensorReadings_def)
  qed
next
  fix e w'
  assume run: "Process stale msg w = (Inl e, w')"
  then obtain dc r p where t: "target (dw_store w) msg = Some (dc, r, p)"
    by (cases "target (dw_store w) msg") (auto simp: Process_no_target)
  let ?rows = "reading_rows r (tm_Timestamp msg) (accepted dc msg)"
  let ?w = "w\<lparr>dw_store := record_readings p (tm_Timestamp msg) stale (map snd (accepted dc msg)) (dw_store w)\<rparr>"
  from run t have "?rows \<noteq> []" by (auto simp: Process_target reading_rows_def split: if_splits)
  with run t have "mw_readings w' = mw_readings w \<and> e = Fault"
    by (cases rule: ext_call_cases [of "\<lambda>w. w\<lparr>mw_readings := mw_readings w @ ?rows\<rparr>" ?w])
      (auto simp: Process_target WriteSensorReadings_def split: if_splits)
  then show "mw_readings w' = mw_readings w" and "e = Fault" by auto
qed

theorem ingestion_rows_witness:
  "mw_readings (snd (Process 1000 demo_msg demo_svc)) = [\<lparr>sr_Time = 500, sr_SensorID = 30, sr_RoomID = Some 1,
     sr_Value = 19, sr_RawValue = 19\<rparr>]"
proof -
  obtain p where t: "target (dw_store demo_svc) demo_msg = Some (demo_device, 1, p)"
    using demo_target by blast
  have "\<exists>w'. Process 1000 demo_msg demo_svc = (Inr (), w')"
    by (simp add: Process_target [OF t] WriteSensorReadings_def ext_call_ok demo_svc_facts)
  then obtain w' where run: "Process 1000 demo_msg demo_svc = (Inr (), w')" by blast
  from ingestion_rows [THEN conjunct2, THEN conjunct1, rule_format, OF t run] run show ?thesis
    by (simp add: reading_rows_def demo_accepted demo_svc_facts) (simp add: demo_msg_def)
qed

text \<open>Memory stays bounded by the stale window: when a room's readings of a type are in chronological
  order and a message arrives no earlier than the last of them, then after it was recorded they
  still are, and none is older than the stale threshold before the message's arrival.\<close>

theorem trimmed_readings_bounded:
  assumes "sorted (map tr_Timestamp rs)" and "\<forall>r \<in> set rs. tr_Timestamp r \<le> now" and "sane_threshold th"
  shows "sorted (map tr_Timestamp (trimStale (rs @ [\<lparr>tr_Value = v, tr_Timestamp = now\<rparr>]) now th))
     \<and> (\<forall>r \<in> set (trimStale (rs @ [\<lparr>tr_Value = v, tr_Timestamp = now\<rparr>]) now th).
          now - th \<le> tr_Timestamp r \<and> tr_Timestamp r \<le> now \<and> fresh now th r)
     \<and> \<lparr>tr_Value = v, tr_Timestamp = now\<rparr> \<in> set (trimStale (rs @ [\<lparr>tr_Value = v, tr_Timestamp = now\<rparr>]) now th)"
proof -
  let ?rs = "rs @ [\<lparr>tr_Value = v, tr_Timestamp = now\<rparr>]"
  let ?ts = "trimStale ?rs now th"
  have eq: "?ts = dropWhile (\<lambda>r. tr_Timestamp r < now - th) ?rs" by (rule trimStale_eq [OF assms(3)])
  have s: "sorted (map tr_Timestamp ?rs)" using assms(1,2) by (simp add: sorted_append)
  have "sorted (map tr_Timestamp ?ts)"
    unfolding eq by (metis dropWhile_eq_drop sorted_wrt_drop drop_map s)
  moreover have "now - th \<le> tr_Timestamp r" if "r \<in> set ?ts" for r
    using sorted_dropWhile_all [OF s] that unfolding eq by blast
  moreover have "tr_Timestamp r \<le> now" if "r \<in> set ?ts" for r
    using that assms(2) unfolding eq by (auto dest!: set_dropWhileD)
  moreover have "fresh now th r" if "now - th \<le> tr_Timestamp r" for r
    using that assms(3) Sub_le_iff [of th now "tr_Timestamp r"]
    by (simp add: fresh_def sane_threshold_def minDuration_def)
  moreover have "\<lparr>tr_Value = v, tr_Timestamp = now\<rparr> \<in> set ?ts"
    unfolding eq using assms(3) by (induction rs) (auto simp: sane_threshold_def)
  ultimately show ?thesis by blast
qed

theorem trimmed_readings_bounded_witness:
  "trimStale [\<lparr>tr_Value = 1, tr_Timestamp = 5\<rparr>, \<lparr>tr_Value = 2, tr_Timestamp = 95\<rparr>, \<lparr>tr_Value = 3, tr_Timestamp = 100\<rparr>] 100 20
     = [\<lparr>tr_Value = 2, tr_Timestamp = 95\<rparr>, \<lparr>tr_Value = 3, tr_Timestamp = 100\<rparr>]
   \<and> sorted (map tr_Timestamp (trimStale [\<lparr>tr_Value = 1, tr_Timestamp = 5\<rparr>, \<lparr>tr_Value = 2, tr_Timestamp = 95\<rparr>,
        \<lparr>tr_Value = 3, tr_Timestamp = 100\<rparr>] 100 20))"
proof -
  have th: "sane_threshold 20" by (simp add: sane_threshold_def maxDuration_def)
  from trimmed_readings_bounded [of "[\<lparr>tr_Value = 1, tr_Timestamp = 5\<rparr>, \<lparr>tr_Value = 2, tr_Timestamp = 95\<rparr>]" 100 20 3]
    th trimStale_eq [OF th]
  show ?thesis by simp
qed

end
