(* ===== verification/Scheduler.thy ===== *)
theory Scheduler
  imports Ingestion "HOL-Library.Sublist"
begin

text \<open>
  Package \<open>device-service/internal/scheduler\<close>: which goroutines run for which room, one control tick
  with its publishes, state updates and log row, and the periodic cache refresh. A tick is one
  atomic action here: the calls of the broker may fail one by one, but no other goroutine runs
  between them (the one interleaving the code itself allows for, a reload during a tick, is treated
  in AppDB).
\<close>

section \<open>Goroutines of the rooms\<close>

record sched_config =
  cfg_StaleThreshold :: duration
  cfg_TickInterval :: duration
  cfg_CacheRefreshInterval :: duration

definition startRoom :: "uuid \<Rightarrow> duration \<Rightarrow> duration \<Rightarrow> 'z svc_world_scheme \<Rightarrow> 'z svc_world_scheme" where
  "startRoom roomID controlStagger refreshStagger w =
     (let ctx = sd_next w in
      w\<lparr>sd_next := Suc ctx,
        sd_cancelled := (case sd_activeRooms w roomID of None \<Rightarrow> sd_cancelled w
           | Some existing \<Rightarrow> existing # sd_cancelled w),
        sd_activeRooms := (sd_activeRooms w)(roomID \<mapsto> ctx),
        sd_goroutines := sd_goroutines w
          @ [\<lparr>gr_ctx = ctx, gr_room = roomID, gr_kind = ControlLoop, gr_stagger = controlStagger\<rparr>,
             \<lparr>gr_ctx = ctx, gr_room = roomID, gr_kind = CacheRefresh, gr_stagger = refreshStagger\<rparr>]\<rparr>)"

definition sched_AddRoom :: "uuid \<Rightarrow> 'z svc_world_scheme \<Rightarrow> 'z svc_world_scheme" where
  "sched_AddRoom roomID = startRoom roomID 0 0"

definition sched_RemoveRoom :: "uuid \<Rightarrow> 'z svc_world_scheme \<Rightarrow> 'z svc_world_scheme" where
  "sched_RemoveRoom roomID w = (case sd_activeRooms w roomID of
     None \<Rightarrow> w
   | Some ctx \<Rightarrow> w\<lparr>sd_activeRooms := (sd_activeRooms w)(roomID := None),
                   sd_cancelled := ctx # sd_cancelled w\<rparr>)"

text \<open>\<open>time.Duration(i) * interval / time.Duration(n)\<close>, zero for a single room.\<close>

definition stagger :: "duration \<Rightarrow> nat \<Rightarrow> nat \<Rightarrow> duration" where
  "stagger interval n i = (if 1 < n then quot (wrap64 (int i * interval)) (int n) else 0)"

text \<open>\<open>Start\<close> ranges over \<open>store.RoomIDs()\<close>; the enumeration it gets is an argument.\<close>

definition sched_Start :: "sched_config \<Rightarrow> uuid list \<Rightarrow> 'z svc_world_scheme \<Rightarrow> 'z svc_world_scheme" where
  "sched_Start cfg roomIDs w =
     fold (\<lambda>(i, roomID). startRoom roomID (stagger (cfg_TickInterval cfg) (length roomIDs) i)
             (stagger (cfg_CacheRefreshInterval cfg) (length roomIDs) i))
       (List.enumerate 0 roomIDs) w"

section \<open>Ticks and refreshes\<close>

definition publish_command :: "uuid \<Rightarrow> ref \<Rightarrow> ActuatorCommand \<Rightarrow> ('z svc_world_scheme, unit) act" where
  "publish_command roomID p cmd =
     bindE (attempt (Publish roomID (''devices/'' @ ac_HwID cmd @ ''/cmd'') (MarshalPayload cmd)))
       (\<lambda>ok. if ok then on_store (set_actuator_state p (ac_ActuatorType cmd) (ac_State cmd))
             else returnE ())"

definition tick ::
    "duration \<Rightarrow> string list \<Rightarrow> uuid \<Rightarrow> instant \<Rightarrow> ('z svc_world_scheme, unit) act" where
  "tick stale order roomID now w =
     (case Room (dw_store w) roomID of
        None \<Rightarrow> (Inr (), w)
      | Some p \<Rightarrow> (case view (dw_store w) p of
          None \<Rightarrow> (Inr (), w)
        | Some rc \<Rightarrow>
            (let result = Evaluate order rc now stale
             in bindE (forE (publish_command roomID p) (tk_Commands result)) (\<lambda>_.
                bindE (case tk_LastActivePeriod result of
                         None \<Rightarrow> returnE () | Some sp \<Rightarrow> on_store (set_last_period p sp)) (\<lambda>_.
                bindE (attempt (WriteControlLogEntry (tk_LogEntry result))) (\<lambda>_. returnE ()))) w)))"

text \<open>One round of \<open>runCacheRefresh\<close>: an error is only logged.\<close>

definition cache_refresh :: "(string \<Rightarrow> location option) \<Rightarrow> uuid \<Rightarrow> ('z svc_world_scheme, bool) act" where
  "cache_refresh tz roomID = attempt (ReloadRoom tz roomID)"

section \<open>The goroutine invariant\<close>

text \<open>
  Contexts are allocated once; a running goroutine is that of the context its room is registered
  with, and every registered room has exactly its two goroutines running.
\<close>

definition running :: "'z svc_world_scheme \<Rightarrow> Goroutine list" where
  "running w = filter (\<lambda>g. gr_ctx g \<notin> set (sd_cancelled w)) (sd_goroutines w)"

definition sched_ok :: "'z svc_world_scheme \<Rightarrow> bool" where
  "sched_ok w \<longleftrightarrow>
     (\<forall>g \<in> set (sd_goroutines w). gr_ctx g < sd_next w)
   \<and> (\<forall>c \<in> set (sd_cancelled w). c < sd_next w)
   \<and> (\<forall>r c. sd_activeRooms w r = Some c \<longrightarrow> c < sd_next w \<and> c \<notin> set (sd_cancelled w)
        \<and> map (\<lambda>g. (gr_room g, gr_kind g)) (filter (\<lambda>g. gr_ctx g = c) (sd_goroutines w))
            = [(r, ControlLoop), (r, CacheRefresh)])
   \<and> (\<forall>g \<in> set (running w). sd_activeRooms w (gr_room g) = Some (gr_ctx g))"

lemma sched_ok_init: "sd_goroutines w = [] \<Longrightarrow> sd_activeRooms w = Map.empty \<Longrightarrow> sd_cancelled w = [] \<Longrightarrow> sched_ok w"
  by (simp add: sched_ok_def running_def)

lemma running_iff: "g \<in> set (running w) \<longleftrightarrow> g \<in> set (sd_goroutines w) \<and> gr_ctx g \<notin> set (sd_cancelled w)"
  by (auto simp: running_def)

lemma sched_okD:
  assumes "sched_ok w"
  shows "g \<in> set (sd_goroutines w) \<Longrightarrow> gr_ctx g < sd_next w"
    and "c \<in> set (sd_cancelled w) \<Longrightarrow> c < sd_next w"
    and "sd_activeRooms w r = Some c \<Longrightarrow> c < sd_next w"
    and "sd_activeRooms w r = Some c \<Longrightarrow> c \<notin> set (sd_cancelled w)"
    and "sd_activeRooms w r = Some c \<Longrightarrow> map (\<lambda>g. (gr_room g, gr_kind g))
          (filter (\<lambda>g. gr_ctx g = c) (sd_goroutines w)) = [(r, ControlLoop), (r, CacheRefresh)]"
    and "g \<in> set (sd_goroutines w) \<Longrightarrow> gr_ctx g \<notin> set (sd_cancelled w) \<Longrightarrow>
          sd_activeRooms w (gr_room g) = Some (gr_ctx g)"
  using assms by (auto simp: sched_ok_def running_def)

lemma sched_ok_unique:
  assumes "sched_ok w" and "sd_activeRooms w r = Some c" and "sd_activeRooms w r' = Some c"
  shows "r = r'"
  using sched_okD(5) [OF assms(1,2)] sched_okD(5) [OF assms(1,3)] by simp

lemma startRoom_fields [simp]:
  "sd_next (startRoom r a b w) = Suc (sd_next w)"
  "sd_activeRooms (startRoom r a b w) = (sd_activeRooms w)(r \<mapsto> sd_next w)"
  "set (sd_cancelled (startRoom r a b w)) = set_option (sd_activeRooms w r) \<union> set (sd_cancelled w)"
  "sd_goroutines (startRoom r a b w) = sd_goroutines w
     @ [\<lparr>gr_ctx = sd_next w, gr_room = r, gr_kind = ControlLoop, gr_stagger = a\<rparr>,
        \<lparr>gr_ctx = sd_next w, gr_room = r, gr_kind = CacheRefresh, gr_stagger = b\<rparr>]"
  "dw_store (startRoom r a b w) = dw_store w" "w_db (startRoom r a b w) = w_db w"
  "mq_published (startRoom r a b w) = mq_published w"
  by (simp_all add: startRoom_def Let_def split: option.split)

lemma sched_ok_startRoom:
  assumes ok: "sched_ok w"
  shows "sched_ok (startRoom r a b w)"
proof -
  let ?w = "startRoom r a b w" and ?n = "sd_next w"
  note D = sched_okD [OF ok]
  have old: "gr_ctx g < ?n" if "g \<in> set (sd_goroutines w)" for g using D(1) that .
  have new_ctx: "filter (\<lambda>g. gr_ctx g = ?n) (sd_goroutines w) = []"
    using old by (fastforce simp: filter_empty_conv)
  have 1: "\<forall>g \<in> set (sd_goroutines ?w). gr_ctx g < sd_next ?w" using old by (auto intro: less_SucI)
  have 2: "\<forall>c \<in> set (sd_cancelled ?w). c < sd_next ?w" using D(2,3) by (auto intro: less_SucI)
  have 3: "c < sd_next ?w \<and> c \<notin> set (sd_cancelled ?w) \<and> map (\<lambda>g. (gr_room g, gr_kind g))
      (filter (\<lambda>g. gr_ctx g = c) (sd_goroutines ?w)) = [(r', ControlLoop), (r', CacheRefresh)]"
    if act: "sd_activeRooms ?w r' = Some c" for r' c
  proof (cases "r' = r")
    case True
    with act have "c = ?n" by simp
    with True new_ctx D(2,3) show ?thesis by fastforce
  next
    case False
    with act have c: "sd_activeRooms w r' = Some c" by simp
    with False sched_ok_unique [OF ok] have "sd_activeRooms w r \<noteq> Some c" by blast
    with D(3-5) [OF c] show ?thesis by auto
  qed
  have 4: "sd_activeRooms ?w (gr_room g) = Some (gr_ctx g)" if g: "g \<in> set (running ?w)" for g
  proof (cases "g \<in> set (sd_goroutines w)")
    case True
    from g have "gr_ctx g \<notin> set (sd_cancelled w)" "sd_activeRooms w r \<noteq> Some (gr_ctx g)"
      by (auto simp: running_iff)
    with D(6) [OF True] show ?thesis by auto
  next
    case False
    with g show ?thesis by (auto simp: running_iff)
  qed
  show ?thesis unfolding sched_ok_def using 1 2 3 4 by blast
qed

lemma RemoveRoom_fields [simp]:
  "dw_store (sched_RemoveRoom r w) = dw_store w" "w_db (sched_RemoveRoom r w) = w_db w"
  "mq_published (sched_RemoveRoom r w) = mq_published w"
  "sd_activeRooms (sched_RemoveRoom r w) = (sd_activeRooms w)(r := None)"
  by (auto simp: sched_RemoveRoom_def split: option.split)

lemma sched_ok_RemoveRoom:
  assumes ok: "sched_ok w"
  shows "sched_ok (sched_RemoveRoom r w)"
proof (cases "sd_activeRooms w r")
  case None
  with ok show ?thesis by (simp add: sched_RemoveRoom_def)
next
  case (Some c)
  let ?w = "w\<lparr>sd_activeRooms := (sd_activeRooms w)(r := None), sd_cancelled := c # sd_cancelled w\<rparr>"
  note D = sched_okD [OF ok]
  have 3: "c' < sd_next ?w \<and> c' \<notin> set (sd_cancelled ?w) \<and> map (\<lambda>g. (gr_room g, gr_kind g))
      (filter (\<lambda>g. gr_ctx g = c') (sd_goroutines ?w)) = [(r', ControlLoop), (r', CacheRefresh)]"
    if act: "sd_activeRooms ?w r' = Some c'" for r' c'
  proof -
    from act have c': "sd_activeRooms w r' = Some c'" "r' \<noteq> r" by (auto split: if_splits)
    with Some sched_ok_unique [OF ok] have "c' \<noteq> c" by blast
    with D(3-5) [OF c'(1)] show ?thesis by simp
  qed
  have 4: "\<forall>g \<in> set (running ?w). sd_activeRooms ?w (gr_room g) = Some (gr_ctx g)"
    using D(6) Some by (auto simp: running_iff)
  have "sched_ok ?w" unfolding sched_ok_def using D(1,2,3) Some 3 4 by auto
  with Some show ?thesis by (simp add: sched_RemoveRoom_def)
qed

text \<open>Counting: one running loop of each kind for a registered room, none for any other.\<close>

lemma running_count:
  assumes ok: "sched_ok w"
  shows "length (filter (\<lambda>g. gr_room g = r \<and> gr_kind g = k) (running w))
    = (if sd_activeRooms w r = None then 0 else 1)"
proof (cases "sd_activeRooms w r")
  case None
  with sched_okD(6) [OF ok] have "filter (\<lambda>g. gr_room g = r \<and> gr_kind g = k) (running w) = []"
    by (fastforce simp: running_def filter_empty_conv)
  with None show ?thesis by simp
next
  case (Some c)
  have "filter (\<lambda>g. gr_room g = r) (running w) = filter (\<lambda>g. gr_ctx g = c) (sd_goroutines w)"
    unfolding running_def filter_filter
  proof (rule filter_cong [OF refl])
    fix g assume g: "g \<in> set (sd_goroutines w)"
    have "gr_room g = r" if "gr_ctx g = c"
    proof -
      from g that have "g \<in> set (filter (\<lambda>g. gr_ctx g = c) (sd_goroutines w))" by simp
      then have "(gr_room g, gr_kind g) \<in> set (map (\<lambda>g. (gr_room g, gr_kind g))
          (filter (\<lambda>g. gr_ctx g = c) (sd_goroutines w)))" by auto
      with sched_okD(5) [OF ok Some] show ?thesis by auto
    qed
    then show "(gr_ctx g \<notin> set (sd_cancelled w) \<and> gr_room g = r) = (gr_ctx g = c)"
      using sched_okD(6) [OF ok g] sched_okD(4) [OF ok Some] Some by auto
  qed
  then have "map gr_kind (filter (\<lambda>g. gr_room g = r) (running w))
      = map snd (map (\<lambda>g. (gr_room g, gr_kind g)) (filter (\<lambda>g. gr_ctx g = c) (sd_goroutines w)))"
    by (simp add: comp_def)
  also have "\<dots> = [ControlLoop, CacheRefresh]" by (simp only: sched_okD(5) [OF ok Some]) simp
  finally have kinds: "map gr_kind (filter (\<lambda>g. gr_room g = r) (running w)) = [ControlLoop, CacheRefresh]" .
  have "length (filter (\<lambda>g. gr_room g = r \<and> gr_kind g = k) (running w))
      = length (filter (\<lambda>k'. k' = k) (map gr_kind (filter (\<lambda>g. gr_room g = r) (running w))))"
    by (simp add: filter_map comp_def conj_commute)
  with kinds Some show ?thesis by (cases k) simp_all
qed

section \<open>What a tick does\<close>

definition apply_cmds :: "ActuatorCommand list \<Rightarrow> actuator_states \<Rightarrow> actuator_states" where
  "apply_cmds cs m = foldl (\<lambda>m c. m(ac_ActuatorType c \<mapsto> ac_State c)) m cs"

definition published_of :: "uuid \<Rightarrow> ActuatorCommand \<Rightarrow> Published" where
  "published_of r c = \<lparr>pu_room = r, pu_topic = ''devices/'' @ ac_HwID c @ ''/cmd'', pu_payload = MarshalPayload c\<rparr>"

definition store_cmds :: "ref \<Rightarrow> ActuatorCommand list \<Rightarrow> Store \<Rightarrow> Store" where
  "store_cmds p cs s = foldl (\<lambda>s c. set_actuator_state p (ac_ActuatorType c) (ac_State c) s) s cs"

text \<open>The part of the world a publish can change: the store, the broker's log, the failure schedule.\<close>

lemma publish_command_cases:
  obtains (failed) fs where "publish_command r p c w = (Inr (), w\<lparr>w_faults := fs\<rparr>)" and "w_faults w \<noteq> []"
  | (sent) fs where "publish_command r p c w = (Inr (), w\<lparr>w_faults := fs,
        dw_store := set_actuator_state p (ac_ActuatorType c) (ac_State c) (dw_store w),
        mq_published := mq_published w @ [published_of r c]\<rparr>)" and "w_faults w = [] \<Longrightarrow> fs = []"
proof (cases "w_faults w")
  case Nil
  moreover have "w = w\<lparr>w_faults := w_faults w\<rparr>" by simp
  ultimately have "publish_command r p c w = (Inr (), w\<lparr>w_faults := [],
        dw_store := set_actuator_state p (ac_ActuatorType c) (ac_State c) (dw_store w),
        mq_published := mq_published w @ [published_of r c]\<rparr>)"
    by (simp add: publish_command_def bindE_run attempt_def Publish_def ext_call_ok published_of_def)
  then show thesis by (rule sent) simp
next
  case (Cons b bs)
  then show thesis using failed [of bs] sent [of bs]
    by (cases b) (simp_all add: publish_command_def bindE_run attempt_def Publish_def ext_call_def
        query_def published_of_def)
qed

lemma publish_all:
  obtains sent fs where "subseq sent cs" and "w_faults w = [] \<Longrightarrow> sent = cs \<and> fs = []"
    and "forE (publish_command r p) cs w = (Inr (), w\<lparr>w_faults := fs,
        dw_store := store_cmds p sent (dw_store w), mq_published := mq_published w @ map (published_of r) sent\<rparr>)"
proof (induction cs arbitrary: w thesis)
  case Nil
  have "w = w\<lparr>w_faults := w_faults w, dw_store := dw_store w, mq_published := mq_published w\<rparr>" by simp
  with Nil [of "[]" "w_faults w"] show ?case by (simp add: store_cmds_def)
next
  case (Cons c cs)
  show ?case
  proof (cases rule: publish_command_cases [of r p c w])
    case (failed fs)
    obtain sent fs' where s: "subseq sent cs" "forE (publish_command r p) cs (w\<lparr>w_faults := fs\<rparr>)
        = (Inr (), w\<lparr>w_faults := fs\<rparr>\<lparr>w_faults := fs', dw_store := store_cmds p sent (dw_store w),
            mq_published := mq_published w @ map (published_of r) sent\<rparr>)"
      by (rule Cons.IH [of "w\<lparr>w_faults := fs\<rparr>"]) simp
    show ?thesis
    proof (rule Cons.prems [of sent fs'])
      show "subseq sent (c # cs)" using s(1) by (simp add: list_emb_Cons)
    qed (use failed s(2) in \<open>simp_all add: bindE_run\<close>)
  next
    case (sent fs)
    let ?w = "w\<lparr>w_faults := fs, dw_store := set_actuator_state p (ac_ActuatorType c) (ac_State c) (dw_store w),
        mq_published := mq_published w @ [published_of r c]\<rparr>"
    obtain rest fs' where s: "subseq rest cs" "w_faults ?w = [] \<Longrightarrow> rest = cs \<and> fs' = []"
      "forE (publish_command r p) cs ?w
        = (Inr (), ?w\<lparr>w_faults := fs', dw_store := store_cmds p rest (dw_store ?w),
            mq_published := mq_published ?w @ map (published_of r) rest\<rparr>)"
      by (rule Cons.IH [of ?w]) blast
    show ?thesis
    proof (rule Cons.prems [of "c # rest" fs'])
      show "subseq (c # rest) (c # cs)" using s(1) by simp
      show "w_faults w = [] \<Longrightarrow> c # rest = c # cs \<and> fs' = []" using sent(2) s(2) by simp
    qed (use sent(1) s(3) in \<open>simp add: bindE_run store_cmds_def\<close>)
  qed
qed

lemma store_cmds_tables [simp]:
  "Room (store_cmds p cs s) = Room s" "Device (store_cmds p cs s) = Device s"
  "st_objs (store_cmds p cs s) = st_objs s"
  by (induction cs arbitrary: s)
    (auto simp: store_cmds_def set_actuator_state_def Room_def Device_def fun_eq_iff split: option.split)

lemma wf_store_cmds: "wf_store s \<Longrightarrow> wf_store (store_cmds p cs s)"
  by (induction cs arbitrary: s) (simp_all add: store_cmds_def wf_set_actuator_state)

lemma room_view_store_cmds_other:
  assumes "wf_store s" and "st_objs s p = Some rc" and "rc_RoomID rc \<noteq> r"
  shows "room_view (store_cmds p cs s) r = room_view s r"
  using assms
proof (induction cs arbitrary: s)
  case (Cons c cs)
  let ?s = "set_actuator_state p (ac_ActuatorType c) (ac_State c) s"
  have "st_objs ?s p = Some rc" using Cons.prems(2) by (simp add: set_actuator_state_def)
  with Cons.IH [of ?s] Cons.prems show ?case
    by (simp add: store_cmds_def wf_set_actuator_state room_view_set_actuator_state_other)
qed (simp add: store_cmds_def)

lemma room_view_store_cmds_same:
  assumes "Room s r = Some p" and "view s p = Some rv"
  shows "room_view (store_cmds p cs s) r = Some (rv\<lparr>rc_ActuatorStates := apply_cmds cs (rc_ActuatorStates rv)\<rparr>)"
  using assms
proof (induction cs arbitrary: s rv)
  case Nil
  then show ?case by (simp add: store_cmds_def apply_cmds_def room_view_def)
next
  case (Cons c cs)
  let ?s = "set_actuator_state p (ac_ActuatorType c) (ac_State c) s"
  from room_view_set_actuator_state_same [OF Cons.prems, of "ac_ActuatorType c" "ac_State c"]
  have v: "room_view ?s r = Some (rv\<lparr>rc_ActuatorStates := (rc_ActuatorStates rv)(ac_ActuatorType c \<mapsto> ac_State c)\<rparr>)" .
  have "Room ?s r = Some p"
    using Cons.prems(1) by (simp add: set_actuator_state_def Room_def split: option.split)
  moreover from this v have "view ?s p
      = Some (rv\<lparr>rc_ActuatorStates := (rc_ActuatorStates rv)(ac_ActuatorType c \<mapsto> ac_State c)\<rparr>)"
    by (simp add: room_view_def)
  ultimately show ?case using Cons.IH by (simp add: store_cmds_def apply_cmds_def)
qed

text \<open>When all commands of one type carry one state, the states after the sent ones are read off.\<close>

lemma apply_cmds_law:
  assumes "\<forall>c \<in> set cs. ac_State c = law (ac_ActuatorType c)"
  shows "apply_cmds cs m t = (if t \<in> ac_ActuatorType ` set cs then Some (law t) else m t)"
  using assms by (induction cs arbitrary: m) (auto simp: apply_cmds_def)

lemma subseq_set: "subseq xs ys \<Longrightarrow> set xs \<subseteq> set ys"
  by (auto dest: list_emb_set)

lemma tick_absent: "Room (dw_store w) r = None \<Longrightarrow> tick stale order r now w = (Inr (), w)"
  by (simp add: tick_def)

definition tick_store :: "ref \<Rightarrow> ActuatorCommand list \<Rightarrow> SchedulePeriodCache option \<Rightarrow> Store \<Rightarrow> Store" where
  "tick_store p sent lp s = (case lp of None \<Rightarrow> store_cmds p sent s
     | Some sp \<Rightarrow> set_last_period p sp (store_cmds p sent s))"

lemma attempt_log:
  obtains fs ls ok where "attempt (WriteControlLogEntry e) w = (Inr ok, w\<lparr>w_faults := fs, mw_logs := ls\<rparr>)"
    and "ls = mw_logs w \<or> (log_row_ok e \<and> ls = mw_logs w @ [e])"
    and "w_faults w = [] \<Longrightarrow> log_row_ok e \<Longrightarrow> ls = mw_logs w @ [e]"
proof (cases "log_row_ok e")
  case False
  have "w = w\<lparr>w_faults := w_faults w, mw_logs := mw_logs w\<rparr>" by simp
  with False show thesis
    by (intro that [where fs = "w_faults w" and ls = "mw_logs w" and ok = False]) (simp_all add: attempt_def WriteControlLogEntry_def)
next
  case True
  show thesis
  proof (cases rule: ext_call_cases [of "\<lambda>w. w\<lparr>mw_logs := mw_logs w @ [e]\<rparr>" w])
    case (fail fs)
    have "w\<lparr>w_faults := fs\<rparr> = w\<lparr>w_faults := fs, mw_logs := mw_logs w\<rparr>" by simp
    moreover have "w_faults w \<noteq> []" using fail by (auto simp: ext_call_ok)
    ultimately show thesis using True fail
      by (intro that [where fs = fs and ls = "mw_logs w" and ok = False]) (simp_all add: attempt_def WriteControlLogEntry_def)
  next
    case (happens fs)
    with True show thesis
      by (intro that [where fs = fs and ls = "mw_logs w @ [e]" and ok = True]) (simp_all add: attempt_def WriteControlLogEntry_def)
  qed
qed

lemma tick_run:
  assumes "Room (dw_store w) r = Some p" and "view (dw_store w) p = Some rv"
  obtains sent fs ls where "subseq sent (tk_Commands (Evaluate order rv now stale))"
    and "w_faults w = [] \<Longrightarrow> sent = tk_Commands (Evaluate order rv now stale)"
    and "tick stale order r now w = (Inr (), w\<lparr>w_faults := fs,
        dw_store := tick_store p sent (tk_LastActivePeriod (Evaluate order rv now stale)) (dw_store w),
        mw_logs := ls, mq_published := mq_published w @ map (published_of r) sent\<rparr>)"
    and "ls = mw_logs w \<or> (log_row_ok (tk_LogEntry (Evaluate order rv now stale))
          \<and> ls = mw_logs w @ [tk_LogEntry (Evaluate order rv now stale)])"
    and "w_faults w = [] \<Longrightarrow> log_row_ok (tk_LogEntry (Evaluate order rv now stale)) \<Longrightarrow>
          ls = mw_logs w @ [tk_LogEntry (Evaluate order rv now stale)]"
proof -
  let ?res = "Evaluate order rv now stale"
  obtain sent f1 where s: "subseq sent (tk_Commands ?res)" "w_faults w = [] \<Longrightarrow> sent = tk_Commands ?res \<and> f1 = []"
    "forE (publish_command r p) (tk_Commands ?res) w = (Inr (), w\<lparr>w_faults := f1,
        dw_store := store_cmds p sent (dw_store w), mq_published := mq_published w @ map (published_of r) sent\<rparr>)"
    by (rule publish_all [where cs = "tk_Commands ?res" and w = w and r = r and p = p]) blast
  let ?w1 = "w\<lparr>w_faults := f1, dw_store := tick_store p sent (tk_LastActivePeriod ?res) (dw_store w),
      mq_published := mq_published w @ map (published_of r) sent\<rparr>"
  obtain fs ls ok where a: "attempt (WriteControlLogEntry (tk_LogEntry ?res)) ?w1
      = (Inr ok, ?w1\<lparr>w_faults := fs, mw_logs := ls\<rparr>)"
    "ls = mw_logs ?w1 \<or> (log_row_ok (tk_LogEntry ?res) \<and> ls = mw_logs ?w1 @ [tk_LogEntry ?res])"
    "w_faults ?w1 = [] \<Longrightarrow> log_row_ok (tk_LogEntry ?res) \<Longrightarrow> ls = mw_logs ?w1 @ [tk_LogEntry ?res]"
    by (rule attempt_log [where e = "tk_LogEntry ?res" and w = ?w1]) blast
  show thesis
  proof (rule that [where sent = sent and fs = fs and ls = ls])
    show "tick stale order r now w = (Inr (), w\<lparr>w_faults := fs,
        dw_store := tick_store p sent (tk_LastActivePeriod ?res) (dw_store w),
        mw_logs := ls, mq_published := mq_published w @ map (published_of r) sent\<rparr>)"
    proof -
      have lp: "(case tk_LastActivePeriod ?res of None \<Rightarrow> returnE () | Some sp \<Rightarrow> on_store (set_last_period p sp))
          (w\<lparr>w_faults := f1, dw_store := store_cmds p sent (dw_store w),
             mq_published := mq_published w @ map (published_of r) sent\<rparr>) = (Inr (), ?w1)"
        by (cases "tk_LastActivePeriod ?res") (simp_all add: tick_store_def)
      show ?thesis
        unfolding tick_def assms option.case Let_def
        by (simp only: bindE_run s(3) lp a(1) prod.case sum.case returnE_run) simp
    qed
  qed (use s a(2,3) in auto)
qed

lemma room_view_tick_store:
  assumes wf: "wf_store s" and R: "Room s r = Some p" and V: "view s p = Some rv"
  shows "room_view (tick_store p sent lp s) r' = (if r' = r then
       Some (rv\<lparr>rc_ActuatorStates := apply_cmds sent (rc_ActuatorStates rv),
           rc_LastActivePeriod := (case lp of None \<Rightarrow> rc_LastActivePeriod rv | Some sp \<Rightarrow> Some sp)\<rparr>)
     else room_view s r')"
    and "wf_store (tick_store p sent lp s)" and "Device (tick_store p sent lp s) = Device s"
    and "Room (tick_store p sent lp s) = Room s"
proof -
  obtain rc where rc: "st_objs s p = Some rc" "rc_RoomID rc = r" using wf R by (rule wf_room_obj)
  let ?s = "store_cmds p sent s"
  have same: "room_view ?s r = Some (rv\<lparr>rc_ActuatorStates := apply_cmds sent (rc_ActuatorStates rv)\<rparr>)"
    by (rule room_view_store_cmds_same [OF R V])
  have R': "Room ?s r = Some p" by (simp add: R)
  with same have V': "view ?s p = Some (rv\<lparr>rc_ActuatorStates := apply_cmds sent (rc_ActuatorStates rv)\<rparr>)"
    by (simp add: room_view_def)
  have other: "room_view ?s r' = room_view s r'" if "r' \<noteq> r"
    using that rc by (intro room_view_store_cmds_other [OF wf]) auto
  show "room_view (tick_store p sent lp s) r' = (if r' = r then
       Some (rv\<lparr>rc_ActuatorStates := apply_cmds sent (rc_ActuatorStates rv),
           rc_LastActivePeriod := (case lp of None \<Rightarrow> rc_LastActivePeriod rv | Some sp \<Rightarrow> Some sp)\<rparr>)
     else room_view s r')"
    using same other room_view_set_last_period_same [OF R' V']
      room_view_set_last_period_other [OF wf_store_cmds [OF wf] R', of r']
    by (cases lp) (auto simp: tick_store_def)
  show "wf_store (tick_store p sent lp s)"
    by (cases lp) (simp_all add: tick_store_def wf wf_store_cmds wf_set_last_period)
  show "Device (tick_store p sent lp s) = Device s" and "Room (tick_store p sent lp s) = Room s"
    by (cases lp; simp add: tick_store_def set_last_period_def)+
qed

lemma room_view_SomeE:
  assumes "room_view s r = Some rv"
  obtains p where "Room s r = Some p" and "view s p = Some rv"
  using assms by (auto simp: room_view_def bind_eq_Some_conv)

section \<open>The log row is acceptable\<close>

definition modes_ok :: "RoomView \<Rightarrow> bool" where
  "modes_ok rv \<longleftrightarrow> dsc_Mode (rc_DesiredState rv) \<in> {''OFF'', ''AUTO''}
     \<and> (\<forall>p \<in> set (rc_ActivePeriods rv). spc_Mode p \<in> {''OFF'', ''AUTO''})
     \<and> (\<forall>p \<in> set_option (rc_LastActivePeriod rv). spc_Mode p \<in> {''OFF'', ''AUTO''})"

lemma commandAllOff_mode:
  "cle_Mode (fst (commandAllOff order rc e cs)) = cle_Mode e"
  "cle_ControlSource (fst (commandAllOff order rc e cs)) = cle_ControlSource e"
  by (induction order arbitrary: e cs) (simp_all add: commandAllOff_def)

lemma evaluateOrOff_mode:
  "cle_Mode (fst (evaluateOrOff rc t sens avg has targets db ec)) = cle_Mode (fst ec)"
  "cle_ControlSource (fst (evaluateOrOff rc t sens avg has targets db ec)) = cle_ControlSource (fst ec)"
  by (cases ec; simp add: evaluateOrOff_eq Let_def split: option.split)+

lemma Evaluate_log_mode:
  "cle_Mode (tk_LogEntry (Evaluate order rv now th)) = es_mode (resolveEffectiveState rv now)"
  "cle_ControlSource (tk_LogEntry (Evaluate order rv now th)) = es_source (resolveEffectiveState rv now)"
  by (simp_all add: Evaluate_def Let_def split_def commandAllOff_mode evaluateOrOff_mode initial_entry_def)

lemma resolve_mode_source:
  assumes "modes_ok rv"
  shows "es_mode (resolveEffectiveState rv now) \<in> {''OFF'', ''AUTO''}"
    and "es_source (resolveEffectiveState rv now) \<in> {''manual_override'', ''schedule'', ''grace_period'', ''none''}"
proof -
  have "spc_Mode p \<in> {''OFF'', ''AUTO''}" if "first_matching d m (rc_ActivePeriods rv) = Some p" for d m p
    using first_matching_SomeD [OF that] assms by (auto simp: modes_ok_def)
  with assms show "es_mode (resolveEffectiveState rv now) \<in> {''OFF'', ''AUTO''}"
    by (auto simp: resolveEffectiveState_def Let_def modes_ok_def split: option.split)
  show "es_source (resolveEffectiveState rv now) \<in> {''manual_override'', ''schedule'', ''grace_period'', ''none''}"
    by (auto simp: resolveEffectiveState_def Let_def split: option.split)
qed

lemma Evaluate_log_ok:
  assumes "modes_ok rv" and "key_order (rc_ActuatorHwIDs rv) order"
  shows "log_row_ok (tk_LogEntry (Evaluate order rv now th))"
  unfolding log_row_ok_def Evaluate_log_mode Evaluate_log_cmds [OF assms(2)]
  using resolve_mode_source [OF assms(1), of now]
  by (auto simp: cmd_value_def split: option.split)

section \<open>Runs of the scheduler\<close>

datatype sched_event = SStart sched_config "uuid list" | SAddRoom uuid | SRemoveRoom uuid

fun sched_step :: "svc_world \<Rightarrow> sched_event \<Rightarrow> svc_world" where
  "sched_step w (SStart cfg ids) = sched_Start cfg ids w"
| "sched_step w (SAddRoom r) = sched_AddRoom r w"
| "sched_step w (SRemoveRoom r) = sched_RemoveRoom r w"

lemma sched_ok_fold: "sched_ok w \<Longrightarrow> sched_ok (fold (\<lambda>(i, r). startRoom r (f i) (g i)) irs w)"
  by (induction irs arbitrary: w) (auto simp: sched_ok_startRoom)

lemma sched_ok_Start: "sched_ok w \<Longrightarrow> sched_ok (sched_Start cfg ids w)"
  unfolding sched_Start_def by (rule sched_ok_fold)

interpretation sched: step_invariant sched_step sched_ok
proof
  fix w :: svc_world and e
  assume "sched_ok w"
  then show "sched_ok (sched_step w e)"
    by (cases e) (simp_all add: sched_ok_Start sched_AddRoom_def sched_ok_startRoom sched_ok_RemoveRoom)
qed

lemma stagger_eq:
  assumes "0 \<le> interval" and "interval * int n \<le> maxDuration" and "1 < n" and "i < n"
  shows "stagger interval n i = int i * interval div int n"
proof -
  have "int i * interval \<le> int n * interval" using assms(1,4) by (intro mult_right_mono) auto
  moreover have "0 \<le> int i * interval" using assms(1) by simp
  ultimately have "in_int64 (int i * interval)"
    using assms(2) by (simp add: in_int64_def maxDuration_def mult.commute)
  with assms show ?thesis by (simp add: stagger_def wrap64_id quot_nonneg)
qed

lemma stagger_bounds:
  assumes "0 \<le> interval" and "interval * int n \<le> maxDuration" and "i < n"
  shows "0 \<le> stagger interval n i \<and> (0 < interval \<longrightarrow> stagger interval n i < interval)"
proof (cases "1 < n")
  case False
  then show ?thesis by (simp add: stagger_def)
next
  case True
  note eq = stagger_eq [OF assms(1,2) True assms(3)]
  have "int i * interval div int n < interval" if "0 < interval"
  proof (rule ccontr)
    assume "\<not> int i * interval div int n < interval"
    then have "interval * int n \<le> int i * interval div int n * int n"
      using True by (intro mult_right_mono) auto
    also have "\<dots> \<le> int i * interval"
      using True by (simp add: minus_mod_eq_div_mult [symmetric])
    also have "\<dots> < interval * int n" using that assms(3) by (simp add: mult.commute)
    finally show False by simp
  qed
  then show ?thesis unfolding eq using assms(1) True by (simp add: pos_imp_zdiv_nonneg_iff)
qed

lemma fold_startRoom_active:
  "sd_activeRooms (fold (\<lambda>(i, r). startRoom r (f i) (g i)) irs w) r = None \<longleftrightarrow>
     sd_activeRooms w r = None \<and> r \<notin> snd ` set irs"
  by (induction irs arbitrary: w) (auto split: if_splits)

lemma fold_startRoom_goroutines:
  "map (\<lambda>x. (gr_room x, gr_kind x, gr_stagger x)) (sd_goroutines (fold (\<lambda>(i, r). startRoom r (f i) (g i)) irs w))
   = map (\<lambda>x. (gr_room x, gr_kind x, gr_stagger x)) (sd_goroutines w)
     @ concat (map (\<lambda>(i, r). [(r, ControlLoop, f i), (r, CacheRefresh, g i)]) irs)"
  by (induction irs arbitrary: w) auto

section \<open>Properties\<close>

text \<open>However the rooms are started, added (also twice) and removed, a registered room always has
  exactly one running control loop and exactly one running cache refresh, and an unregistered room
  has none.\<close>

theorem one_loop_per_room:
  fixes w :: svc_world
  assumes "sd_goroutines w = []" and "sd_activeRooms w = Map.empty" and "sd_cancelled w = []"
  shows "length (filter (\<lambda>g. gr_room g = r \<and> gr_kind g = k) (running (foldl sched_step w es)))
    = (if sd_activeRooms (foldl sched_step w es) r = None then 0 else 1)"
  using sched.run_inv [OF sched_ok_init [OF assms], of es] by (rule running_count)

theorem one_loop_per_room_witness:
  "length (filter (\<lambda>g. gr_room g = 5 \<and> gr_kind g = ControlLoop)
     (running (foldl sched_step demo_svc [SAddRoom 5, SAddRoom 6, SAddRoom 5, SRemoveRoom 6]))) = 1"
  by (subst one_loop_per_room) (simp_all add: demo_svc_def init_svc_def sched_AddRoom_def)

text \<open>At start every room the cache holds gets its two loops, with initial delays spread over the
  control and the refresh interval: each delay is at least zero and less than its interval, as long as the number of rooms times
  the interval stays in the range of a duration.\<close>

theorem start_spreads_rooms:
  assumes "0 < cfg_TickInterval cfg" and "cfg_TickInterval cfg * int (length ids) \<le> maxDuration"
    and "0 < cfg_CacheRefreshInterval cfg" and "cfg_CacheRefreshInterval cfg * int (length ids) \<le> maxDuration"
    and "sd_goroutines w = []" and "RoomIDs (dw_store w) ids"
  shows "(\<forall>r. room_view (dw_store w) r \<noteq> None \<longrightarrow> sd_activeRooms (sched_Start cfg ids w) r \<noteq> None)
   \<and> map (\<lambda>x. (gr_room x, gr_kind x)) (sd_goroutines (sched_Start cfg ids w))
       = concat (map (\<lambda>r. [(r, ControlLoop), (r, CacheRefresh)]) ids)
   \<and> (\<forall>g \<in> set (sd_goroutines (sched_Start cfg ids w)). 0 \<le> gr_stagger g
        \<and> gr_stagger g < (if gr_kind g = ControlLoop then cfg_TickInterval cfg else cfg_CacheRefreshInterval cfg))"
proof (intro conjI allI impI ballI)
  let ?f = "stagger (cfg_TickInterval cfg) (length ids)" and ?g = "stagger (cfg_CacheRefreshInterval cfg) (length ids)"
  have gs: "map (\<lambda>x. (gr_room x, gr_kind x, gr_stagger x)) (sd_goroutines (sched_Start cfg ids w))
      = concat (map (\<lambda>(i, r). [(r, ControlLoop, ?f i), (r, CacheRefresh, ?g i)]) (List.enumerate 0 ids))"
    unfolding sched_Start_def fold_startRoom_goroutines by (simp add: assms(5))
  show "sd_activeRooms (sched_Start cfg ids w) r \<noteq> None" if "room_view (dw_store w) r \<noteq> None" for r
  proof -
    from that have "r \<in> set ids"
      using assms(6) by (auto simp: RoomIDs_def room_view_def Room_def bind_eq_Some_conv)
    then have "r \<in> snd ` set (List.enumerate 0 ids)"
      by (metis list.set_map map_snd_enumerate)
    then show ?thesis by (simp add: sched_Start_def fold_startRoom_active)
  qed
  have "map (\<lambda>x. (gr_room x, gr_kind x)) (sd_goroutines (sched_Start cfg ids w))
      = map (\<lambda>(r, k, d). (r, k)) (map (\<lambda>x. (gr_room x, gr_kind x, gr_stagger x)) (sd_goroutines (sched_Start cfg ids w)))"
    by simp
  also have "\<dots> = concat (map (\<lambda>r. [(r, ControlLoop), (r, CacheRefresh)]) (map snd (List.enumerate 0 ids)))"
    unfolding gs by (simp add: map_concat comp_def split_def del: map_snd_enumerate)
  finally show "map (\<lambda>x. (gr_room x, gr_kind x)) (sd_goroutines (sched_Start cfg ids w))
       = concat (map (\<lambda>r. [(r, ControlLoop), (r, CacheRefresh)]) ids)" by simp
  fix x assume "x \<in> set (sd_goroutines (sched_Start cfg ids w))"
  then have "(gr_room x, gr_kind x, gr_stagger x) \<in> set (map (\<lambda>x. (gr_room x, gr_kind x, gr_stagger x))
      (sd_goroutines (sched_Start cfg ids w)))" by (simp only: set_map) (rule imageI)
  then obtain i r where i: "(i, r) \<in> set (List.enumerate 0 ids)"
    and x: "(gr_room x, gr_kind x, gr_stagger x) \<in> {(r, ControlLoop, ?f i), (r, CacheRefresh, ?g i)}"
    unfolding gs by auto
  from i have "i < length ids" by (simp add: in_set_enumerate_eq)
  then have "0 \<le> ?f i \<and> ?f i < cfg_TickInterval cfg" "0 \<le> ?g i \<and> ?g i < cfg_CacheRefreshInterval cfg"
    using stagger_bounds [of "cfg_TickInterval cfg"] stagger_bounds [of "cfg_CacheRefreshInterval cfg"] assms(1-4)
    by auto
  with x show "0 \<le> gr_stagger x" and "gr_stagger x <
      (if gr_kind x = ControlLoop then cfg_TickInterval cfg else cfg_CacheRefreshInterval cfg)" by auto
qed

theorem start_spreads_rooms_witness:
  "sd_activeRooms (sched_Start \<lparr>cfg_StaleThreshold = 90, cfg_TickInterval = 30, cfg_CacheRefreshInterval = 300\<rparr> [1] demo_svc) 1 \<noteq> None"
proof -
  have "RoomIDs (dw_store demo_svc) [1]"
    by (simp add: RoomIDs_def demo_svc_def init_svc_def NewStore_def AddDevice_def)
  moreover have "sd_goroutines demo_svc = []" by (simp add: demo_svc_def init_svc_def)
  ultimately show ?thesis
    using start_spreads_rooms [of "\<lparr>cfg_StaleThreshold = 90, cfg_TickInterval = 30, cfg_CacheRefreshInterval = 300\<rparr>"
        "[1]" demo_svc] demo_svc_facts(2)
    by (simp add: maxDuration_def)
qed



text \<open>Every undisturbed tick of a room whose modes are ones the database admits appends exactly one
  row to the control log, and \<open>metricsdb\<close> accepts it.\<close>

theorem tick_logs_once:
  assumes "w_faults w = []" and "room_view (dw_store w) r = Some rv" and "modes_ok rv"
    and "key_order (rc_ActuatorHwIDs rv) order"
  shows "mw_logs (snd (tick stale order r now w)) = mw_logs w @ [tk_LogEntry (Evaluate order rv now stale)]"
proof -
  obtain p where p: "Room (dw_store w) r = Some p" "view (dw_store w) p = Some rv"
    using assms(2) by (rule room_view_SomeE)
  let ?ev = "Evaluate order rv now stale"
  obtain sent fs ls where "tick stale order r now w = (Inr (), w\<lparr>w_faults := fs,
        dw_store := tick_store p sent (tk_LastActivePeriod ?ev) (dw_store w),
        mw_logs := ls, mq_published := mq_published w @ map (published_of r) sent\<rparr>)"
    and "w_faults w = [] \<Longrightarrow> log_row_ok (tk_LogEntry ?ev) \<Longrightarrow> ls = mw_logs w @ [tk_LogEntry ?ev]"
    by (rule tick_run [OF p, where order = order and now = now and stale = stale]) blast
  with assms(1) Evaluate_log_ok [OF assms(3,4)] show ?thesis by simp
qed

theorem tick_logs_once_witness:
  "length (mw_logs (snd (tick 1000 [''heater''] 1 500 demo_svc))) = 1"
proof -
  have "modes_ok demo_room" by (simp add: modes_ok_def demo_room_def demo_period_def)
  from tick_logs_once [OF demo_svc_facts(4,2) this demo_room_types(2), of 1000 500] show ?thesis
    by (simp add: demo_svc_def init_svc_def)
qed

end
