(* ===== verification/Events.thy ===== *)
theory Events
  imports Control Database
begin

text \<open>
  Package \<open>api-service/internal/events\<close>: the cache-invalidation messages the API appends to the Redis
  stream, and the world of the API service: the database, the messages it has appended, and the control
  log of \<open>metricsdb\<close> it reads. The
  textual form of a UUID (\<open>uuid.UUID.String\<close> of \<open>github.com/google/uuid\<close>, not in the repository) is the
  argument \<open>ustr\<close>.
\<close>

section \<open>Messages\<close>

text \<open>A field of a stream entry: go-redis types it \<open>any\<close>.\<close>

datatype field_value = StringV string | OtherV

type_synonym XValues = "string \<rightharpoonup> field_value"

record api_world = base_world +
  aw_events :: "XValues list"
  aw_logs :: "ControlLogEntry list"

text \<open>
  \<open>xadd\<close>: fire and forget, a failed XADD is only logged. (The stream keeps at least the last 10000
  entries; trimming is not modelled.)
\<close>

definition xadd :: "XValues \<Rightarrow> ('z api_world_scheme, unit) act" where
  "xadd values w = (case query (\<lambda>_. ()) w of
     (Inl _, w') \<Rightarrow> (Inr (), w')
   | (Inr _, w') \<Rightarrow> (Inr (), w'\<lparr>aw_events := aw_events w' @ [values]\<rparr>))"

definition room_event :: "(uuid \<Rightarrow> string) \<Rightarrow> string \<Rightarrow> uuid \<Rightarrow> XValues" where
  "room_event ustr event roomID =
     [''event'' \<mapsto> StringV event, ''room_id'' \<mapsto> StringV (ustr roomID)]"

definition device_event :: "(uuid \<Rightarrow> string) \<Rightarrow> string \<Rightarrow> uuid \<Rightarrow> string \<Rightarrow> XValues" where
  "device_event ustr event roomID hwID =
     [''event'' \<mapsto> StringV event, ''room_id'' \<mapsto> StringV (ustr roomID), ''hw_id'' \<mapsto> StringV hwID]"

section \<open>Notifications\<close>

definition NotifyRoomCreated :: "(uuid \<Rightarrow> string) \<Rightarrow> uuid \<Rightarrow> ('z api_world_scheme, unit) act" where
  "NotifyRoomCreated ustr roomID = xadd (room_event ustr ''room_created'' roomID)"

definition NotifyRoomDeleted :: "(uuid \<Rightarrow> string) \<Rightarrow> uuid \<Rightarrow> ('z api_world_scheme, unit) act" where
  "NotifyRoomDeleted ustr roomID = xadd (room_event ustr ''room_deleted'' roomID)"

definition NotifyRoomConfigChanged :: "(uuid \<Rightarrow> string) \<Rightarrow> uuid \<Rightarrow> ('z api_world_scheme, unit) act" where
  "NotifyRoomConfigChanged ustr roomID = xadd (room_event ustr ''room_config_changed'' roomID)"

definition NotifyDesiredStateChanged :: "(uuid \<Rightarrow> string) \<Rightarrow> uuid \<Rightarrow> ('z api_world_scheme, unit) act" where
  "NotifyDesiredStateChanged ustr roomID = xadd (room_event ustr ''desired_state_changed'' roomID)"

definition NotifyDeviceAssigned :: "(uuid \<Rightarrow> string) \<Rightarrow> uuid \<Rightarrow> string \<Rightarrow> ('z api_world_scheme, unit) act" where
  "NotifyDeviceAssigned ustr roomID hwID = xadd (device_event ustr ''device_assigned'' roomID hwID)"

definition NotifyDeviceUnassigned :: "(uuid \<Rightarrow> string) \<Rightarrow> uuid \<Rightarrow> string \<Rightarrow> ('z api_world_scheme, unit) act" where
  "NotifyDeviceUnassigned ustr prevRoomID hwID = xadd (device_event ustr ''device_unassigned'' prevRoomID hwID)"

definition NotifyScheduleChanged :: "(uuid \<Rightarrow> string) \<Rightarrow> uuid \<Rightarrow> ('z api_world_scheme, unit) act" where
  "NotifyScheduleChanged ustr roomID = xadd (room_event ustr ''schedule_changed'' roomID)"

lemmas notify_defs = NotifyRoomCreated_def NotifyRoomDeleted_def NotifyRoomConfigChanged_def
  NotifyDesiredStateChanged_def NotifyDeviceAssigned_def NotifyDeviceUnassigned_def
  NotifyScheduleChanged_def

section \<open>What a notification changes\<close>

lemma xadd_never_fails: "\<exists>w'. xadd v w = (Inr (), w')"
  by (simp add: xadd_def split: prod.split sum.split)

lemma frames_db_xadd [frame_rules]: "frames w_db (xadd v)"
  by (simp add: frames_def xadd_def query_def split: list.split)

lemma frames_events_query [frame_rules]: "frames aw_events (query f)"
  by (simp add: frames_def query_def split: list.split)

lemma frames_events_exec [frame_rules]: "frames aw_events (exec f)"
  by (auto simp: frames_def exec_def bindE_run query_def split: list.split sum.split)

lemma frames_events_transaction:
  assumes "frames aw_events m"
  shows "frames aw_events (transaction m)"
proof (rule framesI)
  fix w
  let ?m = "bindE (query (\<lambda>_. ())) (\<lambda>_. bindE m (\<lambda>x. bindE (query (\<lambda>_. ())) (\<lambda>_. returnE x)))"
  have "frames aw_events ?m" by (intro frame_rules assms)
  then have "aw_events (snd (?m w)) = aw_events w" by (simp add: frames_def)
  then show "aw_events (snd (transaction m w)) = aw_events w"
    by (auto simp: transaction_def split: prod.split sum.split)
qed

lemma xadd_ok: "w_faults w = [] \<Longrightarrow> xadd v w = (Inr (), w\<lparr>aw_events := aw_events w @ [v]\<rparr>)"
  by (simp add: xadd_def query_ok)

lemma xadd_events: "aw_events (snd (xadd v w)) = aw_events w \<or> aw_events (snd (xadd v w)) = aw_events w @ [v]"
  by (auto simp: xadd_def query_def split: list.split)

end
