(* ===== verification/Stream.thy ===== *)
theory Stream
  imports Scheduler Events
begin

text \<open>
  Package \<open>device-service/internal/stream\<close>: the consumer of the cache-invalidation stream. A message is
  decoded, handled (a reload, a room's goroutines started or stopped) and acknowledged when the
  handling succeeded. The textual form of a UUID (\<open>uuid.Parse\<close>) is the argument \<open>uparse\<close>; Redis is the
  argument pair \<open>read\<close> and \<open>xack\<close> on a state \<open>'r\<close> of its own.
\<close>

section \<open>Decoding\<close>

record XMessage =
  xm_ID :: string
  xm_Values :: XValues

definition extractString :: "XValues \<Rightarrow> string \<Rightarrow> error + string" where
  "extractString values key = (case values key of
     None \<Rightarrow> Inl (Msg ''missing field'')
   | Some (StringV s) \<Rightarrow> Inr s
   | Some OtherV \<Rightarrow> Inl (Msg ''field is not a string''))"

definition extractRoomID :: "(string \<Rightarrow> uuid option) \<Rightarrow> XValues \<Rightarrow> error + uuid" where
  "extractRoomID uparse values = (case extractString values ''room_id'' of
     Inl e \<Rightarrow> Inl e
   | Inr s \<Rightarrow> (case uparse s of None \<Rightarrow> Inl (Msg ''parse room_id'') | Some roomID \<Rightarrow> Inr roomID))"

section \<open>Handlers\<close>

definition onRoomCreated ::
    "(string \<Rightarrow> location option) \<Rightarrow> (string \<Rightarrow> uuid option) \<Rightarrow> XValues \<Rightarrow> ('z svc_world_scheme, unit) act" where
  "onRoomCreated tz uparse values =
     bindE (liftE (extractRoomID uparse values)) (\<lambda>roomID.
     bindE (ReloadRoom tz roomID) (\<lambda>_.
     modifyE (sched_AddRoom roomID)))"

definition onRoomDeleted ::
    "(string \<Rightarrow> uuid option) \<Rightarrow> XValues \<Rightarrow> ('z svc_world_scheme, unit) act" where
  "onRoomDeleted uparse values =
     bindE (liftE (extractRoomID uparse values)) (\<lambda>roomID.
     bindE (modifyE (sched_RemoveRoom roomID)) (\<lambda>_.
     on_store (DeleteRoom roomID)))"

definition onRoomReload ::
    "(string \<Rightarrow> location option) \<Rightarrow> (string \<Rightarrow> uuid option) \<Rightarrow> XValues \<Rightarrow> ('z svc_world_scheme, unit) act" where
  "onRoomReload tz uparse values =
     bindE (liftE (extractRoomID uparse values)) (\<lambda>roomID. ReloadRoom tz roomID)"

definition onDeviceChanged ::
    "(string \<Rightarrow> location option) \<Rightarrow> (string \<Rightarrow> uuid option) \<Rightarrow> XValues \<Rightarrow> ('z svc_world_scheme, unit) act" where
  "onDeviceChanged tz uparse values =
     bindE (liftE (extractString values ''hw_id'')) (\<lambda>hwID.
     bindE (liftE (extractRoomID uparse values)) (\<lambda>roomID.
     bindE (ReloadDevice hwID) (\<lambda>_. ReloadRoom tz roomID)))"

text \<open>The body of \<open>dispatch\<close> up to the acknowledgement: the result says whether to acknowledge.\<close>

definition handle_message ::
    "(string \<Rightarrow> location option) \<Rightarrow> (string \<Rightarrow> uuid option) \<Rightarrow> XValues \<Rightarrow> ('z svc_world_scheme, bool) act" where
  "handle_message tz uparse values = (case extractString values ''event'' of
     Inl _ \<Rightarrow> returnE True
   | Inr event \<Rightarrow>
       if event = ''room_created'' then attempt (onRoomCreated tz uparse values)
       else if event = ''room_deleted'' then attempt (onRoomDeleted uparse values)
       else if event = ''room_config_changed'' \<or> event = ''desired_state_changed'' \<or> event = ''schedule_changed''
       then attempt (onRoomReload tz uparse values)
       else if event = ''device_assigned'' \<or> event = ''device_unassigned''
       then attempt (onDeviceChanged tz uparse values)
       else returnE True)"

section \<open>Redis and the consumer loops\<close>

record 'r con_world = svc_world +
  cw_redis :: 'r

type_synonym 'r redis_read = "string \<Rightarrow> 'r \<Rightarrow> XMessage list \<times> 'r"
type_synonym 'r redis_ack = "string \<Rightarrow> 'r \<Rightarrow> 'r"

text \<open>One XREADGROUP; \<open>redis.Nil\<close> and an empty reply are the empty list.\<close>

definition readGroup :: "'r redis_read \<Rightarrow> string \<Rightarrow> (('r, 'z) con_world_scheme, XMessage list) act" where
  "readGroup read gid = bindE (query (\<lambda>_. ())) (\<lambda>_ w.
     case read gid (cw_redis w) of (msgs, r) \<Rightarrow> (Inr msgs, w\<lparr>cw_redis := r\<rparr>))"

text \<open>XACK; a failure is logged.\<close>

definition ack :: "'r redis_ack \<Rightarrow> string \<Rightarrow> (('r, 'z) con_world_scheme, unit) act" where
  "ack xack msgID w = (case query (\<lambda>_. ()) w of
     (Inl _, w') \<Rightarrow> (Inr (), w')
   | (Inr _, w') \<Rightarrow> (Inr (), w'\<lparr>cw_redis := xack msgID (cw_redis w')\<rparr>))"

definition dispatch ::
    "(string \<Rightarrow> location option) \<Rightarrow> (string \<Rightarrow> uuid option) \<Rightarrow> 'r redis_ack \<Rightarrow> XMessage \<Rightarrow>
     (('r, 'z) con_world_scheme, unit) act" where
  "dispatch tz uparse xack msg =
     bindE (handle_message tz uparse (xm_Values msg)) (\<lambda>ok.
       if ok then ack xack (xm_ID msg) else returnE ())"

text \<open>\<open>drainPending\<close> with fuel: \<open>None\<close> when the loop has not come to an end within that many reads.\<close>

fun drainPending ::
    "(string \<Rightarrow> location option) \<Rightarrow> (string \<Rightarrow> uuid option) \<Rightarrow> 'r redis_read \<Rightarrow> 'r redis_ack \<Rightarrow> nat \<Rightarrow>
     ('r, 'z) con_world_scheme \<Rightarrow> ('r, 'z) con_world_scheme option" where
  "drainPending tz uparse read xack 0 w = None"
| "drainPending tz uparse read xack (Suc n) w = (case readGroup read ''0-0'' w of
     (Inl _, w') \<Rightarrow> Some w'
   | (Inr msgs, w') \<Rightarrow>
       if msgs = [] then Some w'
       else drainPending tz uparse read xack n (snd (forE (dispatch tz uparse xack) msgs w')))"

text \<open>One round of \<open>readLoop\<close>: a read error is logged and the loop continues.\<close>

definition read_round ::
    "(string \<Rightarrow> location option) \<Rightarrow> (string \<Rightarrow> uuid option) \<Rightarrow> 'r redis_read \<Rightarrow> 'r redis_ack \<Rightarrow>
     ('r, 'z) con_world_scheme \<Rightarrow> ('r, 'z) con_world_scheme" where
  "read_round tz uparse read xack w = (case readGroup read ''>'' w of
     (Inl _, w') \<Rightarrow> w'
   | (Inr msgs, w') \<Rightarrow> snd (forE (dispatch tz uparse xack) msgs w'))"

section \<open>Decoding what the API encodes\<close>

definition reload_events :: "string set" where
  "reload_events = {''room_config_changed'', ''desired_state_changed'', ''schedule_changed''}"

definition device_events :: "string set" where
  "device_events = {''device_assigned'', ''device_unassigned''}"

definition lifecycle_events :: "string set" where
  "lifecycle_events = {''room_created'', ''room_deleted''}"

lemmas event_defs = reload_events_def device_events_def lifecycle_events_def

text \<open>The documented behaviour of the UUID package the two services rely on.\<close>

definition uuid_text :: "(uuid \<Rightarrow> string) \<Rightarrow> (string \<Rightarrow> uuid option) \<Rightarrow> bool" where
  "uuid_text ustr uparse \<longleftrightarrow> (\<forall>u. uparse (ustr u) = Some u)"

lemma decode_room_event [simp]:
  "uuid_text ustr uparse \<Longrightarrow> extractRoomID uparse (room_event ustr ev r) = Inr r"
  "extractString (room_event ustr ev r) ''event'' = Inr ev"
  "uuid_text ustr uparse \<Longrightarrow> extractRoomID uparse (device_event ustr ev r h) = Inr r"
  "extractString (device_event ustr ev r h) ''event'' = Inr ev"
  "extractString (device_event ustr ev r h) ''hw_id'' = Inr h"
  by (simp_all add: extractRoomID_def extractString_def room_event_def device_event_def uuid_text_def)

text \<open>Which handler an event goes to.\<close>

lemma handle_routes:
  assumes "extractString v ''event'' = Inr ev"
  shows "ev = ''room_created'' \<Longrightarrow> handle_message tz uparse v = attempt (onRoomCreated tz uparse v)"
    and "ev = ''room_deleted'' \<Longrightarrow> handle_message tz uparse v = attempt (onRoomDeleted uparse v)"
    and "ev \<in> reload_events \<Longrightarrow> handle_message tz uparse v = attempt (onRoomReload tz uparse v)"
    and "ev \<in> device_events \<Longrightarrow> handle_message tz uparse v = attempt (onDeviceChanged tz uparse v)"
    and "ev \<notin> lifecycle_events \<Longrightarrow> ev \<notin> reload_events \<Longrightarrow> ev \<notin> device_events \<Longrightarrow>
          handle_message tz uparse v = returnE True"
proof -
  show "ev = ''room_created'' \<Longrightarrow> handle_message tz uparse v = attempt (onRoomCreated tz uparse v)"
    using assms by (simp add: handle_message_def)
  show "ev = ''room_deleted'' \<Longrightarrow> handle_message tz uparse v = attempt (onRoomDeleted uparse v)"
    using assms by (simp add: handle_message_def)
  show "ev \<in> reload_events \<Longrightarrow> handle_message tz uparse v = attempt (onRoomReload tz uparse v)"
    unfolding reload_events_def using assms by (elim insertE emptyE) (simp_all add: handle_message_def)
  show "ev \<in> device_events \<Longrightarrow> handle_message tz uparse v = attempt (onDeviceChanged tz uparse v)"
    unfolding device_events_def using assms by (elim insertE emptyE) (simp_all add: handle_message_def)
  show "ev \<notin> lifecycle_events \<Longrightarrow> ev \<notin> reload_events \<Longrightarrow> ev \<notin> device_events \<Longrightarrow>
          handle_message tz uparse v = returnE True"
    using assms by (simp add: handle_message_def event_defs)
qed

lemma lifecycle_cases:
  assumes "ev \<in> lifecycle_events"
  obtains "ev = ''room_created''" | "ev = ''room_deleted''"
  using assms unfolding lifecycle_events_def by (elim insertE emptyE)

lemma event_sets_disjoint: "ev \<in> device_events \<Longrightarrow> ev \<notin> lifecycle_events \<union> reload_events"
  unfolding device_events_def by (elim insertE emptyE) (simp_all add: event_defs)

lemma handle_notifications:
  assumes "uuid_text ustr uparse"
  shows "ev \<in> reload_events \<Longrightarrow> handle_message tz uparse (room_event ustr ev r) = attempt (ReloadRoom tz r)"
    and "handle_message tz uparse (room_event ustr ''room_created'' r)
      = attempt (bindE (ReloadRoom tz r) (\<lambda>_. modifyE (sched_AddRoom r)))"
    and "handle_message tz uparse (room_event ustr ''room_deleted'' r)
      = attempt (bindE (modifyE (sched_RemoveRoom r)) (\<lambda>_. on_store (DeleteRoom r)))"
    and "ev \<in> device_events \<Longrightarrow> handle_message tz uparse (device_event ustr ev r h)
      = attempt (bindE (ReloadDevice h) (\<lambda>_. ReloadRoom tz r))"
  using assms
  by (simp_all add: handle_routes [where ev = ev] handle_routes(1,2) onRoomReload_def onRoomCreated_def
      onRoomDeleted_def onDeviceChanged_def bindE_def liftE_def)

section \<open>Runs without failures\<close>

named_theorems quiet_rules "actions that keep the failure schedule empty"

definition quiet :: "('z base_world_scheme, 'a) act \<Rightarrow> bool" where
  "quiet m \<longleftrightarrow> (\<forall>w. w_faults w = [] \<longrightarrow> w_faults (snd (m w)) = [])"

lemma quietD: "quiet m \<Longrightarrow> w_faults w = [] \<Longrightarrow> m w = (x, w') \<Longrightarrow> w_faults w' = []"
  by (metis quiet_def snd_conv)

lemma quiet_basic [quiet_rules]:
  "quiet (returnE x)" "quiet (throwE e)" "quiet (liftE r)" "quiet (query f)"
  by (simp_all add: quiet_def query_ok)

lemma quiet_modifyE: "(\<And>w. w_faults (f w) = w_faults w) \<Longrightarrow> quiet (modifyE f)"
  by (simp add: quiet_def)

lemma quiet_bindE [quiet_rules]: "quiet m \<Longrightarrow> (\<And>x. quiet (k x)) \<Longrightarrow> quiet (bindE m k)"
  by (auto simp: quiet_def bindE_run split: prod.split sum.split)

lemma quiet_attempt [quiet_rules]: "quiet m \<Longrightarrow> quiet (attempt m)"
  by (simp add: quiet_def)

lemma quiet_if [quiet_rules]: "quiet m \<Longrightarrow> quiet n \<Longrightarrow> quiet (if c then m else n)"
  by simp

lemma quiet_case_option [quiet_rules]:
  "quiet m \<Longrightarrow> (\<And>x. quiet (k x)) \<Longrightarrow> quiet (case v of None \<Rightarrow> m | Some x \<Rightarrow> k x)"
  by (cases v) simp_all

lemma quiet_case_sum [quiet_rules]:
  "(\<And>x. quiet (m x)) \<Longrightarrow> (\<And>x. quiet (k x)) \<Longrightarrow> quiet (case v of Inl x \<Rightarrow> m x | Inr x \<Rightarrow> k x)"
  by (cases v) simp_all

lemma quiet_on_store [quiet_rules]: "quiet (on_store f)"
  by (rule quiet_modifyE) simp

lemma quiet_sched [quiet_rules]: "quiet (modifyE (sched_AddRoom r))" "quiet (modifyE (sched_RemoveRoom r))"
  by (rule quiet_modifyE; simp add: sched_AddRoom_def startRoom_def sched_RemoveRoom_def Let_def split: option.split)+

lemma quiet_reloads [quiet_rules]: "quiet (ReloadRoom tz r)" "quiet (ReloadDevice h)"
  unfolding ReloadRoom_def ReloadDevice_def fetch_defs by (intro quiet_rules)+

lemma quiet_handle [quiet_rules]: "quiet (handle_message tz uparse v)"
  unfolding handle_message_def onRoomCreated_def onRoomDeleted_def onRoomReload_def onDeviceChanged_def
  by (intro quiet_rules)

lemma frames_redis_basic [frame_rules]: "frames cw_redis (query f)" "frames cw_redis (on_store g)"
  "frames cw_redis (modifyE (sched_AddRoom r))" "frames cw_redis (modifyE (sched_RemoveRoom r))"
  by (simp_all add: frames_def query_def sched_AddRoom_def startRoom_def sched_RemoveRoom_def Let_def
      split: list.split option.split)

lemma frames_redis_handle [frame_rules]: "frames cw_redis (handle_message tz uparse v)"
  unfolding handle_message_def onRoomCreated_def onRoomDeleted_def onRoomReload_def onDeviceChanged_def
    ReloadRoom_def ReloadDevice_def fetch_defs
  by (intro frame_rules)

lemma frames_db_sched [frame_rules]:
  "frames w_db (modifyE (sched_AddRoom r))" "frames w_db (modifyE (sched_RemoveRoom r))"
  by (simp_all add: frames_def sched_AddRoom_def)

lemma frames_db_handle [frame_rules]: "frames w_db (handle_message tz uparse v)"
  unfolding handle_message_def onRoomCreated_def onRoomDeleted_def onRoomReload_def onDeviceChanged_def
  by (intro frame_rules)

lemma handle_never_fails: "handle_message tz uparse v w \<noteq> (Inl e, w')"
  by (auto simp: handle_message_def split: sum.split)

section \<open>Draining\<close>

text \<open>
  The documented behaviour of Redis for one consumer: XREADGROUP with the id \<open>0-0\<close> returns the first
  (at most ten) entries delivered to the consumer and not yet acknowledged, without changing them,
  and XACK removes an entry from them.
\<close>

definition redis_pending :: "'r redis_read \<Rightarrow> 'r redis_ack \<Rightarrow> ('r \<Rightarrow> XMessage list) \<Rightarrow> bool" where
  "redis_pending read xack pend \<longleftrightarrow>
     (\<forall>s. read ''0-0'' s = (take 10 (pend s), s))
   \<and> (\<forall>i s. pend (xack i s) = filter (\<lambda>m. xm_ID m \<noteq> i) (pend s))"

text \<open>A message with a known event whose room id does not parse.\<close>

definition poison :: "(string \<Rightarrow> uuid option) \<Rightarrow> XMessage \<Rightarrow> bool" where
  "poison uparse m \<longleftrightarrow> (\<exists>ev. extractString (xm_Values m) ''event'' = Inr ev
     \<and> ev \<in> lifecycle_events \<union> reload_events \<union> device_events)
   \<and> (\<exists>e. extractRoomID uparse (xm_Values m) = Inl e)"

lemma attempt_liftE_Inl: "attempt (bindE (liftE (Inl e)) k) w = (Inr False, w)"
  by (simp add: attempt_def bindE_run)

lemma handle_poison:
  assumes "poison uparse m"
  shows "handle_message tz uparse (xm_Values m) w = (Inr False, w)"
proof -
  from assms obtain e where e: "extractRoomID uparse (xm_Values m) = Inl e" by (auto simp: poison_def)
  have dev: "attempt (onDeviceChanged tz uparse (xm_Values m)) w = (Inr False, w)"
    by (cases "extractString (xm_Values m) ''hw_id''")
      (simp_all add: onDeviceChanged_def e attempt_def bindE_run)
  from assms obtain ev where ev: "extractString (xm_Values m) ''event'' = Inr ev"
    "ev \<in> lifecycle_events \<union> reload_events \<union> device_events" by (auto simp: poison_def)
  note H = handle_routes [OF ev(1), of tz uparse]
  note stuck = onRoomCreated_def onRoomDeleted_def onRoomReload_def e attempt_liftE_Inl
  from ev(2) consider "ev \<in> lifecycle_events" | "ev \<in> reload_events" | "ev \<in> device_events" by blast
  then show ?thesis
  proof cases
    case 1
    then show ?thesis by (cases rule: lifecycle_cases) (simp_all add: H(1,2) stuck)
  next
    case 2
    then show ?thesis by (simp add: H(3) stuck)
  next
    case 3
    then show ?thesis by (simp add: H(4) dev)
  qed
qed

text \<open>What one message does to the pending entries, when nothing fails.\<close>

lemma dispatch_quiet:
  assumes "redis_pending read xack pend" and "w_faults w = []"
  obtains ok w' where "dispatch tz uparse xack m w = (Inr (), w')" and "w_faults w' = []"
    and "w_db w' = w_db w" and "fst (handle_message tz uparse (xm_Values m) w) = Inr ok"
    and "pend (cw_redis w') = (if ok then filter (\<lambda>x. xm_ID x \<noteq> xm_ID m) (pend (cw_redis w)) else pend (cw_redis w))"
proof -
  obtain res w1 where h: "handle_message tz uparse (xm_Values m) w = (res, w1)" by fastforce
  then obtain ok where ok: "res = Inr ok" using handle_never_fails by (cases res) blast+
  have 1: "w_faults w1 = []" "cw_redis w1 = cw_redis w" "w_db w1 = w_db w"
    using quietD [OF quiet_handle assms(2) h] framesD [OF frames_redis_handle h] framesD [OF frames_db_handle h]
    by auto
  show thesis
  proof (cases ok)
    case True
    with h ok 1(1) have "dispatch tz uparse xack m w = (Inr (), w1\<lparr>cw_redis := xack (xm_ID m) (cw_redis w1)\<rparr>)"
      by (simp add: dispatch_def bindE_run ack_def query_ok)
    then show thesis using that [OF _ _ _ _] True 1 h ok assms(1) by (auto simp: redis_pending_def)
  next
    case False
    with h ok have "dispatch tz uparse xack m w = (Inr (), w1)" by (simp add: dispatch_def bindE_run)
    then show thesis using that False 1 h ok by auto
  qed
qed

definition handled :: "(string \<Rightarrow> location option) \<Rightarrow> (string \<Rightarrow> uuid option) \<Rightarrow> appdb \<Rightarrow>
    ('r, 'z) con_world_scheme itself \<Rightarrow> XMessage \<Rightarrow> bool" where
  "handled tz uparse db t m \<longleftrightarrow> (\<forall>v :: ('r, 'z) con_world_scheme. w_faults v = [] \<longrightarrow> w_db v = db \<longrightarrow>
     fst (handle_message tz uparse (xm_Values m) v) = Inr True)"

lemma dispatch_all_quiet:
  fixes w :: "('r, 'z) con_world_scheme"
  assumes "redis_pending read xack pend" and "w_faults w = []"
  shows "\<exists>w' ids. forE (dispatch tz uparse xack) ms w = (Inr (), w') \<and> w_faults w' = []
     \<and> w_db w' = w_db w \<and> pend (cw_redis w') = filter (\<lambda>x. xm_ID x \<notin> ids) (pend (cw_redis w))
     \<and> ids \<subseteq> xm_ID ` set (filter (\<lambda>m. \<not> poison uparse m) ms)
     \<and> ((\<forall>m \<in> set ms. handled tz uparse (w_db w) TYPE(('r, 'z) con_world_scheme) m) \<longrightarrow> ids = xm_ID ` set ms)"
  using assms(2)
proof (induction ms arbitrary: w)
  case Nil
  then show ?case by (intro exI [of _ w] exI [of _ "{}"]) simp
next
  case (Cons m ms)
  obtain ok w1 where d: "dispatch tz uparse xack m w = (Inr (), w1)" "w_faults w1 = []" "w_db w1 = w_db w"
    "fst (handle_message tz uparse (xm_Values m) w) = Inr ok"
    "pend (cw_redis w1) = (if ok then filter (\<lambda>x. xm_ID x \<noteq> xm_ID m) (pend (cw_redis w)) else pend (cw_redis w))"
    using dispatch_quiet [OF assms(1) Cons.prems] by blast
  obtain w' ids where r: "forE (dispatch tz uparse xack) ms w1 = (Inr (), w')" "w_faults w' = []"
    "w_db w' = w_db w1" "pend (cw_redis w') = filter (\<lambda>x. xm_ID x \<notin> ids) (pend (cw_redis w1))"
    "ids \<subseteq> xm_ID ` set (filter (\<lambda>m. \<not> poison uparse m) ms)"
    "(\<forall>m \<in> set ms. handled tz uparse (w_db w1) TYPE(('r, 'z) con_world_scheme) m) \<longrightarrow> ids = xm_ID ` set ms"
    using Cons.IH [OF d(2)] by blast
  have ok: "\<not> poison uparse m" if ok using that d(4) handle_poison [of uparse m tz w] by auto
  let ?ids = "if ok then insert (xm_ID m) ids else ids"
  have "forE (dispatch tz uparse xack) (m # ms) w = (Inr (), w')"
    using d(1) r(1) by (simp add: bindE_run)
  moreover have "pend (cw_redis w') = filter (\<lambda>x. xm_ID x \<notin> ?ids) (pend (cw_redis w))"
    using r(4) d(5) by (auto intro: filter_cong)
  moreover have "?ids \<subseteq> xm_ID ` set (filter (\<lambda>m. \<not> poison uparse m) (m # ms))"
    using r(5) ok by auto
  moreover have "?ids = xm_ID ` set (m # ms)"
    if all: "\<forall>m \<in> set (m # ms). handled tz uparse (w_db w) TYPE(('r, 'z) con_world_scheme) m"
  proof -
    have "ok" using all d(4) Cons.prems by (auto simp: handled_def)
    moreover have "ids = xm_ID ` set ms" using r(6) all d(3) by simp
    ultimately show ?thesis by simp
  qed
  ultimately show ?case using r(2,3) d(3) by (intro exI [of _ w'] exI [of _ ?ids]) simp
qed

subsection \<open>Messages that can be handled\<close>

definition well_formed :: "(string \<Rightarrow> uuid option) \<Rightarrow> XMessage \<Rightarrow> bool" where
  "well_formed uparse m \<longleftrightarrow> (case extractString (xm_Values m) ''event'' of
     Inl _ \<Rightarrow> True
   | Inr ev \<Rightarrow>
       if ev \<in> lifecycle_events \<union> reload_events
       then \<exists>r. extractRoomID uparse (xm_Values m) = Inr r
       else if ev \<in> device_events
       then (\<exists>r. extractRoomID uparse (xm_Values m) = Inr r)
          \<and> (\<exists>h. extractString (xm_Values m) ''hw_id'' = Inr h)
       else True)"

lemma ReloadRoom_total:
  assumes "w_faults w = []" and "convertible tz (w_db w)"
  shows "\<exists>w'. ReloadRoom tz r w = (Inr (), w')"
proof (cases "r = 0 \<or> room_rows [r] (w_db w) = []")
  case True
  have "fetchRoom r w = (Inr None, w)"
  proof (cases "room_rows [r] (w_db w)")
    case Nil
    with assms(1) show ?thesis by (simp add: fetchRoom_def bindE_run query_ok)
  next
    case (Cons rm rest)
    then have "rm \<in> set (room_rows [r] (w_db w))" by simp
    then have "rr_ID rm = r" by (auto dest: room_rows_id)
    with True Cons have "rr_ID rm = 0" by simp
    with Cons assms(1) show ?thesis by (simp add: fetchRoom_def bindE_run query_ok)
  qed
  then show ?thesis by (simp add: ReloadRoom_def bindE_run)
next
  case False
  then obtain rm rest where rm: "room_rows [r] (w_db w) = rm # rest" and "r \<noteq> 0"
    by (cases "room_rows [r] (w_db w)") auto
  then obtain rc where "buildRoomCache tz rm (first_desired r (w_db w)) (active_period_rows [r] (w_db w))
         (device_rows [r] (w_db w)) (actuators_of (device_rows [r] (w_db w)) (w_db w)) = Inr rc"
    using buildRoomCache_ok [OF assms(2), of rm "[r]"] by (metis list.set_intros(1))
  from ReloadRoom_no_faults [OF assms(1) rm \<open>r \<noteq> 0\<close> this] show ?thesis by blast
qed

lemma ReloadDevice_total:
  assumes "w_faults w = []"
  shows "\<exists>w'. ReloadDevice h w = (Inr (), w') \<and> w_faults w' = [] \<and> w_db w' = w_db w"
  using assms
  by (auto simp: ReloadDevice_def fetch_defs bindE_run query_ok split: list.split option.split)

lemma attempt_Inr: "m w = (Inr x, w') \<Longrightarrow> fst (attempt m w) = Inr True"
  by (simp add: attempt_def)

lemma well_formed_handled:
  assumes wf: "well_formed uparse m" and conv: "convertible tz db"
  shows "handled tz uparse db t m"
  unfolding handled_def
proof (intro allI impI)
  fix v :: "('a, 'b) con_world_scheme"
  assume v: "w_faults v = []" "w_db v = db"
  let ?vs = "xm_Values m"
  have room: "\<exists>w'. ReloadRoom tz r v = (Inr (), w')" for r using ReloadRoom_total v conv by blast
  have dev: "\<exists>w'. bindE (ReloadDevice h) (\<lambda>_. ReloadRoom tz r) v = (Inr (), w')" for h r
  proof -
    obtain w1 where "ReloadDevice h v = (Inr (), w1)" "w_faults w1 = []" "w_db w1 = w_db v"
      using ReloadDevice_total [OF v(1)] by blast
    with ReloadRoom_total [of w1 tz r] conv v(2) show ?thesis by (auto simp: bindE_run)
  qed
  show "fst (handle_message tz uparse ?vs v) = Inr True"
  proof (cases "extractString ?vs ''event''")
    case (Inl e)
    then show ?thesis by (simp add: handle_message_def)
  next
    case (Inr ev)
    note H = handle_routes [OF Inr, of tz uparse]
    consider "ev \<in> lifecycle_events" | "ev \<in> reload_events" | "ev \<in> device_events"
      | "ev \<notin> lifecycle_events" "ev \<notin> reload_events" "ev \<notin> device_events" by blast
    then show ?thesis
    proof cases
      case 1
      with wf Inr obtain r where "extractRoomID uparse ?vs = Inr r" by (auto simp: well_formed_def)
      with room [of r] show ?thesis
        by (cases rule: lifecycle_cases [OF 1])
          (auto simp: H(1,2) onRoomCreated_def onRoomDeleted_def bindE_run attempt_def)
    next
      case 2
      with wf Inr obtain r where "extractRoomID uparse ?vs = Inr r" by (auto simp: well_formed_def)
      with 2 room [of r] show ?thesis by (auto simp: H(3) onRoomReload_def bindE_run attempt_def)
    next
      case 3
      with wf Inr event_sets_disjoint [OF 3] obtain r h where
        "extractRoomID uparse ?vs = Inr r" "extractString ?vs ''hw_id'' = Inr h"
        by (auto simp: well_formed_def)
      with 3 dev [of h r] show ?thesis by (auto simp: H(4) onDeviceChanged_def bindE_run attempt_def)
    next
      case 4
      then show ?thesis by (simp add: H(5))
    qed
  qed
qed

lemma readGroup_pending:
  assumes "redis_pending read xack pend" and "w_faults w = []"
  shows "readGroup read ''0-0'' w = (Inr (take 10 (pend (cw_redis w))), w)"
  using assms by (simp add: readGroup_def bindE_run query_ok redis_pending_def)

lemma drain_step:
  fixes w :: "('r, 'z) con_world_scheme"
  assumes "redis_pending read xack pend" and "w_faults w = []" and "convertible tz (w_db w)"
    and "\<forall>m \<in> set (pend (cw_redis w)). well_formed uparse m"
  shows "\<exists>w'. drainPending tz uparse read xack (Suc (length (pend (cw_redis w)))) w = Some w'
     \<and> pend (cw_redis w') = []"
  using assms(2-4)
proof (induction "length (pend (cw_redis w))" arbitrary: w rule: less_induct)
  case less
  let ?p = "pend (cw_redis w)"
  note rd = readGroup_pending [OF assms(1) less.prems(1)]
  show ?case
  proof (cases "?p = []")
    case True
    with rd show ?thesis by simp
  next
    case False
    then obtain m ms where p: "?p = m # ms" by (cases ?p) auto
    let ?batch = "take 10 ?p"
    have "\<forall>m \<in> set ?batch. handled tz uparse (w_db w) TYPE(('r, 'z) con_world_scheme) m"
      using less.prems(2,3) by (auto intro: well_formed_handled dest: in_set_takeD)
    with dispatch_all_quiet [OF assms(1) less.prems(1), of tz uparse ?batch] obtain w1 where
      w1: "forE (dispatch tz uparse xack) ?batch w = (Inr (), w1)" "w_faults w1 = []" "w_db w1 = w_db w"
      "pend (cw_redis w1) = filter (\<lambda>x. xm_ID x \<notin> xm_ID ` set ?batch) ?p" by blast
    have "m \<in> set ?batch" by (simp add: p)
    then have "filter (\<lambda>x. xm_ID x \<notin> xm_ID ` set ?batch) ?p = filter (\<lambda>x. xm_ID x \<notin> xm_ID ` set ?batch) ms"
      by (simp add: p)
    then have lt: "length (pend (cw_redis w1)) < length ?p"
      by (simp add: w1(4) p le_imp_less_Suc)
    have "\<forall>m \<in> set (pend (cw_redis w1)). well_formed uparse m" using less.prems(3) by (auto simp: w1(4))
    from less.hyps [OF lt w1(2) _ this] less.prems(2) obtain w' where
      w': "drainPending tz uparse read xack (Suc (length (pend (cw_redis w1)))) w1 = Some w'"
      "pend (cw_redis w') = []" by (auto simp: w1(3))
    have mono: "drainPending tz uparse read xack n v = Some v' \<Longrightarrow> n \<le> k \<Longrightarrow>
        drainPending tz uparse read xack k v = Some v'" for n k and v v' :: "('r, 'z) con_world_scheme"
    proof (induction n arbitrary: k v)
      case (Suc n)
      then obtain k' where "k = Suc k'" "n \<le> k'" by (cases k) auto
      with Suc show ?case by (auto split: prod.splits sum.splits if_splits)
    qed simp
    from lt have "Suc (length (pend (cw_redis w1))) \<le> length ?p" by simp
    from mono [OF w'(1) this] w'(2) rd w1(1) False show ?thesis by auto
  qed
qed

section \<open>Properties\<close>

text \<open>C13: Start-up draining ends: when Redis answers, the database rows convert and every pending message is
  well formed, \<open>drainPending\<close> comes to an end, within one read more than there are pending messages,
  and leaves none of them pending.\<close>

theorem drain_terminates:
  assumes "redis_pending read xack pend" and "w_faults w = []" and "convertible tz (w_db w)"
    and "\<forall>m \<in> set (pend (cw_redis w)). well_formed uparse m"
  shows "\<exists>w'. drainPending tz uparse read xack (Suc (length (pend (cw_redis w)))) w = Some w'
     \<and> pend (cw_redis w') = []"
  using assms by (rule drain_step)


definition list_redis_read :: "XMessage list redis_read" where
  "list_redis_read gid s = (if gid = ''0-0'' then (take 10 s, s) else ([], s))"

definition list_redis_ack :: "XMessage list redis_ack" where
  "list_redis_ack i s = filter (\<lambda>m. xm_ID m \<noteq> i) s"

definition demo_con :: "XMessage list \<Rightarrow> XMessage list con_world" where
  "demo_con ms = \<lparr>w_db = demo_db, w_faults = [], dw_store = NewStore, mw_readings = [], mw_logs = [],
     mq_published = [], sd_activeRooms = Map.empty, sd_cancelled = [], sd_goroutines = [], sd_next = 0,
     cw_redis = ms\<rparr>"

definition demo_event :: XMessage where
  "demo_event = \<lparr>xm_ID = ''1-0'', xm_Values = [''event'' \<mapsto> StringV ''schedule_changed'', ''room_id'' \<mapsto> StringV ''r'']\<rparr>"

lemma list_redis_pending: "redis_pending list_redis_read list_redis_ack (\<lambda>s. s)"
  by (simp add: redis_pending_def list_redis_read_def list_redis_ack_def)

lemma demo_event_values:
  "extractString (xm_Values demo_event) ''event'' = Inr ''schedule_changed''"
  "extractString (xm_Values demo_event) ''room_id'' = Inr ''r''"
  by (simp_all add: demo_event_def extractString_def)

theorem drain_terminates_witness:
  "\<exists>w'. drainPending (\<lambda>_. None) (\<lambda>_. Some 1) list_redis_read list_redis_ack 2 (demo_con [demo_event]) = Some w'
     \<and> cw_redis w' = []"
proof -
  have "well_formed (\<lambda>_. Some 1) demo_event"
    by (simp add: well_formed_def demo_event_values extractRoomID_def event_defs)
  then show ?thesis
    using drain_terminates [OF list_redis_pending, of "demo_con [demo_event]" "\<lambda>_. None" "\<lambda>_. Some 1"] demo_convertible
    by (simp add: demo_con_def numeral_2_eq_2)
qed


text \<open>C23: A notification that was handled has done its work: when \<open>dispatch\<close> acknowledges a message the API
  wrote for a change of a room, its desired state or its schedules, the room's cache entry
  represents the database of that moment (or is gone because the room is), its runtime state is
  kept, and no other entry changed.\<close>

theorem notification_coherent:
  assumes "uuid_text ustr uparse" and "wf_store (dw_store w)" and "ev \<in> reload_events"
    and "handle_message tz uparse (room_event ustr ev r) w = (Inr True, w')"
  shows "(case room_view (dw_store w') r of
       None \<Rightarrow> r = 0 \<or> (\<forall>room \<in> set (t_rooms (w_db w)). \<forall>u \<in> set (t_users (w_db w)).
                  u_id u = r_user_id room \<longrightarrow> r_id room \<noteq> r)
     | Some rv \<Rightarrow> represents_room tz (w_db w) r rv
         \<and> rv = preserve (room_view (dw_store w) r) rv)
   \<and> (\<forall>r'. r' \<noteq> r \<longrightarrow> room_view (dw_store w') r' = room_view (dw_store w) r')"
proof -
  from assms(4) obtain u where "ReloadRoom tz r w = (Inr u, w')"
    unfolding handle_notifications(1) [OF assms(1,3)]
    by (auto simp: attempt_def split: prod.splits sum.splits)
  from ReloadRoom_coherent [OF this assms(2)] show ?thesis by blast
qed

definition demo_ustr :: "uuid \<Rightarrow> string" where
  "demo_ustr u = dec (unat u)"

definition demo_uparse :: "string \<Rightarrow> uuid option" where
  "demo_uparse s = map_option of_int (digits_value 0 s)"

lemma demo_uuid_text: "uuid_text demo_ustr demo_uparse"
  by (simp add: uuid_text_def demo_ustr_def demo_uparse_def digits_value_dec)

theorem notification_coherent_witness:
  "\<exists>w'. handle_message (\<lambda>_. None) demo_uparse (room_event demo_ustr ''schedule_changed'' 1) demo_svc = (Inr True, w')
     \<and> room_view (dw_store w') 2 = room_view (dw_store demo_svc) 2"
proof -
  have ev: "''schedule_changed'' \<in> reload_events" by (simp add: event_defs)
  have "w_faults demo_svc = []" "convertible (\<lambda>_. None) (w_db demo_svc)"
    using demo_convertible by (simp_all add: demo_svc_def init_svc_def)
  then obtain w' where "ReloadRoom (\<lambda>_. None) 1 demo_svc = (Inr (), w')" using ReloadRoom_total by blast
  then have run: "handle_message (\<lambda>_. None) demo_uparse (room_event demo_ustr ''schedule_changed'' 1) demo_svc
      = (Inr True, w')"
    by (simp add: handle_notifications(1) [OF demo_uuid_text ev] attempt_def)
  with notification_coherent [OF demo_uuid_text demo_svc_facts(1) ev run] show ?thesis by simp
qed

text \<open>The part of the state the scheduler owns: reloads leave it alone.\<close>

definition sched_part :: "'z svc_world_scheme \<Rightarrow> nat \<times> (uuid \<rightharpoonup> nat) \<times> nat list \<times> Goroutine list" where
  "sched_part w = (sd_next w, sd_activeRooms w, sd_cancelled w, sd_goroutines w)"

lemma sched_ok_part: "sched_part w = sched_part w' \<Longrightarrow> sched_ok w = sched_ok w'"
  by (simp add: sched_part_def sched_ok_def running_def)

lemma frames_sched_query [frame_rules]: "frames sched_part (query f)" "frames sched_part (on_store g)"
  by (simp_all add: frames_def query_def sched_part_def split: list.split)

lemma frames_sched_ReloadRoom [frame_rules]: "frames sched_part (ReloadRoom tz r)"
  unfolding ReloadRoom_def fetch_defs by (intro frame_rules)

lemma frames_sched_ReloadDevice [frame_rules]: "frames sched_part (ReloadDevice h)"
  unfolding ReloadDevice_def fetch_defs by (intro frame_rules)

lemma ReloadRoom_sched_ok: "ReloadRoom tz r w = (x, w') \<Longrightarrow> sched_ok w \<Longrightarrow> sched_ok w'"
  using framesD [OF frames_sched_ReloadRoom] sched_ok_part by metis

lemma room_created_run:
  assumes "uuid_text ustr uparse" and "sched_ok w"
    and "handle_message tz uparse (room_event ustr ''room_created'' r) w = (Inr True, w')"
  shows "sched_ok w' \<and> sd_activeRooms w' r \<noteq> None"
proof -
  from assms(3) obtain u w1 where w1: "ReloadRoom tz r w = (Inr u, w1)" "w' = sched_AddRoom r w1"
    unfolding handle_notifications(2) [OF assms(1)]
    by (auto simp: attempt_def bindE_run split: prod.splits sum.splits)
  from ReloadRoom_sched_ok [OF w1(1) assms(2)] w1(2) show ?thesis
    by (simp add: sched_AddRoom_def sched_ok_startRoom)
qed

lemma room_deleted_run:
  assumes "uuid_text ustr uparse"
  shows "handle_message tz uparse (room_event ustr ''room_deleted'' r) w
    = (Inr True, (sched_RemoveRoom r w)\<lparr>dw_store := DeleteRoom r (dw_store w)\<rparr>)"
  by (simp add: handle_notifications(3) [OF assms] attempt_def bindE_run)

text \<open>C24: A room's goroutines follow its life: once the creation of a room is acknowledged the room has
  exactly one running control loop and one running refresh; the deletion of a room is always
  acknowledged, and leaves it without goroutines and without a cache entry.\<close>

theorem room_lifecycle:
  assumes "uuid_text ustr uparse" and "sched_ok w"
  shows "(handle_message tz uparse (room_event ustr ''room_created'' r) w = (Inr True, w1) \<longrightarrow>
        sched_ok w1 \<and> length (filter (\<lambda>g. gr_room g = r \<and> gr_kind g = k) (running w1)) = 1)
   \<and> (\<exists>w'. handle_message tz uparse (room_event ustr ''room_deleted'' r) w = (Inr True, w') \<and> sched_ok w'
        \<and> length (filter (\<lambda>g. gr_room g = r \<and> gr_kind g = k) (running w')) = 0
        \<and> room_view (dw_store w') r = None)"
proof (intro conjI impI exI)
  assume run: "handle_message tz uparse (room_event ustr ''room_created'' r) w = (Inr True, w1)"
  from room_created_run [OF assms run]
  show "sched_ok w1" "length (filter (\<lambda>g. gr_room g = r \<and> gr_kind g = k) (running w1)) = 1"
    by (simp_all add: running_count)
next
  let ?w = "(sched_RemoveRoom r w)\<lparr>dw_store := DeleteRoom r (dw_store w)\<rparr>"
  have "sched_part ?w = sched_part (sched_RemoveRoom r w)" by (simp add: sched_part_def)
  with sched_ok_RemoveRoom [OF assms(2)] show ok: "sched_ok ?w" using sched_ok_part by metis
  show "length (filter (\<lambda>g. gr_room g = r \<and> gr_kind g = k) (running ?w)) = 0"
    by (simp add: running_count [OF ok])
qed (simp_all add: room_deleted_run [OF assms(1)])

theorem room_lifecycle_witness:
  "\<exists>w'. handle_message (\<lambda>_. None) demo_uparse (room_event demo_ustr ''room_created'' 1) demo_svc = (Inr True, w')
     \<and> length (filter (\<lambda>g. gr_room g = 1 \<and> gr_kind g = ControlLoop) (running w')) = 1"
proof -
  have "w_faults demo_svc = []" "convertible (\<lambda>_. None) (w_db demo_svc)"
    using demo_convertible by (simp_all add: demo_svc_def init_svc_def)
  then obtain w' where "ReloadRoom (\<lambda>_. None) 1 demo_svc = (Inr (), w')" using ReloadRoom_total by blast
  then have run: "handle_message (\<lambda>_. None) demo_uparse (room_event demo_ustr ''room_created'' 1) demo_svc
      = (Inr True, sched_AddRoom 1 w')"
    by (simp add: handle_notifications(2) [OF demo_uuid_text] attempt_def bindE_run)
  have "sched_ok demo_svc" by (rule sched_ok_init) (simp_all add: demo_svc_def init_svc_def)
  from room_lifecycle [OF demo_uuid_text this, THEN conjunct1, THEN mp, OF run] run show ?thesis by blast
qed

end
