(* ===== verification/Http.thy ===== *)
theory Http
  imports Events
begin

text \<open>
  What the HTTP handlers of \<open>api-service\<close> share: JSON values, responses, the binding of a request
  body and the shape \<open>x, err := svc.F(...); if err != nil { ... }; c.JSON(...)\<close>. Routing, the
  decoding of a body's JSON and \<open>uuid.Parse\<close> of a path parameter are done by packages outside the
  repository: a handler takes the decoded body, or the decoder's error text, and the parser \<open>uparse\<close>
  as arguments.
\<close>

section \<open>Responses\<close>

datatype json =
    JNull
  | JBool bool
  | JNum float64
  | JStr string
  | JTime instant
  | JUuid uuid
  | JList "json list"
  | JObj "(string \<times> json) list"

text \<open>A nil pointer is \<open>null\<close>.\<close>

definition JOpt :: "('a \<Rightarrow> json) \<Rightarrow> 'a option \<Rightarrow> json" where
  "JOpt f v = (case v of None \<Rightarrow> JNull | Some x \<Rightarrow> f x)"

record response =
  rs_Status :: nat
  rs_Body :: "json option"

text \<open>\<open>c.JSON\<close>, \<open>c.Status\<close> and the error bodies \<open>gin.H{"error": ...}\<close>.\<close>

definition JSON :: "nat \<Rightarrow> json \<Rightarrow> response" where
  "JSON code body = \<lparr>rs_Status = code, rs_Body = Some body\<rparr>"

definition Status :: "nat \<Rightarrow> response" where
  "Status code = \<lparr>rs_Status = code, rs_Body = None\<rparr>"

definition errorJSON :: "nat \<Rightarrow> string \<Rightarrow> response" where
  "errorJSON code msg = JSON code (JObj [(''error'', JStr msg)])"

definition hintJSON :: "nat \<Rightarrow> string \<Rightarrow> string \<Rightarrow> response" where
  "hintJSON code msg hint = JSON code (JObj [(''error'', JStr msg), (''hint'', JStr hint)])"

definition internalError :: response where
  "internalError = errorJSON 500 ''internal server error''"

lemma status_simps [simp]:
  "rs_Status (JSON c b) = c" "rs_Status (Status c) = c" "rs_Status (errorJSON c m) = c"
  "rs_Status (hintJSON c m h) = c" "rs_Status internalError = 500"
  by (simp_all add: JSON_def Status_def errorJSON_def hintJSON_def internalError_def)

lemma body_simps [simp]: "rs_Body (JSON c b) = Some b" "rs_Body (Status c) = None"
  by (simp_all add: JSON_def Status_def)

section \<open>Binding\<close>

text \<open>
  \<open>c.ShouldBindJSON(&req)\<close>: the body decodes, or the decoder's error is returned; then the \<open>binding\<close>
  tags are checked field by field, each field reporting the first tag it fails. The failures
  make up the validator's error text.
\<close>

type_synonym tag_failures = "(string \<times> string) list"

definition failure_text :: "string \<Rightarrow> string \<times> string \<Rightarrow> string" where
  "failure_text T = (\<lambda>(field, tag). ''Key: '' @ [CHR 0x27]
     @ (if T = [] then field else T @ ''.'' @ field) @ [CHR 0x27]
     @ '' Error:Field validation for '' @ [CHR 0x27] @ field @ [CHR 0x27] @ '' failed on the ''
     @ [CHR 0x27] @ tag @ [CHR 0x27] @ '' tag'')"

definition ShouldBindJSON :: "string \<Rightarrow> ('r \<Rightarrow> tag_failures) \<Rightarrow> string + 'r \<Rightarrow> string + 'r" where
  "ShouldBindJSON T tags body = (case body of
     Inl m \<Rightarrow> Inl m
   | Inr r \<Rightarrow> (case map (failure_text T) (tags r) of
        [] \<Rightarrow> Inr r
      | m # ms \<Rightarrow> Inl (concat (m # map (\<lambda>t. CHR 0x0A # t) ms))))"

lemma ShouldBindJSON_Inr [simp]:
  "ShouldBindJSON T tags body = Inr r \<longleftrightarrow> body = Inr r \<and> tags r = []"
  by (auto simp: ShouldBindJSON_def split: sum.splits list.splits)

section \<open>Handlers\<close>

type_synonym 'w handler = "'w \<Rightarrow> response \<times> 'w"

definition answer :: "'r \<Rightarrow> 'w \<Rightarrow> 'r \<times> 'w" where
  "answer r = (\<lambda>w. (r, w))"

text \<open>\<open>x, err := m; if err != nil { failed(err); return }; ok(x)\<close>\<close>

definition respond :: "('w, 'a) act \<Rightarrow> (error \<Rightarrow> 'r) \<Rightarrow> ('a \<Rightarrow> 'r) \<Rightarrow> 'w \<Rightarrow> 'r \<times> 'w" where
  "respond m failed ok w = (case m w of (Inl e, w') \<Rightarrow> (failed e, w') | (Inr x, w') \<Rightarrow> (ok x, w'))"

text \<open>\<open>id, err := uuid.Parse(c.Param("id"))\<close>\<close>

definition with_param ::
    "(string \<Rightarrow> uuid option) \<Rightarrow> string \<Rightarrow> string \<Rightarrow> (uuid \<Rightarrow> 'w handler) \<Rightarrow> 'w handler" where
  "with_param uparse param msg h = (case uparse param of
     None \<Rightarrow> answer (errorJSON 400 msg)
   | Some i \<Rightarrow> h i)"

text \<open>\<open>if err := c.ShouldBindJSON(&req); err != nil { c.JSON(400, err.Error()) }\<close>\<close>

definition with_body :: "string + 'r \<Rightarrow> ('r \<Rightarrow> 'w handler) \<Rightarrow> 'w handler" where
  "with_body bound h = (case bound of
     Inl msg \<Rightarrow> answer (errorJSON 400 msg)
   | Inr req \<Rightarrow> h req)"

text \<open>\<open>errors.Is(err, e)\<close> chains: the first matching case, or 500.\<close>

definition error_cases :: "(error \<times> response) list \<Rightarrow> error \<Rightarrow> response" where
  "error_cases cs e = (case map_of cs e of Some r \<Rightarrow> r | None \<Rightarrow> internalError)"

lemma answer_run [simp]: "answer r w = (r, w)"
  by (simp add: answer_def)

lemma respond_run:
  "m w = (Inr x, w') \<Longrightarrow> respond m failed ok w = (ok x, w')"
  "m w = (Inl e, w') \<Longrightarrow> respond m failed ok w = (failed e, w')"
  by (simp_all add: respond_def)

lemma respond_state [simp]: "snd (respond m failed ok w) = snd (m w)"
  by (simp add: respond_def split: prod.split sum.split)

lemma respond_cases:
  obtains (failed) e w' where "m w = (Inl e, w')" "respond m f g w = (f e, w')"
  | (ok) x w' where "m w = (Inr x, w')" "respond m f g w = (g x, w')"
  by (cases "m w"; cases "fst (m w)") (auto simp: respond_def)

section \<open>Repository idioms\<close>

text \<open>\<open>First\<close>: the first matching row, or the package's error for \<open>gorm.ErrRecordNotFound\<close>.\<close>

definition first_or :: "error \<Rightarrow> (appdb \<Rightarrow> 'a option) \<Rightarrow> ('z base_world_scheme, 'a) act" where
  "first_or e f = bindE (query f) (\<lambda>r. case r of None \<Rightarrow> throwE e | Some x \<Rightarrow> returnE x)"

text \<open>\<open>if isUniqueViolation(err) { return e }\<close>\<close>

definition on_unique :: "error \<Rightarrow> ('w, 'a) act \<Rightarrow> ('w, 'a) act" where
  "on_unique e = mapErr (\<lambda>x. if x = UniqueViolation then e else x)"

lemma first_or_InrD: "first_or e f w = (Inr x, w') \<Longrightarrow> f (w_db w) = Some x \<and> (\<exists>fs. w' = w\<lparr>w_faults := fs\<rparr>)"
  unfolding first_or_def by (elim bindE_InrE) (auto dest!: query_InrD split: option.splits)

lemma first_or_InlD: "first_or e f w = (Inl x, w') \<Longrightarrow> (x = Fault \<or> x = e \<and> f (w_db w) = None) \<and> w_db w' = w_db w"
  unfolding first_or_def
  by (elim bindE_InlE) (auto dest: query_error query_InrD split: option.splits simp: query_def split: list.splits if_splits)

lemma first_or_ok:
  "w_faults w = [] \<Longrightarrow> first_or e f w = (case f (w_db w) of None \<Rightarrow> Inl e | Some x \<Rightarrow> Inr x, w)"
  by (simp add: first_or_def bindE_run query_ok split: option.split)

lemma frames_first_or [frame_rules]: "frames obs (query f) \<Longrightarrow> frames obs (first_or e f)"
  unfolding first_or_def by (intro frame_rules)

lemma frames_on_unique [frame_rules]: "frames obs m \<Longrightarrow> frames obs (on_unique e m)"
  unfolding on_unique_def by (rule frames_mapErr)

lemma safe_on_unique [safe_rules]: "safe obs m \<Longrightarrow> safe obs (on_unique e m)"
  unfolding on_unique_def by (rule safe_mapErr)

lemma on_unique_InrD: "on_unique e m w = (Inr x, w') \<Longrightarrow> m w = (Inr x, w')"
  unfolding on_unique_def by (rule mapErr_InrD)

end
