(* ===== verification/MetricsApi.thy ===== *)
theory MetricsApi
  imports Http
begin

text \<open>
  Package \<open>api-service/internal/metricsdb\<close>: the latest climate of a room and its time-bucketed
  history, read from the rows of \<open>room_control_logs\<close>. TimescaleDB's \<open>time_bucket\<close> is the argument
  \<open>tb\<close> (bucket width in seconds, instant), PostgreSQL's \<open>NOW()\<close> the argument \<open>now\<close>.
\<close>

section \<open>Results\<close>

record ClimateReading =
  cr_Time :: instant
  cr_AvgTemp :: "float64 option"
  cr_AvgHum :: "float64 option"
  cr_Mode :: "string option"
  cr_TargetTemp :: "float64 option"
  cr_TargetHum :: "float64 option"
  cr_ControlSource :: "string option"
  cr_HeaterCmd :: "bool option"
  cr_HumidifierCmd :: "bool option"
  cr_DeadbandTemp :: "float64 option"
  cr_DeadbandHum :: "float64 option"

record ClimateHistoryPoint =
  hp_Time :: instant
  hp_AvgTemp :: "float64 option"
  hp_AvgHum :: "float64 option"
  hp_HeaterDuty :: "float64 option"
  hp_HumidifierDuty :: "float64 option"
  hp_TargetTemp :: "float64 option"
  hp_TargetHum :: "float64 option"
  hp_DeadbandTemp :: "float64 option"
  hp_DeadbandHum :: "float64 option"

record ClimateHistoryResult =
  ch_BucketSeconds :: int
  ch_Points :: "ClimateHistoryPoint list"

section \<open>Queries\<close>

text \<open>A read of the log rows, which may fail.\<close>

definition query_logs :: "(ControlLogEntry list \<Rightarrow> 'a) \<Rightarrow> ('z api_world_scheme, 'a) act" where
  "query_logs f = bindE (query (\<lambda>_. ())) (\<lambda>_ w. (Inr (f (aw_logs w)), w))"

text \<open>\<open>ORDER BY time DESC LIMIT 1\<close>\<close>

definition latest_row :: "ControlLogEntry list \<Rightarrow> ControlLogEntry option" where
  "latest_row rows = fold (\<lambda>e best. case best of
     None \<Rightarrow> Some e
   | Some b \<Rightarrow> if cle_Time b < cle_Time e then Some e else Some b) rows None"

definition climate_of :: "ControlLogEntry \<Rightarrow> ClimateReading" where
  "climate_of s =
     \<lparr>cr_Time = cle_Time s, cr_AvgTemp = cle_AvgTemp s, cr_AvgHum = cle_AvgHum s,
      cr_Mode = Some (cle_Mode s), cr_TargetTemp = cle_TargetTemp s, cr_TargetHum = cle_TargetHum s,
      cr_ControlSource = Some (cle_ControlSource s),
      cr_HeaterCmd = map_option (\<lambda>v. v = 1) (cle_HeaterCmd s),
      cr_HumidifierCmd = map_option (\<lambda>v. v = 1) (cle_HumidifierCmd s),
      cr_DeadbandTemp = cle_DeadbandTemp s, cr_DeadbandHum = cle_DeadbandHum s\<rparr>"

definition LatestClimate :: "uuid \<Rightarrow> ('z api_world_scheme, ClimateReading option) act" where
  "LatestClimate roomID = query_logs (\<lambda>logs.
     map_option climate_of (latest_row (filter (\<lambda>e. cle_RoomID e = roomID) logs)))"

definition DefaultDensity :: int where
  "DefaultDensity = 120"

definition bucketLadder :: "int list" where
  "bucketLadder = [30, 60, 120, 300, 600, 900, 1800, 3600, 7200, 10800, 21600]"

definition nearestBucket :: "int \<Rightarrow> int" where
  "nearestBucket n = fold (\<lambda>v best. if \<bar>v - n\<bar> < \<bar>best - n\<bar> then v else best)
     (tl bucketLadder) (hd bucketLadder)"

definition windowParams :: "string \<Rightarrow> int \<Rightarrow> int \<times> int" where
  "windowParams window density =
     (let windowSecs = (if window = ''1h'' then 3600 else if window = ''6h'' then 21600
                        else if window = ''7d'' then 604800 else 86400)
      in (windowSecs, nearestBucket (quot windowSecs density)))"

text \<open>\<open>AVG\<close> ignores NULLs and is NULL without a value.\<close>

definition sql_avg :: "float64 option list \<Rightarrow> float64 option" where
  "sql_avg vs = (let xs = concat (map (\<lambda>v. case v of None \<Rightarrow> [] | Some x \<Rightarrow> [x]) vs)
                 in if xs = [] then None else Some (sum_list xs / of_nat (length xs)))"

definition duty :: "int16 option \<Rightarrow> float64 option" where
  "duty = map_option (\<lambda>v. of_int (sint v))"

definition history_point :: "instant \<Rightarrow> ControlLogEntry list \<Rightarrow> ClimateHistoryPoint" where
  "history_point bucket rows =
     \<lparr>hp_Time = bucket,
      hp_AvgTemp = sql_avg (map cle_AvgTemp rows), hp_AvgHum = sql_avg (map cle_AvgHum rows),
      hp_HeaterDuty = sql_avg (map (duty \<circ> cle_HeaterCmd) rows),
      hp_HumidifierDuty = sql_avg (map (duty \<circ> cle_HumidifierCmd) rows),
      hp_TargetTemp = sql_avg (map cle_TargetTemp rows), hp_TargetHum = sql_avg (map cle_TargetHum rows),
      hp_DeadbandTemp = sql_avg (map cle_DeadbandTemp rows),
      hp_DeadbandHum = sql_avg (map cle_DeadbandHum rows)\<rparr>"

text \<open>\<open>GROUP BY bucket ORDER BY bucket ASC\<close>\<close>

definition history_points ::
    "(int \<Rightarrow> instant \<Rightarrow> instant) \<Rightarrow> int \<Rightarrow> ControlLogEntry list \<Rightarrow> ClimateHistoryPoint list" where
  "history_points tb bucketSecs rows =
     map (\<lambda>b. history_point b (filter (\<lambda>e. tb bucketSecs (cle_Time e) = b) rows))
       (sort (remdups (map (\<lambda>e. tb bucketSecs (cle_Time e)) rows)))"

definition ClimateHistory ::
    "(int \<Rightarrow> instant \<Rightarrow> instant) \<Rightarrow> instant \<Rightarrow> uuid \<Rightarrow> string \<Rightarrow> int \<Rightarrow>
     ('z api_world_scheme, ClimateHistoryResult) act" where
  "ClimateHistory tb now roomID window density =
     (let window' = (if window = [] then ''24h'' else window);
          density' = (if density \<le> 0 then DefaultDensity else density);
          (windowSecs, bucketSecs) = windowParams window' density'
      in query_logs (\<lambda>logs.
           \<lparr>ch_BucketSeconds = bucketSecs,
            ch_Points = history_points tb bucketSecs
              (filter (\<lambda>e. cle_RoomID e = roomID \<and> now - windowSecs * Second \<le> cle_Time e) logs)\<rparr>))"

section \<open>Lemmas\<close>

lemma frames_query_logs [frame_rules]:
  "frames w_db (query_logs f)" "frames aw_events (query_logs f)" "frames aw_logs (query_logs f)"
  by (simp_all add: frames_def query_logs_def bindE_run query_def split: list.split)

lemma query_logs_InrD: "query_logs f w = (Inr x, w') \<Longrightarrow> x = f (aw_logs w)"
  unfolding query_logs_def
  by (elim bindE_InrE) (auto simp: query_def split: list.splits if_splits)

lemma query_logs_ok: "w_faults w = [] \<Longrightarrow> query_logs f w = (Inr (f (aw_logs w)), w)"
  by (simp add: query_logs_def bindE_run query_ok)

text \<open>The search keeps the first of the closest values.\<close>

lemma closest_fold:
  fixes n :: int
  shows "fold (\<lambda>v best. if \<bar>v - n\<bar> < \<bar>best - n\<bar> then v else best) vs b \<in> set (b # vs)
     \<and> (\<forall>v \<in> set (b # vs). \<bar>fold (\<lambda>v best. if \<bar>v - n\<bar> < \<bar>best - n\<bar> then v else best) vs b - n\<bar> \<le> \<bar>v - n\<bar>)"
proof (induction vs arbitrary: b)
  case (Cons a vs)
  let ?c = "if \<bar>a - n\<bar> < \<bar>b - n\<bar> then a else b"
  from Cons.IH [of ?c] show ?case by (auto split: if_splits)
qed simp

lemma nearestBucket_closest:
  "nearestBucket n \<in> set bucketLadder \<and> (\<forall>v \<in> set bucketLadder. \<bar>nearestBucket n - n\<bar> \<le> \<bar>v - n\<bar>)"
proof -
  have ladder: "hd bucketLadder # tl bucketLadder = bucketLadder" by (simp add: bucketLadder_def)
  show ?thesis
    using closest_fold [of n "tl bucketLadder" "hd bucketLadder"]
    unfolding ladder nearestBucket_def [symmetric] .
qed

lemma bucketLadder_range: "v \<in> set bucketLadder \<Longrightarrow> 30 \<le> v \<and> v \<le> 21600"
  by (auto simp: bucketLadder_def)

lemma nearestBucket_range: "30 \<le> nearestBucket n \<and> nearestBucket n \<le> 21600"
  using nearestBucket_closest bucketLadder_range by blast

lemma latest_row_fold:
  "\<exists>r. fold (\<lambda>e best. case best of None \<Rightarrow> Some e
        | Some b \<Rightarrow> if cle_Time b < cle_Time e then Some e else Some b) rows (Some b) = Some r
     \<and> r \<in> set (b # rows) \<and> (\<forall>e \<in> set (b # rows). cle_Time e \<le> cle_Time r)"
proof (induction rows arbitrary: b)
  case (Cons a rows)
  let ?c = "if cle_Time b < cle_Time a then a else b"
  from Cons.IH [of ?c] show ?case by (fastforce split: if_splits)
qed simp

lemma latest_row_spec:
  "case latest_row rows of None \<Rightarrow> rows = []
   | Some r \<Rightarrow> r \<in> set rows \<and> (\<forall>e \<in> set rows. cle_Time e \<le> cle_Time r)"
proof (cases rows)
  case (Cons a rs)
  with latest_row_fold [of rs a] show ?thesis by (auto simp: latest_row_def)
qed (simp add: latest_row_def)

end
