(* ===== verification/RoomApi.thy ===== *)
theory RoomApi
  imports MetricsApi
begin

text \<open>
  Package \<open>api-service/internal/room\<close>: repository, service and HTTP handlers of rooms, desired states
  and climate. The identifiers PostgreSQL's \<open>gen_random_uuid()\<close> hands out and the clock reading of a
  write are arguments; \<open>time.Parse(time.RFC3339, s)\<close> is the argument \<open>rfc3339\<close>.
\<close>

section \<open>Repository\<close>

definition RoomRepo_List :: "uuid \<Rightarrow> ('z api_world_scheme, room_row list) act" where
  "RoomRepo_List userID = query (\<lambda>db. filter (\<lambda>r. r_user_id r = userID) (t_rooms db))"

definition owned_room :: "uuid \<Rightarrow> uuid \<Rightarrow> appdb \<Rightarrow> room_row option" where
  "owned_room i userID db = List.find (\<lambda>r. r_id r = i \<and> r_user_id r = userID) (t_rooms db)"

definition RoomRepo_GetByIDAndUserID :: "uuid \<Rightarrow> uuid \<Rightarrow> ('z api_world_scheme, room_row) act" where
  "RoomRepo_GetByIDAndUserID i userID = first_or (RoomE Room_ErrNotFound) (owned_room i userID)"

definition RoomRepo_CreateWithDesiredState ::
    "uuid \<Rightarrow> uuid \<Rightarrow> instant \<Rightarrow> room_row \<Rightarrow> ('z api_world_scheme, room_row) act" where
  "RoomRepo_CreateWithDesiredState newRoom newState now room =
     (let rm = room\<lparr>r_id := newRoom, r_created_at := now, r_updated_at := now\<rparr>;
          ds = \<lparr>ds_id = newState, ds_room_id = newRoom, ds_mode = ''OFF'', ds_manual_active = False,
                ds_target_temp = None, ds_target_hum = None, ds_manual_override_until = None,
                ds_created_at = now, ds_updated_at = now\<rparr>
      in bindE (transaction
           (bindE (on_unique (RoomE Room_ErrNameTaken) (exec (insert_room rm))) (\<lambda>_.
            exec (insert_desired ds)))) (\<lambda>_. returnE rm))"

text \<open>\<open>Save\<close> stamps \<open>updated_at\<close>, in the row and in the struct it is given.\<close>

definition RoomRepo_Update :: "instant \<Rightarrow> room_row \<Rightarrow> ('z api_world_scheme, room_row) act" where
  "RoomRepo_Update now rm =
     (let rm' = rm\<lparr>r_updated_at := now\<rparr>
      in bindE (on_unique (RoomE Room_ErrNameTaken) (exec (save_room rm'))) (\<lambda>_. returnE rm'))"

definition RoomRepo_Delete :: "uuid \<Rightarrow> ('z api_world_scheme, unit) act" where
  "RoomRepo_Delete i = exec (delete_room i)"

definition RoomRepo_GetDesiredState :: "uuid \<Rightarrow> ('z api_world_scheme, desired_row) act" where
  "RoomRepo_GetDesiredState roomID =
     first_or (RoomE Room_ErrNotFound) (\<lambda>db. List.find (\<lambda>d. ds_room_id d = roomID) (t_desired db))"

definition RoomRepo_UpdateDesiredState ::
    "instant \<Rightarrow> desired_row \<Rightarrow> ('z api_world_scheme, desired_row) act" where
  "RoomRepo_UpdateDesiredState now ds =
     (let ds' = ds\<lparr>ds_updated_at := now\<rparr> in bindE (exec (save_desired ds')) (\<lambda>_. returnE ds'))"

subsection \<open>Capabilities\<close>

record RoomCapabilities =
  cap_Temperature :: bool
  cap_Humidity :: bool

record RoomWithCapabilities =
  rw_Room :: room_row
  rw_Capabilities :: RoomCapabilities

text \<open>The \<open>EXISTS\<close> subqueries, over the devices a condition selects.\<close>

definition exists_sensor :: "(device_row \<Rightarrow> bool) \<Rightarrow> string \<Rightarrow> appdb \<Rightarrow> bool" where
  "exists_sensor D ty db \<longleftrightarrow> (\<exists>d \<in> set (t_devices db). D d
     \<and> (\<exists>s \<in> set (t_sensors db). s_device_id s = d_id d \<and> s_measurement_type s = ty))"

definition exists_actuator :: "(device_row \<Rightarrow> bool) \<Rightarrow> string \<Rightarrow> appdb \<Rightarrow> bool" where
  "exists_actuator D ty db \<longleftrightarrow> (\<exists>d \<in> set (t_devices db). D d
     \<and> (\<exists>a \<in> set (t_actuators db). a_device_id a = d_id d \<and> a_actuator_type a = ty))"

definition room_capabilities :: "(device_row \<Rightarrow> bool) \<Rightarrow> appdb \<Rightarrow> RoomCapabilities" where
  "room_capabilities D db =
     \<lparr>cap_Temperature = exists_sensor D ''temperature'' db \<and> exists_actuator D ''heater'' db,
      cap_Humidity = exists_sensor D ''humidity'' db \<and> exists_actuator D ''humidifier'' db\<rparr>"

abbreviation in_room :: "uuid \<Rightarrow> device_row \<Rightarrow> bool" where
  "in_room roomID d \<equiv> d_room_id d = Some roomID"

definition RoomRepo_RoomCapabilities :: "uuid \<Rightarrow> ('z api_world_scheme, RoomCapabilities) act" where
  "RoomRepo_RoomCapabilities roomID = query (room_capabilities (in_room roomID))"

definition RoomRepo_BulkRoomCapabilities ::
    "uuid list \<Rightarrow> ('z api_world_scheme, uuid \<rightharpoonup> RoomCapabilities) act" where
  "RoomRepo_BulkRoomCapabilities ids =
     (if ids = [] then returnE Map.empty
      else bindE (query (\<lambda>db. map (\<lambda>r. (r_id r, room_capabilities (in_room (r_id r)) db))
             (filter (\<lambda>r. r_id r \<in> set ids) (t_rooms db)))) (\<lambda>rows.
           returnE (foldl (\<lambda>out (i, c). out(i \<mapsto> c)) Map.empty rows)))"

definition HasTemperatureCapability :: "uuid \<Rightarrow> ('z api_world_scheme, bool) act" where
  "HasTemperatureCapability roomID =
     bindE (RoomRepo_RoomCapabilities roomID) (\<lambda>caps. returnE (cap_Temperature caps))"

definition HasHumidityCapability :: "uuid \<Rightarrow> ('z api_world_scheme, bool) act" where
  "HasHumidityCapability roomID =
     bindE (RoomRepo_RoomCapabilities roomID) (\<lambda>caps. returnE (cap_Humidity caps))"

section \<open>Service\<close>

text \<open>31 December 9999, 23:59:59 UTC.\<close>

definition indefiniteOverride :: instant where
  "indefiniteOverride = 253402300799 * Second"

definition defaultTempDeadband :: float64 where
  "defaultTempDeadband = 1 / 2"

definition defaultHumDeadband :: float64 where
  "defaultHumDeadband = 2"

definition RoomSvc_List :: "uuid \<Rightarrow> ('z api_world_scheme, RoomWithCapabilities list) act" where
  "RoomSvc_List userID =
     bindE (RoomRepo_List userID) (\<lambda>rms.
     bindE (RoomRepo_BulkRoomCapabilities (map r_id rms)) (\<lambda>caps.
     returnE (map (\<lambda>rm. \<lparr>rw_Room = rm, rw_Capabilities = (case caps (r_id rm) of
         None \<Rightarrow> \<lparr>cap_Temperature = False, cap_Humidity = False\<rparr> | Some c \<Rightarrow> c)\<rparr>) rms)))"

definition RoomSvc_GetByID :: "uuid \<Rightarrow> uuid \<Rightarrow> ('z api_world_scheme, RoomWithCapabilities) act" where
  "RoomSvc_GetByID i userID =
     bindE (RoomRepo_GetByIDAndUserID i userID) (\<lambda>rm.
     bindE (RoomRepo_RoomCapabilities (r_id rm)) (\<lambda>caps.
     returnE \<lparr>rw_Room = rm, rw_Capabilities = caps\<rparr>))"

definition RoomSvc_Create ::
    "(uuid \<Rightarrow> string) \<Rightarrow> uuid \<Rightarrow> uuid \<Rightarrow> instant \<Rightarrow> uuid \<Rightarrow> string \<Rightarrow> ('z api_world_scheme, room_row) act" where
  "RoomSvc_Create ustr newRoom newState now userID name =
     bindE (RoomRepo_CreateWithDesiredState newRoom newState now
        \<lparr>r_id = 0, r_user_id = userID, r_name = name, r_deadband_temp = defaultTempDeadband,
         r_deadband_hum = defaultHumDeadband, r_created_at = 0, r_updated_at = 0\<rparr>) (\<lambda>rm.
     bindE (NotifyRoomCreated ustr (r_id rm)) (\<lambda>_.
     returnE rm))"

definition RoomSvc_Update ::
    "(uuid \<Rightarrow> string) \<Rightarrow> instant \<Rightarrow> uuid \<Rightarrow> uuid \<Rightarrow> string \<Rightarrow> float64 option \<Rightarrow> float64 option \<Rightarrow>
     ('z api_world_scheme, RoomWithCapabilities) act" where
  "RoomSvc_Update ustr now i userID name deadbandTemp deadbandHum =
     bindE (RoomRepo_GetByIDAndUserID i userID) (\<lambda>rm.
     bindE (RoomRepo_Update now (rm\<lparr>r_name := name,
         r_deadband_temp := (case deadbandTemp of None \<Rightarrow> r_deadband_temp rm | Some x \<Rightarrow> x),
         r_deadband_hum := (case deadbandHum of None \<Rightarrow> r_deadband_hum rm | Some x \<Rightarrow> x)\<rparr>)) (\<lambda>rm.
     bindE (NotifyRoomConfigChanged ustr (r_id rm)) (\<lambda>_.
     bindE (RoomRepo_RoomCapabilities (r_id rm)) (\<lambda>caps.
     returnE \<lparr>rw_Room = rm, rw_Capabilities = caps\<rparr>))))"

definition RoomSvc_Delete :: "(uuid \<Rightarrow> string) \<Rightarrow> uuid \<Rightarrow> uuid \<Rightarrow> ('z api_world_scheme, unit) act" where
  "RoomSvc_Delete ustr i userID =
     bindE (RoomRepo_GetByIDAndUserID i userID) (\<lambda>_.
     bindE (RoomRepo_Delete i) (\<lambda>_.
     NotifyRoomDeleted ustr i))"

definition RoomSvc_GetDesiredState :: "uuid \<Rightarrow> uuid \<Rightarrow> ('z api_world_scheme, desired_row) act" where
  "RoomSvc_GetDesiredState roomID userID =
     bindE (RoomRepo_GetByIDAndUserID roomID userID) (\<lambda>_. RoomRepo_GetDesiredState roomID)"

record UpdateDesiredStateInput =
  ui_Mode :: string
  ui_ManualActive :: bool
  ui_TargetTemp :: "float64 option"
  ui_TargetHum :: "float64 option"
  ui_ManualOverrideUntil :: "instant option"

definition RoomSvc_GetClimate :: "uuid \<Rightarrow> uuid \<Rightarrow> ('z api_world_scheme, ClimateReading option) act" where
  "RoomSvc_GetClimate roomID userID =
     bindE (RoomRepo_GetByIDAndUserID roomID userID) (\<lambda>_. LatestClimate roomID)"

definition RoomSvc_GetClimateHistory ::
    "(int \<Rightarrow> instant \<Rightarrow> instant) \<Rightarrow> instant \<Rightarrow> uuid \<Rightarrow> uuid \<Rightarrow> string \<Rightarrow> int \<Rightarrow>
     ('z api_world_scheme, ClimateHistoryResult) act" where
  "RoomSvc_GetClimateHistory tb now roomID userID window density =
     bindE (RoomRepo_GetByIDAndUserID roomID userID) (\<lambda>_. ClimateHistory tb now roomID window density)"

definition out_of_range :: "float64 \<Rightarrow> float64 \<Rightarrow> float64 option \<Rightarrow> bool" where
  "out_of_range lo hi v = (case v of None \<Rightarrow> False | Some x \<Rightarrow> x < lo \<or> hi < x)"

text \<open>\<open>ok, err := has(...); if err != nil { return err }; if !ok { return ErrNoCapability }\<close>\<close>

definition require_capability :: "bool \<Rightarrow> ('w, bool) act \<Rightarrow> ('w, unit) act" where
  "require_capability needed m =
     (if needed then bindE m (\<lambda>ok. failIf (\<not> ok) (RoomE Room_ErrNoCapability)) else returnE ())"

definition RoomSvc_UpdateDesiredState ::
    "(uuid \<Rightarrow> string) \<Rightarrow> instant \<Rightarrow> uuid \<Rightarrow> uuid \<Rightarrow> UpdateDesiredStateInput \<Rightarrow>
     ('z api_world_scheme, desired_row) act" where
  "RoomSvc_UpdateDesiredState ustr now roomID userID input =
     bindE (RoomRepo_GetByIDAndUserID roomID userID) (\<lambda>_.
     bindE (failIf (out_of_range 5 40 (ui_TargetTemp input)) (RoomE Room_ErrInvalidTarget)) (\<lambda>_.
     bindE (failIf (out_of_range 0 100 (ui_TargetHum input)) (RoomE Room_ErrInvalidTarget)) (\<lambda>_.
     bindE (if ui_ManualActive input \<and> ui_Mode input = ''AUTO''
            then bindE (failIf (ui_TargetTemp input = None \<and> ui_TargetHum input = None)
                          (RoomE Room_ErrInvalidState)) (\<lambda>_.
                 bindE (require_capability (ui_TargetTemp input \<noteq> None) (HasTemperatureCapability roomID)) (\<lambda>_.
                 require_capability (ui_TargetHum input \<noteq> None) (HasHumidityCapability roomID)))
            else returnE ()) (\<lambda>_.
     bindE (RoomRepo_GetDesiredState roomID) (\<lambda>ds.
     bindE (RoomRepo_UpdateDesiredState now (ds\<lparr>ds_mode := ui_Mode input,
         ds_manual_active := ui_ManualActive input, ds_target_temp := ui_TargetTemp input,
         ds_target_hum := ui_TargetHum input,
         ds_manual_override_until := ui_ManualOverrideUntil input\<rparr>)) (\<lambda>ds.
     bindE (NotifyDesiredStateChanged ustr roomID) (\<lambda>_.
     returnE ds)))))))"

section \<open>Handlers\<close>

definition room_error_text :: "room_error \<Rightarrow> string" where
  "room_error_text e = (case e of
     Room_ErrNotFound \<Rightarrow> ''room not found''
   | Room_ErrNameTaken \<Rightarrow> ''room name already taken''
   | Room_ErrNoCapability \<Rightarrow> ''room lacks required sensors or actuators for requested mode''
   | Room_ErrInvalidState \<Rightarrow> ''AUTO mode requires at least one target (temp or humidity)''
   | Room_ErrInvalidOverride \<Rightarrow> ''manual_override must be a valid RFC3339 timestamp, '' @ [CHR 0x22]
       @ ''indefinite'' @ [CHR 0x22] @ '', or null''
   | Room_ErrInvalidTarget \<Rightarrow> ''target_temp must be between 5 and 40, target_hum must be between 0 and 100'')"

record roomRequest =
  rq_Name :: string
  rq_DeadbandTemp :: "float64 option"
  rq_DeadbandHum :: "float64 option"

definition roomRequest_tags :: "roomRequest \<Rightarrow> tag_failures" where
  "roomRequest_tags req =
     (if rq_Name req = [] then [(''Name'', ''required'')] else [])
   @ (case rq_DeadbandTemp req of Some x \<Rightarrow> if x \<le> 0 then [(''DeadbandTemp'', ''gt'')] else [] | None \<Rightarrow> [])
   @ (case rq_DeadbandHum req of Some x \<Rightarrow> if x \<le> 0 then [(''DeadbandHum'', ''gt'')] else [] | None \<Rightarrow> [])"

record updateDesiredStateRequest =
  dq_Mode :: string
  dq_ManualActive :: bool
  dq_TargetTemp :: "float64 option"
  dq_TargetHum :: "float64 option"
  dq_ManualOverride :: "string option"

definition updateDesiredStateRequest_tags :: "updateDesiredStateRequest \<Rightarrow> tag_failures" where
  "updateDesiredStateRequest_tags req =
     (if dq_Mode req = [] then [(''Mode'', ''required'')]
      else if dq_Mode req \<notin> {''OFF'', ''AUTO''} then [(''Mode'', ''oneof'')] else [])"

definition roomResponse :: "RoomWithCapabilities \<Rightarrow> json" where
  "roomResponse rm = JObj
     [(''id'', JUuid (r_id (rw_Room rm))), (''name'', JStr (r_name (rw_Room rm))),
      (''deadband_temp'', JNum (r_deadband_temp (rw_Room rm))),
      (''deadband_hum'', JNum (r_deadband_hum (rw_Room rm))),
      (''created_at'', JTime (r_created_at (rw_Room rm))),
      (''updated_at'', JTime (r_updated_at (rw_Room rm))),
      (''capabilities'', JObj
         [(''temperature'', JBool (cap_Temperature (rw_Capabilities rm))),
          (''humidity'', JBool (cap_Humidity (rw_Capabilities rm)))])]"

definition desiredStateResponse :: "desired_row \<Rightarrow> json" where
  "desiredStateResponse ds = JObj
     [(''id'', JUuid (ds_id ds)), (''room_id'', JUuid (ds_room_id ds)), (''mode'', JStr (ds_mode ds)),
      (''manual_active'', JBool (ds_manual_active ds)), (''target_temp'', JOpt JNum (ds_target_temp ds)),
      (''target_hum'', JOpt JNum (ds_target_hum ds)),
      (''manual_override_until'', if ds_manual_override_until ds = Some indefiniteOverride
         then JStr ''indefinite'' else JOpt JTime (ds_manual_override_until ds)),
      (''updated_at'', JTime (ds_updated_at ds))]"

definition resolveManualOverride ::
    "(string \<Rightarrow> instant option) \<Rightarrow> string option \<Rightarrow> error + instant option" where
  "resolveManualOverride rfc3339 raw = (case raw of
     None \<Rightarrow> Inr None
   | Some s \<Rightarrow>
       if s = ''indefinite'' then Inr (Some indefiniteOverride)
       else (case rfc3339 s of None \<Rightarrow> Inl (RoomE Room_ErrInvalidOverride) | Some t \<Rightarrow> Inr (Some t)))"

definition climateJSON :: "ClimateReading \<Rightarrow> json" where
  "climateJSON r = JObj
     [(''time'', JTime (cr_Time r)), (''avg_temp'', JOpt JNum (cr_AvgTemp r)),
      (''avg_hum'', JOpt JNum (cr_AvgHum r)), (''mode'', JOpt JStr (cr_Mode r)),
      (''target_temp'', JOpt JNum (cr_TargetTemp r)), (''target_hum'', JOpt JNum (cr_TargetHum r)),
      (''control_source'', JOpt JStr (cr_ControlSource r)), (''heater_cmd'', JOpt JBool (cr_HeaterCmd r)),
      (''humidifier_cmd'', JOpt JBool (cr_HumidifierCmd r)),
      (''deadband_temp'', JOpt JNum (cr_DeadbandTemp r)), (''deadband_hum'', JOpt JNum (cr_DeadbandHum r))]"

definition pointJSON :: "ClimateHistoryPoint \<Rightarrow> json" where
  "pointJSON p = JObj
     [(''time'', JTime (hp_Time p)), (''avg_temp'', JOpt JNum (hp_AvgTemp p)),
      (''avg_hum'', JOpt JNum (hp_AvgHum p)), (''heater_duty'', JOpt JNum (hp_HeaterDuty p)),
      (''humidifier_duty'', JOpt JNum (hp_HumidifierDuty p)), (''target_temp'', JOpt JNum (hp_TargetTemp p)),
      (''target_hum'', JOpt JNum (hp_TargetHum p)), (''deadband_temp'', JOpt JNum (hp_DeadbandTemp p)),
      (''deadband_hum'', JOpt JNum (hp_DeadbandHum p))]"

definition room_error_case :: "nat \<Rightarrow> room_error \<Rightarrow> error \<times> response" where
  "room_error_case code e = (RoomE e, errorJSON code (room_error_text e))"

definition RoomH_List :: "uuid \<Rightarrow> ('z api_world_scheme) handler" where
  "RoomH_List userID = respond (RoomSvc_List userID) (\<lambda>_. internalError)
     (\<lambda>rms. JSON 200 (JList (map roomResponse rms)))"

definition RoomH_Create ::
    "(uuid \<Rightarrow> string) \<Rightarrow> uuid \<Rightarrow> uuid \<Rightarrow> instant \<Rightarrow> uuid \<Rightarrow> string + roomRequest \<Rightarrow> ('z api_world_scheme) handler" where
  "RoomH_Create ustr newRoom newState now userID body =
     with_body (ShouldBindJSON ''roomRequest'' roomRequest_tags body) (\<lambda>req.
     respond (RoomSvc_Create ustr newRoom newState now userID (rq_Name req))
       (error_cases [room_error_case 409 Room_ErrNameTaken])
       (\<lambda>rm. JSON 201 (roomResponse \<lparr>rw_Room = rm,
           rw_Capabilities = \<lparr>cap_Temperature = False, cap_Humidity = False\<rparr>\<rparr>)))"

definition RoomH_Get :: "(string \<Rightarrow> uuid option) \<Rightarrow> uuid \<Rightarrow> string \<Rightarrow> ('z api_world_scheme) handler" where
  "RoomH_Get uparse userID param =
     with_param uparse param ''invalid room id'' (\<lambda>roomID.
     respond (RoomSvc_GetByID roomID userID) (error_cases [room_error_case 404 Room_ErrNotFound])
       (\<lambda>rm. JSON 200 (roomResponse rm)))"

definition RoomH_Update ::
    "(string \<Rightarrow> uuid option) \<Rightarrow> (uuid \<Rightarrow> string) \<Rightarrow> instant \<Rightarrow> uuid \<Rightarrow> string \<Rightarrow> string + roomRequest \<Rightarrow>
     ('z api_world_scheme) handler" where
  "RoomH_Update uparse ustr now userID param body =
     with_param uparse param ''invalid room id'' (\<lambda>roomID.
     with_body (ShouldBindJSON ''roomRequest'' roomRequest_tags body) (\<lambda>req.
     respond (RoomSvc_Update ustr now roomID userID (rq_Name req) (rq_DeadbandTemp req) (rq_DeadbandHum req))
       (error_cases [room_error_case 404 Room_ErrNotFound, room_error_case 409 Room_ErrNameTaken])
       (\<lambda>rm. JSON 200 (roomResponse rm))))"

definition RoomH_Delete ::
    "(string \<Rightarrow> uuid option) \<Rightarrow> (uuid \<Rightarrow> string) \<Rightarrow> uuid \<Rightarrow> string \<Rightarrow> ('z api_world_scheme) handler" where
  "RoomH_Delete uparse ustr userID param =
     with_param uparse param ''invalid room id'' (\<lambda>roomID.
     respond (RoomSvc_Delete ustr roomID userID) (error_cases [room_error_case 404 Room_ErrNotFound])
       (\<lambda>_. Status 204))"

definition RoomH_GetDesiredState ::
    "(string \<Rightarrow> uuid option) \<Rightarrow> uuid \<Rightarrow> string \<Rightarrow> ('z api_world_scheme) handler" where
  "RoomH_GetDesiredState uparse userID param =
     with_param uparse param ''invalid room id'' (\<lambda>roomID.
     respond (RoomSvc_GetDesiredState roomID userID) (error_cases [room_error_case 404 Room_ErrNotFound])
       (\<lambda>ds. JSON 200 (desiredStateResponse ds)))"

definition RoomH_UpdateDesiredState ::
    "(string \<Rightarrow> uuid option) \<Rightarrow> (uuid \<Rightarrow> string) \<Rightarrow> (string \<Rightarrow> instant option) \<Rightarrow> instant \<Rightarrow> uuid \<Rightarrow> string \<Rightarrow>
     string + updateDesiredStateRequest \<Rightarrow> ('z api_world_scheme) handler" where
  "RoomH_UpdateDesiredState uparse ustr rfc3339 now userID param body =
     with_param uparse param ''invalid room id'' (\<lambda>roomID.
     with_body (ShouldBindJSON ''updateDesiredStateRequest'' updateDesiredStateRequest_tags body) (\<lambda>req.
     case resolveManualOverride rfc3339 (dq_ManualOverride req) of
       Inl _ \<Rightarrow> answer (errorJSON 422 (room_error_text Room_ErrInvalidOverride))
     | Inr overrideUntil \<Rightarrow>
         respond (RoomSvc_UpdateDesiredState ustr now roomID userID
             \<lparr>ui_Mode = dq_Mode req, ui_ManualActive = dq_ManualActive req,
              ui_TargetTemp = dq_TargetTemp req, ui_TargetHum = dq_TargetHum req,
              ui_ManualOverrideUntil = overrideUntil\<rparr>)
           (error_cases [room_error_case 404 Room_ErrNotFound, room_error_case 422 Room_ErrInvalidTarget,
              room_error_case 422 Room_ErrInvalidState, room_error_case 422 Room_ErrNoCapability])
           (\<lambda>ds. JSON 200 (desiredStateResponse ds))))"

definition RoomH_GetClimate :: "(string \<Rightarrow> uuid option) \<Rightarrow> uuid \<Rightarrow> string \<Rightarrow> ('z api_world_scheme) handler" where
  "RoomH_GetClimate uparse userID param =
     with_param uparse param ''invalid room id'' (\<lambda>roomID.
     respond (RoomSvc_GetClimate roomID userID) (error_cases [room_error_case 404 Room_ErrNotFound])
       (\<lambda>reading. case reading of None \<Rightarrow> Status 204 | Some r \<Rightarrow> JSON 200 (climateJSON r)))"

definition climate_windows :: "string list" where
  "climate_windows = [''1h'', ''6h'', ''24h'', ''7d'']"

definition RoomH_GetClimateHistory ::
    "(string \<Rightarrow> uuid option) \<Rightarrow> (int \<Rightarrow> instant \<Rightarrow> instant) \<Rightarrow> instant \<Rightarrow> uuid \<Rightarrow> string \<Rightarrow> string \<Rightarrow> string \<Rightarrow>
     ('z api_world_scheme) handler" where
  "RoomH_GetClimateHistory uparse tb now userID param window rawDensity =
     with_param uparse param ''invalid room id'' (\<lambda>roomID.
     if window \<noteq> [] \<and> window \<notin> set climate_windows
     then answer (errorJSON 400 ''invalid window: must be one of 1h, 6h, 24h, 7d'')
     else
       (let effectiveWindow = (if window = [] then ''24h'' else window) in
        case (if rawDensity = [] then Some 0
              else (case Atoi rawDensity of None \<Rightarrow> None | Some n \<Rightarrow> if n \<le> 0 then None else Some n)) of
          None \<Rightarrow> answer (errorJSON 400 ''invalid density: must be a positive integer'')
        | Some density \<Rightarrow>
            respond (RoomSvc_GetClimateHistory tb now roomID userID effectiveWindow density)
              (error_cases [room_error_case 404 Room_ErrNotFound])
              (\<lambda>result. JSON 200 (JObj
                 [(''window'', JStr effectiveWindow),
                  (''bucket_seconds'', JNum (of_int (ch_BucketSeconds result))),
                  (''points'', JList (map pointJSON (ch_Points result)))]))))"

end
