(* ===== verification/Schema.thy ===== *)
theory Schema
  imports Database
begin

text \<open>
  What the migrations' keys promise of every state of \<open>appdb\<close>: primary keys identify rows, the unique
  columns are unique, foreign keys point to rows, and a room has at most one active schedule. Every
  statement of theory Database keeps these promises, whatever its arguments.
\<close>

section \<open>The invariant\<close>

definition keys_ok :: "appdb \<Rightarrow> bool" where
  "keys_ok db \<longleftrightarrow> distinct (map u_id (t_users db)) \<and> distinct (map u_email (t_users db))
     \<and> distinct (map r_id (t_rooms db)) \<and> distinct (map d_id (t_devices db))
     \<and> distinct (map d_hw_id (t_devices db)) \<and> distinct (map s_id (t_sensors db))
     \<and> distinct (map a_id (t_actuators db)) \<and> distinct (map ds_id (t_desired db))
     \<and> distinct (map ds_room_id (t_desired db)) \<and> distinct (map sc_id (t_schedules db))
     \<and> distinct (map p_id (t_periods db))"

definition refs_ok :: "appdb \<Rightarrow> bool" where
  "refs_ok db \<longleftrightarrow> r_user_id ` set (t_rooms db) \<subseteq> u_id ` set (t_users db)
     \<and> d_room_id ` set (t_devices db) \<subseteq> insert None (Some ` r_id ` set (t_rooms db))
     \<and> s_device_id ` set (t_sensors db) \<subseteq> d_id ` set (t_devices db)
     \<and> a_device_id ` set (t_actuators db) \<subseteq> d_id ` set (t_devices db)
     \<and> ds_room_id ` set (t_desired db) \<subseteq> r_id ` set (t_rooms db)
     \<and> sc_room_id ` set (t_schedules db) \<subseteq> r_id ` set (t_rooms db)
     \<and> p_schedule_id ` set (t_periods db) \<subseteq> sc_id ` set (t_schedules db)"

definition one_active :: "appdb \<Rightarrow> bool" where
  "one_active db \<longleftrightarrow> distinct (map sc_room_id (filter sc_is_active (t_schedules db)))"

definition db_ok :: "appdb \<Rightarrow> bool" where
  "db_ok db \<longleftrightarrow> keys_ok db \<and> refs_ok db \<and> one_active db"

lemmas db_ok_defs = db_ok_def keys_ok_def refs_ok_def one_active_def

lemma db_ok_empty: "db_ok empty_db"
  by (simp add: db_ok_defs empty_db_def)

section \<open>Rows\<close>

lemma map_key_replace [simp]: "map key (replace_row key r rs) = map key rs"
  by (simp add: replace_row_def)

lemma set_replace_row: "set (replace_row key r rs) \<subseteq> insert r (set rs)"
  by (auto simp: replace_row_def)

lemma image_key_replace [simp]: "key ` set (replace_row key r rs) = key ` set rs"
  by (metis list.set_map map_key_replace)

lemma replace_row_mem:
  "x \<in> set (replace_row key r rs) \<longleftrightarrow> (x \<in> set rs \<and> key x \<noteq> key r) \<or> (x = r \<and> key r \<in> key ` set rs)"
  by (induction rs) (auto simp: replace_row_def)

lemma image_replace_subset [simp]:
  "f r \<in> A \<Longrightarrow> f ` set rs \<subseteq> A \<Longrightarrow> f ` set (replace_row key r rs) \<subseteq> A"
  using set_replace_row [of key r rs] by auto

lemma image_filter_subset [simp]: "f ` set rs \<subseteq> A \<Longrightarrow> f ` set (filter P rs) \<subseteq> A"
  by auto

lemma map_same_column:
  "(\<And>x. f (g x) = f x) \<Longrightarrow> map f (map g rs) = map f rs"
  "(\<And>x. f (g x) = f x) \<Longrightarrow> f ` set (map g rs) = f ` set rs"
  by (simp_all add: image_image)

lemma surviving_refs:
  assumes "f ` set as \<subseteq> key ` set rs"
  shows "f ` set (filter (\<lambda>a. f a \<notin> key ` {r \<in> set rs. P r}) as) \<subseteq> key ` set (filter (\<lambda>r. \<not> P r) rs)"
  using assms by auto

text \<open>A unique column stays unique when the new row's value is not another row's.\<close>

lemma distinct_map_replace:
  assumes "distinct (map f rs)" and "\<And>x. x \<in> set rs \<Longrightarrow> key x \<noteq> key r \<Longrightarrow> f x \<noteq> f r"
    and "distinct (map key rs)"
  shows "distinct (map f (replace_row key r rs))"
  using assms
proof (induction rs)
  case (Cons a rs)
  then have IH: "distinct (map f (replace_row key r rs))" by simp
  show ?case
  proof (cases "key a = key r")
    case True
    with Cons.prems(3) have other: "\<forall>x \<in> set rs. key x \<noteq> key r" by (auto simp: image_iff)
    then have "replace_row key r (a # rs) = r # rs" by (auto simp: replace_row_def True intro!: map_idI)
    moreover have "f r \<notin> f ` set rs" using Cons.prems(2) other by (metis imageE insertI2 list.set(2))
    ultimately show ?thesis using Cons.prems(1) by simp
  next
    case False
    with Cons.prems(2) have "f a \<noteq> f r" by simp
    with False Cons.prems(1) IH show ?thesis by (auto simp: replace_row_def split: if_splits)
  qed
qed (simp add: replace_row_def)

lemma find_Some_mem: "List.find P rs = Some x \<Longrightarrow> x \<in> set rs \<and> P x"
  by (auto simp: find_Some_iff)

lemma find_NoneD: "List.find P rs = None \<Longrightarrow> x \<in> set rs \<Longrightarrow> \<not> P x"
  by (simp add: find_None_iff)

lemma find_unique:
  assumes "distinct (map key rs)" and "x \<in> set rs" and "P x" and "\<And>y. P y \<Longrightarrow> key y = key x"
  shows "List.find P rs = Some x"
proof (cases "List.find P rs")
  case None
  from find_NoneD [OF this assms(2)] assms(3) show ?thesis by blast
next
  case (Some y)
  from find_Some_mem [OF this] assms(4) have "y \<in> set rs" "key y = key x" by auto
  with assms(1,2) have "y = x" by (auto simp: distinct_map inj_on_def)
  with Some show ?thesis by simp
qed

lemma checked_shape:
  "(if b then None else case (x, y) of (Some t, Some h) \<Rightarrow> Some (f t h) | _ \<Rightarrow> None) = Some r
     \<longleftrightarrow> \<not> b \<and> (\<exists>t h. x = Some t \<and> y = Some h \<and> r = f t h)"
  by (auto split: option.splits)

lemma room_checked_keys:
  "room_checked r = Some r' \<Longrightarrow> r_id r' = r_id r \<and> r_user_id r' = r_user_id r \<and> r_name r' = r_name r"
  by (auto simp: room_checked_def split: option.splits)

lemma desired_checked_keys:
  "desired_checked d = Some d' \<Longrightarrow> ds_id d' = ds_id d \<and> ds_room_id d' = ds_room_id d"
  unfolding desired_checked_def checked_shape by (elim conjE exE) simp

lemma period_checked_keys:
  "period_checked p = Some p' \<Longrightarrow> p_id p' = p_id p \<and> p_schedule_id p' = p_schedule_id p
     \<and> p_days_of_week p' = p_days_of_week p \<and> p_start_time p' = p_start_time p \<and> p_end_time p' = p_end_time p"
  unfolding period_checked_def checked_shape by (elim conjE exE) simp

section \<open>Every statement keeps the invariant\<close>

named_theorems schema_rules "which statements keep the invariant"

definition keeps :: "(appdb \<Rightarrow> error + appdb) \<Rightarrow> bool" where
  "keeps f \<longleftrightarrow> (\<forall>db db'. f db = Inr db' \<longrightarrow> db_ok db \<longrightarrow> db_ok db')"

lemma keepsI: "(\<And>db db'. f db = Inr db' \<Longrightarrow> db_ok db \<Longrightarrow> db_ok db') \<Longrightarrow> keeps f"
  by (simp add: keeps_def)

lemma keepsD: "keeps f \<Longrightarrow> f db = Inr db' \<Longrightarrow> db_ok db \<Longrightarrow> db_ok db'"
  by (simp add: keeps_def)

text \<open>A chain of error branches before the write.\<close>

lemma write_shape:
  "(if b then Inl e else r) = Inr y \<longleftrightarrow> \<not> b \<and> r = Inr y"
  "(case v of None \<Rightarrow> Inl e | Some z \<Rightarrow> k z) = Inr y \<longleftrightarrow> (\<exists>z. v = Some z \<and> k z = Inr y)"
  by (auto split: option.split)

lemma keeps_insert_user [schema_rules]: "keeps (insert_user u)"
proof (rule keepsI)
  fix db db' assume "insert_user u db = Inr db'" and ok: "db_ok db"
  then have "u_id u \<notin> u_id ` set (t_users db)" "u_email u \<notin> u_email ` set (t_users db)"
    "db' = db\<lparr>t_users := t_users db @ [u]\<rparr>"
    unfolding insert_user_def write_shape by auto
  with ok show "db_ok db'" by (simp add: db_ok_defs subset_insertI2)
qed

lemma keeps_insert_room [schema_rules]: "keeps (insert_room r)"
proof (rule keepsI)
  fix db db' assume "insert_room r db = Inr db'" and ok: "db_ok db"
  then obtain r' where c: "room_checked r = Some r'" and db': "db' = db\<lparr>t_rooms := t_rooms db @ [r']\<rparr>"
    and n: "\<forall>x \<in> set (t_rooms db). r_id x \<noteq> r_id r" "r_user_id r \<in> u_id ` set (t_users db)"
    unfolding insert_room_def write_shape by blast
  from n(1) have "r_id r \<notin> r_id ` set (t_rooms db)" by auto
  with ok n(2) db' room_checked_keys [OF c] show "db_ok db'"
    by (auto simp add: db_ok_defs)
qed

lemma keeps_insert_desired [schema_rules]: "keeps (insert_desired d)"
proof (rule keepsI)
  fix db db' assume "insert_desired d db = Inr db'" and ok: "db_ok db"
  then obtain d' where c: "desired_checked d = Some d'" and db': "db' = db\<lparr>t_desired := t_desired db @ [d']\<rparr>"
    and n: "\<forall>x \<in> set (t_desired db). ds_id x \<noteq> ds_id d \<and> ds_room_id x \<noteq> ds_room_id d"
      "ds_room_id d \<in> r_id ` set (t_rooms db)"
    unfolding insert_desired_def write_shape by blast
  from n(1) have "ds_id d \<notin> ds_id ` set (t_desired db)" "ds_room_id d \<notin> ds_room_id ` set (t_desired db)" by auto
  with ok n(2) db' desired_checked_keys [OF c] show "db_ok db'" by (auto simp add: db_ok_defs)
qed

lemma keeps_insert_device [schema_rules]: "keeps (insert_device d)"
proof (rule keepsI)
  fix db db' assume "insert_device d db = Inr db'" and ok: "db_ok db"
  then have db': "db' = db\<lparr>t_devices := t_devices db @ [d]\<rparr>"
    and n: "\<forall>x \<in> set (t_devices db). d_id x \<noteq> d_id d \<and> d_hw_id x \<noteq> d_hw_id d"
      "\<forall>r \<in> set_option (d_room_id d). r \<in> r_id ` set (t_rooms db)"
    unfolding insert_device_def write_shape by auto
  from n(1) have "d_id d \<notin> d_id ` set (t_devices db)" "d_hw_id d \<notin> d_hw_id ` set (t_devices db)" by auto
  moreover from n(2) have "d_room_id d \<in> insert None (Some ` r_id ` set (t_rooms db))"
    by (cases "d_room_id d") auto
  ultimately show "db_ok db'" using ok db' by (simp add: db_ok_defs subset_insertI2)
qed

lemma keeps_insert_sensor [schema_rules]: "keeps (insert_sensor s)"
proof (rule keepsI)
  fix db db' assume "insert_sensor s db = Inr db'" and ok: "db_ok db"
  then have db': "db' = db\<lparr>t_sensors := t_sensors db @ [s]\<rparr>"
    and n: "\<forall>x \<in> set (t_sensors db). s_id x \<noteq> s_id s" "s_device_id s \<in> d_id ` set (t_devices db)"
    unfolding insert_sensor_def write_shape by (elim conjE; simp)+
  from n(1) have "s_id s \<notin> s_id ` set (t_sensors db)" by auto
  with ok n(2) db' show "db_ok db'" by (simp add: db_ok_defs)
qed

lemma keeps_insert_actuator [schema_rules]: "keeps (insert_actuator a)"
proof (rule keepsI)
  fix db db' assume "insert_actuator a db = Inr db'" and ok: "db_ok db"
  then have db': "db' = db\<lparr>t_actuators := t_actuators db @ [a]\<rparr>"
    and n: "\<forall>x \<in> set (t_actuators db). a_id x \<noteq> a_id a" "a_device_id a \<in> d_id ` set (t_devices db)"
    unfolding insert_actuator_def write_shape by (elim conjE; simp)+
  from n(1) have "a_id a \<notin> a_id ` set (t_actuators db)" by auto
  with ok n(2) db' show "db_ok db'" by (simp add: db_ok_defs)
qed

lemma keeps_insert_schedule [schema_rules]: "keeps (insert_schedule s)"
proof (rule keepsI)
  fix db db' assume "insert_schedule s db = Inr db'" and ok: "db_ok db"
  then have db': "db' = db\<lparr>t_schedules := t_schedules db @ [s]\<rparr>"
    and n: "\<forall>x \<in> set (t_schedules db). sc_id x \<noteq> sc_id s \<and> \<not> schedule_clash x s"
      "sc_room_id s \<in> r_id ` set (t_rooms db)"
    unfolding insert_schedule_def write_shape by auto
  from n(1) have "sc_id s \<notin> sc_id ` set (t_schedules db)"
    "sc_is_active s \<longrightarrow> sc_room_id s \<notin> sc_room_id ` set (filter sc_is_active (t_schedules db))"
    by (auto simp: schedule_clash_def)
  with ok n(2) db' show "db_ok db'" by (auto simp add: db_ok_defs)
qed

lemma keeps_insert_period [schema_rules]: "keeps (insert_period p)"
proof (rule keepsI)
  fix db db' assume "insert_period p db = Inr db'" and ok: "db_ok db"
  then obtain p' where c: "period_checked p = Some p'" and db': "db' = db\<lparr>t_periods := t_periods db @ [p']\<rparr>"
    and n: "\<forall>x \<in> set (t_periods db). p_id x \<noteq> p_id p" "p_schedule_id p \<in> sc_id ` set (t_schedules db)"
    unfolding insert_period_def write_shape by blast
  from n(1) have "p_id p \<notin> p_id ` set (t_periods db)" by auto
  with ok n(2) db' period_checked_keys [OF c] show "db_ok db'" by (simp add: db_ok_defs)
qed

lemma keeps_update_room [schema_rules]: "keeps (update_room r)"
proof (rule keepsI)
  fix db db' assume "update_room r db = Inr db'" and ok: "db_ok db"
  then obtain r' where c: "room_checked r = Some r'" and db': "db' = db\<lparr>t_rooms := replace_row r_id r' (t_rooms db)\<rparr>"
    and n: "r_user_id r \<in> u_id ` set (t_users db)"
    unfolding update_room_def write_shape by blast
  from ok n db' room_checked_keys [OF c] show "db_ok db'" by (simp add: db_ok_defs del: set_map)
qed

lemma keeps_update_desired [schema_rules]: "keeps (update_desired d)"
proof (rule keepsI)
  fix db db' assume "update_desired d db = Inr db'" and ok: "db_ok db"
  then obtain d' where c: "desired_checked d = Some d'"
    and db': "db' = db\<lparr>t_desired := replace_row ds_id d' (t_desired db)\<rparr>"
    and n: "\<forall>x \<in> set (t_desired db). ds_id x \<noteq> ds_id d \<longrightarrow> ds_room_id x \<noteq> ds_room_id d"
      "ds_room_id d \<in> r_id ` set (t_rooms db)"
    unfolding update_desired_def write_shape by blast
  note k = desired_checked_keys [OF c]
  from ok n(1) k have "distinct (map ds_room_id (replace_row ds_id d' (t_desired db)))"
    by (intro distinct_map_replace) (simp_all add: db_ok_defs)
  with ok n(2) db' k show "db_ok db'" by (simp add: db_ok_defs)
qed

lemma keeps_update_device [schema_rules]: "keeps (update_device d)"
proof (rule keepsI)
  fix db db' assume "update_device d db = Inr db'" and ok: "db_ok db"
  then have db': "db' = db\<lparr>t_devices := replace_row d_id d (t_devices db)\<rparr>"
    and n: "\<forall>x \<in> set (t_devices db). d_id x \<noteq> d_id d \<longrightarrow> d_hw_id x \<noteq> d_hw_id d"
      "\<forall>r \<in> set_option (d_room_id d). r \<in> r_id ` set (t_rooms db)"
    unfolding update_device_def write_shape by auto
  from ok n(1) have "distinct (map d_hw_id (replace_row d_id d (t_devices db)))"
    by (intro distinct_map_replace) (simp_all add: db_ok_defs)
  moreover from n(2) have "d_room_id d \<in> insert None (Some ` r_id ` set (t_rooms db))"
    by (cases "d_room_id d") auto
  ultimately show "db_ok db'" using ok db' by (simp add: db_ok_defs)
qed

text \<open>Replacing a row, or a column in some rows, and the active schedules.\<close>

lemma one_active_iff:
  assumes "distinct (map sc_id (t_schedules db))"
  shows "one_active db \<longleftrightarrow> (\<forall>x \<in> set (t_schedules db). \<forall>y \<in> set (t_schedules db).
    sc_is_active x \<and> sc_is_active y \<and> sc_room_id x = sc_room_id y \<longrightarrow> sc_id x = sc_id y)"
proof -
  have "distinct (t_schedules db)" using assms by (simp add: distinct_map)
  moreover have "sc_id x = sc_id y \<longleftrightarrow> x = y" if "x \<in> set (t_schedules db)" "y \<in> set (t_schedules db)" for x y
    using assms that by (auto simp: distinct_map inj_on_def)
  ultimately show ?thesis by (auto simp: one_active_def distinct_map inj_on_def)
qed

lemma keeps_update_schedule [schema_rules]: "keeps (update_schedule s)"
proof (rule keepsI)
  fix db db' assume "update_schedule s db = Inr db'" and ok: "db_ok db"
  then have db': "db' = db\<lparr>t_schedules := replace_row sc_id s (t_schedules db)\<rparr>"
    and n: "\<forall>x \<in> set (t_schedules db). sc_id x \<noteq> sc_id s \<longrightarrow> \<not> schedule_clash x s"
      "sc_room_id s \<in> r_id ` set (t_rooms db)"
    unfolding update_schedule_def write_shape by auto
  have dist: "distinct (map sc_id (t_schedules db))" "distinct (map sc_id (t_schedules db'))"
    using ok db' by (simp_all add: db_ok_defs)
  from ok have "one_active db" by (simp add: db_ok_def)
  then have A: "\<forall>x \<in> set (t_schedules db). \<forall>y \<in> set (t_schedules db).
      sc_is_active x \<and> sc_is_active y \<and> sc_room_id x = sc_room_id y \<longrightarrow> sc_id x = sc_id y"
    by (simp only: one_active_iff [OF dist(1)])
  have new: "t_schedules db' = replace_row sc_id s (t_schedules db)" by (simp add: db')
  have "one_active db'"
    unfolding one_active_iff [OF dist(2)] new
  proof (intro ballI impI)
    fix x y
    assume xy: "x \<in> set (replace_row sc_id s (t_schedules db))" "y \<in> set (replace_row sc_id s (t_schedules db))"
      and act: "sc_is_active x \<and> sc_is_active y \<and> sc_room_id x = sc_room_id y"
    show "sc_id x = sc_id y"
    proof (rule ccontr)
      assume ne: "sc_id x \<noteq> sc_id y"
      with xy A act have "x = s \<or> y = s" unfolding replace_row_mem by blast
      with ne xy n(1) act show False unfolding replace_row_mem schedule_clash_def by metis
    qed
  qed
  moreover have "keys_ok db'" "refs_ok db'" using ok n(2) db' by (simp_all add: db_ok_defs)
  ultimately show "db_ok db'" by (simp add: db_ok_def)
qed

lemma keeps_set_active [schema_rules]: "keeps (set_active P v now)"
proof (rule keepsI)
  fix db db' assume run: "set_active P v now db = Inr db'" and ok: "db_ok db"
  define new where "new = map (\<lambda>s. if P s then s\<lparr>sc_is_active := v, sc_updated_at := now\<rparr> else s) (t_schedules db)"
  from run have db': "db' = db\<lparr>t_schedules := new\<rparr>"
    and n: "\<forall>x \<in> set new. \<forall>y \<in> set new. sc_is_active x \<and> sc_is_active y \<and> sc_room_id x = sc_room_id y
      \<longrightarrow> sc_id x = sc_id y"
    unfolding set_active_def Let_def write_shape new_def by blast+
  have cols: "map sc_id new = map sc_id (t_schedules db)" "sc_id ` set new = sc_id ` set (t_schedules db)"
    "sc_room_id ` set new = sc_room_id ` set (t_schedules db)"
    unfolding new_def by (rule map_same_column; simp)+
  have keys: "keys_ok db'" and refs: "refs_ok db'"
    using ok by (simp_all add: db' db_ok_defs cols)
  from keys have "distinct (map sc_id (t_schedules db'))" by (simp add: keys_ok_def)
  moreover have "t_schedules db' = new" by (simp add: db')
  ultimately have "one_active db'" using n by (simp only: one_active_iff)
  with keys refs show "db_ok db'" by (simp add: db_ok_def)
qed

lemma keeps_update_period [schema_rules]: "keeps (update_period p)"
proof (rule keepsI)
  fix db db' assume "update_period p db = Inr db'" and ok: "db_ok db"
  then obtain p' where c: "period_checked p = Some p'"
    and db': "db' = db\<lparr>t_periods := replace_row p_id p' (t_periods db)\<rparr>"
    and n: "p_schedule_id p \<in> sc_id ` set (t_schedules db)"
    unfolding update_period_def write_shape by blast
  from ok n db' period_checked_keys [OF c] show "db_ok db'" by (simp add: db_ok_defs)
qed

lemma keeps_update_timezone [schema_rules]: "keeps (update_timezone i tz now)"
proof (rule keepsI)
  fix db db' assume run: "update_timezone i tz now db = Inr db'" and ok: "db_ok db"
  define new where "new = map (\<lambda>u. if u_id u = i then u\<lparr>u_timezone := tz, u_updated_at := now\<rparr> else u) (t_users db)"
  have cols: "map u_id new = map u_id (t_users db)" "map u_email new = map u_email (t_users db)"
    "u_id ` set new = u_id ` set (t_users db)"
    unfolding new_def by (rule map_same_column; simp)+
  from run have "db' = db\<lparr>t_users := new\<rparr>" by (simp add: update_timezone_def new_def)
  then show "db_ok db'" using ok by (simp add: db_ok_defs cols)
qed

subsection \<open>Deletes\<close>

lemma db_ok_delete_schedules:
  assumes "db_ok db"
  shows "db_ok (delete_schedules P db)"
proof -
  let ?dead = "sc_id ` {s \<in> set (t_schedules db). P s}"
  have "p_schedule_id ` set (filter (\<lambda>p. p_schedule_id p \<notin> ?dead) (t_periods db))
      \<subseteq> sc_id ` set (filter (\<lambda>s. \<not> P s) (t_schedules db))"
    using assms by (intro surviving_refs) (simp add: db_ok_defs)
  moreover have "distinct (map sc_room_id (filter sc_is_active (filter (\<lambda>s. \<not> P s) (t_schedules db))))"
    using assms distinct_map_filter [of sc_room_id "filter sc_is_active (t_schedules db)" "\<lambda>s. \<not> P s"]
    by (simp add: db_ok_defs conj_commute)
  ultimately show ?thesis using assms
    by (simp add: delete_schedules_def db_ok_defs distinct_map_filter del: set_filter)
qed

lemma db_ok_delete_rooms:
  assumes "db_ok db"
  shows "db_ok (delete_rooms P db)"
proof -
  let ?dead = "r_id ` {r \<in> set (t_rooms db). P r}"
  define live where "live = r_id ` set (filter (\<lambda>r. \<not> P r) (t_rooms db))"
  define db1 where "db1 = delete_schedules (\<lambda>s. sc_room_id s \<in> ?dead) db"
  define dev where "dev = map (\<lambda>d. if d_room_id d \<in> Some ` ?dead then d\<lparr>d_room_id := None\<rparr> else d) (t_devices db)"
  have ok: "db_ok db1" using assms unfolding db1_def by (rule db_ok_delete_schedules)
  have same: "t_devices db1 = t_devices db" "t_rooms db1 = t_rooms db" "t_desired db1 = t_desired db"
    "t_schedules db1 = filter (\<lambda>s. sc_room_id s \<notin> ?dead) (t_schedules db)"
    by (simp_all add: delete_schedules_def db1_def)
  have "d_room_id d \<in> insert None (Some ` live)" if "d \<in> set dev" for d
  proof (cases "d_room_id d")
    case (Some r)
    with that have dead: "Some r \<notin> Some ` ?dead" and d: "d \<in> set (t_devices db)"
      by (auto simp: dev_def split: if_splits)
    from assms have "d_room_id ` set (t_devices db) \<subseteq> insert None (Some ` r_id ` set (t_rooms db))"
      by (simp add: db_ok_defs)
    with d Some have "Some r \<in> Some ` r_id ` set (t_rooms db)" by (metis image_subset_iff insertE option.distinct(1))
    with dead have "r \<notin> ?dead" "r \<in> r_id ` set (t_rooms db)" by auto
    then show ?thesis using Some by (auto simp: live_def)
  qed simp
  then have "d_room_id ` set dev \<subseteq> insert None (Some ` live)" by auto
  moreover have "ds_room_id ` set (filter (\<lambda>d. ds_room_id d \<notin> ?dead) (t_desired db)) \<subseteq> live"
    "sc_room_id ` set (t_schedules db1) \<subseteq> live"
    using assms unfolding live_def same(4) by (intro surviving_refs, simp add: db_ok_defs)+
  moreover have "map d_id dev = map d_id (t_devices db)" "map d_hw_id dev = map d_hw_id (t_devices db)"
    "d_id ` set dev = d_id ` set (t_devices db)"
    unfolding dev_def by (rule map_same_column; simp)+
  moreover have "delete_rooms P db = db1\<lparr>t_rooms := filter (\<lambda>r. \<not> P r) (t_rooms db),
      t_desired := filter (\<lambda>d. ds_room_id d \<notin> ?dead) (t_desired db), t_devices := dev\<rparr>"
    unfolding delete_rooms_def Let_def db1_def dev_def ..
  ultimately show ?thesis using ok
    by (simp add: db_ok_defs distinct_map_filter same live_def [symmetric] del: set_filter)
qed

lemma db_ok_delete_devices:
  assumes "db_ok db"
  shows "db_ok (delete_devices P db)"
proof -
  let ?dead = "d_id ` {d \<in> set (t_devices db). P d}"
  have "s_device_id ` set (filter (\<lambda>s. s_device_id s \<notin> ?dead) (t_sensors db))
      \<subseteq> d_id ` set (filter (\<lambda>d. \<not> P d) (t_devices db))"
    "a_device_id ` set (filter (\<lambda>a. a_device_id a \<notin> ?dead) (t_actuators db))
      \<subseteq> d_id ` set (filter (\<lambda>d. \<not> P d) (t_devices db))"
    using assms by (intro surviving_refs, simp add: db_ok_defs)+
  then show ?thesis using assms
    by (simp add: delete_devices_def db_ok_defs distinct_map_filter del: set_filter)
qed

lemma keeps_deletes [schema_rules]:
  "keeps (delete_room i)" "keeps (delete_device i)" "keeps (delete_schedule i)" "keeps (delete_period i)"
proof -
  show "keeps (delete_period i)"
    by (rule keepsI) (auto simp: delete_period_def db_ok_defs distinct_map_filter)
qed (auto intro!: keepsI simp: delete_room_def delete_device_def delete_schedule_def db_ok_delete_rooms
      db_ok_delete_devices db_ok_delete_schedules)

lemma keeps_delete_user [schema_rules]: "keeps (delete_user i)"
proof (rule keepsI)
  fix db db' assume run: "delete_user i db = Inr db'" and ok: "db_ok db"
  define db1 where "db1 = delete_schedules (\<lambda>s. sc_user_id s = i)
     (delete_devices (\<lambda>d. d_user_id d = i) (delete_rooms (\<lambda>r. r_user_id r = i) db))"
  have ok1: "db_ok db1"
    unfolding db1_def by (intro db_ok_delete_schedules db_ok_delete_devices db_ok_delete_rooms ok)
  have "t_rooms db1 = filter (\<lambda>r. r_user_id r \<noteq> i) (t_rooms db)"
    by (simp add: db1_def delete_schedules_def delete_devices_def delete_rooms_def Let_def)
  then have "i \<notin> r_user_id ` set (t_rooms db1)" by auto
  moreover have "r_user_id ` set (t_rooms db1) \<subseteq> u_id ` set (t_users db1)" using ok1 by (simp add: db_ok_defs)
  ultimately have "r_user_id ` set (t_rooms db1) \<subseteq> u_id ` set (t_users db1) - {i}" by blast
  also have "\<dots> \<subseteq> u_id ` set (filter (\<lambda>u. u_id u \<noteq> i) (t_users db1))" by auto
  finally have "r_user_id ` set (t_rooms db1) \<subseteq> u_id ` set (filter (\<lambda>u. u_id u \<noteq> i) (t_users db1))" .
  moreover have "db' = db1\<lparr>t_users := filter (\<lambda>u. u_id u \<noteq> i) (t_users db1)\<rparr>"
    using run by (simp add: delete_user_def db1_def delete_schedules_def delete_devices_def delete_rooms_def Let_def)
  ultimately show "db_ok db'" using ok1 by (simp add: db_ok_defs distinct_map_filter del: set_filter)
qed

lemma keeps_saves [schema_rules]:
  "keeps (save_room r)" "keeps (save_desired d)" "keeps (save_device v)" "keeps (save_schedule s)"
  "keeps (save_period p)"
  using keepsD [OF keeps_update_room] keepsD [OF keeps_insert_room] keepsD [OF keeps_update_desired]
    keepsD [OF keeps_insert_desired] keepsD [OF keeps_update_device] keepsD [OF keeps_insert_device]
    keepsD [OF keeps_update_schedule] keepsD [OF keeps_insert_schedule] keepsD [OF keeps_update_period]
    keepsD [OF keeps_insert_period]
  by (auto intro!: keepsI simp: save_room_def save_desired_def save_device_def save_schedule_def
      save_period_def split: if_splits)

end
