(* ===== verification/ScheduleApi.thy ===== *)
theory ScheduleApi
  imports RoomApi Schema
begin

text \<open>
  Package \<open>api-service/internal/schedule\<close>: repository, service and HTTP handlers of schedules and
  their periods. Times of day are compared as strings, as the code and the SQL do.
\<close>

section \<open>Repository\<close>

definition SchedRepo_Create :: "uuid \<Rightarrow> instant \<Rightarrow> schedule_row \<Rightarrow> ('z api_world_scheme, schedule_row) act" where
  "SchedRepo_Create new now sched =
     (let s = sched\<lparr>sc_id := new, sc_created_at := now, sc_updated_at := now\<rparr>
      in bindE (on_unique (SchedE Sched_ErrNameTaken) (exec (insert_schedule s))) (\<lambda>_. returnE s))"

definition owned_schedule :: "uuid \<Rightarrow> uuid \<Rightarrow> appdb \<Rightarrow> schedule_row option" where
  "owned_schedule i userID db = List.find (\<lambda>s. sc_id s = i \<and> sc_user_id s = userID) (t_schedules db)"

definition SchedRepo_GetByID :: "uuid \<Rightarrow> uuid \<Rightarrow> ('z api_world_scheme, schedule_row) act" where
  "SchedRepo_GetByID i userID = first_or (SchedE Sched_ErrNotFound) (owned_schedule i userID)"

definition SchedRepo_ListByRoom :: "uuid \<Rightarrow> uuid \<Rightarrow> ('z api_world_scheme, schedule_row list) act" where
  "SchedRepo_ListByRoom roomID userID =
     query (\<lambda>db. filter (\<lambda>s. sc_room_id s = roomID \<and> sc_user_id s = userID) (t_schedules db))"

definition SchedRepo_Update :: "instant \<Rightarrow> schedule_row \<Rightarrow> ('z api_world_scheme, schedule_row) act" where
  "SchedRepo_Update now sched =
     (let s = sched\<lparr>sc_updated_at := now\<rparr>
      in bindE (on_unique (SchedE Sched_ErrNameTaken) (exec (save_schedule s))) (\<lambda>_. returnE s))"

definition SchedRepo_Delete :: "uuid \<Rightarrow> ('z api_world_scheme, unit) act" where
  "SchedRepo_Delete i = exec (delete_schedule i)"

definition SchedRepo_Activate :: "instant \<Rightarrow> uuid \<Rightarrow> uuid \<Rightarrow> ('z api_world_scheme, unit) act" where
  "SchedRepo_Activate now scheduleID roomID = transaction
     (bindE (exec (set_active (\<lambda>s. sc_room_id s = roomID \<and> sc_is_active s \<and> sc_id s \<noteq> scheduleID) False now)) (\<lambda>_.
      on_unique (SchedE Sched_ErrAlreadyActive) (exec (set_active (\<lambda>s. sc_id s = scheduleID) True now))))"

definition SchedRepo_Deactivate :: "instant \<Rightarrow> uuid \<Rightarrow> uuid \<Rightarrow> ('z api_world_scheme, unit) act" where
  "SchedRepo_Deactivate now scheduleID roomID = exec (set_active (\<lambda>s. sc_id s = scheduleID) False now)"

definition SchedRepo_CreatePeriod :: "uuid \<Rightarrow> instant \<Rightarrow> period_row \<Rightarrow> ('z api_world_scheme, period_row) act" where
  "SchedRepo_CreatePeriod new now period =
     (let p = period\<lparr>p_id := new, p_created_at := now, p_updated_at := now\<rparr>
      in bindE (exec (insert_period p)) (\<lambda>_. returnE p))"

definition SchedRepo_GetPeriodByID :: "uuid \<Rightarrow> ('z api_world_scheme, period_row) act" where
  "SchedRepo_GetPeriodByID i =
     first_or (SchedE Sched_ErrPeriodNotFound) (\<lambda>db. List.find (\<lambda>p. p_id p = i) (t_periods db))"

definition SchedRepo_ListPeriodsBySchedule :: "uuid \<Rightarrow> ('z api_world_scheme, period_row list) act" where
  "SchedRepo_ListPeriodsBySchedule scheduleID =
     query (\<lambda>db. filter (\<lambda>p. p_schedule_id p = scheduleID) (t_periods db))"

definition SchedRepo_UpdatePeriod :: "instant \<Rightarrow> period_row \<Rightarrow> ('z api_world_scheme, period_row) act" where
  "SchedRepo_UpdatePeriod now period =
     (let p = period\<lparr>p_updated_at := now\<rparr> in bindE (exec (save_period p)) (\<lambda>_. returnE p))"

definition SchedRepo_DeletePeriod :: "uuid \<Rightarrow> ('z api_world_scheme, unit) act" where
  "SchedRepo_DeletePeriod i = exec (delete_period i)"

text \<open>Two periods share a day and their time ranges meet.\<close>

definition overlaps :: "int list \<Rightarrow> string \<Rightarrow> string \<Rightarrow> period_row \<Rightarrow> bool" where
  "overlaps days startTime endTime p \<longleftrightarrow> set (p_days_of_week p) \<inter> set days \<noteq> {}
     \<and> p_start_time p < endTime \<and> startTime < p_end_time p"

definition HasOverlap ::
    "uuid \<Rightarrow> int list \<Rightarrow> string \<Rightarrow> string \<Rightarrow> uuid option \<Rightarrow> ('z api_world_scheme, bool) act" where
  "HasOverlap scheduleID days startTime endTime excludeID =
     query (\<lambda>db. \<exists>p \<in> set (t_periods db). p_schedule_id p = scheduleID
       \<and> overlaps days startTime endTime p \<and> (excludeID = None \<or> excludeID \<noteq> Some (p_id p)))"

definition PeriodsHaveCapability :: "uuid \<Rightarrow> uuid \<Rightarrow> ('z api_world_scheme, bool) act" where
  "PeriodsHaveCapability scheduleID roomID =
     bindE (query (\<lambda>db. length (filter (\<lambda>sp. p_schedule_id sp = scheduleID \<and> p_target_temp sp \<noteq> None
         \<and> \<not> (exists_sensor (in_room roomID) ''temperature'' db
              \<and> exists_actuator (in_room roomID) ''heater'' db)) (t_periods db)))) (\<lambda>tempConflict.
     if 0 < tempConflict then returnE False
     else bindE (query (\<lambda>db. length (filter (\<lambda>sp. p_schedule_id sp = scheduleID \<and> p_target_hum sp \<noteq> None
         \<and> \<not> (exists_sensor (in_room roomID) ''humidity'' db
              \<and> exists_actuator (in_room roomID) ''humidifier'' db)) (t_periods db)))) (\<lambda>humConflict.
       returnE (humConflict = 0)))"

section \<open>Service\<close>

definition SchedSvc_Create ::
    "uuid \<Rightarrow> instant \<Rightarrow> uuid \<Rightarrow> uuid \<Rightarrow> string \<Rightarrow> ('z api_world_scheme, schedule_row) act" where
  "SchedSvc_Create new now roomID userID name =
     bindE (RoomRepo_GetByIDAndUserID roomID userID) (\<lambda>_.
     SchedRepo_Create new now \<lparr>sc_id = 0, sc_room_id = roomID, sc_user_id = userID, sc_name = name,
       sc_is_active = False, sc_created_at = 0, sc_updated_at = 0\<rparr>)"

definition SchedSvc_GetByID :: "uuid \<Rightarrow> uuid \<Rightarrow> ('z api_world_scheme, schedule_row) act" where
  "SchedSvc_GetByID i userID = SchedRepo_GetByID i userID"

definition SchedSvc_ListByRoom :: "uuid \<Rightarrow> uuid \<Rightarrow> ('z api_world_scheme, schedule_row list) act" where
  "SchedSvc_ListByRoom roomID userID =
     bindE (RoomRepo_GetByIDAndUserID roomID userID) (\<lambda>_. SchedRepo_ListByRoom roomID userID)"

definition SchedSvc_Update :: "instant \<Rightarrow> uuid \<Rightarrow> uuid \<Rightarrow> string \<Rightarrow> ('z api_world_scheme, schedule_row) act" where
  "SchedSvc_Update now i userID name =
     bindE (SchedRepo_GetByID i userID) (\<lambda>sched. SchedRepo_Update now (sched\<lparr>sc_name := name\<rparr>))"

definition SchedSvc_Delete :: "uuid \<Rightarrow> uuid \<Rightarrow> ('z api_world_scheme, unit) act" where
  "SchedSvc_Delete i userID = bindE (SchedRepo_GetByID i userID) (\<lambda>_. SchedRepo_Delete i)"

definition SchedSvc_Activate ::
    "(uuid \<Rightarrow> string) \<Rightarrow> instant \<Rightarrow> uuid \<Rightarrow> uuid \<Rightarrow> ('z api_world_scheme, schedule_row) act" where
  "SchedSvc_Activate ustr now i userID =
     bindE (SchedRepo_GetByID i userID) (\<lambda>sched.
     bindE (failIf (sc_is_active sched) (SchedE Sched_ErrAlreadyActive)) (\<lambda>_.
     bindE (PeriodsHaveCapability i (sc_room_id sched)) (\<lambda>capable.
     bindE (failIf (\<not> capable) (SchedE Sched_ErrCapabilityConflict)) (\<lambda>_.
     bindE (SchedRepo_Activate now i (sc_room_id sched)) (\<lambda>_.
     bindE (NotifyScheduleChanged ustr (sc_room_id sched)) (\<lambda>_.
     returnE (sched\<lparr>sc_is_active := True\<rparr>)))))))"

definition SchedSvc_Deactivate ::
    "(uuid \<Rightarrow> string) \<Rightarrow> instant \<Rightarrow> uuid \<Rightarrow> uuid \<Rightarrow> ('z api_world_scheme, schedule_row) act" where
  "SchedSvc_Deactivate ustr now i userID =
     bindE (SchedRepo_GetByID i userID) (\<lambda>sched.
     bindE (failIf (\<not> sc_is_active sched) (SchedE Sched_ErrAlreadyInactive)) (\<lambda>_.
     bindE (SchedRepo_Deactivate now (sc_id sched) (sc_room_id sched)) (\<lambda>_.
     bindE (NotifyScheduleChanged ustr (sc_room_id sched)) (\<lambda>_.
     returnE (sched\<lparr>sc_is_active := False\<rparr>)))))"

record PeriodInput =
  pi_Name :: "string option"
  pi_DaysOfWeek :: "int list"
  pi_StartTime :: string
  pi_EndTime :: string
  pi_Mode :: string
  pi_TargetTemp :: "float64 option"
  pi_TargetHum :: "float64 option"

text \<open>\<open>time.Time{}\<close>: 1 January of the year 1.\<close>

definition zeroTime :: instant where
  "zeroTime = - 62135596800 * Second"

definition buildPeriod ::
    "uuid \<Rightarrow> PeriodInput \<Rightarrow> uuid option \<Rightarrow> ('z api_world_scheme, period_row) act" where
  "buildPeriod scheduleID input excludeID =
     bindE (failIf (pi_EndTime input \<le> pi_StartTime input) (SchedE Sched_ErrInvalidTimeRange)) (\<lambda>_.
     bindE (HasOverlap scheduleID (pi_DaysOfWeek input) (pi_StartTime input) (pi_EndTime input) excludeID) (\<lambda>overlap.
     bindE (failIf overlap (SchedE Sched_ErrPeriodOverlap)) (\<lambda>_.
     returnE \<lparr>p_id = 0, p_schedule_id = scheduleID, p_name = pi_Name input,
       p_days_of_week = pi_DaysOfWeek input, p_start_time = pi_StartTime input, p_end_time = pi_EndTime input,
       p_mode = pi_Mode input, p_target_temp = pi_TargetTemp input, p_target_hum = pi_TargetHum input,
       p_created_at = zeroTime, p_updated_at = zeroTime\<rparr>)))"

definition notify_if_active ::
    "(uuid \<Rightarrow> string) \<Rightarrow> schedule_row \<Rightarrow> ('z api_world_scheme, unit) act" where
  "notify_if_active ustr sched =
     (if sc_is_active sched then NotifyScheduleChanged ustr (sc_room_id sched) else returnE ())"

definition SchedSvc_CreatePeriod ::
    "(uuid \<Rightarrow> string) \<Rightarrow> uuid \<Rightarrow> instant \<Rightarrow> uuid \<Rightarrow> uuid \<Rightarrow> PeriodInput \<Rightarrow> ('z api_world_scheme, period_row) act" where
  "SchedSvc_CreatePeriod ustr new now scheduleID userID input =
     bindE (SchedRepo_GetByID scheduleID userID) (\<lambda>sched.
     bindE (buildPeriod (sc_id sched) input None) (\<lambda>period.
     bindE (SchedRepo_CreatePeriod new now period) (\<lambda>period.
     bindE (notify_if_active ustr sched) (\<lambda>_.
     returnE period))))"

text \<open>Any failure to get the parent schedule is reported as a missing period.\<close>

definition SchedSvc_GetPeriodByID :: "uuid \<Rightarrow> uuid \<Rightarrow> ('z api_world_scheme, period_row \<times> schedule_row) act" where
  "SchedSvc_GetPeriodByID periodID userID =
     bindE (SchedRepo_GetPeriodByID periodID) (\<lambda>period.
     bindE (mapErr (\<lambda>_. SchedE Sched_ErrPeriodNotFound) (SchedRepo_GetByID (p_schedule_id period) userID)) (\<lambda>sched.
     returnE (period, sched)))"

definition SchedSvc_ListPeriodsBySchedule :: "uuid \<Rightarrow> uuid \<Rightarrow> ('z api_world_scheme, period_row list) act" where
  "SchedSvc_ListPeriodsBySchedule scheduleID userID =
     bindE (SchedRepo_GetByID scheduleID userID) (\<lambda>_. SchedRepo_ListPeriodsBySchedule scheduleID)"

definition SchedSvc_UpdatePeriod ::
    "(uuid \<Rightarrow> string) \<Rightarrow> instant \<Rightarrow> uuid \<Rightarrow> uuid \<Rightarrow> PeriodInput \<Rightarrow> ('z api_world_scheme, period_row) act" where
  "SchedSvc_UpdatePeriod ustr now periodID userID input =
     bindE (SchedSvc_GetPeriodByID periodID userID) (\<lambda>(period, sched).
     bindE (buildPeriod (p_schedule_id period) input (Some (p_id period))) (\<lambda>built.
     bindE (SchedRepo_UpdatePeriod now (built\<lparr>p_id := p_id period\<rparr>)) (\<lambda>built.
     bindE (notify_if_active ustr sched) (\<lambda>_.
     returnE built))))"

definition SchedSvc_DeletePeriod ::
    "(uuid \<Rightarrow> string) \<Rightarrow> uuid \<Rightarrow> uuid \<Rightarrow> ('z api_world_scheme, unit) act" where
  "SchedSvc_DeletePeriod ustr periodID userID =
     bindE (SchedSvc_GetPeriodByID periodID userID) (\<lambda>(_, sched).
     bindE (SchedRepo_DeletePeriod periodID) (\<lambda>_.
     notify_if_active ustr sched))"

section \<open>Handlers\<close>

definition sched_error_text :: "sched_error \<Rightarrow> string" where
  "sched_error_text e = (case e of
     Sched_ErrNotFound \<Rightarrow> ''schedule not found''
   | Sched_ErrPeriodNotFound \<Rightarrow> ''schedule period not found''
   | Sched_ErrNameTaken \<Rightarrow> ''schedule name already exists for this room''
   | Sched_ErrPeriodOverlap \<Rightarrow> ''period overlaps with an existing period''
   | Sched_ErrInvalidTimeRange \<Rightarrow> ''end time must be later than start time''
   | Sched_ErrCapabilityConflict \<Rightarrow> ''room lacks required capability for one or more periods''
   | Sched_ErrAlreadyActive \<Rightarrow> ''schedule is already active''
   | Sched_ErrAlreadyInactive \<Rightarrow> ''schedule is already inactive'')"

definition sched_error_case :: "nat \<Rightarrow> sched_error \<Rightarrow> error \<times> response" where
  "sched_error_case code e = (SchedE e, errorJSON code (sched_error_text e))"

record scheduleRequest =
  sq_Name :: string

definition scheduleRequest_tags :: "scheduleRequest \<Rightarrow> tag_failures" where
  "scheduleRequest_tags req = (if sq_Name req = [] then [(''Name'', ''required'')] else [])"

text \<open>A nil slice is the empty one; \<open>required\<close> fails on nil, \<open>min=1\<close> on an empty slice.\<close>

record periodRequest =
  pq_Name :: "string option"
  pq_DaysOfWeek :: "int list option"
  pq_StartTime :: string
  pq_EndTime :: string
  pq_Mode :: string
  pq_TargetTemp :: "float64 option"
  pq_TargetHum :: "float64 option"

definition time_tags :: "string \<Rightarrow> string \<Rightarrow> tag_failures" where
  "time_tags field s =
     (if s = [] then [(field, ''required'')]
      else if Parse_15_04 s = None then [(field, ''datetime'')] else [])"

definition periodRequest_tags :: "periodRequest \<Rightarrow> tag_failures" where
  "periodRequest_tags req =
     (case pq_DaysOfWeek req of
        None \<Rightarrow> [(''DaysOfWeek'', ''required'')]
      | Some ds \<Rightarrow> if ds = [] then [(''DaysOfWeek'', ''min'')] else [])
   @ time_tags ''StartTime'' (pq_StartTime req) @ time_tags ''EndTime'' (pq_EndTime req)
   @ (if pq_Mode req = [] then [(''Mode'', ''required'')]
      else if pq_Mode req \<notin> {''OFF'', ''AUTO''} then [(''Mode'', ''oneof'')] else [])"

definition request_days :: "periodRequest \<Rightarrow> int list" where
  "request_days req = (case pq_DaysOfWeek req of None \<Rightarrow> [] | Some ds \<Rightarrow> ds)"

definition validatePeriodRequest :: "periodRequest \<Rightarrow> string option" where
  "validatePeriodRequest req =
     (if \<exists>d \<in> set (request_days req). d < 1 \<or> 7 < d
      then Some ''days_of_week values must be between 1 (Monday) and 7 (Sunday)''
      else if pq_Mode req = ''AUTO'' \<and> pq_TargetTemp req = None \<and> pq_TargetHum req = None
      then Some ''AUTO mode requires at least one of target_temp or target_hum''
      else if out_of_range 5 40 (pq_TargetTemp req) then Some ''target_temp must be between 5 and 40''
      else if out_of_range 0 100 (pq_TargetHum req) then Some ''target_hum must be between 0 and 100''
      else None)"

definition toPeriodInput :: "periodRequest \<Rightarrow> PeriodInput" where
  "toPeriodInput req =
     \<lparr>pi_Name = pq_Name req, pi_DaysOfWeek = request_days req, pi_StartTime = pq_StartTime req,
      pi_EndTime = pq_EndTime req, pi_Mode = pq_Mode req, pi_TargetTemp = pq_TargetTemp req,
      pi_TargetHum = pq_TargetHum req\<rparr>"

definition scheduleResponse :: "schedule_row \<Rightarrow> json" where
  "scheduleResponse s = JObj
     [(''id'', JUuid (sc_id s)), (''room_id'', JUuid (sc_room_id s)), (''name'', JStr (sc_name s)),
      (''is_active'', JBool (sc_is_active s)), (''created_at'', JTime (sc_created_at s)),
      (''updated_at'', JTime (sc_updated_at s))]"

definition periodResponse :: "period_row \<Rightarrow> json" where
  "periodResponse p = JObj
     [(''id'', JUuid (p_id p)), (''schedule_id'', JUuid (p_schedule_id p)), (''name'', JOpt JStr (p_name p)),
      (''days_of_week'', JList (map (\<lambda>d. JNum (of_int d)) (p_days_of_week p))),
      (''start_time'', JStr (p_start_time p)), (''end_time'', JStr (p_end_time p)),
      (''mode'', JStr (p_mode p)), (''target_temp'', JOpt JNum (p_target_temp p)),
      (''target_hum'', JOpt JNum (p_target_hum p)), (''created_at'', JTime (p_created_at p)),
      (''updated_at'', JTime (p_updated_at p))]"

definition SchedH_Create ::
    "(string \<Rightarrow> uuid option) \<Rightarrow> uuid \<Rightarrow> instant \<Rightarrow> uuid \<Rightarrow> string \<Rightarrow> string + scheduleRequest \<Rightarrow>
     ('z api_world_scheme) handler" where
  "SchedH_Create uparse new now userID param body =
     with_param uparse param ''invalid room id'' (\<lambda>roomID.
     with_body (ShouldBindJSON ''scheduleRequest'' scheduleRequest_tags body) (\<lambda>req.
     respond (SchedSvc_Create new now roomID userID (sq_Name req))
       (error_cases [room_error_case 404 Room_ErrNotFound, sched_error_case 409 Sched_ErrNameTaken])
       (\<lambda>s. JSON 201 (scheduleResponse s))))"

definition SchedH_ListByRoom :: "(string \<Rightarrow> uuid option) \<Rightarrow> uuid \<Rightarrow> string \<Rightarrow> ('z api_world_scheme) handler" where
  "SchedH_ListByRoom uparse userID param =
     with_param uparse param ''invalid room id'' (\<lambda>roomID.
     respond (SchedSvc_ListByRoom roomID userID) (error_cases [room_error_case 404 Room_ErrNotFound])
       (\<lambda>ss. JSON 200 (JList (map scheduleResponse ss))))"

definition SchedH_Get :: "(string \<Rightarrow> uuid option) \<Rightarrow> uuid \<Rightarrow> string \<Rightarrow> ('z api_world_scheme) handler" where
  "SchedH_Get uparse userID param =
     with_param uparse param ''invalid schedule id'' (\<lambda>i.
     respond (SchedSvc_GetByID i userID) (error_cases [sched_error_case 404 Sched_ErrNotFound])
       (\<lambda>s. JSON 200 (scheduleResponse s)))"

definition SchedH_Update ::
    "(string \<Rightarrow> uuid option) \<Rightarrow> instant \<Rightarrow> uuid \<Rightarrow> string \<Rightarrow> string + scheduleRequest \<Rightarrow>
     ('z api_world_scheme) handler" where
  "SchedH_Update uparse now userID param body =
     with_param uparse param ''invalid schedule id'' (\<lambda>i.
     with_body (ShouldBindJSON ''scheduleRequest'' scheduleRequest_tags body) (\<lambda>req.
     respond (SchedSvc_Update now i userID (sq_Name req))
       (error_cases [sched_error_case 404 Sched_ErrNotFound, sched_error_case 409 Sched_ErrNameTaken])
       (\<lambda>s. JSON 200 (scheduleResponse s))))"

definition SchedH_Delete :: "(string \<Rightarrow> uuid option) \<Rightarrow> uuid \<Rightarrow> string \<Rightarrow> ('z api_world_scheme) handler" where
  "SchedH_Delete uparse userID param =
     with_param uparse param ''invalid schedule id'' (\<lambda>i.
     respond (SchedSvc_Delete i userID) (error_cases [sched_error_case 404 Sched_ErrNotFound])
       (\<lambda>_. Status 204))"

definition SchedH_Activate ::
    "(string \<Rightarrow> uuid option) \<Rightarrow> (uuid \<Rightarrow> string) \<Rightarrow> instant \<Rightarrow> uuid \<Rightarrow> string \<Rightarrow> ('z api_world_scheme) handler" where
  "SchedH_Activate uparse ustr now userID param =
     with_param uparse param ''invalid schedule id'' (\<lambda>i.
     respond (SchedSvc_Activate ustr now i userID)
       (error_cases [sched_error_case 404 Sched_ErrNotFound, sched_error_case 409 Sched_ErrAlreadyActive,
          (SchedE Sched_ErrCapabilityConflict, hintJSON 409 (sched_error_text Sched_ErrCapabilityConflict)
             ''ensure the room has devices with the required sensors and actuators for all periods in this schedule'')])
       (\<lambda>s. JSON 200 (scheduleResponse s)))"

definition SchedH_Deactivate ::
    "(string \<Rightarrow> uuid option) \<Rightarrow> (uuid \<Rightarrow> string) \<Rightarrow> instant \<Rightarrow> uuid \<Rightarrow> string \<Rightarrow> ('z api_world_scheme) handler" where
  "SchedH_Deactivate uparse ustr now userID param =
     with_param uparse param ''invalid schedule id'' (\<lambda>i.
     respond (SchedSvc_Deactivate ustr now i userID)
       (error_cases [sched_error_case 404 Sched_ErrNotFound, sched_error_case 409 Sched_ErrAlreadyInactive])
       (\<lambda>s. JSON 200 (scheduleResponse s)))"

text \<open>\<open>if err := validatePeriodRequest(&req); err != nil { c.JSON(422, err.Error()) }\<close>\<close>

definition with_period ::
    "string + periodRequest \<Rightarrow> (PeriodInput \<Rightarrow> 'w handler) \<Rightarrow> 'w handler" where
  "with_period body h =
     with_body (ShouldBindJSON ''periodRequest'' periodRequest_tags body) (\<lambda>req.
     case validatePeriodRequest req of
       Some msg \<Rightarrow> answer (errorJSON 422 msg)
     | None \<Rightarrow> h (toPeriodInput req))"

definition SchedH_CreatePeriod ::
    "(string \<Rightarrow> uuid option) \<Rightarrow> (uuid \<Rightarrow> string) \<Rightarrow> uuid \<Rightarrow> instant \<Rightarrow> uuid \<Rightarrow> string \<Rightarrow> string + periodRequest \<Rightarrow>
     ('z api_world_scheme) handler" where
  "SchedH_CreatePeriod uparse ustr new now userID param body =
     with_param uparse param ''invalid schedule id'' (\<lambda>scheduleID.
     with_period body (\<lambda>input.
     respond (SchedSvc_CreatePeriod ustr new now scheduleID userID input)
       (error_cases [sched_error_case 404 Sched_ErrNotFound, sched_error_case 422 Sched_ErrInvalidTimeRange,
          sched_error_case 409 Sched_ErrPeriodOverlap])
       (\<lambda>p. JSON 201 (periodResponse p))))"

definition SchedH_ListPeriods :: "(string \<Rightarrow> uuid option) \<Rightarrow> uuid \<Rightarrow> string \<Rightarrow> ('z api_world_scheme) handler" where
  "SchedH_ListPeriods uparse userID param =
     with_param uparse param ''invalid schedule id'' (\<lambda>scheduleID.
     respond (SchedSvc_ListPeriodsBySchedule scheduleID userID)
       (error_cases [sched_error_case 404 Sched_ErrNotFound])
       (\<lambda>ps. JSON 200 (JList (map periodResponse ps))))"

definition SchedH_UpdatePeriod ::
    "(string \<Rightarrow> uuid option) \<Rightarrow> (uuid \<Rightarrow> string) \<Rightarrow> instant \<Rightarrow> uuid \<Rightarrow> string \<Rightarrow> string + periodRequest \<Rightarrow>
     ('z api_world_scheme) handler" where
  "SchedH_UpdatePeriod uparse ustr now userID param body =
     with_param uparse param ''invalid period id'' (\<lambda>periodID.
     with_period body (\<lambda>input.
     respond (SchedSvc_UpdatePeriod ustr now periodID userID input)
       (error_cases [sched_error_case 404 Sched_ErrPeriodNotFound,
          sched_error_case 422 Sched_ErrInvalidTimeRange, sched_error_case 409 Sched_ErrPeriodOverlap])
       (\<lambda>p. JSON 200 (periodResponse p))))"

definition SchedH_DeletePeriod ::
    "(string \<Rightarrow> uuid option) \<Rightarrow> (uuid \<Rightarrow> string) \<Rightarrow> uuid \<Rightarrow> string \<Rightarrow> ('z api_world_scheme) handler" where
  "SchedH_DeletePeriod uparse ustr userID param =
     with_param uparse param ''invalid period id'' (\<lambda>periodID.
     respond (SchedSvc_DeletePeriod ustr periodID userID)
       (error_cases [sched_error_case 404 Sched_ErrPeriodNotFound])
       (\<lambda>_. Status 204))"

end
