(* ===== verification/DeviceApi.thy ===== *)
theory DeviceApi
  imports RoomApi Schema
begin

text \<open>
  Package \<open>api-service/internal/device\<close>: repository, service and HTTP handlers of devices, with the
  checks that a room keeps the capabilities its targets need. Identifiers of new rows are arguments,
  those of sensors and actuators by their position in the request.
\<close>

section \<open>Repository\<close>

record DeviceWithCapabilities =
  dv_Device :: device_row
  dv_Sensors :: "sensor_row list"
  dv_Actuators :: "actuator_row list"

definition attachCapabilities :: "device_row list \<Rightarrow> ('z api_world_scheme, DeviceWithCapabilities list) act" where
  "attachCapabilities devices =
     (if devices = [] then returnE []
      else
        (let ids = map d_id devices in
         bindE (query (\<lambda>db. filter (\<lambda>s. s_device_id s \<in> set ids) (t_sensors db))) (\<lambda>sensors.
         bindE (query (\<lambda>db. filter (\<lambda>a. a_device_id a \<in> set ids) (t_actuators db))) (\<lambda>actuators.
         let sensorMap = group_into s_device_id (\<lambda>s. s) sensors Map.empty;
             actuatorMap = group_into a_device_id (\<lambda>a. a) actuators Map.empty
         in returnE (map (\<lambda>d. \<lparr>dv_Device = d, dv_Sensors = slice_at sensorMap (d_id d),
              dv_Actuators = slice_at actuatorMap (d_id d)\<rparr>) devices)))))"

definition DevRepo_List :: "uuid \<Rightarrow> ('z api_world_scheme, DeviceWithCapabilities list) act" where
  "DevRepo_List userID =
     bindE (query (\<lambda>db. filter (\<lambda>d. d_user_id d = userID) (t_devices db))) attachCapabilities"

definition DevRepo_ListByRoom :: "uuid \<Rightarrow> ('z api_world_scheme, DeviceWithCapabilities list) act" where
  "DevRepo_ListByRoom roomID =
     bindE (query (\<lambda>db. filter (\<lambda>d. d_room_id d = Some roomID) (t_devices db))) attachCapabilities"

definition owned_device :: "uuid \<Rightarrow> uuid \<Rightarrow> appdb \<Rightarrow> device_row option" where
  "owned_device i userID db = List.find (\<lambda>d. d_id d = i \<and> d_user_id d = userID) (t_devices db)"

definition DevRepo_GetByIDAndUserID :: "uuid \<Rightarrow> uuid \<Rightarrow> ('z api_world_scheme, DeviceWithCapabilities) act" where
  "DevRepo_GetByIDAndUserID i userID =
     bindE (first_or (DeviceE Device_ErrNotFound) (owned_device i userID)) (\<lambda>dev.
     bindE (attachCapabilities [dev]) (\<lambda>devs.
     returnE (hd devs)))"

definition CheckHwIDAvailability :: "string \<Rightarrow> uuid \<Rightarrow> ('z api_world_scheme, unit) act" where
  "CheckHwIDAvailability hwID userID =
     bindE (query (\<lambda>db. List.find (\<lambda>d. d_hw_id d = hwID) (t_devices db))) (\<lambda>dev. case dev of
       None \<Rightarrow> returnE ()
     | Some d \<Rightarrow> throwE (DeviceE (if d_user_id d = userID then Device_ErrAlreadyOwned else Device_ErrHwIDTaken)))"

definition DevRepo_Create ::
    "uuid \<Rightarrow> (nat \<Rightarrow> uuid) \<Rightarrow> (nat \<Rightarrow> uuid) \<Rightarrow> instant \<Rightarrow> device_row \<Rightarrow> string list \<Rightarrow> string list \<Rightarrow>
     ('z api_world_scheme, device_row) act" where
  "DevRepo_Create new newSensor newActuator now dev sensorTypes actuatorTypes =
     (let d = dev\<lparr>d_id := new, d_created_at := now, d_updated_at := now\<rparr> in
      bindE (transaction
        (bindE (on_unique (DeviceE Device_ErrNameTaken) (exec (insert_device d))) (\<lambda>_.
         bindE (forE (\<lambda>(i, st). exec (insert_sensor \<lparr>s_id = newSensor i, s_device_id = new,
             s_measurement_type = st, s_created_at = now\<rparr>)) (List.enumerate 0 sensorTypes)) (\<lambda>_.
         forE (\<lambda>(i, aty). exec (insert_actuator \<lparr>a_id = newActuator i, a_device_id = new,
             a_actuator_type = aty, a_created_at = now\<rparr>)) (List.enumerate 0 actuatorTypes))))) (\<lambda>_.
      returnE d))"

definition DevRepo_Update :: "instant \<Rightarrow> device_row \<Rightarrow> ('z api_world_scheme, unit) act" where
  "DevRepo_Update now dev =
     on_unique (DeviceE Device_ErrNameTaken) (exec (save_device (dev\<lparr>d_updated_at := now\<rparr>)))"

definition DevRepo_Delete :: "uuid \<Rightarrow> ('z api_world_scheme, unit) act" where
  "DevRepo_Delete i = exec (delete_device i)"

subsection \<open>Capability conflicts\<close>

abbreviation in_room_without :: "uuid \<Rightarrow> uuid \<Rightarrow> device_row \<Rightarrow> bool" where
  "in_room_without roomID deviceID d \<equiv> d_room_id d = Some roomID \<and> d_id d \<noteq> deviceID"

definition hasTemperatureCapabilityAfterRemoval :: "uuid \<Rightarrow> uuid \<Rightarrow> ('z api_world_scheme, bool) act" where
  "hasTemperatureCapabilityAfterRemoval roomID deviceID =
     query (\<lambda>db. exists_sensor (in_room_without roomID deviceID) ''temperature'' db
       \<and> exists_actuator (in_room_without roomID deviceID) ''heater'' db)"

definition hasHumidityCapabilityAfterRemoval :: "uuid \<Rightarrow> uuid \<Rightarrow> ('z api_world_scheme, bool) act" where
  "hasHumidityCapabilityAfterRemoval roomID deviceID =
     query (\<lambda>db. exists_sensor (in_room_without roomID deviceID) ''humidity'' db
       \<and> exists_actuator (in_room_without roomID deviceID) ''humidifier'' db)"

text \<open>A target without its capability.\<close>

definition unmet :: "bool \<Rightarrow> bool \<Rightarrow> float64 option \<Rightarrow> float64 option \<Rightarrow> bool" where
  "unmet hasTempCap hasHumCap temp hum \<longleftrightarrow> \<not> hasTempCap \<and> temp \<noteq> None \<or> \<not> hasHumCap \<and> hum \<noteq> None"

definition desiredStateHasConflict :: "uuid \<Rightarrow> bool \<Rightarrow> bool \<Rightarrow> ('z api_world_scheme, bool) act" where
  "desiredStateHasConflict roomID hasTempCap hasHumCap =
     bindE (query (\<lambda>db. List.find (\<lambda>d. ds_room_id d = roomID) (t_desired db))) (\<lambda>ds. case ds of
       None \<Rightarrow> returnE False
     | Some ds \<Rightarrow> returnE (unmet hasTempCap hasHumCap (ds_target_temp ds) (ds_target_hum ds)))"

definition active_periods :: "uuid \<Rightarrow> appdb \<Rightarrow> period_row list" where
  "active_periods roomID db = concat (map (\<lambda>sp. map (\<lambda>_. sp)
     (filter (\<lambda>s. sc_id s = p_schedule_id sp \<and> sc_room_id s = roomID \<and> sc_is_active s) (t_schedules db)))
     (t_periods db))"

definition activeSchedulePeriodsHaveConflict :: "uuid \<Rightarrow> bool \<Rightarrow> bool \<Rightarrow> ('z api_world_scheme, bool) act" where
  "activeSchedulePeriodsHaveConflict roomID hasTempCap hasHumCap =
     bindE (query (active_periods roomID)) (\<lambda>periods.
     returnE (\<exists>p \<in> set periods. unmet hasTempCap hasHumCap (p_target_temp p) (p_target_hum p)))"

definition HasCapabilityConflictAfterRemoval :: "uuid \<Rightarrow> uuid \<Rightarrow> ('z api_world_scheme, bool) act" where
  "HasCapabilityConflictAfterRemoval roomID deviceID =
     bindE (hasTemperatureCapabilityAfterRemoval roomID deviceID) (\<lambda>hasTempCap.
     bindE (hasHumidityCapabilityAfterRemoval roomID deviceID) (\<lambda>hasHumCap.
     if hasTempCap \<and> hasHumCap then returnE False
     else bindE (desiredStateHasConflict roomID hasTempCap hasHumCap) (\<lambda>conflict.
       if conflict then returnE True
       else activeSchedulePeriodsHaveConflict roomID hasTempCap hasHumCap)))"

section \<open>Service\<close>

definition validSensorTypes :: "string list" where
  "validSensorTypes = [''temperature'', ''humidity'', ''air_quality'']"

definition validActuatorTypes :: "string list" where
  "validActuatorTypes = [''heater'', ''humidifier'']"

definition DevSvc_List :: "uuid \<Rightarrow> ('z api_world_scheme, DeviceWithCapabilities list) act" where
  "DevSvc_List userID = DevRepo_List userID"

text \<open>\<open>if _, err := rooms.GetByIDAndUserID(...); err != nil { return ErrRoomNotFound }\<close>\<close>

definition require_room :: "uuid \<Rightarrow> uuid \<Rightarrow> ('z api_world_scheme, room_row) act" where
  "require_room roomID userID =
     mapErr (\<lambda>_. DeviceE Device_ErrRoomNotFound) (RoomRepo_GetByIDAndUserID roomID userID)"

definition DevSvc_ListByRoom :: "uuid \<Rightarrow> uuid \<Rightarrow> ('z api_world_scheme, DeviceWithCapabilities list) act" where
  "DevSvc_ListByRoom roomID userID = bindE (require_room roomID userID) (\<lambda>_. DevRepo_ListByRoom roomID)"

definition DevSvc_GetByID :: "uuid \<Rightarrow> uuid \<Rightarrow> ('z api_world_scheme, DeviceWithCapabilities) act" where
  "DevSvc_GetByID i userID = DevRepo_GetByIDAndUserID i userID"

record CreateInput =
  ci_Name :: string
  ci_HwID :: string
  ci_DeviceType :: string
  ci_SensorTypes :: "string list"
  ci_ActuatorTypes :: "string list"

text \<open>The loop over the requested types with the map \<open>seen\<close>.\<close>

fun check_types :: "string list \<Rightarrow> error \<Rightarrow> error \<Rightarrow> string list \<Rightarrow> string list \<Rightarrow> error + unit" where
  "check_types valid invalid duplicate seen [] = Inr ()"
| "check_types valid invalid duplicate seen (t # ts) =
     (if t \<notin> set valid then Inl invalid
      else if t \<in> set seen then Inl duplicate
      else check_types valid invalid duplicate (t # seen) ts)"

definition DevSvc_Create ::
    "uuid \<Rightarrow> (nat \<Rightarrow> uuid) \<Rightarrow> (nat \<Rightarrow> uuid) \<Rightarrow> instant \<Rightarrow> uuid \<Rightarrow> CreateInput \<Rightarrow>
     ('z api_world_scheme, DeviceWithCapabilities) act" where
  "DevSvc_Create new newSensor newActuator now userID input =
     bindE (liftE (check_types validSensorTypes (DeviceE Device_ErrInvalidSensor)
       (DeviceE Device_ErrDuplicateSensor) [] (ci_SensorTypes input))) (\<lambda>_.
     bindE (liftE (check_types validActuatorTypes (DeviceE Device_ErrInvalidActuator)
       (DeviceE Device_ErrDuplicateActuator) [] (ci_ActuatorTypes input))) (\<lambda>_.
     bindE (CheckHwIDAvailability (ci_HwID input) userID) (\<lambda>_.
     bindE (DevRepo_Create new newSensor newActuator now
       \<lparr>d_id = 0, d_user_id = userID, d_room_id = None, d_name = ci_Name input, d_hw_id = ci_HwID input,
        d_device_type = ci_DeviceType input, d_created_at = 0, d_updated_at = 0\<rparr>
       (ci_SensorTypes input) (ci_ActuatorTypes input)) (\<lambda>dev.
     DevRepo_GetByIDAndUserID (d_id dev) userID))))"

record UpdateInput =
  up_Name :: string
  up_RoomID :: "uuid option"

text \<open>\<open>conflict, err := ...; if conflict { return ErrCapabilityConflict }\<close>\<close>

definition check_removal :: "uuid \<Rightarrow> uuid \<Rightarrow> ('z api_world_scheme, unit) act" where
  "check_removal roomID deviceID =
     bindE (HasCapabilityConflictAfterRemoval roomID deviceID) (\<lambda>conflict.
     failIf conflict (DeviceE Device_ErrCapabilityConflict))"

definition DevSvc_Update ::
    "(uuid \<Rightarrow> string) \<Rightarrow> instant \<Rightarrow> uuid \<Rightarrow> uuid \<Rightarrow> UpdateInput \<Rightarrow>
     ('z api_world_scheme, DeviceWithCapabilities) act" where
  "DevSvc_Update ustr now i userID input =
     bindE (DevRepo_GetByIDAndUserID i userID) (\<lambda>dev.
     let d = dv_Device dev; prev = d_room_id d;
         leavingRoom = (prev \<noteq> None \<and> up_RoomID input \<noteq> prev);
         enteringRoom = (up_RoomID input \<noteq> None \<and> up_RoomID input \<noteq> prev)
     in bindE (case up_RoomID input of
                 None \<Rightarrow> returnE () | Some r \<Rightarrow> bindE (require_room r userID) (\<lambda>_. returnE ())) (\<lambda>_.
        bindE (case prev of
                 Some r \<Rightarrow> if leavingRoom then check_removal r i else returnE ()
               | None \<Rightarrow> returnE ()) (\<lambda>_.
        bindE (DevRepo_Update now (d\<lparr>d_name := up_Name input, d_room_id := up_RoomID input\<rparr>)) (\<lambda>_.
        bindE (case prev of
                 Some r \<Rightarrow> if leavingRoom then NotifyDeviceUnassigned ustr r (d_hw_id d) else returnE ()
               | None \<Rightarrow> returnE ()) (\<lambda>_.
        bindE (case up_RoomID input of
                 Some r \<Rightarrow> if enteringRoom then NotifyDeviceAssigned ustr r (d_hw_id d) else returnE ()
               | None \<Rightarrow> returnE ()) (\<lambda>_.
        DevRepo_GetByIDAndUserID i userID))))))"

definition DevSvc_Delete :: "uuid \<Rightarrow> uuid \<Rightarrow> ('z api_world_scheme, unit) act" where
  "DevSvc_Delete i userID =
     bindE (DevRepo_GetByIDAndUserID i userID) (\<lambda>dev.
     bindE (case d_room_id (dv_Device dev) of None \<Rightarrow> returnE () | Some r \<Rightarrow> check_removal r i) (\<lambda>_.
     DevRepo_Delete i))"

section \<open>Handlers\<close>

definition device_error_text :: "device_error \<Rightarrow> string" where
  "device_error_text e = (case e of
     Device_ErrNotFound \<Rightarrow> ''device not found''
   | Device_ErrNameTaken \<Rightarrow> ''device name already taken''
   | Device_ErrHwIDTaken \<Rightarrow> ''hardware ID already registered''
   | Device_ErrAlreadyOwned \<Rightarrow> ''this device is already registered to your account''
   | Device_ErrRoomNotFound \<Rightarrow> ''room not found''
   | Device_ErrInvalidSensor \<Rightarrow> ''invalid sensor type''
   | Device_ErrInvalidActuator \<Rightarrow> ''invalid actuator type''
   | Device_ErrDuplicateSensor \<Rightarrow> ''duplicate sensor type''
   | Device_ErrDuplicateActuator \<Rightarrow> ''duplicate actuator type''
   | Device_ErrCapabilityConflict \<Rightarrow> ''removing this device would leave the room without a required capability'')"

definition device_error_case :: "nat \<Rightarrow> device_error \<Rightarrow> error \<times> response" where
  "device_error_case code e = (DeviceE e, errorJSON code (device_error_text e))"

definition removal_conflict :: "error \<times> response" where
  "removal_conflict = (DeviceE Device_ErrCapabilityConflict,
     hintJSON 409 (device_error_text Device_ErrCapabilityConflict)
       ''turn off manual override or deactivate/edit the active schedule before removing this device'')"

record createDeviceRequest =
  cq_Name :: string
  cq_HwID :: string
  cq_DeviceType :: string
  cq_SensorTypes :: "string list"
  cq_ActuatorTypes :: "string list"

definition createDeviceRequest_tags :: "createDeviceRequest \<Rightarrow> tag_failures" where
  "createDeviceRequest_tags req =
     (if cq_Name req = [] then [(''Name'', ''required'')] else [])
   @ (if cq_HwID req = [] then [(''HwID'', ''required'')] else [])
   @ (if cq_DeviceType req \<notin> {[], ''physical'', ''simulator''} then [(''DeviceType'', ''oneof'')] else [])"

record updateDeviceRequest =
  xq_Name :: string
  xq_RoomID :: "uuid option"

definition updateDeviceRequest_tags :: "updateDeviceRequest \<Rightarrow> tag_failures" where
  "updateDeviceRequest_tags req = (if xq_Name req = [] then [(''Name'', ''required'')] else [])"

definition deviceResponse :: "DeviceWithCapabilities \<Rightarrow> json" where
  "deviceResponse dev = (let d = dv_Device dev in JObj
     [(''id'', JUuid (d_id d)), (''room_id'', JOpt JUuid (d_room_id d)), (''name'', JStr (d_name d)),
      (''hw_id'', JStr (d_hw_id d)), (''device_type'', JStr (d_device_type d)),
      (''sensors'', JList (map (\<lambda>s. JStr (s_measurement_type s)) (dv_Sensors dev))),
      (''actuators'', JList (map (\<lambda>a. JStr (a_actuator_type a)) (dv_Actuators dev))),
      (''created_at'', JTime (d_created_at d)), (''updated_at'', JTime (d_updated_at d))])"

text \<open>The read handlers misspell the text of a 500.\<close>

definition internalSever :: response where
  "internalSever = errorJSON 500 ''internal sever error''"

definition DevH_List :: "uuid \<Rightarrow> ('z api_world_scheme) handler" where
  "DevH_List userID = respond (DevSvc_List userID) (\<lambda>_. internalSever)
     (\<lambda>devs. JSON 200 (JList (map deviceResponse devs)))"

definition DevH_ListByRoom :: "(string \<Rightarrow> uuid option) \<Rightarrow> uuid \<Rightarrow> string \<Rightarrow> ('z api_world_scheme) handler" where
  "DevH_ListByRoom uparse userID param =
     with_param uparse param ''invalid room id'' (\<lambda>roomID.
     respond (DevSvc_ListByRoom roomID userID)
       (\<lambda>e. if e = DeviceE Device_ErrRoomNotFound
            then errorJSON 404 (device_error_text Device_ErrRoomNotFound) else internalSever)
       (\<lambda>devs. JSON 200 (JList (map deviceResponse devs))))"

definition DevH_Get :: "(string \<Rightarrow> uuid option) \<Rightarrow> uuid \<Rightarrow> string \<Rightarrow> ('z api_world_scheme) handler" where
  "DevH_Get uparse userID param =
     with_param uparse param ''invalid device id'' (\<lambda>i.
     respond (DevSvc_GetByID i userID)
       (\<lambda>e. if e = DeviceE Device_ErrNotFound
            then errorJSON 404 (device_error_text Device_ErrNotFound) else internalSever)
       (\<lambda>dev. JSON 200 (deviceResponse dev)))"

definition DevH_Create ::
    "uuid \<Rightarrow> (nat \<Rightarrow> uuid) \<Rightarrow> (nat \<Rightarrow> uuid) \<Rightarrow> instant \<Rightarrow> uuid \<Rightarrow> string + createDeviceRequest \<Rightarrow>
     ('z api_world_scheme) handler" where
  "DevH_Create new newSensor newActuator now userID body =
     with_body (ShouldBindJSON ''createDeviceRequest'' createDeviceRequest_tags body) (\<lambda>req.
     respond (DevSvc_Create new newSensor newActuator now userID
         \<lparr>ci_Name = cq_Name req, ci_HwID = cq_HwID req,
          ci_DeviceType = (if cq_DeviceType req = [] then ''physical'' else cq_DeviceType req),
          ci_SensorTypes = cq_SensorTypes req, ci_ActuatorTypes = cq_ActuatorTypes req\<rparr>)
       (error_cases [device_error_case 409 Device_ErrAlreadyOwned, device_error_case 409 Device_ErrHwIDTaken,
          device_error_case 409 Device_ErrNameTaken, device_error_case 422 Device_ErrInvalidSensor,
          device_error_case 422 Device_ErrInvalidActuator, device_error_case 422 Device_ErrDuplicateSensor,
          device_error_case 422 Device_ErrDuplicateActuator])
       (\<lambda>dev. JSON 201 (deviceResponse dev)))"

definition DevH_Update ::
    "(string \<Rightarrow> uuid option) \<Rightarrow> (uuid \<Rightarrow> string) \<Rightarrow> instant \<Rightarrow> uuid \<Rightarrow> string \<Rightarrow> string + updateDeviceRequest \<Rightarrow>
     ('z api_world_scheme) handler" where
  "DevH_Update uparse ustr now userID param body =
     with_param uparse param ''invalid device id'' (\<lambda>i.
     with_body (ShouldBindJSON ''updateDeviceRequest'' updateDeviceRequest_tags body) (\<lambda>req.
     respond (DevSvc_Update ustr now i userID \<lparr>up_Name = xq_Name req, up_RoomID = xq_RoomID req\<rparr>)
       (error_cases [device_error_case 404 Device_ErrNotFound, device_error_case 404 Device_ErrRoomNotFound,
          device_error_case 409 Device_ErrNameTaken, removal_conflict])
       (\<lambda>dev. JSON 200 (deviceResponse dev))))"

definition DevH_Delete :: "(string \<Rightarrow> uuid option) \<Rightarrow> uuid \<Rightarrow> string \<Rightarrow> ('z api_world_scheme) handler" where
  "DevH_Delete uparse userID param =
     with_param uparse param ''invalid device id'' (\<lambda>i.
     respond (DevSvc_Delete i userID)
       (error_cases [device_error_case 404 Device_ErrNotFound, removal_conflict])
       (\<lambda>_. Status 204))"

end
