(* ===== verification/AccountApi.thy ===== *)
theory AccountApi
  imports Http Schema
begin

text \<open>
  Packages \<open>api-service/internal/user\<close> and \<open>api-service/internal/auth\<close>: accounts, login, token rotation
  and the middleware that identifies the caller. The refresh tokens live in Redis, as a map with
  expiry times. Cryptography is outside the repository or stands for itself: the record \<open>crypto\<close>
  collects bcrypt, SHA-256 and the JWT library as functions.
\<close>

section \<open>State and collaborators\<close>

text \<open>Redis: the value and the instant the key expires.\<close>

record auth_world = api_world +
  au_tokens :: "string \<rightharpoonup> string \<times> instant"

text \<open>
  \<open>cy_sign\<close> is \<open>SignedString\<close> of the claims \<open>user_id\<close> and \<open>exp\<close> (Unix seconds); \<open>cy_verify\<close> is
  \<open>jwt.Parse\<close> with the HMAC key function at an instant: the \<open>user_id\<close> claim when the token is valid,
  \<open>Some None\<close> when the token is valid but has no such string claim.
\<close>

record crypto =
  cy_bcrypt :: "string \<Rightarrow> string option"
  cy_compare :: "string \<Rightarrow> string \<Rightarrow> bool"
  cy_sha256 :: "string \<Rightarrow> string"
  cy_sign :: "string \<Rightarrow> string \<Rightarrow> int \<Rightarrow> string option"
  cy_verify :: "string \<Rightarrow> instant \<Rightarrow> string \<Rightarrow> string option option"

section \<open>Users\<close>

definition UserRepo_Create :: "uuid \<Rightarrow> instant \<Rightarrow> user_row \<Rightarrow> ('z api_world_scheme, user_row) act" where
  "UserRepo_Create new now usr =
     (let u = usr\<lparr>u_id := new, u_timezone := ''UTC'', u_created_at := now, u_updated_at := now\<rparr>
      in bindE (on_unique (UserE User_ErrEmailTaken) (exec (insert_user u))) (\<lambda>_. returnE u))"

definition UserRepo_GetByEmail :: "string \<Rightarrow> ('z api_world_scheme, user_row) act" where
  "UserRepo_GetByEmail email =
     first_or (UserE User_ErrNotFound) (\<lambda>db. List.find (\<lambda>u. u_email u = email) (t_users db))"

definition UserRepo_GetByID :: "uuid \<Rightarrow> ('z api_world_scheme, user_row) act" where
  "UserRepo_GetByID i = first_or (UserE User_ErrNotFound) (\<lambda>db. List.find (\<lambda>u. u_id u = i) (t_users db))"

definition UserRepo_Delete :: "uuid \<Rightarrow> ('z api_world_scheme, unit) act" where
  "UserRepo_Delete i = exec (delete_user i)"

definition UserRepo_UpdateTimezone :: "instant \<Rightarrow> uuid \<Rightarrow> string \<Rightarrow> ('z api_world_scheme, unit) act" where
  "UserRepo_UpdateTimezone now i tz = exec (update_timezone i tz now)"

definition UserSvc_Register ::
    "crypto \<Rightarrow> uuid \<Rightarrow> instant \<Rightarrow> string \<Rightarrow> string \<Rightarrow> ('z api_world_scheme, user_row) act" where
  "UserSvc_Register cy new now email password = (case cy_bcrypt cy password of
     None \<Rightarrow> throwE Fault
   | Some h \<Rightarrow> UserRepo_Create new now \<lparr>u_id = 0, u_email = email, u_password_hash = h, u_timezone = [],
       u_created_at = 0, u_updated_at = 0\<rparr>)"

definition UserSvc_GetByID :: "uuid \<Rightarrow> ('z api_world_scheme, user_row) act" where
  "UserSvc_GetByID i = UserRepo_GetByID i"

definition UserSvc_Delete :: "uuid \<Rightarrow> ('z api_world_scheme, unit) act" where
  "UserSvc_Delete i = bindE (UserRepo_GetByID i) (\<lambda>_. UserRepo_Delete i)"

definition UserSvc_UpdateMe ::
    "(string \<Rightarrow> location option) \<Rightarrow> instant \<Rightarrow> uuid \<Rightarrow> string option \<Rightarrow> ('z api_world_scheme, unit) act" where
  "UserSvc_UpdateMe tz now i timezone = (case timezone of
     None \<Rightarrow> returnE ()
   | Some name \<Rightarrow>
       bindE (failIf (LoadLocation tz name = None) (UserE User_ErrInvalidTimezone)) (\<lambda>_.
       UserRepo_UpdateTimezone now i name))"

definition user_error_text :: "user_error \<Rightarrow> string" where
  "user_error_text e = (case e of
     User_ErrEmailTaken \<Rightarrow> ''email already taken''
   | User_ErrNotFound \<Rightarrow> ''user not found''
   | User_ErrInvalidTimezone \<Rightarrow> ''invalid timezone: must be a valid IANA timezone string'')"

definition user_error_case :: "nat \<Rightarrow> user_error \<Rightarrow> error \<times> response" where
  "user_error_case code e = (UserE e, errorJSON code (user_error_text e))"

definition userResponse :: "user_row \<Rightarrow> json" where
  "userResponse u = JObj [(''id'', JUuid (u_id u)), (''email'', JStr (u_email u)),
     (''timezone'', JStr (u_timezone u)), (''created_at'', JTime (u_created_at u))]"

text \<open>The request of register and login; the validator's \<open>email\<close> tag is the argument \<open>is_email\<close>.\<close>

record credentials =
  cd_Email :: string
  cd_Password :: string

definition email_tags :: "(string \<Rightarrow> bool) \<Rightarrow> string \<Rightarrow> tag_failures" where
  "email_tags is_email s =
     (if s = [] then [(''Email'', ''required'')] else if \<not> is_email s then [(''Email'', ''email'')] else [])"

text \<open>\<open>min\<close> counts the code points of a string: the bytes that do not continue one.\<close>

definition RuneCount :: "string \<Rightarrow> nat" where
  "RuneCount s = length (filter (\<lambda>c. (of_char c :: nat) div 64 \<noteq> 2) s)"

definition register_tags :: "(string \<Rightarrow> bool) \<Rightarrow> credentials \<Rightarrow> tag_failures" where
  "register_tags is_email req = email_tags is_email (cd_Email req)
     @ (if cd_Password req = [] then [(''Password'', ''required'')]
        else if RuneCount (cd_Password req) < 4 then [(''Password'', ''min'')] else [])"

definition login_tags :: "(string \<Rightarrow> bool) \<Rightarrow> credentials \<Rightarrow> tag_failures" where
  "login_tags is_email req = email_tags is_email (cd_Email req)
     @ (if cd_Password req = [] then [(''Password'', ''required'')] else [])"

definition UserH_Register ::
    "crypto \<Rightarrow> (string \<Rightarrow> bool) \<Rightarrow> uuid \<Rightarrow> instant \<Rightarrow> string + credentials \<Rightarrow> ('z api_world_scheme) handler" where
  "UserH_Register cy is_email new now body =
     with_body (ShouldBindJSON [] (register_tags is_email) body) (\<lambda>req.
     respond (UserSvc_Register cy new now (cd_Email req) (cd_Password req))
       (error_cases [user_error_case 409 User_ErrEmailTaken]) (\<lambda>u. JSON 201 (userResponse u)))"

definition UserH_Me :: "uuid \<Rightarrow> ('z api_world_scheme) handler" where
  "UserH_Me userID = respond (UserSvc_GetByID userID) (error_cases [user_error_case 404 User_ErrNotFound])
     (\<lambda>u. JSON 200 (userResponse u))"

text \<open>\<open>updateMeRequest\<close> has one optional field and no tags.\<close>

definition UserH_UpdateMe ::
    "(string \<Rightarrow> location option) \<Rightarrow> instant \<Rightarrow> uuid \<Rightarrow> string + string option \<Rightarrow> ('z api_world_scheme) handler" where
  "UserH_UpdateMe tz now userID body = (case body of
     Inl _ \<Rightarrow> answer (errorJSON 400 ''invalid request body'')
   | Inr timezone \<Rightarrow> respond (UserSvc_UpdateMe tz now userID timezone)
       (error_cases [user_error_case 422 User_ErrInvalidTimezone]) (\<lambda>_. Status 204))"

definition UserH_DeleteMe :: "uuid \<Rightarrow> ('z api_world_scheme) handler" where
  "UserH_DeleteMe userID = respond (UserSvc_Delete userID)
     (error_cases [user_error_case 404 User_ErrNotFound]) (\<lambda>_. Status 204)"

section \<open>Refresh tokens\<close>

text \<open>\<open>hex.EncodeToString\<close>\<close>

definition hex_digit :: "nat \<Rightarrow> char" where
  "hex_digit n = ''0123456789abcdef'' ! (n mod 16)"

definition hex_encode :: "string \<Rightarrow> string" where
  "hex_encode bytes = concat (map (\<lambda>c. [hex_digit (of_char c div 16), hex_digit (of_char c)]) bytes)"

definition hashToken :: "crypto \<Rightarrow> string \<Rightarrow> string" where
  "hashToken cy token = hex_encode (cy_sha256 cy token)"

text \<open>A Redis call, which may fail; an expired key is absent.\<close>

definition redis :: "('z auth_world_scheme \<Rightarrow> (error + 'a) \<times> 'z auth_world_scheme) \<Rightarrow>
    ('z auth_world_scheme, 'a) act" where
  "redis f = bindE (query (\<lambda>_. ())) (\<lambda>_. f)"

definition live_token :: "instant \<Rightarrow> (string \<rightharpoonup> string \<times> instant) \<Rightarrow> string \<Rightarrow> string option" where
  "live_token now m k = (case m k of None \<Rightarrow> None | Some (v, expiry) \<Rightarrow> if now < expiry then Some v else None)"

definition TokRepo_Store ::
    "crypto \<Rightarrow> (uuid \<Rightarrow> string) \<Rightarrow> duration \<Rightarrow> instant \<Rightarrow> string \<Rightarrow> uuid \<Rightarrow> ('z auth_world_scheme, unit) act" where
  "TokRepo_Store cy ustr ttl now token userID = redis (\<lambda>w.
     (Inr (), w\<lparr>au_tokens := (au_tokens w)(hashToken cy token \<mapsto> (ustr userID, now + ttl))\<rparr>))"

definition TokRepo_GetUserID ::
    "crypto \<Rightarrow> (string \<Rightarrow> uuid option) \<Rightarrow> instant \<Rightarrow> string \<Rightarrow> ('z auth_world_scheme, uuid) act" where
  "TokRepo_GetUserID cy uparse now token = redis (\<lambda>w.
     (case live_token now (au_tokens w) (hashToken cy token) of
        None \<Rightarrow> Inl (AuthE Auth_ErrTokenNotFound)
      | Some v \<Rightarrow> (case uparse v of None \<Rightarrow> Inl (Msg ''parse user id'') | Some i \<Rightarrow> Inr i), w))"

definition TokRepo_Delete :: "crypto \<Rightarrow> instant \<Rightarrow> string \<Rightarrow> ('z auth_world_scheme, unit) act" where
  "TokRepo_Delete cy now token = redis (\<lambda>w.
     (if live_token now (au_tokens w) (hashToken cy token) = None
      then Inl (AuthE Auth_ErrTokenNotFound) else Inr (),
      w\<lparr>au_tokens := (au_tokens w)(hashToken cy token := None)\<rparr>))"

section \<open>Service\<close>

record auth_config =
  cf_secret :: string
  cf_accessTTL :: duration
  cf_refreshTTL :: duration

definition newAccessToken :: "crypto \<Rightarrow> (uuid \<Rightarrow> string) \<Rightarrow> auth_config \<Rightarrow> instant \<Rightarrow> uuid \<Rightarrow> error + string" where
  "newAccessToken cy ustr cfg now userID =
     (case cy_sign cy (cf_secret cfg) (ustr userID) (Unix (Add now (cf_accessTTL cfg))) of
        None \<Rightarrow> Inl Fault | Some t \<Rightarrow> Inr t)"

text \<open>The 32 random bytes are an argument.\<close>

definition newRefreshToken :: "string \<Rightarrow> string" where
  "newRefreshToken bytes = hex_encode bytes"

definition issueTokenPair ::
    "crypto \<Rightarrow> (uuid \<Rightarrow> string) \<Rightarrow> auth_config \<Rightarrow> instant \<Rightarrow> string \<Rightarrow> uuid \<Rightarrow>
     ('z auth_world_scheme, string \<times> string) act" where
  "issueTokenPair cy ustr cfg now bytes userID =
     bindE (liftE (newAccessToken cy ustr cfg now userID)) (\<lambda>accessToken.
     let refreshToken = newRefreshToken bytes in
     bindE (TokRepo_Store cy ustr (cf_refreshTTL cfg) now refreshToken userID) (\<lambda>_.
     returnE (accessToken, refreshToken)))"

definition AuthSvc_Login ::
    "crypto \<Rightarrow> (uuid \<Rightarrow> string) \<Rightarrow> auth_config \<Rightarrow> instant \<Rightarrow> string \<Rightarrow> string \<Rightarrow> string \<Rightarrow>
     ('z auth_world_scheme, string \<times> string) act" where
  "AuthSvc_Login cy ustr cfg now bytes email password =
     bindE (mapErr (\<lambda>e. if e = UserE User_ErrNotFound then AuthE Auth_ErrInvalidCredentials else e)
       (UserRepo_GetByEmail email)) (\<lambda>usr.
     bindE (failIf (\<not> cy_compare cy (u_password_hash usr) password) (AuthE Auth_ErrInvalidCredentials)) (\<lambda>_.
     issueTokenPair cy ustr cfg now bytes (u_id usr)))"

text \<open>The second half of a refresh: the old token goes, unless it is gone already, and a new pair is issued.\<close>

definition rotate ::
    "crypto \<Rightarrow> (uuid \<Rightarrow> string) \<Rightarrow> auth_config \<Rightarrow> instant \<Rightarrow> string \<Rightarrow> string \<Rightarrow> uuid \<Rightarrow>
     ('z auth_world_scheme, string \<times> string) act" where
  "rotate cy ustr cfg now bytes refreshToken userID w = (case TokRepo_Delete cy now refreshToken w of
       (Inl e, w') \<Rightarrow>
         if e = AuthE Auth_ErrTokenNotFound then issueTokenPair cy ustr cfg now bytes userID w' else (Inl e, w')
     | (Inr _, w') \<Rightarrow> issueTokenPair cy ustr cfg now bytes userID w')"

definition AuthSvc_Refresh ::
    "crypto \<Rightarrow> (uuid \<Rightarrow> string) \<Rightarrow> (string \<Rightarrow> uuid option) \<Rightarrow> auth_config \<Rightarrow> instant \<Rightarrow> string \<Rightarrow> string \<Rightarrow>
     ('z auth_world_scheme, string \<times> string) act" where
  "AuthSvc_Refresh cy ustr uparse cfg now bytes refreshToken =
     bindE (mapErr (\<lambda>e. if e = AuthE Auth_ErrTokenNotFound then AuthE Auth_ErrInvalidToken else e)
       (TokRepo_GetUserID cy uparse now refreshToken)) (rotate cy ustr cfg now bytes refreshToken)"

definition AuthSvc_Logout :: "crypto \<Rightarrow> instant \<Rightarrow> string \<Rightarrow> ('z auth_world_scheme, unit) act" where
  "AuthSvc_Logout cy now refreshToken w = (case TokRepo_Delete cy now refreshToken w of
     (Inl e, w') \<Rightarrow> (if e = AuthE Auth_ErrTokenNotFound then Inr () else Inl e, w')
   | (Inr _, w') \<Rightarrow> (Inr (), w'))"

definition ValidateAccessToken ::
    "crypto \<Rightarrow> (string \<Rightarrow> uuid option) \<Rightarrow> auth_config \<Rightarrow> instant \<Rightarrow> string \<Rightarrow> error + uuid" where
  "ValidateAccessToken cy uparse cfg now token =
     (case cy_verify cy (cf_secret cfg) now token of
        None \<Rightarrow> Inl (AuthE Auth_ErrInvalidToken)
      | Some None \<Rightarrow> Inl (AuthE Auth_ErrInvalidToken)
      | Some (Some s) \<Rightarrow> (case uparse s of None \<Rightarrow> Inl (AuthE Auth_ErrInvalidToken) | Some i \<Rightarrow> Inr i))"

section \<open>Handlers and middleware\<close>

text \<open>\<open>c.SetCookie\<close>: name, value, max-age, path, domain, secure, httpOnly.\<close>

record cookie =
  ck_name :: string
  ck_value :: string
  ck_maxAge :: int
  ck_path :: string
  ck_secure :: bool
  ck_httpOnly :: bool

definition setRefreshCookie :: "int \<Rightarrow> string \<Rightarrow> cookie" where
  "setRefreshCookie refreshTTLSecs token = \<lparr>ck_name = ''refresh_token'', ck_value = token,
     ck_maxAge = refreshTTLSecs, ck_path = ''/'', ck_secure = False, ck_httpOnly = True\<rparr>"

definition clearRefreshCookie :: cookie where
  "clearRefreshCookie = \<lparr>ck_name = ''refresh_token'', ck_value = [], ck_maxAge = - 1, ck_path = ''/'',
     ck_secure = False, ck_httpOnly = True\<rparr>"

text \<open>The auth handlers answer with a response and the cookie they set, if any.\<close>

definition AuthH_Login ::
    "crypto \<Rightarrow> (uuid \<Rightarrow> string) \<Rightarrow> auth_config \<Rightarrow> int \<Rightarrow> (string \<Rightarrow> bool) \<Rightarrow> instant \<Rightarrow> string \<Rightarrow>
     string + credentials \<Rightarrow> 'z auth_world_scheme \<Rightarrow> (response \<times> cookie option) \<times> 'z auth_world_scheme" where
  "AuthH_Login cy ustr cfg ttlSecs is_email now bytes body =
     (case ShouldBindJSON [] (login_tags is_email) body of
        Inl msg \<Rightarrow> answer (errorJSON 400 msg, None)
      | Inr req \<Rightarrow> respond (AuthSvc_Login cy ustr cfg now bytes (cd_Email req) (cd_Password req))
          (\<lambda>e. (if e = AuthE Auth_ErrInvalidCredentials then errorJSON 401 ''invalid credentials''
                else internalError, None))
          (\<lambda>(accessToken, refreshToken). (JSON 200 (JObj [(''access_token'', JStr accessToken)]),
             Some (setRefreshCookie ttlSecs refreshToken))))"

definition AuthH_Refresh ::
    "crypto \<Rightarrow> (uuid \<Rightarrow> string) \<Rightarrow> (string \<Rightarrow> uuid option) \<Rightarrow> auth_config \<Rightarrow> int \<Rightarrow> instant \<Rightarrow> string \<Rightarrow>
     string option \<Rightarrow> 'z auth_world_scheme \<Rightarrow> (response \<times> cookie option) \<times> 'z auth_world_scheme" where
  "AuthH_Refresh cy ustr uparse cfg ttlSecs now bytes cookie = (case cookie of
     None \<Rightarrow> answer (errorJSON 401 ''missing refresh token'', None)
   | Some refreshToken \<Rightarrow> respond (AuthSvc_Refresh cy ustr uparse cfg now bytes refreshToken)
       (\<lambda>e. (if e = AuthE Auth_ErrInvalidToken then errorJSON 401 ''invalid or expired token''
             else internalError, None))
       (\<lambda>(accessToken, newRefreshToken). (JSON 200 (JObj [(''access_token'', JStr accessToken)]),
          Some (setRefreshCookie ttlSecs newRefreshToken))))"

definition AuthH_Logout ::
    "crypto \<Rightarrow> instant \<Rightarrow> string option \<Rightarrow> 'z auth_world_scheme \<Rightarrow>
     (response \<times> cookie option) \<times> 'z auth_world_scheme" where
  "AuthH_Logout cy now cookie = (case cookie of
     None \<Rightarrow> answer (errorJSON 401 ''missing refresh token'', None)
   | Some refreshToken \<Rightarrow> respond (AuthSvc_Logout cy now refreshToken) (\<lambda>_. (internalError, None))
       (\<lambda>_. (JSON 200 (JObj [(''message'', JStr ''logged out'')]), Some clearRefreshCookie)))"

definition bearer :: string where
  "bearer = ''Bearer ''"

text \<open>The middleware: the caller's id, or the response the request is aborted with.\<close>

definition Middleware ::
    "crypto \<Rightarrow> (string \<Rightarrow> uuid option) \<Rightarrow> auth_config \<Rightarrow> instant \<Rightarrow> string \<Rightarrow> response + uuid" where
  "Middleware cy uparse cfg now header =
     (if header = [] \<or> take (length bearer) header \<noteq> bearer
      then Inl (errorJSON 401 ''missing or malformed authorization header'')
      else (case ValidateAccessToken cy uparse cfg now (drop (length bearer) header) of
              Inl _ \<Rightarrow> Inl (errorJSON 401 ''invalid or expired token'')
            | Inr userID \<Rightarrow> Inr userID))"

end
