(* ===== verification/Wp.thy ===== *)
theory Wp
  imports Http Schema
begin

text \<open>
  A weakest-precondition calculus for actions on the database. \<open>wp m Q E db\<close> says of a run of \<open>m\<close> from
  any state whose database is \<open>db\<close>, whatever calls fail: if it succeeds with \<open>x\<close> and leaves \<open>db'\<close>, then
  \<open>Q x db'\<close>; if it fails with \<open>e\<close> and leaves \<open>db'\<close>, then \<open>E e db'\<close>. The rules run an action symbolically,
  call by call.
\<close>

section \<open>The calculus\<close>

named_theorems wp_rules "symbolic execution of actions on the database"

definition wp ::
    "('z base_world_scheme, 'a) act \<Rightarrow> ('a \<Rightarrow> appdb \<Rightarrow> bool) \<Rightarrow> (error \<Rightarrow> appdb \<Rightarrow> bool) \<Rightarrow> appdb \<Rightarrow> bool" where
  "wp m Q E db \<longleftrightarrow> (\<forall>w. w_db w = db \<longrightarrow>
     (\<forall>x w'. m w = (Inr x, w') \<longrightarrow> Q x (w_db w')) \<and> (\<forall>e w'. m w = (Inl e, w') \<longrightarrow> E e (w_db w')))"

lemma wpI:
  assumes "\<And>w x w'. w_db w = db \<Longrightarrow> m w = (Inr x, w') \<Longrightarrow> Q x (w_db w')"
    and "\<And>w e w'. w_db w = db \<Longrightarrow> m w = (Inl e, w') \<Longrightarrow> E e (w_db w')"
  shows "wp m Q E db"
  using assms by (simp add: wp_def)

lemma wpD:
  assumes "wp m Q E (w_db w)"
  shows "m w = (Inr x, w') \<Longrightarrow> Q x (w_db w')" and "m w = (Inl e, w') \<Longrightarrow> E e (w_db w')"
  using assms by (auto simp: wp_def)

lemma wp_state:
  assumes "wp m (\<lambda>_. I) (\<lambda>_. I) (w_db w)"
  shows "I (w_db (snd (m w)))"
  using wpD [OF assms, of _ "snd (m w)"] by (cases "m w"; cases "fst (m w)") auto

lemma wp_conseq:
  "wp m Q E db \<Longrightarrow> (\<And>x db'. Q x db' \<Longrightarrow> Q' x db') \<Longrightarrow> (\<And>e db'. E e db' \<Longrightarrow> E' e db') \<Longrightarrow> wp m Q' E' db"
  by (auto simp: wp_def)

section \<open>Rules\<close>

lemma wp_returnE [wp_rules]: "Q x db \<Longrightarrow> wp (returnE x) Q E db"
  by (rule wpI) auto

lemma wp_throwE [wp_rules]: "E e db \<Longrightarrow> wp (throwE e) Q E db"
  by (rule wpI) auto

lemma wp_liftE [wp_rules]:
  "(\<And>x. r = Inr x \<Longrightarrow> Q x db) \<Longrightarrow> (\<And>e. r = Inl e \<Longrightarrow> E e db) \<Longrightarrow> wp (liftE r) Q E db"
  by (rule wpI) auto

lemma wp_failIf [wp_rules]: "(c \<Longrightarrow> E e db) \<Longrightarrow> (\<not> c \<Longrightarrow> Q () db) \<Longrightarrow> wp (failIf c e) Q E db"
  by (rule wpI) (auto split: if_splits)

lemma wp_bindE [wp_rules]:
  assumes "wp m (\<lambda>x. wp (k x) Q E) E db"
  shows "wp (bindE m k) Q E db"
proof (rule wpI)
  fix w x w' assume "w_db w = db" "bindE m k w = (Inr x, w')"
  then show "Q x (w_db w')"
    using assms by (elim bindE_InrE) (auto simp: wp_def)
next
  fix w e w' assume w: "w_db w = db" and run: "bindE m k w = (Inl e, w')"
  from run show "E e (w_db w')"
    using assms w by (elim bindE_InlE) (auto simp: wp_def)
qed

lemma wp_mapErr [wp_rules]: "wp m Q (\<lambda>e. E (h e)) db \<Longrightarrow> wp (mapErr h m) Q E db"
  by (auto simp: wp_def mapErr_run split: prod.splits sum.splits)

lemma wp_on_unique [wp_rules]:
  "wp m Q (\<lambda>x. E (if x = UniqueViolation then e else x)) db \<Longrightarrow> wp (on_unique e m) Q E db"
  unfolding on_unique_def by (rule wp_mapErr)

lemma wp_if [wp_rules]:
  "(c \<Longrightarrow> wp m Q E db) \<Longrightarrow> (\<not> c \<Longrightarrow> wp n Q E db) \<Longrightarrow> wp (if c then m else n) Q E db"
  by simp

lemma wp_option [wp_rules]:
  "(v = None \<Longrightarrow> wp m Q E db) \<Longrightarrow> (\<And>x. v = Some x \<Longrightarrow> wp (k x) Q E db) \<Longrightarrow>
     wp (case v of None \<Rightarrow> m | Some x \<Rightarrow> k x) Q E db"
  by (cases v) simp_all

lemma wp_prod [wp_rules]:
  "(\<And>a b. v = (a, b) \<Longrightarrow> wp (k a b) Q E db) \<Longrightarrow> wp (case v of (a, b) \<Rightarrow> k a b) Q E db"
  by (cases v) simp

lemma wp_query [wp_rules]: "Q (f db) db \<Longrightarrow> E Fault db \<Longrightarrow> wp (query f) Q E db"
  by (rule wpI) (auto dest: query_InrD query_error simp: query_def split: list.splits if_splits)

lemma wp_first_or [wp_rules]:
  "(\<And>x. f db = Some x \<Longrightarrow> Q x db) \<Longrightarrow> (f db = None \<Longrightarrow> E e db) \<Longrightarrow> E Fault db \<Longrightarrow> wp (first_or e f) Q E db"
  unfolding first_or_def by (intro wp_rules) auto

lemma wp_exec [wp_rules]:
  assumes "\<And>db'. f db = Inr db' \<Longrightarrow> Q () db'" and "\<And>e. f db = Inl e \<Longrightarrow> E e db" and "E Fault db"
  shows "wp (exec f) Q E db"
proof (rule wpI)
  fix w x w' assume "w_db w = db" "exec f w = (Inr x, w')"
  with assms(1) show "Q x (w_db w')" by (auto dest!: exec_InrD)
next
  fix w e w' assume w: "w_db w = db" "exec f w = (Inl e, w')"
  then have "e = Fault \<or> f db = Inl e"
    by (auto simp: exec_def bindE_run query_def split: list.splits if_splits sum.splits prod.splits)
  with assms(2,3) exec_InlD [OF w(2)] w(1) show "E e (w_db w')" by auto
qed

lemma wp_forE [wp_rules]:
  assumes "\<And>x db. x \<in> set xs \<Longrightarrow> I db \<Longrightarrow> wp (f x) (\<lambda>_. I) E db" and "I db" and "\<And>db. I db \<Longrightarrow> Q () db"
  shows "wp (forE f xs) Q E db"
  using assms
proof (induction xs arbitrary: db)
  case Nil
  show ?case unfolding forE.simps by (rule wp_returnE) (rule Nil.prems(3) [OF Nil.prems(2)])
next
  case (Cons x xs)
  have rest: "wp (forE f xs) Q E db'" if "I db'" for db'
  proof (rule Cons.IH [OF _ that])
    show "\<And>y db. y \<in> set xs \<Longrightarrow> I db \<Longrightarrow> wp (f y) (\<lambda>_. I) E db" by (rule Cons.prems(1)) simp_all
  qed (rule Cons.prems(3))
  have "wp (f x) (\<lambda>_. I) E db" using Cons.prems(1,2) by simp
  then have "wp (f x) (\<lambda>_. wp (forE f xs) Q E) E db"
    by (rule wp_conseq) (rule rest)
  then show ?case unfolding forE.simps by (rule wp_bindE)
qed

text \<open>A transaction that fails, at any point, leaves the database of its beginning.\<close>

lemma wp_transaction [wp_rules]:
  assumes "wp m Q (\<lambda>e _. E e db) db" and "E Fault db"
  shows "wp (transaction m) Q E db"
proof (rule wpI)
  fix w x w' assume w: "w_db w = db" "transaction m w = (Inr x, w')"
  from w(2) obtain fs w1 where "m (w\<lparr>w_faults := fs\<rparr>) = (Inr x, w1)" "w_db w' = w_db w1"
    by (rule transaction_InrD)
  with wpD(1) [of m Q _ "w\<lparr>w_faults := fs\<rparr>"] assms(1) w(1) show "Q x (w_db w')" by auto
next
  fix w e w' assume w: "w_db w = db" "transaction m w = (Inl e, w')"
  let ?r = "bindE (query (\<lambda>_. ())) (\<lambda>_. bindE m (\<lambda>x. bindE (query (\<lambda>_. ())) (\<lambda>_. returnE x)))"
  have "wp ?r (\<lambda>_ _. True) (\<lambda>e _. E e db) db"
    by (intro wp_rules assms(2)) (auto intro!: wp_conseq [OF assms(1)] wp_rules assms(2))
  moreover from w(2) obtain w2 where "?r w = (Inl e, w2)"
    by (auto simp: transaction_def split: prod.splits sum.splits)
  ultimately have "E e db" using wpD(2) [of ?r _ _ w] w(1) by blast
  with transaction_InlD [OF w(2)] w(1) show "E e (w_db w')" by simp
qed

lemma wp_frames:
  assumes "frames w_db m" and "\<And>x. Q x db" and "\<And>e. E e db"
  shows "wp m Q E db"
  using assms by (intro wpI) (auto dest: framesD)

lemma wp_xadd [wp_rules]: "Q () db \<Longrightarrow> wp (xadd v) Q E db"
  by (rule wpI) (auto simp: xadd_def query_def split: list.splits if_splits)

end
