(* ===== verification/ApiState.thy ===== *)
theory ApiState
  imports ScheduleApi DeviceApi AccountApi Wp
begin

text \<open>
  The invariant of the application database under the API: besides the schema's promises (theory
  Schema), what only the services establish. A device in a room and a schedule of a room belong to
  the room's owner, and two periods of a schedule that share a day do not overlap. Every operation of
  the services keeps it, whatever statement fails, and no operation of a user touches the rows of
  another.
\<close>

section \<open>The invariant\<close>

definition owner_ok :: "appdb \<Rightarrow> bool" where
  "owner_ok db \<longleftrightarrow>
     (\<forall>d \<in> set (t_devices db). \<forall>r \<in> set (t_rooms db). d_room_id d = Some (r_id r) \<longrightarrow> d_user_id d = r_user_id r)
   \<and> (\<forall>s \<in> set (t_schedules db). \<forall>r \<in> set (t_rooms db). sc_room_id s = r_id r \<longrightarrow> sc_user_id s = r_user_id r)"

definition periods_disjoint :: "appdb \<Rightarrow> bool" where
  "periods_disjoint db \<longleftrightarrow> (\<forall>p \<in> set (t_periods db). \<forall>q \<in> set (t_periods db).
     p_schedule_id p = p_schedule_id q \<and> p_id p \<noteq> p_id q \<longrightarrow>
       \<not> overlaps (p_days_of_week q) (p_start_time q) (p_end_time q) p)"

definition api_inv :: "appdb \<Rightarrow> bool" where
  "api_inv db \<longleftrightarrow> db_ok db \<and> owner_ok db \<and> periods_disjoint db"

lemma api_invI: "db_ok db \<Longrightarrow> owner_ok db \<Longrightarrow> periods_disjoint db \<Longrightarrow> api_inv db"
  by (simp add: api_inv_def)

lemma api_invD: "api_inv db \<Longrightarrow> db_ok db" "api_inv db \<Longrightarrow> owner_ok db" "api_inv db \<Longrightarrow> periods_disjoint db"
  by (simp_all add: api_inv_def)

lemma overlaps_sym:
  "overlaps (p_days_of_week q) (p_start_time q) (p_end_time q) p
    \<longleftrightarrow> overlaps (p_days_of_week p) (p_start_time p) (p_end_time p) q"
  by (auto simp: overlaps_def)

text \<open>The invariant looks at some columns only.\<close>

lemma owner_ok_mono:
  assumes "owner_ok db"
    and "\<And>d'. d' \<in> set (t_devices db') \<Longrightarrow> d_room_id d' \<noteq> None \<Longrightarrow>
          \<exists>d \<in> set (t_devices db). d_room_id d = d_room_id d' \<and> d_user_id d = d_user_id d'"
    and "\<And>s'. s' \<in> set (t_schedules db') \<Longrightarrow>
          \<exists>s \<in> set (t_schedules db). sc_room_id s = sc_room_id s' \<and> sc_user_id s = sc_user_id s'"
    and "\<And>r'. r' \<in> set (t_rooms db') \<Longrightarrow>
          \<exists>r \<in> set (t_rooms db). r_id r = r_id r' \<and> r_user_id r = r_user_id r'"
  shows "owner_ok db'"
  unfolding owner_ok_def
proof (intro conjI ballI impI)
  fix d' r' assume "d' \<in> set (t_devices db')" "r' \<in> set (t_rooms db')" "d_room_id d' = Some (r_id r')"
  with assms(2) [of d'] assms(4) [of r'] assms(1) show "d_user_id d' = r_user_id r'"
    unfolding owner_ok_def by (metis option.distinct(1))
next
  fix s' r' assume "s' \<in> set (t_schedules db')" "r' \<in> set (t_rooms db')" "sc_room_id s' = r_id r'"
  with assms(3) [of s'] assms(4) [of r'] assms(1) show "sc_user_id s' = r_user_id r'"
    unfolding owner_ok_def by metis
qed

lemma periods_disjoint_mono:
  assumes "periods_disjoint db" and "set (t_periods db') \<subseteq> set (t_periods db)"
  shows "periods_disjoint db'"
  using assms by (auto simp: periods_disjoint_def)

section \<open>Statements\<close>

text \<open>What a write leaves of the tables it does not name.\<close>

lemma insert_room_tables:
  assumes "insert_room r db = Inr db'"
  obtains r' where "t_rooms db' = t_rooms db @ [r']" "r_id r' = r_id r" "r_user_id r' = r_user_id r"
    "r_id r \<notin> r_id ` set (t_rooms db)" "db' = db\<lparr>t_rooms := t_rooms db @ [r']\<rparr>"
proof -
  from assms obtain r' where c: "room_checked r = Some r'" and db': "db' = db\<lparr>t_rooms := t_rooms db @ [r']\<rparr>"
    and n: "\<forall>x \<in> set (t_rooms db). r_id x \<noteq> r_id r"
    unfolding insert_room_def write_shape by blast
  from n have "r_id r \<notin> r_id ` set (t_rooms db)" by auto
  with room_checked_keys [OF c] db' that show thesis by auto
qed

lemma update_room_tables:
  assumes "update_room r db = Inr db'"
  obtains r' where "r_id r' = r_id r" "r_user_id r' = r_user_id r"
    "db' = db\<lparr>t_rooms := replace_row r_id r' (t_rooms db)\<rparr>"
proof -
  from assms obtain r' where c: "room_checked r = Some r'"
    and db': "db' = db\<lparr>t_rooms := replace_row r_id r' (t_rooms db)\<rparr>"
    unfolding update_room_def write_shape by blast
  with room_checked_keys [OF c] that show thesis by auto
qed

lemma insert_desired_tables:
  "insert_desired d db = Inr db' \<Longrightarrow> \<exists>d'. ds_room_id d' = ds_room_id d \<and> db' = db\<lparr>t_desired := t_desired db @ [d']\<rparr>"
  unfolding insert_desired_def write_shape using desired_checked_keys by blast

lemma update_desired_tables:
  "update_desired d db = Inr db' \<Longrightarrow> \<exists>d'. desired_checked d = Some d' \<and>
     db' = db\<lparr>t_desired := replace_row ds_id d' (t_desired db)\<rparr>"
  unfolding update_desired_def write_shape by blast

lemma insert_device_tables:
  "insert_device d db = Inr db' \<Longrightarrow> db' = db\<lparr>t_devices := t_devices db @ [d]\<rparr> \<and> d_id d \<notin> d_id ` set (t_devices db)"
  unfolding insert_device_def write_shape by auto

lemma update_device_tables:
  "update_device d db = Inr db' \<Longrightarrow> db' = db\<lparr>t_devices := replace_row d_id d (t_devices db)\<rparr>"
  unfolding update_device_def write_shape by auto

lemma insert_schedule_tables:
  "insert_schedule s db = Inr db' \<Longrightarrow>
     db' = db\<lparr>t_schedules := t_schedules db @ [s]\<rparr> \<and> sc_id s \<notin> sc_id ` set (t_schedules db)"
  unfolding insert_schedule_def write_shape by auto

lemma update_schedule_tables:
  "update_schedule s db = Inr db' \<Longrightarrow> db' = db\<lparr>t_schedules := replace_row sc_id s (t_schedules db)\<rparr>"
  unfolding update_schedule_def write_shape by auto

lemma set_active_tables:
  "set_active P v now db = Inr db' \<Longrightarrow> db' = db\<lparr>t_schedules :=
     map (\<lambda>s. if P s then s\<lparr>sc_is_active := v, sc_updated_at := now\<rparr> else s) (t_schedules db)\<rparr>"
  unfolding set_active_def Let_def write_shape by auto

lemma insert_period_tables:
  assumes "insert_period p db = Inr db'"
  obtains p' where "period_checked p = Some p'" "db' = db\<lparr>t_periods := t_periods db @ [p']\<rparr>"
    "p_id p \<notin> p_id ` set (t_periods db)"
proof -
  from assms obtain p' where "period_checked p = Some p'" "db' = db\<lparr>t_periods := t_periods db @ [p']\<rparr>"
    "\<forall>x \<in> set (t_periods db). p_id x \<noteq> p_id p"
    unfolding insert_period_def write_shape by blast
  moreover from this(3) have "p_id p \<notin> p_id ` set (t_periods db)" by auto
  ultimately show thesis using that by blast
qed

lemma update_period_tables:
  assumes "update_period p db = Inr db'"
  obtains p' where "period_checked p = Some p'" "db' = db\<lparr>t_periods := replace_row p_id p' (t_periods db)\<rparr>"
  using assms unfolding update_period_def write_shape by blast

section \<open>The rows of the others\<close>

definition own_rooms :: "uuid \<Rightarrow> appdb \<Rightarrow> uuid set" where
  "own_rooms u db = r_id ` {r \<in> set (t_rooms db). r_user_id r = u}"

definition own_devices :: "uuid \<Rightarrow> appdb \<Rightarrow> uuid set" where
  "own_devices u db = d_id ` {d \<in> set (t_devices db). d_user_id d = u}"

definition own_schedules :: "uuid \<Rightarrow> appdb \<Rightarrow> uuid set" where
  "own_schedules u db = sc_id ` {s \<in> set (t_schedules db). sc_user_id s = u}"

text \<open>The database without the rows that belong to \<open>u\<close>, directly or through their parent.\<close>

definition foreign :: "uuid \<Rightarrow> appdb \<Rightarrow> appdb" where
  "foreign u db =
     \<lparr>t_users = filter (\<lambda>x. u_id x \<noteq> u) (t_users db),
      t_rooms = filter (\<lambda>r. r_user_id r \<noteq> u) (t_rooms db),
      t_devices = filter (\<lambda>d. d_user_id d \<noteq> u) (t_devices db),
      t_sensors = filter (\<lambda>s. s_device_id s \<notin> own_devices u db) (t_sensors db),
      t_actuators = filter (\<lambda>a. a_device_id a \<notin> own_devices u db) (t_actuators db),
      t_desired = filter (\<lambda>d. ds_room_id d \<notin> own_rooms u db) (t_desired db),
      t_schedules = filter (\<lambda>s. sc_user_id s \<noteq> u) (t_schedules db),
      t_periods = filter (\<lambda>p. p_schedule_id p \<notin> own_schedules u db) (t_periods db)\<rparr>"

text \<open>A write of user \<open>u\<close> as it should be.\<close>

definition ok :: "uuid \<Rightarrow> appdb \<Rightarrow> appdb \<Rightarrow> bool" where
  "ok u db db' \<longleftrightarrow> api_inv db' \<and> foreign u db' = foreign u db"

lemma ok_refl: "api_inv db \<Longrightarrow> ok u db db"
  by (simp add: ok_def)

lemma ok_trans: "ok u db db1 \<Longrightarrow> ok u db1 db2 \<Longrightarrow> ok u db db2"
  by (simp add: ok_def)

lemma okI:
  "db_ok db' \<Longrightarrow> owner_ok db' \<Longrightarrow> periods_disjoint db' \<Longrightarrow> foreign u db' = foreign u db \<Longrightarrow> ok u db db'"
  by (simp add: ok_def api_inv_def)

lemma filter_replace_row:
  assumes "\<not> Q r" and "\<And>x. x \<in> set rs \<Longrightarrow> key x = key r \<Longrightarrow> \<not> Q x"
  shows "filter Q (replace_row key r rs) = filter Q rs"
  using assms(2) by (induction rs) (auto simp: replace_row_def assms(1))

lemma same_key: "distinct (map key rs) \<Longrightarrow> x \<in> set rs \<Longrightarrow> y \<in> set rs \<Longrightarrow> key x = key y \<Longrightarrow> x = y"
  by (auto simp: distinct_map inj_on_def)

lemma own_column:
  assumes "\<And>x. key (g x) = key x" and "\<And>x. f (g x) = f x"
  shows "key ` {x \<in> g ` A. f x = u} = key ` {x \<in> A. f x = u}"
proof -
  have "{x \<in> g ` A. f x = u} = g ` {x \<in> A. f x = u}" using assms(2) by auto
  then show ?thesis by (simp add: image_image assms(1))
qed

text \<open>Replacing a row of \<open>u\<close> by a row of \<open>u\<close>.\<close>

lemma own_replace:
  assumes d: "distinct (map key rs)" and old: "y \<in> set rs" "key y = key r" "f y = u" and new: "f r = u"
  shows "key ` {x \<in> set (replace_row key r rs). f x = u} = key ` {x \<in> set rs. f x = u}"
    and "filter (\<lambda>x. f x \<noteq> u) (replace_row key r rs) = filter (\<lambda>x. f x \<noteq> u) rs"
    and "x \<in> set (replace_row key r rs) \<Longrightarrow> \<exists>z \<in> set rs. key z = key x \<and> f z = f x"
proof -
  have same: "x = y" if "x \<in> set rs" "key x = key r" for x
    using same_key [OF d that(1) old(1)] that(2) old(2) by simp
  show "filter (\<lambda>x. f x \<noteq> u) (replace_row key r rs) = filter (\<lambda>x. f x \<noteq> u) rs"
  proof (rule filter_replace_row)
    fix x assume "x \<in> set rs" "key x = key r"
    then have "x = y" by (rule same)
    with old(3) show "\<not> f x \<noteq> u" by simp
  qed (use new in simp)
  show from_old: "\<exists>z \<in> set rs. key z = key x \<and> f z = f x" if "x \<in> set (replace_row key r rs)" for x
    using that old new by (auto simp: replace_row_mem)
  show "key ` {x \<in> set (replace_row key r rs). f x = u} = key ` {x \<in> set rs. f x = u}"
  proof (intro equalityI subsetI)
    fix k assume "k \<in> key ` {x \<in> set (replace_row key r rs). f x = u}"
    then obtain x where x: "x \<in> set (replace_row key r rs)" "f x = u" "k = key x" by auto
    from from_old [OF x(1)] obtain z where "z \<in> set rs" "key z = key x" "f z = f x" by blast
    with x(2,3) show "k \<in> key ` {x \<in> set rs. f x = u}" by (intro image_eqI [of _ _ z]) simp_all
  next
    fix k assume "k \<in> key ` {x \<in> set rs. f x = u}"
    then obtain x where x: "x \<in> set rs" "f x = u" "k = key x" by auto
    have r: "key r \<in> key ` set rs" using old(1,2) by (metis imageI)
    show "k \<in> key ` {x \<in> set (replace_row key r rs). f x = u}"
    proof (cases "key x = key r")
      case True
      then show ?thesis using x(3) r new by (intro image_eqI [of _ _ r]) (simp_all add: replace_row_mem)
    next
      case False
      then show ?thesis using x by (intro image_eqI [of _ _ x]) (simp_all add: replace_row_mem)
    qed
  qed
qed

lemma keysD:
  assumes "db_ok db"
  shows "distinct (map r_id (t_rooms db))" "distinct (map d_id (t_devices db))" "distinct (map ds_id (t_desired db))"
    "distinct (map ds_room_id (t_desired db))" "distinct (map sc_id (t_schedules db))" "distinct (map p_id (t_periods db))"
  using assms by (simp_all add: db_ok_defs)

lemma refsD:
  assumes "db_ok db"
  shows "d \<in> set (t_devices db) \<Longrightarrow> d_room_id d = Some i \<Longrightarrow> i \<in> r_id ` set (t_rooms db)"
    and "s \<in> set (t_sensors db) \<Longrightarrow> s_device_id s \<in> d_id ` set (t_devices db)"
    and "a \<in> set (t_actuators db) \<Longrightarrow> a_device_id a \<in> d_id ` set (t_devices db)"
    and "ds \<in> set (t_desired db) \<Longrightarrow> ds_room_id ds \<in> r_id ` set (t_rooms db)"
    and "sc \<in> set (t_schedules db) \<Longrightarrow> sc_room_id sc \<in> r_id ` set (t_rooms db)"
    and "p \<in> set (t_periods db) \<Longrightarrow> p_schedule_id p \<in> sc_id ` set (t_schedules db)"
proof -
  assume d: "d \<in> set (t_devices db)" "d_room_id d = Some i"
  from assms have "d_room_id ` set (t_devices db) \<subseteq> insert None (Some ` r_id ` set (t_rooms db))"
    by (simp add: db_ok_defs)
  with d(1) have "d_room_id d \<in> insert None (Some ` r_id ` set (t_rooms db))" by blast
  with d(2) show "i \<in> r_id ` set (t_rooms db)" by auto
qed (use assms in \<open>simp_all add: db_ok_defs image_subset_iff\<close>)

subsection \<open>Rooms\<close>

lemma ok_insert_room:
  assumes inv: "api_inv db" and run: "insert_room r db = Inr db'" and u: "r_user_id r = u"
  shows "ok u db db' \<and> r_id r \<in> own_rooms u db'"
proof -
  from run obtain r' where r': "r_id r' = r_id r" "r_user_id r' = u" "r_id r \<notin> r_id ` set (t_rooms db)"
    and db': "db' = db\<lparr>t_rooms := t_rooms db @ [r']\<rparr>" by (auto elim: insert_room_tables simp: u)
  note D = api_invD [OF inv]
  have "{x \<in> set (t_rooms db'). r_user_id x = u} = insert r' {x \<in> set (t_rooms db). r_user_id x = u}"
    using r'(2) by (auto simp: db')
  then have own: "own_rooms u db' = insert (r_id r) (own_rooms u db)"
    "own_devices u db' = own_devices u db" "own_schedules u db' = own_schedules u db"
    using r'(1) by (simp_all add: own_rooms_def own_devices_def own_schedules_def db')
  have "ok u db db'"
  proof (rule okI)
    show "db_ok db'" by (rule keepsD [OF keeps_insert_room run D(1)])
    have "d_room_id d \<noteq> Some (r_id r)" if "d \<in> set (t_devices db)" for d
      using refsD(1) [OF D(1) that] r'(3) by blast
    moreover have "sc_room_id s \<noteq> r_id r" if "s \<in> set (t_schedules db)" for s
      using refsD(5) [OF D(1) that] r'(3) by auto
    ultimately show "owner_ok db'" using D(2) r'(1) by (auto simp: owner_ok_def db')
    show "periods_disjoint db'" using D(3) by (rule periods_disjoint_mono) (simp add: db')
    have "ds_room_id d \<noteq> r_id r" if "d \<in> set (t_desired db)" for d
      using refsD(4) [OF D(1) that] r'(3) by auto
    then show "foreign u db' = foreign u db"
      unfolding foreign_def own using r'(2) by (auto simp: db' intro!: filter_cong)
  qed
  with own show ?thesis by simp
qed

lemma ok_insert_desired:
  assumes inv: "api_inv db" and run: "insert_desired d db = Inr db'" and u: "ds_room_id d \<in> own_rooms u db"
  shows "ok u db db'"
proof -
  from insert_desired_tables [OF run] obtain d' where d': "ds_room_id d' = ds_room_id d"
    and db': "db' = db\<lparr>t_desired := t_desired db @ [d']\<rparr>" by blast
  note D = api_invD [OF inv]
  show ?thesis
  proof (rule okI)
    show "db_ok db'" by (rule keepsD [OF keeps_insert_desired run D(1)])
    show "owner_ok db'" using D(2) by (simp add: owner_ok_def db')
    show "periods_disjoint db'" using D(3) by (simp add: periods_disjoint_def db')
    show "foreign u db' = foreign u db"
      using u d' by (simp add: foreign_def own_rooms_def own_devices_def own_schedules_def db')
  qed
qed

lemma ok_update_room:
  assumes inv: "api_inv db" and run: "update_room r db = Inr db'"
    and old: "rm \<in> set (t_rooms db)" "r_id rm = r_id r" "r_user_id rm = u" "r_user_id r = u"
  shows "ok u db db'"
proof -
  from run obtain r' where r': "r_id r' = r_id r" "r_user_id r' = r_user_id r"
    and db': "db' = db\<lparr>t_rooms := replace_row r_id r' (t_rooms db)\<rparr>" by (rule update_room_tables)
  note D = api_invD [OF inv]
  have rm: "r_id rm = r_id r'" "r_user_id r' = u" using old r' by simp_all
  note R = own_replace [where f = r_user_id, OF keysD(1) [OF D(1)] old(1) rm(1) old(3) rm(2)]
  show ?thesis
  proof (rule okI)
    show "db_ok db'" by (rule keepsD [OF keeps_update_room run D(1)])
    show "owner_ok db'" using D(2) by (rule owner_ok_mono) (use R(3) in \<open>auto simp: db'\<close>)
    show "periods_disjoint db'" using D(3) by (simp add: periods_disjoint_def db')
    show "foreign u db' = foreign u db"
      using R(1,2) by (simp add: foreign_def own_rooms_def own_devices_def own_schedules_def db')
  qed
qed

lemma ok_update_desired:
  assumes inv: "api_inv db" and run: "update_desired d db = Inr db'"
    and old: "ds \<in> set (t_desired db)" "ds_id ds = ds_id d" "ds_room_id ds = ds_room_id d" "ds_room_id d \<in> own_rooms u db"
  shows "ok u db db'"
proof -
  from update_desired_tables [OF run] obtain d' where c: "desired_checked d = Some d'"
    and db': "db' = db\<lparr>t_desired := replace_row ds_id d' (t_desired db)\<rparr>" by blast
  note k = desired_checked_keys [OF c]
  note D = api_invD [OF inv]
  have same: "x = ds" if "x \<in> set (t_desired db)" "ds_id x = ds_id d'" for x
    using same_key [OF keysD(3) [OF D(1)] that(1) old(1)] that(2) k old(2) by simp
  have "filter (\<lambda>x. ds_room_id x \<notin> own_rooms u db) (replace_row ds_id d' (t_desired db))
      = filter (\<lambda>x. ds_room_id x \<notin> own_rooms u db) (t_desired db)"
  proof (rule filter_replace_row)
    fix x assume "x \<in> set (t_desired db)" "ds_id x = ds_id d'"
    then have "x = ds" by (rule same)
    with old(3,4) show "\<not> ds_room_id x \<notin> own_rooms u db" by simp
  qed (use k old(4) in simp)
  then have "foreign u db' = foreign u db"
    by (simp add: foreign_def own_rooms_def own_devices_def own_schedules_def db')
  then show ?thesis
    using keepsD [OF keeps_update_desired run D(1)] D(2,3)
    by (intro okI) (simp_all add: owner_ok_def periods_disjoint_def db')
qed

lemma ok_delete_rooms:
  assumes inv: "api_inv db" and P: "\<And>r. r \<in> set (t_rooms db) \<Longrightarrow> P r \<Longrightarrow> r_user_id r = u"
  shows "ok u db (delete_rooms P db)"
proof -
  note D = api_invD [OF inv]
  define dead where "dead = r_id ` {r \<in> set (t_rooms db). P r}"
  define gone where "gone = sc_id ` {s \<in> set (t_schedules db). sc_room_id s \<in> dead}"
  define dev where "dev = map (\<lambda>d. if d_room_id d \<in> Some ` dead then d\<lparr>d_room_id := None\<rparr> else d) (t_devices db)"
  have db': "delete_rooms P db = db\<lparr>t_schedules := filter (\<lambda>s. sc_room_id s \<notin> dead) (t_schedules db),
      t_periods := filter (\<lambda>p. p_schedule_id p \<notin> gone) (t_periods db), t_rooms := filter (\<lambda>r. \<not> P r) (t_rooms db),
      t_desired := filter (\<lambda>d. ds_room_id d \<notin> dead) (t_desired db), t_devices := dev\<rparr>"
    by (simp add: delete_rooms_def delete_schedules_def Let_def dead_def gone_def dev_def)
  have room: "\<exists>r \<in> set (t_rooms db). r_id r = i \<and> r_user_id r = u" if "i \<in> dead" for i
    using that P by (auto simp: dead_def)
  have sched: "sc_user_id s = u" if "s \<in> set (t_schedules db)" "sc_room_id s \<in> dead" for s
    using room [OF that(2)] that(1) D(2) by (auto simp: owner_ok_def)
  have device: "d_user_id d = u" if "d \<in> set (t_devices db)" "d_room_id d \<in> Some ` dead" for d
    using that D(2) room by (auto simp: owner_ok_def)
  have own: "own_rooms u db = dead \<union> own_rooms u (delete_rooms P db)"
    using P by (auto simp: own_rooms_def db' dead_def)
  have own2: "own_schedules u db = gone \<union> own_schedules u (delete_rooms P db)"
    using sched by (auto simp: own_schedules_def db' gone_def)
  have own3: "own_devices u (delete_rooms P db) = own_devices u db"
  proof -
    have "t_devices (delete_rooms P db) = dev" by (simp add: db')
    then show ?thesis unfolding own_devices_def dev_def set_map by (simp only: set_map) (rule own_column; simp)
  qed
  have "filter (\<lambda>d. d_user_id d \<noteq> u) dev = filter (\<lambda>d. d_user_id d \<noteq> u) (t_devices db)"
  proof -
    have "filter (\<lambda>d. d_user_id d \<noteq> u) (map (\<lambda>d. if d_room_id d \<in> Some ` dead then d\<lparr>d_room_id := None\<rparr> else d) ds)
       = filter (\<lambda>d. d_user_id d \<noteq> u) ds" if "set ds \<subseteq> set (t_devices db)" for ds
      using that device by (induction ds) auto
    then show ?thesis by (simp add: dev_def)
  qed
  then have "foreign u (delete_rooms P db) = foreign u db"
    unfolding foreign_def own3 own own2 using P sched by (auto simp: db' intro!: filter_cong)
  moreover have "owner_ok (delete_rooms P db)"
    by (rule owner_ok_mono [OF D(2)]) (auto simp: db' dev_def split: if_splits)
  moreover have "periods_disjoint (delete_rooms P db)"
    by (rule periods_disjoint_mono [OF D(3)]) (auto simp: db')
  ultimately show ?thesis using db_ok_delete_rooms [OF D(1)] by (intro okI)
qed

lemma ok_delete_schedules:
  assumes inv: "api_inv db" and P: "\<And>s. s \<in> set (t_schedules db) \<Longrightarrow> P s \<Longrightarrow> sc_user_id s = u"
  shows "ok u db (delete_schedules P db)"
proof -
  note D = api_invD [OF inv]
  define dead where "dead = sc_id ` {s \<in> set (t_schedules db). P s}"
  have db': "delete_schedules P db = db\<lparr>t_schedules := filter (\<lambda>s. \<not> P s) (t_schedules db),
      t_periods := filter (\<lambda>p. p_schedule_id p \<notin> dead) (t_periods db)\<rparr>"
    by (simp add: delete_schedules_def dead_def)
  have own: "own_schedules u db = dead \<union> own_schedules u (delete_schedules P db)"
    using P by (auto simp: own_schedules_def db' dead_def)
  have "foreign u (delete_schedules P db) = foreign u db"
    unfolding foreign_def own using P by (auto simp: db' own_rooms_def own_devices_def intro!: filter_cong)
  moreover have "owner_ok (delete_schedules P db)"
    by (rule owner_ok_mono [OF D(2)]) (auto simp: db')
  moreover have "periods_disjoint (delete_schedules P db)"
    by (rule periods_disjoint_mono [OF D(3)]) (auto simp: db')
  ultimately show ?thesis using db_ok_delete_schedules [OF D(1)] by (intro okI)
qed

lemma ok_delete_devices:
  assumes inv: "api_inv db" and P: "\<And>d. d \<in> set (t_devices db) \<Longrightarrow> P d \<Longrightarrow> d_user_id d = u"
  shows "ok u db (delete_devices P db)"
proof -
  note D = api_invD [OF inv]
  define dead where "dead = d_id ` {d \<in> set (t_devices db). P d}"
  have db': "delete_devices P db = db\<lparr>t_devices := filter (\<lambda>d. \<not> P d) (t_devices db),
      t_sensors := filter (\<lambda>s. s_device_id s \<notin> dead) (t_sensors db),
      t_actuators := filter (\<lambda>a. a_device_id a \<notin> dead) (t_actuators db)\<rparr>"
    by (simp add: delete_devices_def dead_def)
  have own: "own_devices u db = dead \<union> own_devices u (delete_devices P db)"
    using P by (auto simp: own_devices_def db' dead_def)
  have "foreign u (delete_devices P db) = foreign u db"
    unfolding foreign_def own using P by (auto simp: db' own_rooms_def own_schedules_def intro!: filter_cong)
  moreover have "owner_ok (delete_devices P db)"
    by (rule owner_ok_mono [OF D(2)]) (auto simp: db')
  moreover have "periods_disjoint (delete_devices P db)"
    by (rule periods_disjoint_mono [OF D(3)]) (auto simp: db')
  ultimately show ?thesis using db_ok_delete_devices [OF D(1)] by (intro okI)
qed

subsection \<open>Devices\<close>

lemma ok_insert_device:
  assumes inv: "api_inv db" and run: "insert_device d db = Inr db'" and d: "d_user_id d = u" "d_room_id d = None"
  shows "ok u db db' \<and> d_id d \<in> own_devices u db'"
proof -
  note D = api_invD [OF inv]
  from insert_device_tables [OF run] have db': "db' = db\<lparr>t_devices := t_devices db @ [d]\<rparr>"
    and new: "d_id d \<notin> d_id ` set (t_devices db)" by auto
  have "{x \<in> set (t_devices db'). d_user_id x = u} = insert d {x \<in> set (t_devices db). d_user_id x = u}"
    using d by (auto simp: db')
  then have own: "own_rooms u db' = own_rooms u db" "own_devices u db' = insert (d_id d) (own_devices u db)"
    "own_schedules u db' = own_schedules u db"
    by (simp_all add: own_rooms_def own_devices_def own_schedules_def db')
  have "s_device_id s \<noteq> d_id d" if "s \<in> set (t_sensors db)" for s
    using refsD(2) [OF D(1) that] new by auto
  moreover have "a_device_id a \<noteq> d_id d" if "a \<in> set (t_actuators db)" for a
    using refsD(3) [OF D(1) that] new by auto
  ultimately have "foreign u db' = foreign u db"
    unfolding foreign_def own using d by (auto simp: db' intro!: filter_cong)
  moreover have "owner_ok db'" by (rule owner_ok_mono [OF D(2)]) (use d in \<open>auto simp: db'\<close>)
  moreover have "periods_disjoint db'" using D(3) by (simp add: periods_disjoint_def db')
  ultimately show ?thesis using keepsD [OF keeps_insert_device run D(1)] own by (auto intro: okI)
qed

lemma ok_insert_sensor:
  assumes inv: "api_inv db" and run: "insert_sensor s db = Inr db'" and u: "s_device_id s \<in> own_devices u db"
  shows "ok u db db' \<and> own_devices u db' = own_devices u db"
proof -
  note D = api_invD [OF inv]
  from run have db': "db' = db\<lparr>t_sensors := t_sensors db @ [s]\<rparr>"
    unfolding insert_sensor_def write_shape by (elim conjE) simp
  have "foreign u db' = foreign u db"
    using u by (simp add: foreign_def own_rooms_def own_devices_def own_schedules_def db')
  then show ?thesis using keepsD [OF keeps_insert_sensor run D(1)] D(2,3)
    by (auto intro!: okI simp: owner_ok_def periods_disjoint_def own_devices_def db')
qed

lemma ok_insert_actuator:
  assumes inv: "api_inv db" and run: "insert_actuator a db = Inr db'" and u: "a_device_id a \<in> own_devices u db"
  shows "ok u db db' \<and> own_devices u db' = own_devices u db"
proof -
  note D = api_invD [OF inv]
  from run have db': "db' = db\<lparr>t_actuators := t_actuators db @ [a]\<rparr>"
    unfolding insert_actuator_def write_shape by (elim conjE) simp
  have "foreign u db' = foreign u db"
    using u by (simp add: foreign_def own_rooms_def own_devices_def own_schedules_def db')
  then show ?thesis using keepsD [OF keeps_insert_actuator run D(1)] D(2,3)
    by (auto intro!: okI simp: owner_ok_def periods_disjoint_def own_devices_def db')
qed

text \<open>A device moves to a room of its owner, or to none.\<close>

lemma ok_update_device:
  assumes inv: "api_inv db" and run: "update_device d db = Inr db'"
    and old: "dv \<in> set (t_devices db)" "d_id dv = d_id d" "d_user_id dv = u" "d_user_id d = u"
    and room: "\<And>i. d_room_id d = Some i \<Longrightarrow> i \<in> own_rooms u db"
  shows "ok u db db'"
proof -
  note D = api_invD [OF inv]
  from run have db': "db' = db\<lparr>t_devices := replace_row d_id d (t_devices db)\<rparr>" by (rule update_device_tables)
  note R = own_replace [where f = d_user_id, OF keysD(2) [OF D(1)] old]
  have "d_user_id x = r_user_id r" if "x \<in> set (t_devices db')" "r \<in> set (t_rooms db)" "d_room_id x = Some (r_id r)" for x r
  proof (cases "x = d")
    case True
    with room that(3) obtain r' where r': "r' \<in> set (t_rooms db)" "r_id r' = r_id r" "r_user_id r' = u"
      by (auto simp: own_rooms_def)
    with same_key [OF keysD(1) [OF D(1)] that(2) r'(1)] True old(4) show ?thesis by simp
  next
    case False
    with that D(2) show ?thesis by (auto simp: db' replace_row_mem owner_ok_def)
  qed
  with D(2) have "owner_ok db'" unfolding owner_ok_def by (simp add: db')
  moreover have "periods_disjoint db'" using D(3) by (simp add: periods_disjoint_def db')
  moreover have "foreign u db' = foreign u db"
    using R(1,2) by (simp add: foreign_def own_rooms_def own_devices_def own_schedules_def db')
  ultimately show ?thesis using keepsD [OF keeps_update_device run D(1)] by (intro okI)
qed

subsection \<open>Schedules and periods\<close>

lemma ok_insert_schedule:
  assumes inv: "api_inv db" and run: "insert_schedule s db = Inr db'"
    and s: "sc_user_id s = u" "sc_room_id s \<in> own_rooms u db"
  shows "ok u db db'"
proof -
  note D = api_invD [OF inv]
  from insert_schedule_tables [OF run] have db': "db' = db\<lparr>t_schedules := t_schedules db @ [s]\<rparr>"
    and new: "sc_id s \<notin> sc_id ` set (t_schedules db)" by auto
  have "{x \<in> set (t_schedules db'). sc_user_id x = u} = insert s {x \<in> set (t_schedules db). sc_user_id x = u}"
    using s by (auto simp: db')
  then have own: "own_rooms u db' = own_rooms u db" "own_devices u db' = own_devices u db"
    "own_schedules u db' = insert (sc_id s) (own_schedules u db)"
    by (simp_all add: own_rooms_def own_devices_def own_schedules_def db')
  have "p_schedule_id p \<noteq> sc_id s" if "p \<in> set (t_periods db)" for p
    using refsD(6) [OF D(1) that] new by auto
  then have "foreign u db' = foreign u db"
    unfolding foreign_def own using s by (auto simp: db' intro!: filter_cong)
  moreover have "r_user_id r = u" if "r \<in> set (t_rooms db)" "sc_room_id s = r_id r" for r
  proof -
    from s(2) that(2) obtain r' where "r' \<in> set (t_rooms db)" "r_id r' = r_id r" "r_user_id r' = u"
      by (auto simp: own_rooms_def)
    with same_key [OF keysD(1) [OF D(1)] that(1), of r'] show ?thesis by simp
  qed
  with D(2) s(1) have "owner_ok db'" unfolding owner_ok_def by (auto simp: db')
  moreover have "periods_disjoint db'" using D(3) by (simp add: periods_disjoint_def db')
  ultimately show ?thesis using keepsD [OF keeps_insert_schedule run D(1)] by (intro okI)
qed

lemma ok_update_schedule:
  assumes inv: "api_inv db" and run: "update_schedule s db = Inr db'"
    and old: "sc \<in> set (t_schedules db)" "sc_id sc = sc_id s" "sc_user_id sc = u" "sc_user_id s = u"
      "sc_room_id sc = sc_room_id s"
  shows "ok u db db'"
proof -
  note D = api_invD [OF inv]
  from run have db': "db' = db\<lparr>t_schedules := replace_row sc_id s (t_schedules db)\<rparr>" by (rule update_schedule_tables)
  note R = own_replace [where f = sc_user_id, OF keysD(5) [OF D(1)] old(1-4)]
  have "owner_ok db'"
    by (rule owner_ok_mono [OF D(2)]) (use old in \<open>auto simp: db' replace_row_mem\<close>)
  moreover have "periods_disjoint db'" using D(3) by (simp add: periods_disjoint_def db')
  moreover have "foreign u db' = foreign u db"
    using R(1,2) by (simp add: foreign_def own_rooms_def own_devices_def own_schedules_def db')
  ultimately show ?thesis using keepsD [OF keeps_update_schedule run D(1)] by (intro okI)
qed

lemma ok_set_active:
  assumes inv: "api_inv db" and run: "set_active P v now db = Inr db'"
    and P: "\<And>s. s \<in> set (t_schedules db) \<Longrightarrow> P s \<Longrightarrow> sc_user_id s = u"
  shows "ok u db db'"
proof -
  note D = api_invD [OF inv]
  let ?f = "\<lambda>s. if P s then s\<lparr>sc_is_active := v, sc_updated_at := now\<rparr> else s"
  from set_active_tables [OF run] have db': "db' = db\<lparr>t_schedules := map ?f (t_schedules db)\<rparr>" .
  have own: "own_schedules u db' = own_schedules u db"
  proof -
    have "t_schedules db' = map ?f (t_schedules db)" by (simp add: db')
    then show ?thesis unfolding own_schedules_def by (simp only: set_map) (rule own_column; simp)
  qed
  have "filter (\<lambda>s. sc_user_id s \<noteq> u) (map ?f ss) = filter (\<lambda>s. sc_user_id s \<noteq> u) ss"
    if "set ss \<subseteq> set (t_schedules db)" for ss
    using that P by (induction ss) auto
  then have "foreign u db' = foreign u db"
    unfolding foreign_def own by (simp add: db' own_rooms_def own_devices_def)
  moreover have "owner_ok db'"
    by (rule owner_ok_mono [OF D(2)]) (auto simp: db')
  moreover have "periods_disjoint db'" using D(3) by (simp add: periods_disjoint_def db')
  ultimately show ?thesis using keepsD [OF keeps_set_active run D(1)] by (intro okI)
qed

text \<open>A period that overlaps no other one of its schedule.\<close>

lemma periods_disjoint_add:
  assumes D: "periods_disjoint db"
    and rows: "\<And>x. x \<in> set (t_periods db') \<Longrightarrow> x = p \<or> x \<in> set (t_periods db)"
    and free: "\<And>q. q \<in> set (t_periods db) \<Longrightarrow> p_schedule_id q = p_schedule_id p \<Longrightarrow> p_id q \<noteq> p_id p \<Longrightarrow>
      \<not> overlaps (p_days_of_week p) (p_start_time p) (p_end_time p) q"
  shows "periods_disjoint db'"
  unfolding periods_disjoint_def
proof (intro ballI impI)
  fix x y assume "x \<in> set (t_periods db')" "y \<in> set (t_periods db')"
    and ne: "p_schedule_id x = p_schedule_id y \<and> p_id x \<noteq> p_id y"
  then consider "x = p" "y = p" | "x = p" "y \<in> set (t_periods db)" | "y = p" "x \<in> set (t_periods db)"
    | "x \<in> set (t_periods db)" "y \<in> set (t_periods db)" using rows by blast
  then show "\<not> overlaps (p_days_of_week y) (p_start_time y) (p_end_time y) x"
  proof cases
    case 2
    with free [of y] ne show ?thesis using overlaps_sym [of y x] by auto
  next
    case 3
    with free [of x] ne show ?thesis by simp
  next
    case 4
    with D ne show ?thesis by (simp add: periods_disjoint_def)
  qed (use ne in simp)
qed

lemma ok_insert_period:
  assumes inv: "api_inv db" and run: "insert_period p db = Inr db'" and own: "p_schedule_id p \<in> own_schedules u db"
    and free: "\<And>q. q \<in> set (t_periods db) \<Longrightarrow> p_schedule_id q = p_schedule_id p \<Longrightarrow>
      \<not> overlaps (p_days_of_week p) (p_start_time p) (p_end_time p) q"
  shows "ok u db db'"
proof -
  note D = api_invD [OF inv]
  from run obtain p' where c: "period_checked p = Some p'" and db': "db' = db\<lparr>t_periods := t_periods db @ [p']\<rparr>"
    by (rule insert_period_tables)
  note k = period_checked_keys [OF c]
  have "periods_disjoint db'"
    by (rule periods_disjoint_add [OF D(3), of _ p']) (use free k in \<open>auto simp: db'\<close>)
  moreover have "foreign u db' = foreign u db"
    using own k by (simp add: foreign_def own_rooms_def own_devices_def own_schedules_def db')
  ultimately show ?thesis using keepsD [OF keeps_insert_period run D(1)] D(2)
    by (intro okI) (simp_all add: owner_ok_def db')
qed

lemma ok_update_period:
  assumes inv: "api_inv db" and run: "update_period p db = Inr db'"
    and old: "pd \<in> set (t_periods db)" "p_id pd = p_id p" "p_schedule_id pd = p_schedule_id p"
      "p_schedule_id p \<in> own_schedules u db"
    and free: "\<And>q. q \<in> set (t_periods db) \<Longrightarrow> p_schedule_id q = p_schedule_id p \<Longrightarrow> p_id q \<noteq> p_id p \<Longrightarrow>
      \<not> overlaps (p_days_of_week p) (p_start_time p) (p_end_time p) q"
  shows "ok u db db'"
proof -
  note D = api_invD [OF inv]
  from run obtain p' where c: "period_checked p = Some p'"
    and db': "db' = db\<lparr>t_periods := replace_row p_id p' (t_periods db)\<rparr>" by (rule update_period_tables)
  note k = period_checked_keys [OF c]
  have "periods_disjoint db'"
    by (rule periods_disjoint_add [OF D(3), of _ p']) (use free k in \<open>auto simp: db' replace_row_mem\<close>)
  moreover have "filter (\<lambda>q. p_schedule_id q \<notin> own_schedules u db) (replace_row p_id p' (t_periods db))
      = filter (\<lambda>q. p_schedule_id q \<notin> own_schedules u db) (t_periods db)"
  proof (rule filter_replace_row)
    fix x assume "x \<in> set (t_periods db)" "p_id x = p_id p'"
    with same_key [OF keysD(6) [OF D(1)] _ old(1)] k old(2) have "x = pd" by simp
    with old(3,4) show "\<not> p_schedule_id x \<notin> own_schedules u db" by simp
  qed (use k old(4) in simp)
  then have "foreign u db' = foreign u db"
    by (simp add: foreign_def own_rooms_def own_devices_def own_schedules_def db')
  ultimately show ?thesis using keepsD [OF keeps_update_period run D(1)] D(2)
    by (intro okI) (simp_all add: owner_ok_def db')
qed

lemma ok_delete_period:
  assumes inv: "api_inv db" and old: "pd \<in> set (t_periods db)" "p_id pd = i" "p_schedule_id pd \<in> own_schedules u db"
    and run: "delete_period i db = Inr db'"
  shows "ok u db db'"
proof -
  note D = api_invD [OF inv]
  from run have db': "db' = db\<lparr>t_periods := filter (\<lambda>p. p_id p \<noteq> i) (t_periods db)\<rparr>" by (simp add: delete_period_def)
  have "p_id p \<noteq> i" if "p \<in> set (t_periods db)" "p_schedule_id p \<notin> own_schedules u db" for p
    using same_key [OF keysD(6) [OF D(1)] that(1) old(1)] that(2) old(2,3) by auto
  then have "foreign u db' = foreign u db"
    by (auto simp: foreign_def own_rooms_def own_devices_def own_schedules_def db' intro!: filter_cong)
  moreover have "periods_disjoint db'" by (rule periods_disjoint_mono [OF D(3)]) (auto simp: db')
  ultimately show ?thesis using keepsD [OF keeps_deletes(4) run D(1)] D(2)
    by (intro okI) (simp_all add: owner_ok_def db')
qed

subsection \<open>Users\<close>

lemma ok_update_timezone:
  assumes inv: "api_inv db" and run: "update_timezone u tz now db = Inr db'"
  shows "ok u db db'"
proof -
  note D = api_invD [OF inv]
  from run have db': "db' = db\<lparr>t_users := map (\<lambda>x. if u_id x = u then x\<lparr>u_timezone := tz, u_updated_at := now\<rparr> else x)
      (t_users db)\<rparr>" by (simp add: update_timezone_def)
  have "filter (\<lambda>x. u_id x \<noteq> u) (map (\<lambda>x. if u_id x = u then x\<lparr>u_timezone := tz, u_updated_at := now\<rparr> else x) us)
      = filter (\<lambda>x. u_id x \<noteq> u) us" for us
    by (induction us) auto
  then have "foreign u db' = foreign u db"
    by (simp add: foreign_def own_rooms_def own_devices_def own_schedules_def db')
  then show ?thesis using keepsD [OF keeps_update_timezone run D(1)] D(2,3)
    by (intro okI) (simp_all add: owner_ok_def periods_disjoint_def db')
qed

lemma ok_delete_user:
  assumes inv: "api_inv db" and run: "delete_user u db = Inr db'"
  shows "ok u db db'"
proof -
  define db1 where "db1 = delete_rooms (\<lambda>r. r_user_id r = u) db"
  define db2 where "db2 = delete_devices (\<lambda>d. d_user_id d = u) db1"
  define db3 where "db3 = delete_schedules (\<lambda>s. sc_user_id s = u) db2"
  have 1: "ok u db db1" unfolding db1_def by (rule ok_delete_rooms [OF inv]) simp
  have 2: "ok u db1 db2" unfolding db2_def by (rule ok_delete_devices) (use 1 in \<open>simp_all add: ok_def\<close>)
  have 3: "ok u db2 db3" unfolding db3_def by (rule ok_delete_schedules) (use 2 in \<open>simp_all add: ok_def\<close>)
  have db': "db' = db3\<lparr>t_users := filter (\<lambda>x. u_id x \<noteq> u) (t_users db3)\<rparr>"
    using run by (simp add: delete_user_def db1_def db2_def db3_def delete_schedules_def delete_devices_def
        delete_rooms_def Let_def)
  from 1 2 3 have 4: "ok u db db3" by (blast intro: ok_trans)
  then have D: "owner_ok db3" "periods_disjoint db3" by (auto simp: ok_def dest: api_invD)
  have "foreign u db' = foreign u db3"
    by (simp add: foreign_def own_rooms_def own_devices_def own_schedules_def db')
  moreover have "db_ok db'" by (rule keepsD [OF keeps_delete_user run api_invD(1) [OF inv]])
  ultimately have "ok u db3 db'" using D by (intro okI) (simp_all add: owner_ok_def periods_disjoint_def db')
  with 4 show ?thesis by (rule ok_trans)
qed

text \<open>Registration adds a user who owns nothing.\<close>

lemma ok_insert_user:
  assumes inv: "api_inv db" and run: "insert_user x db = Inr db'"
  shows "ok (u_id x) db db'"
proof -
  note D = api_invD [OF inv]
  from run have db': "db' = db\<lparr>t_users := t_users db @ [x]\<rparr>" unfolding insert_user_def write_shape by auto
  then have "foreign (u_id x) db' = foreign (u_id x) db"
    by (simp add: foreign_def own_rooms_def own_devices_def own_schedules_def)
  then show ?thesis using keepsD [OF keeps_insert_user run D(1)] D(2,3)
    by (intro okI) (simp_all add: owner_ok_def periods_disjoint_def db')
qed

end
