(* ===== verification/ApiSafety.thy ===== *)
theory ApiSafety
  imports ApiState
begin

text \<open>
  Every operation of the services keeps the invariant of theory ApiState and the rows of everyone but
  the caller, whatever statements fail and wherever it stops: the proofs run each operation
  symbolically with the rules of theory Wp.
\<close>

definition good :: "uuid \<Rightarrow> ('z base_world_scheme, 'a) act \<Rightarrow> bool" where
  "good u m \<longleftrightarrow> (\<forall>db. api_inv db \<longrightarrow> wp m (\<lambda>_. ok u db) (\<lambda>_. ok u db) db)"

named_theorems good_rules "operations that keep the invariant and the rows of the others"

lemma goodI: "(\<And>db. api_inv db \<Longrightarrow> wp m (\<lambda>_. ok u db) (\<lambda>_. ok u db) db) \<Longrightarrow> good u m"
  by (simp add: good_def)

lemma good_state: "good u m \<Longrightarrow> api_inv (w_db w) \<Longrightarrow> ok u (w_db w) (w_db (snd (m w)))"
  by (auto simp: good_def intro: wp_state)

lemma good_frames: "frames w_db m \<Longrightarrow> good u m"
  by (rule goodI, rule wp_frames) (auto simp: ok_refl)

lemma good_bindE:
  assumes "good u m" and "\<And>x. good u (k x)"
  shows "good u (bindE m k)"
proof (rule goodI, rule wp_bindE)
  fix db assume "api_inv db"
  with assms(1) have "wp m (\<lambda>_. ok u db) (\<lambda>_. ok u db) db" by (simp add: good_def)
  then show "wp m (\<lambda>x. wp (k x) (\<lambda>_. ok u db) (\<lambda>_. ok u db)) (\<lambda>_. ok u db) db"
  proof (rule wp_conseq)
    fix x db1 assume ok: "ok u db db1"
    then have "wp (k x) (\<lambda>_. ok u db1) (\<lambda>_. ok u db1) db1"
      using assms(2) by (simp add: good_def ok_def)
    then show "wp (k x) (\<lambda>_. ok u db) (\<lambda>_. ok u db) db1"
      by (rule wp_conseq) (rule ok_trans [OF ok], assumption)+
  qed
qed

section \<open>Lookups\<close>

lemma find_owned: "List.find (\<lambda>r. key r = i \<and> owner r = u) rs = Some r \<Longrightarrow> r \<in> set rs \<and> key r = i \<and> owner r = u"
  by (auto dest: find_Some_mem)

lemma owned_room_mem: "owned_room i u db = Some r \<Longrightarrow> r \<in> set (t_rooms db) \<and> r_id r = i \<and> r_user_id r = u"
  unfolding owned_room_def by (rule find_owned)

lemma owned_room_own: "owned_room i u db = Some r \<Longrightarrow> i \<in> own_rooms u db"
  by (drule owned_room_mem) (auto simp: own_rooms_def)

lemma owned_schedule_mem:
  "owned_schedule i u db = Some s \<Longrightarrow> s \<in> set (t_schedules db) \<and> sc_id s = i \<and> sc_user_id s = u"
  unfolding owned_schedule_def by (rule find_owned)

lemma owned_schedule_own: "owned_schedule i u db = Some s \<Longrightarrow> i \<in> own_schedules u db"
  by (drule owned_schedule_mem) (auto simp: own_schedules_def)

lemma owned_device_mem:
  "owned_device i u db = Some d \<Longrightarrow> d \<in> set (t_devices db) \<and> d_id d = i \<and> d_user_id d = u"
  unfolding owned_device_def by (rule find_owned)

section \<open>Saves of a row that was read\<close>

lemma ok_save_room:
  assumes "api_inv db" and "owned_room i u db = Some r" and "save_room r' db = Inr db'"
    and "r_id r' = r_id r" and "r_user_id r' = r_user_id r"
  shows "ok u db db'"
proof -
  from owned_room_mem [OF assms(2)] have r: "r \<in> set (t_rooms db)" "r_user_id r = u" by simp_all
  with assms(3,4) have "update_room r' db = Inr db'" by (auto simp: save_room_def)
  from ok_update_room [OF assms(1) this r(1)] r(2) assms(4,5) show ?thesis by simp
qed

lemma ok_save_desired:
  assumes "api_inv db" and "ds \<in> set (t_desired db)" and "ds_room_id ds \<in> own_rooms u db"
    and "save_desired ds' db = Inr db'" and "ds_id ds' = ds_id ds" and "ds_room_id ds' = ds_room_id ds"
  shows "ok u db db'"
proof -
  from assms(2,4,5) have "update_desired ds' db = Inr db'" by (auto simp: save_desired_def)
  from ok_update_desired [OF assms(1) this assms(2)] assms(3,5,6) show ?thesis by simp
qed

lemma ok_save_schedule:
  assumes "api_inv db" and "owned_schedule i u db = Some s" and "save_schedule s' db = Inr db'"
    and "sc_id s' = sc_id s" and "sc_user_id s' = sc_user_id s" and "sc_room_id s' = sc_room_id s"
  shows "ok u db db'"
proof -
  from owned_schedule_mem [OF assms(2)] have s: "s \<in> set (t_schedules db)" "sc_user_id s = u" by simp_all
  with assms(3,4) have "update_schedule s' db = Inr db'" by (auto simp: save_schedule_def)
  from ok_update_schedule [OF assms(1) this s(1)] s(2) assms(4-6) show ?thesis by simp
qed

lemma ok_save_device:
  assumes "api_inv db" and "owned_device i u db = Some d" and "save_device d' db = Inr db'"
    and "d_id d' = d_id d" and "d_user_id d' = d_user_id d"
    and "\<And>r. d_room_id d' = Some r \<Longrightarrow> r \<in> own_rooms u db"
  shows "ok u db db'"
proof -
  from owned_device_mem [OF assms(2)] have d: "d \<in> set (t_devices db)" "d_user_id d = u" by simp_all
  with assms(3,4) have "update_device d' db = Inr db'" by (auto simp: save_device_def)
  from ok_update_device [OF assms(1) this d(1)] d(2) assms(4-6) show ?thesis by simp
qed

lemma ok_save_period:
  assumes "api_inv db" and "pd \<in> set (t_periods db)" and "p_schedule_id pd \<in> own_schedules u db"
    and "save_period p db = Inr db'" and "p_id p = p_id pd" and "p_schedule_id p = p_schedule_id pd"
    and "\<not> (\<exists>q \<in> set (t_periods db). p_schedule_id q = p_schedule_id p
      \<and> overlaps (p_days_of_week p) (p_start_time p) (p_end_time p) q \<and> p_id p \<noteq> p_id q)"
  shows "ok u db db'"
proof -
  from assms(2,4,5) have "update_period p db = Inr db'" by (auto simp: save_period_def)
  then show ?thesis
  proof (rule ok_update_period [OF assms(1) _ assms(2)])
    fix q assume "q \<in> set (t_periods db)" "p_schedule_id q = p_schedule_id p" "p_id q \<noteq> p_id p"
    with assms(7) show "\<not> overlaps (p_days_of_week p) (p_start_time p) (p_end_time p) q" by metis
  qed (use assms(3,5,6) in simp_all)
qed

section \<open>Rooms\<close>

lemma wp_room_get [wp_rules]:
  "(\<And>r. owned_room i u db = Some r \<Longrightarrow> Q r db) \<Longrightarrow> (\<And>e. E e db) \<Longrightarrow>
     wp (RoomRepo_GetByIDAndUserID i u) Q E db"
  unfolding RoomRepo_GetByIDAndUserID_def by (rule wp_first_or) auto

lemma wp_caps [wp_rules]:
  "(\<And>c. Q c db) \<Longrightarrow> E Fault db \<Longrightarrow> wp (RoomRepo_RoomCapabilities i) Q E db"
  unfolding RoomRepo_RoomCapabilities_def by (rule wp_query) auto

lemma wp_require_capability [wp_rules]:
  "Q () db \<Longrightarrow> (\<And>e. E e db) \<Longrightarrow> m \<in> {HasTemperatureCapability i, HasHumidityCapability i} \<Longrightarrow>
     wp (require_capability b m) Q E db"
  unfolding require_capability_def HasTemperatureCapability_def HasHumidityCapability_def
  by (elim insertE emptyE; simp only:; intro wp_rules; simp)

lemma good_room_create [good_rules]: "good u (RoomSvc_Create ustr i j now u name)"
proof (rule goodI)
  fix db assume inv: "api_inv db"
  show "wp (RoomSvc_Create ustr i j now u name) (\<lambda>_. ok u db) (\<lambda>_. ok u db) db"
    unfolding RoomSvc_Create_def RoomRepo_CreateWithDesiredState_def notify_defs Let_def
  proof (intro wp_rules)
    fix db1 db2
    assume run: "insert_room (\<lparr>r_id = 0, r_user_id = u, r_name = name, r_deadband_temp = defaultTempDeadband,
        r_deadband_hum = defaultHumDeadband, r_created_at = 0, r_updated_at = 0\<rparr>
        \<lparr>r_id := i, r_created_at := now, r_updated_at := now\<rparr>) db = Inr db1"
      and run2: "insert_desired \<lparr>ds_id = j, ds_room_id = i, ds_mode = ''OFF'', ds_manual_active = False,
        ds_target_temp = None, ds_target_hum = None, ds_manual_override_until = None,
        ds_created_at = now, ds_updated_at = now\<rparr> db1 = Inr db2"
    from ok_insert_room [OF inv run] have 1: "ok u db db1" "i \<in> own_rooms u db1" by simp_all
    with ok_insert_desired [OF _ run2] have "ok u db1 db2" by (simp add: ok_def)
    with 1 show "ok u db db2" by (blast intro: ok_trans)
  qed (simp_all add: ok_refl inv)
qed

lemma good_room_update [good_rules]: "good u (RoomSvc_Update ustr now i u name dt dh)"
proof (rule goodI)
  fix db assume inv: "api_inv db"
  show "wp (RoomSvc_Update ustr now i u name dt dh) (\<lambda>_. ok u db) (\<lambda>_. ok u db) db"
    unfolding RoomSvc_Update_def RoomRepo_Update_def notify_defs Let_def
    by (intro wp_rules) (auto simp: ok_refl inv elim: ok_save_room [OF inv])
qed

lemma good_room_delete [good_rules]: "good u (RoomSvc_Delete ustr i u)"
proof (rule goodI)
  fix db assume inv: "api_inv db"
  have "ok u db db'" if r: "owned_room i u db = Some r" and run: "delete_room i db = Inr db'" for r db'
  proof -
    from owned_room_mem [OF r] have m: "r \<in> set (t_rooms db)" "r_id r = i" "r_user_id r = u" by simp_all
    have "r_user_id x = u" if "x \<in> set (t_rooms db)" "r_id x = i" for x
      using same_key [OF keysD(1) [OF api_invD(1) [OF inv]] that(1) m(1)] that(2) m by simp
    then have "ok u db (delete_rooms (\<lambda>r. r_id r = i) db)" by (intro ok_delete_rooms [OF inv]) simp
    with run show ?thesis by (simp add: delete_room_def)
  qed
  then show "wp (RoomSvc_Delete ustr i u) (\<lambda>_. ok u db) (\<lambda>_. ok u db) db"
    unfolding RoomSvc_Delete_def RoomRepo_Delete_def notify_defs
    by (intro wp_rules) (auto simp: ok_refl inv)
qed

lemma good_desired_update [good_rules]: "good u (RoomSvc_UpdateDesiredState ustr now i u input)"
proof (rule goodI)
  fix db assume inv: "api_inv db"
  have "ok u db db'"
    if "owned_room i u db = Some r" "List.find (\<lambda>d. ds_room_id d = i) (t_desired db) = Some ds"
      "save_desired (ds\<lparr>ds_mode := m, ds_manual_active := a, ds_target_temp := t, ds_target_hum := h,
         ds_manual_override_until := o', ds_updated_at := now\<rparr>) db = Inr db'" for r ds db' m a t h o'
    using owned_room_own [OF that(1)] find_Some_mem [OF that(2)] that(3)
    by (auto elim!: ok_save_desired [OF inv])
  then show "wp (RoomSvc_UpdateDesiredState ustr now i u input) (\<lambda>_. ok u db) (\<lambda>_. ok u db) db"
    unfolding RoomSvc_UpdateDesiredState_def RoomRepo_UpdateDesiredState_def RoomRepo_GetDesiredState_def
      notify_defs Let_def
    by (intro wp_rules) (auto simp: ok_refl inv)
qed

section \<open>Schedules\<close>

lemma wp_sched_get [wp_rules]:
  "(\<And>s. owned_schedule i u db = Some s \<Longrightarrow> Q s db) \<Longrightarrow> (\<And>e. E e db) \<Longrightarrow> wp (SchedRepo_GetByID i u) Q E db"
  unfolding SchedRepo_GetByID_def by (rule wp_first_or) auto

lemma good_sched_create [good_rules]: "good u (SchedSvc_Create new now i u name)"
proof (rule goodI)
  fix db assume inv: "api_inv db"
  show "wp (SchedSvc_Create new now i u name) (\<lambda>_. ok u db) (\<lambda>_. ok u db) db"
    unfolding SchedSvc_Create_def SchedRepo_Create_def Let_def
    by (intro wp_rules) (auto simp: ok_refl inv dest: owned_room_own intro!: ok_insert_schedule [OF inv])
qed

lemma good_sched_update [good_rules]: "good u (SchedSvc_Update now i u name)"
proof (rule goodI)
  fix db assume inv: "api_inv db"
  show "wp (SchedSvc_Update now i u name) (\<lambda>_. ok u db) (\<lambda>_. ok u db) db"
    unfolding SchedSvc_Update_def SchedRepo_Update_def Let_def
    by (intro wp_rules) (auto simp: ok_refl inv elim: ok_save_schedule [OF inv])
qed

lemma own_schedule_id:
  assumes inv: "api_inv db" and s: "owned_schedule i u db = Some s" and x: "x \<in> set (t_schedules db)" "sc_id x = i"
  shows "sc_user_id x = u"
  using same_key [OF keysD(5) [OF api_invD(1) [OF inv]] x(1), of s] x(2) owned_schedule_mem [OF s] by simp

lemma own_schedule_room:
  assumes inv: "api_inv db" and s: "owned_schedule i u db = Some s"
    and x: "x \<in> set (t_schedules db)" "sc_room_id x = sc_room_id s"
  shows "sc_user_id x = u"
proof -
  from owned_schedule_mem [OF s] have m: "s \<in> set (t_schedules db)" "sc_user_id s = u" by simp_all
  from refsD(5) [OF api_invD(1) [OF inv] m(1)] obtain r where "r \<in> set (t_rooms db)" "sc_room_id s = r_id r" by auto
  with api_invD(2) [OF inv] m x show ?thesis by (auto simp: owner_ok_def)
qed

lemma good_sched_delete [good_rules]: "good u (SchedSvc_Delete i u)"
proof (rule goodI)
  fix db assume inv: "api_inv db"
  have "ok u db db'" if "owned_schedule i u db = Some s" "delete_schedule i db = Inr db'" for s db'
  proof -
    from own_schedule_id [OF inv that(1)] have "ok u db (delete_schedules (\<lambda>s. sc_id s = i) db)"
      by (intro ok_delete_schedules [OF inv]) simp
    with that(2) show ?thesis by (simp add: delete_schedule_def)
  qed
  then show "wp (SchedSvc_Delete i u) (\<lambda>_. ok u db) (\<lambda>_. ok u db) db"
    unfolding SchedSvc_Delete_def SchedRepo_Delete_def
    by (intro wp_rules) (auto simp: ok_refl inv)
qed

lemma wp_periods_capable [wp_rules]:
  "(\<And>b. Q b db) \<Longrightarrow> E Fault db \<Longrightarrow> wp (PeriodsHaveCapability i r) Q E db"
  unfolding PeriodsHaveCapability_def by (intro wp_rules) auto

lemma good_activate [good_rules]: "good u (SchedSvc_Activate ustr now i u)"
proof (rule goodI)
  fix db assume inv: "api_inv db"
  have "ok u db db2"
    if s: "owned_schedule i u db = Some s"
      and run1: "set_active (\<lambda>x. sc_room_id x = sc_room_id s \<and> sc_is_active x \<and> sc_id x \<noteq> i) False now db = Inr db1"
      and run2: "set_active (\<lambda>x. sc_id x = i) True now db1 = Inr db2" for s db1 db2
  proof -
    from ok_set_active [OF inv run1, of u] own_schedule_room [OF inv s] have 1: "ok u db db1" by blast
    have "sc_user_id x = u" if "x \<in> set (t_schedules db1)" "sc_id x = i" for x
      using that own_schedule_id [OF inv s] set_active_tables [OF run1] by (auto split: if_splits)
    with ok_set_active [OF _ run2, of u] 1 have "ok u db1 db2" by (auto simp: ok_def)
    with 1 show ?thesis by (rule ok_trans)
  qed
  then show "wp (SchedSvc_Activate ustr now i u) (\<lambda>_. ok u db) (\<lambda>_. ok u db) db"
    unfolding SchedSvc_Activate_def SchedRepo_Activate_def notify_defs
    by (intro wp_rules) (auto simp: ok_refl inv)
qed

lemma good_deactivate [good_rules]: "good u (SchedSvc_Deactivate ustr now i u)"
proof (rule goodI)
  fix db assume inv: "api_inv db"
  have "ok u db db1"
    if s: "owned_schedule i u db = Some s"
      and run: "set_active (\<lambda>x. sc_id x = sc_id s) False now db = Inr db1" for s db1
    using ok_set_active [OF inv run, of u] own_schedule_id [OF inv s] owned_schedule_mem [OF s] by auto
  then show "wp (SchedSvc_Deactivate ustr now i u) (\<lambda>_. ok u db) (\<lambda>_. ok u db) db"
    unfolding SchedSvc_Deactivate_def SchedRepo_Deactivate_def notify_defs
    by (intro wp_rules) (auto simp: ok_refl inv)
qed

text \<open>What \<open>buildPeriod\<close> hands on overlaps no period of the schedule, except the one it replaces.\<close>

lemma wp_build_period [wp_rules]:
  assumes "\<And>p. p_schedule_id p = scheduleID \<Longrightarrow> p_id p = 0 \<Longrightarrow> \<not> (\<exists>q \<in> set (t_periods db). p_schedule_id q = scheduleID
      \<and> overlaps (p_days_of_week p) (p_start_time p) (p_end_time p) q \<and> (ex = None \<or> ex \<noteq> Some (p_id q))) \<Longrightarrow> Q p db"
    and "\<And>e. E e db"
  shows "wp (buildPeriod scheduleID input ex) Q E db"
  unfolding buildPeriod_def HasOverlap_def by (intro wp_rules) (auto simp: assms)

lemma wp_notify_if_active [wp_rules]: "Q () db \<Longrightarrow> wp (notify_if_active ustr s) Q E db"
  unfolding notify_if_active_def notify_defs by (intro wp_rules)

lemma good_create_period [good_rules]: "good u (SchedSvc_CreatePeriod ustr new now i u input)"
proof (rule goodI)
  fix db assume inv: "api_inv db"
  have "ok u db db'"
    if "owned_schedule i u db = Some s" "p_schedule_id p = sc_id s"
      "\<forall>q \<in> set (t_periods db). p_schedule_id q = sc_id s \<longrightarrow> \<not> overlaps (p_days_of_week p) (p_start_time p) (p_end_time p) q"
      "insert_period (p\<lparr>p_id := new, p_created_at := now, p_updated_at := now\<rparr>) db = Inr db'" for s p db'
    using owned_schedule_own [OF that(1)] owned_schedule_mem [OF that(1)] that(2,3)
    by (intro ok_insert_period [OF inv that(4)]) auto
  then show "wp (SchedSvc_CreatePeriod ustr new now i u input) (\<lambda>_. ok u db) (\<lambda>_. ok u db) db"
    unfolding SchedSvc_CreatePeriod_def SchedRepo_CreatePeriod_def Let_def
    by (intro wp_rules) (auto simp: ok_refl inv)
qed

lemma wp_get_period [wp_rules]:
  assumes "\<And>p s. p \<in> set (t_periods db) \<Longrightarrow> p_id p = i \<Longrightarrow> owned_schedule (p_schedule_id p) u db = Some s \<Longrightarrow> Q (p, s) db"
    and "\<And>e. E e db"
  shows "wp (SchedSvc_GetPeriodByID i u) Q E db"
  unfolding SchedSvc_GetPeriodByID_def SchedRepo_GetPeriodByID_def
  by (intro wp_rules) (auto simp: assms dest: find_Some_mem)

lemma good_update_period [good_rules]: "good u (SchedSvc_UpdatePeriod ustr now i u input)"
proof (rule goodI)
  fix db assume inv: "api_inv db"
  have "ok u db db'"
    if "p \<in> set (t_periods db)" "owned_schedule (p_schedule_id p) u db = Some s" "p_schedule_id b = p_schedule_id p"
      "\<not> (\<exists>q \<in> set (t_periods db). p_schedule_id q = p_schedule_id p \<and>
         overlaps (p_days_of_week b) (p_start_time b) (p_end_time b) q \<and> p_id p \<noteq> p_id q)"
      "save_period (b\<lparr>p_id := p_id p, p_updated_at := now\<rparr>) db = Inr db'" for p s b db'
    by (rule ok_save_period [OF inv that(1) owned_schedule_own [OF that(2)] that(5)]) (use that(3,4) in simp_all)
  then show "wp (SchedSvc_UpdatePeriod ustr now i u input) (\<lambda>_. ok u db) (\<lambda>_. ok u db) db"
    unfolding SchedSvc_UpdatePeriod_def SchedRepo_UpdatePeriod_def Let_def
    by (intro wp_rules) (auto simp: ok_refl inv)
qed

lemma good_delete_period [good_rules]: "good u (SchedSvc_DeletePeriod ustr i u)"
proof (rule goodI)
  fix db assume inv: "api_inv db"
  have "ok u db db'"
    if "p \<in> set (t_periods db)" "p_id p = i" "owned_schedule (p_schedule_id p) u db = Some s"
      "delete_period i db = Inr db'" for p s db'
    by (rule ok_delete_period [OF inv that(1,2) owned_schedule_own [OF that(3)] that(4)])
  then show "wp (SchedSvc_DeletePeriod ustr i u) (\<lambda>_. ok u db) (\<lambda>_. ok u db) db"
    unfolding SchedSvc_DeletePeriod_def SchedRepo_DeletePeriod_def
    by (intro wp_rules) (auto simp: ok_refl inv)
qed

section \<open>Devices\<close>

lemma wp_attach [wp_rules]: "(\<And>r :: DeviceWithCapabilities list. length r = length ds \<Longrightarrow> map dv_Device r = ds \<Longrightarrow> Q r db) \<Longrightarrow> E Fault db \<Longrightarrow>
    wp (attachCapabilities ds) Q E db"
  unfolding attachCapabilities_def Let_def by (intro wp_rules) (auto simp: comp_def)

lemma wp_device_get [wp_rules]:
  assumes "\<And>d. owned_device i u db = Some (dv_Device d) \<Longrightarrow> Q d db" and "\<And>e. E e db"
  shows "wp (DevRepo_GetByIDAndUserID i u) Q E db"
  unfolding DevRepo_GetByIDAndUserID_def
proof (intro wp_rules assms(2))
  fix x and r :: "DeviceWithCapabilities list" assume "owned_device i u db = Some x" "length r = length [x]" "map dv_Device r = [x]"
  then show "Q (hd r) db" by (intro assms(1)) (cases r; simp)
qed

lemma wp_require_room [wp_rules]:
  "(\<And>r. owned_room i u db = Some r \<Longrightarrow> Q r db) \<Longrightarrow> (\<And>e. E e db) \<Longrightarrow> wp (require_room i u) Q E db"
  unfolding require_room_def by (intro wp_rules)

lemma wp_check_removal [wp_rules]: "Q () db \<Longrightarrow> (\<And>e. E e db) \<Longrightarrow> wp (check_removal r i) Q E db"
  unfolding check_removal_def HasCapabilityConflictAfterRemoval_def hasTemperatureCapabilityAfterRemoval_def
    hasHumidityCapabilityAfterRemoval_def desiredStateHasConflict_def activeSchedulePeriodsHaveConflict_def
  by (intro wp_rules)

lemma wp_hw_available [wp_rules]: "Q () db \<Longrightarrow> (\<And>e. E e db) \<Longrightarrow> wp (CheckHwIDAvailability hw u) Q E db"
  unfolding CheckHwIDAvailability_def by (intro wp_rules)

text \<open>The rows of a new device: the loops keep that the device is the caller's.\<close>

lemma wp_new_sensors:
  fixes ns :: "nat \<Rightarrow> uuid"
  assumes "ok u db0 db" and "new \<in> own_devices u db"
    and "\<And>db'. ok u db0 db' \<Longrightarrow> new \<in> own_devices u db' \<Longrightarrow> Q () db'" and "\<And>e db'. E e db'"
  shows "wp (forE (\<lambda>(i, st). exec (insert_sensor \<lparr>s_id = ns i, s_device_id = new, s_measurement_type = st,
     s_created_at = now\<rparr>)) xs) Q E db"
proof (rule wp_forE [where I = "\<lambda>db'. ok u db0 db' \<and> new \<in> own_devices u db'"])
  fix x :: "nat \<times> string" and db1 assume I: "ok u db0 db1 \<and> new \<in> own_devices u db1"
  then have inv: "api_inv db1" by (simp add: ok_def)
  show "wp (case x of (i, st) \<Rightarrow> exec (insert_sensor \<lparr>s_id = ns i, s_device_id = new, s_measurement_type = st,
     s_created_at = now\<rparr>)) (\<lambda>_ db'. ok u db0 db' \<and> new \<in> own_devices u db') E db1"
    using I ok_insert_sensor [OF inv, where u = u]
    by (intro wp_rules assms(4)) (auto intro: ok_trans)
qed (use assms in auto)

lemma wp_new_actuators:
  fixes na :: "nat \<Rightarrow> uuid"
  assumes "ok u db0 db" and "new \<in> own_devices u db"
    and "\<And>db'. ok u db0 db' \<Longrightarrow> new \<in> own_devices u db' \<Longrightarrow> Q () db'" and "\<And>e db'. E e db'"
  shows "wp (forE (\<lambda>(i, aty). exec (insert_actuator \<lparr>a_id = na i, a_device_id = new, a_actuator_type = aty,
     a_created_at = now\<rparr>)) xs) Q E db"
proof (rule wp_forE [where I = "\<lambda>db'. ok u db0 db' \<and> new \<in> own_devices u db'"])
  fix x :: "nat \<times> string" and db1 assume I: "ok u db0 db1 \<and> new \<in> own_devices u db1"
  then have inv: "api_inv db1" by (simp add: ok_def)
  show "wp (case x of (i, aty) \<Rightarrow> exec (insert_actuator \<lparr>a_id = na i, a_device_id = new, a_actuator_type = aty,
     a_created_at = now\<rparr>)) (\<lambda>_ db'. ok u db0 db' \<and> new \<in> own_devices u db') E db1"
    using I ok_insert_actuator [OF inv, where u = u]
    by (intro wp_rules assms(4)) (auto intro: ok_trans)
qed (use assms in auto)

lemma wp_device_create [wp_rules]:
  assumes inv: "api_inv db" and d: "d_user_id d = u" "d_room_id d = None"
    and Q: "\<And>x db'. ok u db db' \<Longrightarrow> Q x db'" and E: "\<And>e. E e db"
  shows "wp (DevRepo_Create new ns na now d ss ats) Q E db"
  unfolding DevRepo_Create_def Let_def
proof (rule wp_bindE, rule wp_transaction)
  let ?d = "d\<lparr>d_id := new, d_created_at := now, d_updated_at := now\<rparr>"
  show "wp (bindE (on_unique (DeviceE Device_ErrNameTaken) (exec (insert_device ?d)))
      (\<lambda>_. bindE (forE (\<lambda>(i, st). exec (insert_sensor \<lparr>s_id = ns i, s_device_id = new, s_measurement_type = st,
        s_created_at = now\<rparr>)) (List.enumerate 0 ss)) (\<lambda>_.
       forE (\<lambda>(i, aty). exec (insert_actuator \<lparr>a_id = na i, a_device_id = new, a_actuator_type = aty,
        a_created_at = now\<rparr>)) (List.enumerate 0 ats)))) (\<lambda>x. wp (returnE ?d) Q E) (\<lambda>e _. E e db) db"
  proof (rule wp_bindE, rule wp_on_unique, rule wp_exec)
    fix db1 assume run: "insert_device ?d db = Inr db1"
    from ok_insert_device [OF inv run, where u = u] d have 1: "ok u db db1" "new \<in> own_devices u db1" by simp_all
    show "wp (bindE (forE (\<lambda>(i, st). exec (insert_sensor \<lparr>s_id = ns i, s_device_id = new, s_measurement_type = st,
        s_created_at = now\<rparr>)) (List.enumerate 0 ss)) (\<lambda>_.
       forE (\<lambda>(i, aty). exec (insert_actuator \<lparr>a_id = na i, a_device_id = new, a_actuator_type = aty,
        a_created_at = now\<rparr>)) (List.enumerate 0 ats))) (\<lambda>x. wp (returnE ?d) Q E) (\<lambda>e _. E e db) db1"
      by (intro wp_bindE wp_new_sensors [OF 1] wp_new_actuators wp_returnE Q E)
  qed (rule E)+
qed (rule E)

lemma good_device_create [good_rules]: "good u (DevSvc_Create new ns na now u input)"
proof (rule goodI)
  fix db assume inv: "api_inv db"
  show "wp (DevSvc_Create new ns na now u input) (\<lambda>_. ok u db) (\<lambda>_. ok u db) db"
    unfolding DevSvc_Create_def by (intro wp_rules inv) (auto simp: ok_refl inv)
qed

lemma good_device_update [good_rules]: "good u (DevSvc_Update ustr now i u input)"
proof (rule goodI)
  fix db assume inv: "api_inv db"
  have "ok u db db'"
    if "owned_device i u db = Some d" "\<And>r. up_RoomID input = Some r \<Longrightarrow> r \<in> own_rooms u db"
      "save_device (d\<lparr>d_name := up_Name input, d_room_id := up_RoomID input, d_updated_at := now\<rparr>) db = Inr db'" for d db'
    by (rule ok_save_device [OF inv that(1,3)]) (use that(2) in simp_all)
  then show "wp (DevSvc_Update ustr now i u input) (\<lambda>_. ok u db) (\<lambda>_. ok u db) db"
    unfolding DevSvc_Update_def DevRepo_Update_def notify_defs Let_def
    by (intro wp_rules) (auto simp: ok_refl inv dest: owned_room_own)
qed

lemma good_device_delete [good_rules]: "good u (DevSvc_Delete i u)"
proof (rule goodI)
  fix db assume inv: "api_inv db"
  have "ok u db db'" if d: "owned_device i u db = Some d" and run: "delete_device i db = Inr db'" for d db'
  proof -
    from owned_device_mem [OF d] have m: "d \<in> set (t_devices db)" "d_id d = i" "d_user_id d = u" by simp_all
    have "d_user_id x = u" if "x \<in> set (t_devices db)" "d_id x = i" for x
      using same_key [OF keysD(2) [OF api_invD(1) [OF inv]] that(1) m(1)] that(2) m by simp
    then have "ok u db (delete_devices (\<lambda>x. d_id x = i) db)" by (intro ok_delete_devices [OF inv]) simp
    with run show ?thesis by (simp add: delete_device_def)
  qed
  then show "wp (DevSvc_Delete i u) (\<lambda>_. ok u db) (\<lambda>_. ok u db) db"
    unfolding DevSvc_Delete_def DevRepo_Delete_def
    by (intro wp_rules) (auto simp: ok_refl inv)
qed

section \<open>Users\<close>

lemma good_register [good_rules]: "good new (UserSvc_Register cy new now email password)"
proof (rule goodI)
  fix db assume inv: "api_inv db"
  show "wp (UserSvc_Register cy new now email password) (\<lambda>_. ok new db) (\<lambda>_. ok new db) db"
    unfolding UserSvc_Register_def UserRepo_Create_def Let_def
    by (intro wp_rules) (auto simp: ok_refl inv dest: ok_insert_user [OF inv])
qed

lemma good_delete_user [good_rules]: "good u (UserSvc_Delete u)"
proof (rule goodI)
  fix db assume inv: "api_inv db"
  show "wp (UserSvc_Delete u) (\<lambda>_. ok u db) (\<lambda>_. ok u db) db"
    unfolding UserSvc_Delete_def UserRepo_GetByID_def UserRepo_Delete_def
    by (intro wp_rules) (auto simp: ok_refl inv intro: ok_delete_user)
qed

lemma good_update_me [good_rules]: "good u (UserSvc_UpdateMe tz now u name)"
proof (rule goodI)
  fix db assume inv: "api_inv db"
  show "wp (UserSvc_UpdateMe tz now u name) (\<lambda>_. ok u db) (\<lambda>_. ok u db) db"
    unfolding UserSvc_UpdateMe_def UserRepo_UpdateTimezone_def
    by (intro wp_rules) (auto simp: ok_refl inv intro: ok_update_timezone)
qed

end
