(* ===== verification/Api.thy ===== *)
theory Api
  imports ApiSafety
begin

text \<open>
  The router of \<open>api-service\<close> (packages \<open>router\<close> and \<open>health\<close>): the table of routes, the middleware in
  front of the protected ones, and a request as a whole. Matching a path against the patterns is gin's:
  a request comes with the pattern that matched and the value of its \<open>:id\<close>. What the libraries
  compute (parsers, decoders, cryptography) is collected in \<open>api_env\<close>; what a request draws from
  outside (clock, identifiers, random bytes) is part of the request.
\<close>

section \<open>Routes\<close>

datatype endpoint =
    Health | Register | Login | Refresh | Logout | Me | UpdateMe | DeleteMe
  | RoomList | RoomCreate | RoomGet | RoomUpdate | RoomDelete
  | DesiredGet | DesiredUpdate | ClimateGet | ClimateHistoryGet
  | DeviceList | DeviceCreate | DeviceGet | DeviceUpdate | DeviceDelete | DeviceListByRoom
  | SchedList | SchedCreate | SchedGet | SchedUpdate | SchedDelete | SchedActivate | SchedDeactivate
  | PeriodCreate | PeriodList | PeriodUpdate | PeriodDelete

definition public_routes :: "((string \<times> string) \<times> endpoint) list" where
  "public_routes =
     [((''GET'', ''/health''), Health),
      ((''POST'', ''/api/v1/auth/register''), Register),
      ((''POST'', ''/api/v1/auth/login''), Login),
      ((''POST'', ''/api/v1/auth/refresh''), Refresh)]"

definition protected_routes :: "((string \<times> string) \<times> endpoint) list" where
  "protected_routes =
     [((''POST'', ''/api/v1/auth/logout''), Logout),
      ((''GET'', ''/api/v1/users/me''), Me),
      ((''PUT'', ''/api/v1/users/me''), UpdateMe),
      ((''DELETE'', ''/api/v1/users/me''), DeleteMe),
      ((''GET'', ''/api/v1/rooms''), RoomList),
      ((''POST'', ''/api/v1/rooms''), RoomCreate),
      ((''GET'', ''/api/v1/rooms/:id''), RoomGet),
      ((''PUT'', ''/api/v1/rooms/:id''), RoomUpdate),
      ((''DELETE'', ''/api/v1/rooms/:id''), RoomDelete),
      ((''GET'', ''/api/v1/rooms/:id/desired-state''), DesiredGet),
      ((''PUT'', ''/api/v1/rooms/:id/desired-state''), DesiredUpdate),
      ((''GET'', ''/api/v1/rooms/:id/climate''), ClimateGet),
      ((''GET'', ''/api/v1/rooms/:id/climate/history''), ClimateHistoryGet),
      ((''GET'', ''/api/v1/devices''), DeviceList),
      ((''POST'', ''/api/v1/devices''), DeviceCreate),
      ((''GET'', ''/api/v1/devices/:id''), DeviceGet),
      ((''PUT'', ''/api/v1/devices/:id''), DeviceUpdate),
      ((''DELETE'', ''/api/v1/devices/:id''), DeviceDelete),
      ((''GET'', ''/api/v1/rooms/:id/devices''), DeviceListByRoom),
      ((''GET'', ''/api/v1/rooms/:id/schedules''), SchedList),
      ((''POST'', ''/api/v1/rooms/:id/schedules''), SchedCreate),
      ((''GET'', ''/api/v1/schedules/:id''), SchedGet),
      ((''PUT'', ''/api/v1/schedules/:id''), SchedUpdate),
      ((''DELETE'', ''/api/v1/schedules/:id''), SchedDelete),
      ((''PATCH'', ''/api/v1/schedules/:id/activate''), SchedActivate),
      ((''PATCH'', ''/api/v1/schedules/:id/deactivate''), SchedDeactivate),
      ((''POST'', ''/api/v1/schedules/:id/periods''), PeriodCreate),
      ((''GET'', ''/api/v1/schedules/:id/periods''), PeriodList),
      ((''PUT'', ''/api/v1/schedule-periods/:id''), PeriodUpdate),
      ((''DELETE'', ''/api/v1/schedule-periods/:id''), PeriodDelete)]"

section \<open>Requests\<close>

record api_env =
  en_uparse :: "string \<Rightarrow> uuid option"
  en_ustr :: "uuid \<Rightarrow> string"
  en_rfc3339 :: "string \<Rightarrow> instant option"
  en_tz :: "string \<Rightarrow> location option"
  en_tb :: "int \<Rightarrow> instant \<Rightarrow> instant"
  en_email :: "string \<Rightarrow> bool"
  en_crypto :: crypto
  en_auth :: auth_config
  en_ttlSecs :: int
  en_credentials :: "string \<Rightarrow> string + credentials"
  en_timezone :: "string \<Rightarrow> string + string option"
  en_room :: "string \<Rightarrow> string + roomRequest"
  en_desired :: "string \<Rightarrow> string + updateDesiredStateRequest"
  en_newDevice :: "string \<Rightarrow> string + createDeviceRequest"
  en_device :: "string \<Rightarrow> string + updateDeviceRequest"
  en_sched :: "string \<Rightarrow> string + scheduleRequest"
  en_period :: "string \<Rightarrow> string + periodRequest"

record request =
  hq_route :: "string \<times> string"
  hq_id :: string
  hq_window :: string
  hq_density :: string
  hq_auth :: string
  hq_cookie :: "string option"
  hq_body :: string
  hq_now :: instant
  hq_new :: uuid
  hq_new2 :: uuid
  hq_newSensor :: "nat \<Rightarrow> uuid"
  hq_newActuator :: "nat \<Rightarrow> uuid"
  hq_random :: string

type_synonym 'w reply = "'w \<Rightarrow> (response \<times> cookie option) \<times> 'w"

definition plain :: "'w handler \<Rightarrow> 'w reply" where
  "plain h w = (case h w of (r, w') \<Rightarrow> ((r, None), w'))"

definition Check :: "'w handler" where
  "Check = answer (JSON 200 (JObj [(''status'', JStr ''ok'')]))"

definition public_handler :: "api_env \<Rightarrow> request \<Rightarrow> endpoint \<Rightarrow> ('z auth_world_scheme) reply" where
  "public_handler en rq ep = (case ep of
     Register \<Rightarrow> plain (UserH_Register (en_crypto en) (en_email en) (hq_new rq) (hq_now rq) (en_credentials en (hq_body rq)))
   | Login \<Rightarrow> AuthH_Login (en_crypto en) (en_ustr en) (en_auth en) (en_ttlSecs en) (en_email en) (hq_now rq)
       (hq_random rq) (en_credentials en (hq_body rq))
   | Refresh \<Rightarrow> AuthH_Refresh (en_crypto en) (en_ustr en) (en_uparse en) (en_auth en) (en_ttlSecs en) (hq_now rq)
       (hq_random rq) (hq_cookie rq)
   | _ \<Rightarrow> plain Check)"

definition room_handler :: "api_env \<Rightarrow> request \<Rightarrow> uuid \<Rightarrow> endpoint \<Rightarrow> ('z api_world_scheme) handler" where
  "room_handler en rq u ep = (case ep of
     RoomList \<Rightarrow> RoomH_List u
   | RoomCreate \<Rightarrow> RoomH_Create (en_ustr en) (hq_new rq) (hq_new2 rq) (hq_now rq) u (en_room en (hq_body rq))
   | RoomGet \<Rightarrow> RoomH_Get (en_uparse en) u (hq_id rq)
   | RoomUpdate \<Rightarrow> RoomH_Update (en_uparse en) (en_ustr en) (hq_now rq) u (hq_id rq) (en_room en (hq_body rq))
   | RoomDelete \<Rightarrow> RoomH_Delete (en_uparse en) (en_ustr en) u (hq_id rq)
   | DesiredGet \<Rightarrow> RoomH_GetDesiredState (en_uparse en) u (hq_id rq)
   | DesiredUpdate \<Rightarrow> RoomH_UpdateDesiredState (en_uparse en) (en_ustr en) (en_rfc3339 en) (hq_now rq) u (hq_id rq)
       (en_desired en (hq_body rq))
   | ClimateGet \<Rightarrow> RoomH_GetClimate (en_uparse en) u (hq_id rq)
   | ClimateHistoryGet \<Rightarrow> RoomH_GetClimateHistory (en_uparse en) (en_tb en) (hq_now rq) u (hq_id rq)
       (hq_window rq) (hq_density rq)
   | DeviceList \<Rightarrow> DevH_List u
   | DeviceCreate \<Rightarrow> DevH_Create (hq_new rq) (hq_newSensor rq) (hq_newActuator rq) (hq_now rq) u
       (en_newDevice en (hq_body rq))
   | DeviceGet \<Rightarrow> DevH_Get (en_uparse en) u (hq_id rq)
   | DeviceUpdate \<Rightarrow> DevH_Update (en_uparse en) (en_ustr en) (hq_now rq) u (hq_id rq) (en_device en (hq_body rq))
   | DeviceDelete \<Rightarrow> DevH_Delete (en_uparse en) u (hq_id rq)
   | _ \<Rightarrow> DevH_ListByRoom (en_uparse en) u (hq_id rq))"

definition sched_handler :: "api_env \<Rightarrow> request \<Rightarrow> uuid \<Rightarrow> endpoint \<Rightarrow> ('z api_world_scheme) handler" where
  "sched_handler en rq u ep = (case ep of
     SchedList \<Rightarrow> SchedH_ListByRoom (en_uparse en) u (hq_id rq)
   | SchedCreate \<Rightarrow> SchedH_Create (en_uparse en) (hq_new rq) (hq_now rq) u (hq_id rq) (en_sched en (hq_body rq))
   | SchedGet \<Rightarrow> SchedH_Get (en_uparse en) u (hq_id rq)
   | SchedUpdate \<Rightarrow> SchedH_Update (en_uparse en) (hq_now rq) u (hq_id rq) (en_sched en (hq_body rq))
   | SchedDelete \<Rightarrow> SchedH_Delete (en_uparse en) u (hq_id rq)
   | SchedActivate \<Rightarrow> SchedH_Activate (en_uparse en) (en_ustr en) (hq_now rq) u (hq_id rq)
   | SchedDeactivate \<Rightarrow> SchedH_Deactivate (en_uparse en) (en_ustr en) (hq_now rq) u (hq_id rq)
   | PeriodCreate \<Rightarrow> SchedH_CreatePeriod (en_uparse en) (en_ustr en) (hq_new rq) (hq_now rq) u (hq_id rq)
       (en_period en (hq_body rq))
   | PeriodList \<Rightarrow> SchedH_ListPeriods (en_uparse en) u (hq_id rq)
   | PeriodUpdate \<Rightarrow> SchedH_UpdatePeriod (en_uparse en) (en_ustr en) (hq_now rq) u (hq_id rq)
       (en_period en (hq_body rq))
   | _ \<Rightarrow> SchedH_DeletePeriod (en_uparse en) (en_ustr en) u (hq_id rq))"

definition protected_handler :: "api_env \<Rightarrow> request \<Rightarrow> uuid \<Rightarrow> endpoint \<Rightarrow> ('z auth_world_scheme) reply" where
  "protected_handler en rq u ep = (case ep of
     Logout \<Rightarrow> AuthH_Logout (en_crypto en) (hq_now rq) (hq_cookie rq)
   | Me \<Rightarrow> plain (UserH_Me u)
   | UpdateMe \<Rightarrow> plain (UserH_UpdateMe (en_tz en) (hq_now rq) u (en_timezone en (hq_body rq)))
   | DeleteMe \<Rightarrow> plain (UserH_DeleteMe u)
   | _ \<Rightarrow> plain (if ep \<in> {SchedList, SchedCreate, SchedGet, SchedUpdate, SchedDelete, SchedActivate,
                      SchedDeactivate, PeriodCreate, PeriodList, PeriodUpdate, PeriodDelete}
                 then sched_handler en rq u ep else room_handler en rq u ep))"

text \<open>No route: gin's 404.\<close>

definition NotFound :: response where
  "NotFound = Status 404"

definition serve :: "api_env \<Rightarrow> request \<Rightarrow> ('z auth_world_scheme) reply" where
  "serve en rq = (case map_of public_routes (hq_route rq) of
     Some ep \<Rightarrow> public_handler en rq ep
   | None \<Rightarrow> (case map_of protected_routes (hq_route rq) of
        None \<Rightarrow> answer (NotFound, None)
      | Some ep \<Rightarrow> (case Middleware (en_crypto en) (en_uparse en) (en_auth en) (hq_now rq) (hq_auth rq) of
           Inl r \<Rightarrow> answer (r, None)
         | Inr u \<Rightarrow> protected_handler en rq u ep)))"

text \<open>Requests one after the other, any calls of which may fail.\<close>

definition serve_all :: "api_env \<Rightarrow> request list \<Rightarrow> 'z auth_world_scheme \<Rightarrow> 'z auth_world_scheme" where
  "serve_all en rqs w = fold (\<lambda>rq w. snd (serve en rq w)) rqs w"

section \<open>Handlers keep the invariant\<close>

named_theorems handler_rules "handlers that keep the invariant and the rows of the others"

definition good_handler :: "uuid \<Rightarrow> ('z base_world_scheme \<Rightarrow> 'r \<times> 'z base_world_scheme) \<Rightarrow> bool" where
  "good_handler u h \<longleftrightarrow> (\<forall>w. api_inv (w_db w) \<longrightarrow> ok u (w_db w) (w_db (snd (h w))))"

lemma good_handlerD: "good_handler u h \<Longrightarrow> api_inv (w_db w) \<Longrightarrow> ok u (w_db w) (w_db (snd (h w)))"
  by (simp add: good_handler_def)

lemma good_answer [handler_rules]: "good_handler u (answer r)"
  by (simp add: good_handler_def ok_refl)

lemma good_respond [handler_rules]: "good u m \<Longrightarrow> good_handler u (respond m f g)"
  by (simp add: good_handler_def good_state)

lemma good_with_param [handler_rules]:
  "(\<And>i. good_handler u (h i)) \<Longrightarrow> good_handler u (with_param up p msg h)"
  by (auto simp: with_param_def good_answer split: option.split)

lemma good_with_body [handler_rules]: "(\<And>r. good_handler u (h r)) \<Longrightarrow> good_handler u (with_body b h)"
  by (auto simp: with_body_def good_answer split: sum.split)

lemma good_with_period [handler_rules]: "(\<And>r. good_handler u (h r)) \<Longrightarrow> good_handler u (with_period b h)"
  unfolding with_period_def by (intro handler_rules) (auto simp: good_answer split: option.split)

lemma good_plain [handler_rules]: "good_handler u h \<Longrightarrow> good_handler u (plain h)"
  by (simp add: good_handler_def plain_def split_beta)

lemma good_if [handler_rules]: "good_handler u h \<Longrightarrow> good_handler u k \<Longrightarrow> good_handler u (if c then h else k)"
  by simp

lemma good_case_option [handler_rules]:
  "good_handler u h \<Longrightarrow> (\<And>x. good_handler u (k x)) \<Longrightarrow> good_handler u (case v of None \<Rightarrow> h | Some x \<Rightarrow> k x)"
  by (cases v) simp_all

lemma good_case_sum [handler_rules]:
  "(\<And>x. good_handler u (h x)) \<Longrightarrow> (\<And>x. good_handler u (k x)) \<Longrightarrow> good_handler u (case v of Inl x \<Rightarrow> h x | Inr x \<Rightarrow> k x)"
  by (cases v) simp_all

subsection \<open>Operations that only read\<close>

lemmas room_read_defs = RoomSvc_List_def RoomSvc_GetByID_def RoomSvc_GetDesiredState_def RoomSvc_GetClimate_def
  RoomSvc_GetClimateHistory_def RoomRepo_List_def RoomRepo_BulkRoomCapabilities_def RoomRepo_GetByIDAndUserID_def
  RoomRepo_RoomCapabilities_def RoomRepo_GetDesiredState_def LatestClimate_def ClimateHistory_def Let_def

lemma frames_case_prod [frame_rules]:
  "(\<And>a b. frames obs (k a b)) \<Longrightarrow> frames obs (case v of (a, b) \<Rightarrow> k a b)"
  by (cases v) simp

lemma reads_room [frame_rules]:
  "frames w_db (RoomSvc_List u)" "frames w_db (RoomSvc_GetByID i u)" "frames w_db (RoomSvc_GetDesiredState i u)"
  "frames w_db (RoomSvc_GetClimate i u)" "frames w_db (RoomSvc_GetClimateHistory tb now i u win den)"
  unfolding room_read_defs by (intro frame_rules)+

lemmas sched_read_defs = SchedSvc_GetByID_def SchedSvc_ListByRoom_def SchedSvc_ListPeriodsBySchedule_def
  SchedRepo_GetByID_def SchedRepo_ListByRoom_def SchedRepo_ListPeriodsBySchedule_def RoomRepo_GetByIDAndUserID_def

lemma reads_sched [frame_rules]:
  "frames w_db (SchedSvc_GetByID i u)" "frames w_db (SchedSvc_ListByRoom i u)"
  "frames w_db (SchedSvc_ListPeriodsBySchedule i u)"
  unfolding sched_read_defs by (intro frame_rules)+

lemmas device_read_defs = DevSvc_List_def DevSvc_ListByRoom_def DevSvc_GetByID_def DevRepo_List_def
  DevRepo_ListByRoom_def DevRepo_GetByIDAndUserID_def require_room_def attachCapabilities_def
  RoomRepo_GetByIDAndUserID_def Let_def

lemma reads_device [frame_rules]:
  "frames w_db (DevSvc_List u)" "frames w_db (DevSvc_ListByRoom i u)" "frames w_db (DevSvc_GetByID i u)"
  unfolding device_read_defs by (intro frame_rules)+

lemma reads_user [frame_rules]: "frames w_db (UserSvc_GetByID i)" "frames w_db (UserRepo_GetByEmail e)"
  unfolding UserSvc_GetByID_def UserRepo_GetByID_def UserRepo_GetByEmail_def by (intro frame_rules)+

lemma frames_redis [frame_rules]: "(\<And>w. w_db (snd (f w)) = w_db w) \<Longrightarrow> frames w_db (redis f)"
  unfolding redis_def by (intro frame_rules) (simp add: frames_def)

lemma reads_tokens [frame_rules]:
  "frames w_db (TokRepo_Store cy ustr ttl now t u)" "frames w_db (TokRepo_GetUserID cy up now t)"
  "frames w_db (TokRepo_Delete cy now t)"
  unfolding TokRepo_Store_def TokRepo_GetUserID_def TokRepo_Delete_def by (intro frame_rules; simp)+

lemma frames_issue [frame_rules]: "frames w_db (issueTokenPair cy ustr cfg now bytes u)"
  unfolding issueTokenPair_def Let_def by (intro frame_rules)

lemma reads_auth [frame_rules]:
  "frames w_db (AuthSvc_Login cy ustr cfg now bytes e p)" "frames w_db (AuthSvc_Logout cy now t)"
  "frames w_db (AuthSvc_Refresh cy ustr up cfg now bytes t)"
proof -
  show "frames w_db (AuthSvc_Login cy ustr cfg now bytes e p)"
    unfolding AuthSvc_Login_def by (intro frame_rules)
  note d = framesD [OF reads_tokens(3) [of cy now t]]
  show "frames w_db (AuthSvc_Logout cy now t)"
    by (rule framesI) (auto simp: AuthSvc_Logout_def split: prod.split sum.split dest: d)
  show "frames w_db (AuthSvc_Refresh cy ustr up cfg now bytes t)"
    unfolding AuthSvc_Refresh_def
    by (intro frame_rules, rule framesI)
      (auto simp: rotate_def framesD [OF frames_issue prod.collapse [symmetric]] split: prod.split sum.split dest: d)
qed

section \<open>Every endpoint\<close>

lemma good_writes [handler_rules]:
  "good_handler u (RoomH_Create ustr i j now u b)" "good_handler u (RoomH_Update up ustr now u p b')"
  "good_handler u (RoomH_Delete up ustr u p)" "good_handler u (RoomH_UpdateDesiredState up ustr rfc now u p b'')"
  unfolding RoomH_Create_def RoomH_Update_def RoomH_Delete_def RoomH_UpdateDesiredState_def
  by (intro handler_rules good_rules)+

lemma good_room_reads [handler_rules]:
  "good_handler u (RoomH_List v)" "good_handler u (RoomH_Get up v p)" "good_handler u (RoomH_GetDesiredState up v p)"
  "good_handler u (RoomH_GetClimate up v p)" "good_handler u (RoomH_GetClimateHistory up tb now v p win den)"
  unfolding RoomH_List_def RoomH_Get_def RoomH_GetDesiredState_def RoomH_GetClimate_def RoomH_GetClimateHistory_def
    Let_def
  by (intro handler_rules good_frames frame_rules)+

lemma good_devices [handler_rules]:
  "good_handler u (DevH_List v)" "good_handler u (DevH_Get up v p)" "good_handler u (DevH_ListByRoom up v p)"
  "good_handler u (DevH_Create i ns na now u b)" "good_handler u (DevH_Update up ustr now u p b')"
  "good_handler u (DevH_Delete up u p)"
  unfolding DevH_List_def DevH_Get_def DevH_ListByRoom_def DevH_Create_def DevH_Update_def DevH_Delete_def
  by (intro handler_rules good_rules; (intro good_frames frame_rules)?)+

lemma good_schedules [handler_rules]:
  "good_handler u (SchedH_Create up i now u p b)" "good_handler u (SchedH_Update up now u p b)"
  "good_handler u (SchedH_Delete up u p)" "good_handler u (SchedH_Activate up ustr now u p)"
  "good_handler u (SchedH_Deactivate up ustr now u p)" "good_handler u (SchedH_CreatePeriod up ustr i now u p b')"
  "good_handler u (SchedH_UpdatePeriod up ustr now u p b')" "good_handler u (SchedH_DeletePeriod up ustr u p)"
  unfolding SchedH_Create_def SchedH_Update_def SchedH_Delete_def SchedH_Activate_def SchedH_Deactivate_def
    SchedH_CreatePeriod_def SchedH_UpdatePeriod_def SchedH_DeletePeriod_def
  by (intro handler_rules good_rules)+

lemma good_sched_reads [handler_rules]:
  "good_handler u (SchedH_ListByRoom up v p)" "good_handler u (SchedH_Get up v p)"
  "good_handler u (SchedH_ListPeriods up v p)"
  unfolding SchedH_ListByRoom_def SchedH_Get_def SchedH_ListPeriods_def
  by (intro handler_rules good_frames frame_rules)+

lemma good_users [handler_rules]:
  "good_handler u (UserH_Me v)" "good_handler u (UserH_UpdateMe tz now u b)" "good_handler u (UserH_DeleteMe u)"
  "good_handler i (UserH_Register cy em i now c)"
  unfolding UserH_Me_def UserH_UpdateMe_def UserH_DeleteMe_def UserH_Register_def
  by (intro handler_rules good_rules; (intro good_frames frame_rules)?)+

lemma good_auth [handler_rules]:
  "good_handler u (AuthH_Login cy ustr cfg ttl em now bytes b)"
  "good_handler u (AuthH_Refresh cy ustr up cfg ttl now bytes c)" "good_handler u (AuthH_Logout cy now c)"
  unfolding AuthH_Login_def AuthH_Refresh_def AuthH_Logout_def
  by (intro handler_rules good_frames frame_rules)+

lemma good_room_handler [handler_rules]: "good_handler u (room_handler en rq u ep)"
  unfolding room_handler_def by (cases ep; simp only: endpoint.case; intro handler_rules)

lemma good_sched_handler [handler_rules]: "good_handler u (sched_handler en rq u ep)"
  unfolding sched_handler_def by (cases ep; simp only: endpoint.case; intro handler_rules)

lemma good_protected: "good_handler u (protected_handler en rq u ep)"
  unfolding protected_handler_def by (cases ep; simp only: endpoint.case; intro handler_rules)

lemma good_public: "good_handler (hq_new rq) (public_handler en rq ep)"
  unfolding public_handler_def Check_def by (cases ep; simp only: endpoint.case; intro handler_rules)

lemma serve_inv:
  assumes "api_inv (w_db w)"
  shows "api_inv (w_db (snd (serve en rq w)))"
proof -
  have "\<exists>u. good_handler u (serve en rq)"
  proof (cases "map_of public_routes (hq_route rq)")
    case None
    show ?thesis
    proof (cases "map_of protected_routes (hq_route rq)")
      case None
      with \<open>map_of public_routes (hq_route rq) = None\<close> show ?thesis
        by (auto simp: serve_def intro: good_answer)
    next
      case (Some ep)
      with \<open>map_of public_routes (hq_route rq) = None\<close> show ?thesis
        by (auto simp: serve_def intro: good_answer good_protected split: sum.split)
    qed
  qed (auto simp: serve_def intro: good_public)
  with assms show ?thesis by (auto dest: good_handlerD simp: ok_def)
qed

lemma api_inv_empty: "api_inv empty_db"
  by (rule api_invI [OF db_ok_empty]) (simp_all add: owner_ok_def periods_disjoint_def empty_db_def)

interpretation served: step_invariant "\<lambda>w rq. snd (serve en rq w)" "\<lambda>w. api_inv (w_db w)" for en
  by unfold_locales (rule serve_inv)

section \<open>Properties\<close>

lemma protected_not_public:
  assumes "map_of protected_routes r = Some ep"
  shows "map_of public_routes r = None"
proof -
  from assms have "r \<in> fst ` set protected_routes" by (metis domI dom_map_of_conv_image_fst)
  moreover have "\<forall>r \<in> fst ` set protected_routes. map_of public_routes r = None"
    by (simp add: protected_routes_def public_routes_def)
  ultimately show ?thesis by (rule bspec [rotated])
qed

text \<open>C5: A request to a protected route that carries the valid access token of user \<open>u\<close> leaves every
  row of every other user exactly as it was, whatever it asks for and whatever database calls fail on the
  way (so a multi-statement operation that stops half-way does no harm either), and keeps the
  invariant of the database.\<close>

theorem caller_writes_only_own:
  assumes "api_inv (w_db w)"
    and "map_of protected_routes (hq_route rq) = Some ep"
    and "Middleware (en_crypto en) (en_uparse en) (en_auth en) (hq_now rq) (hq_auth rq) = Inr u"
    and "serve en rq w = (reply, w')"
  shows "api_inv (w_db w') \<and> foreign u (w_db w') = foreign u (w_db w)"
proof -
  from assms(2-4) have "w' = snd (protected_handler en rq u ep w)"
    by (simp add: serve_def protected_not_public)
  with good_handlerD [OF good_protected assms(1)] show ?thesis by (auto simp: ok_def)
qed

text \<open>C19: Without a valid access token (no bearer header, or a token the JWT library refuses) no
  protected route does anything: the answer is 401 and database, event stream, control log and refresh
  tokens are untouched.\<close>

theorem no_token_no_effect:
  assumes "map_of protected_routes (hq_route rq) = Some ep"
    and "take (length bearer) (hq_auth rq) \<noteq> bearer
      \<or> cy_verify (en_crypto en) (cf_secret (en_auth en)) (hq_now rq) (drop (length bearer) (hq_auth rq)) = None"
  shows "\<exists>r. serve en rq w = ((r, None), w) \<and> rs_Status r = 401"
  using assms by (auto simp: serve_def protected_not_public Middleware_def ValidateAccessToken_def)

text \<open>C9: The database invariant holds after any sequence of requests to a fresh deployment, in whatever
  order, from whatever callers and with whatever failures: keys identify rows, references point to rows,
  a room has at most one active schedule, a device and a schedule belong to the owner of their
  room, and no two periods of a schedule that share a day overlap (as strings).\<close>

theorem invariant_of_every_history:
  "api_inv (w_db (serve_all en rqs (w\<lparr>w_db := empty_db\<rparr>)))"
  using served.run_inv [where en = en and es = rqs and s = "w\<lparr>w_db := empty_db\<rparr>"] api_inv_empty
  by (simp add: serve_all_def foldl_conv_fold)

section \<open>Witnesses\<close>

text \<open>Two users with a room each; the token is the text of the identifier.\<close>

definition two_users :: appdb where
  "two_users =
     \<lparr>t_users = [\<lparr>u_id = 1, u_email = ''a'', u_password_hash = ''h'', u_timezone = ''UTC'', u_created_at = 0, u_updated_at = 0\<rparr>,
                \<lparr>u_id = 2, u_email = ''b'', u_password_hash = ''h'', u_timezone = ''UTC'', u_created_at = 0, u_updated_at = 0\<rparr>],
      t_rooms = [\<lparr>r_id = 11, r_user_id = 1, r_name = ''den'', r_deadband_temp = 1, r_deadband_hum = 1, r_created_at = 0, r_updated_at = 0\<rparr>,
                 \<lparr>r_id = 12, r_user_id = 2, r_name = ''den'', r_deadband_temp = 1, r_deadband_hum = 1, r_created_at = 0, r_updated_at = 0\<rparr>],
      t_devices = [], t_sensors = [], t_actuators = [], t_desired = [], t_schedules = [], t_periods = []\<rparr>"

definition demo_crypto :: crypto where
  "demo_crypto = \<lparr>cy_bcrypt = Some, cy_compare = (=), cy_sha256 = (\<lambda>s. s), cy_sign = (\<lambda>_ s _. Some s),
     cy_verify = (\<lambda>_ _ t. if t = [] then None else Some (Some t))\<rparr>"

definition demo_env :: api_env where
  "demo_env = \<lparr>en_uparse = (\<lambda>s. if s = ''2'' then Some 2 else Some 11), en_ustr = (\<lambda>_. ''u''), en_rfc3339 = (\<lambda>_. None),
     en_tz = (\<lambda>_. None), en_tb = (\<lambda>_ t. t), en_email = (\<lambda>_. True), en_crypto = demo_crypto,
     en_auth = \<lparr>cf_secret = [], cf_accessTTL = 1, cf_refreshTTL = 1\<rparr>, en_ttlSecs = 1,
     en_credentials = (\<lambda>_. Inl []), en_timezone = (\<lambda>_. Inl []), en_room = (\<lambda>_. Inl []), en_desired = (\<lambda>_. Inl []),
     en_newDevice = (\<lambda>_. Inl []), en_device = (\<lambda>_. Inl []), en_sched = (\<lambda>_. Inl []), en_period = (\<lambda>_. Inl [])\<rparr>"

text \<open>\<open>DELETE\<close> of the other user's room, and of the caller's own account.\<close>

definition demo_request :: "string \<times> string \<Rightarrow> string \<Rightarrow> request" where
  "demo_request route auth = \<lparr>hq_route = route, hq_id = ''11'', hq_window = [], hq_density = [], hq_auth = auth,
     hq_cookie = None, hq_body = [], hq_now = 0, hq_new = 0, hq_new2 = 0, hq_newSensor = (\<lambda>_. 0),
     hq_newActuator = (\<lambda>_. 0), hq_random = []\<rparr>"

definition demo_auth_world :: auth_world where
  "demo_auth_world = \<lparr>w_db = two_users, w_faults = [], aw_events = [], aw_logs = [], au_tokens = Map.empty\<rparr>"

lemma two_users_inv: "api_inv two_users"
  by (simp add: api_inv_def db_ok_defs owner_ok_def periods_disjoint_def two_users_def)

lemma demo_middleware:
  "Middleware demo_crypto (en_uparse demo_env) (en_auth demo_env) 0 ''Bearer 2'' = Inr 2"
  by (simp add: Middleware_def ValidateAccessToken_def demo_env_def demo_crypto_def bearer_def)

theorem caller_writes_only_own_witness:
  "\<exists>reply w'. serve demo_env (demo_request (''DELETE'', ''/api/v1/users/me'') ''Bearer 2'') demo_auth_world = (reply, w')
     \<and> foreign 2 (w_db w') = foreign 2 two_users \<and> map r_id (t_rooms (w_db w')) = [11]"
proof -
  let ?rq = "demo_request (''DELETE'', ''/api/v1/users/me'') ''Bearer 2''"
  have ep: "map_of protected_routes (hq_route ?rq) = Some DeleteMe"
    by (simp add: protected_routes_def demo_request_def)
  have mw: "Middleware (en_crypto demo_env) (en_uparse demo_env) (en_auth demo_env) (hq_now ?rq) (hq_auth ?rq) = Inr 2"
    using demo_middleware by (simp add: demo_request_def demo_env_def)
  obtain reply w' where run: "serve demo_env ?rq demo_auth_world = (reply, w')" by (cases "serve demo_env ?rq demo_auth_world")
  from run mw protected_not_public [OF ep] ep have "w' = snd (UserH_DeleteMe 2 demo_auth_world)"
    by (auto simp: serve_def protected_handler_def plain_def split: prod.splits)
  then have "map r_id (t_rooms (w_db w')) = [11]"
    by (simp add: UserH_DeleteMe_def UserSvc_Delete_def UserRepo_GetByID_def UserRepo_Delete_def bindE_run first_or_ok
        exec_ok demo_auth_world_def two_users_def delete_user_def delete_rooms_def delete_devices_def
        delete_schedules_def Let_def)
  with run caller_writes_only_own [OF _ ep mw run] two_users_inv show ?thesis
    by (auto simp: demo_auth_world_def)
qed

theorem no_token_no_effect_witness:
  "\<exists>r. serve demo_env (demo_request (''DELETE'', ''/api/v1/rooms/:id'') ''Basic 2'') demo_auth_world = ((r, None), demo_auth_world)
     \<and> rs_Status r = 401"
  by (rule no_token_no_effect [of _ RoomDelete]) (simp_all add: protected_routes_def demo_request_def bearer_def)

end
