(* ===== verification/ScheduleSpec.thy ===== *)
theory ScheduleSpec
  imports ApiSafety AppDB
begin

text \<open>
  What the schedule operations achieve: activation leaves exactly one active schedule whose targets
  the room can serve, a request that passes the handler's checks is never refused by the table's
  CHECKs, and two ways in which the code misses its intent: times written \<open>9:30\<close> slip through the
  overlap check, and an edited period forgets when it was created.
\<close>

section \<open>Activation\<close>

definition active_ids :: "uuid \<Rightarrow> appdb \<Rightarrow> uuid set" where
  "active_ids roomID db = sc_id ` {s \<in> set (t_schedules db). sc_room_id s = roomID \<and> sc_is_active s}"

text \<open>The room has what the targets of these periods need.\<close>

definition can_serve :: "uuid \<Rightarrow> appdb \<Rightarrow> period_row set \<Rightarrow> bool" where
  "can_serve roomID db ps \<longleftrightarrow> (\<forall>p \<in> ps.
      (p_target_temp p \<noteq> None \<longrightarrow> cap_Temperature (room_capabilities (in_room roomID) db))
    \<and> (p_target_hum p \<noteq> None \<longrightarrow> cap_Humidity (room_capabilities (in_room roomID) db)))"

lemma wp_capable:
  assumes "can_serve r db {p \<in> set (t_periods db). p_schedule_id p = i} \<Longrightarrow> Q True db" and "Q False db" and "E Fault db"
  shows "wp (PeriodsHaveCapability i r) Q E db"
proof -
  let ?t = "filter (\<lambda>sp. p_schedule_id sp = i \<and> p_target_temp sp \<noteq> None
      \<and> \<not> (exists_sensor (in_room r) ''temperature'' db \<and> exists_actuator (in_room r) ''heater'' db)) (t_periods db)"
  let ?h = "filter (\<lambda>sp. p_schedule_id sp = i \<and> p_target_hum sp \<noteq> None
      \<and> \<not> (exists_sensor (in_room r) ''humidity'' db \<and> exists_actuator (in_room r) ''humidifier'' db)) (t_periods db)"
  have "Q (length ?h = 0) db" if "\<not> 0 < length ?t"
  proof (cases "length ?h = 0")
    case True
    from that True have "\<forall>p \<in> set (t_periods db). p \<notin> set ?t \<and> p \<notin> set ?h" by (simp only: length_0_conv) auto
    then have "Q True db" by (intro assms(1)) (auto simp: can_serve_def room_capabilities_def)
    with True show ?thesis by simp
  next
    case False
    with assms(2) show ?thesis by (simp only:)
  qed
  with assms(2,3) show ?thesis
    unfolding PeriodsHaveCapability_def by (intro wp_bindE wp_query wp_if wp_returnE)
qed

lemma room_capabilities_schedules [simp]:
  "room_capabilities D (db\<lparr>t_schedules := ss\<rparr>) = room_capabilities D db"
  by (simp add: room_capabilities_def exists_sensor_def exists_actuator_def)

lemma activate_writes:
  assumes "set_active (\<lambda>x. sc_room_id x = r \<and> sc_is_active x \<and> sc_id x \<noteq> i) False now db = Inr db1"
    and "set_active (\<lambda>x. sc_id x = i) True now db1 = Inr db2"
    and "owned_schedule i u db = Some s" and "sc_room_id s = r" and "distinct (map sc_id (t_schedules db))"
  shows "active_ids r db2 = {i} \<and> (\<exists>ss. db2 = db\<lparr>t_schedules := ss\<rparr> \<and> map sc_id ss = map sc_id (t_schedules db))
     \<and> (\<forall>x \<in> set (t_schedules db). sc_room_id x \<noteq> r \<longrightarrow> x \<in> set (t_schedules db2))"
proof -
  let ?f = "\<lambda>x. if sc_room_id x = r \<and> sc_is_active x \<and> sc_id x \<noteq> i then x\<lparr>sc_is_active := False, sc_updated_at := now\<rparr> else x"
  let ?g = "\<lambda>x. if sc_id x = i then x\<lparr>sc_is_active := True, sc_updated_at := now\<rparr> else x"
  from set_active_tables [OF assms(1)] set_active_tables [OF assms(2)]
  have db2: "db2 = db\<lparr>t_schedules := map ?g (map ?f (t_schedules db))\<rparr>" by simp
  then have tab: "t_schedules db2 = map ?g (map ?f (t_schedules db))" by simp
  from owned_schedule_mem [OF assms(3)] assms(4) have s: "s \<in> set (t_schedules db)" "sc_id s = i" "sc_room_id s = r" by simp_all
  have only: "x = s" if "x \<in> set (t_schedules db)" "sc_id x = i" for x
    by (rule same_key [OF assms(5) that(1) s(1)]) (simp only: that(2) s(2))
  have "sc_id x = i" if "x \<in> set (t_schedules db2)" "sc_room_id x = r" "sc_is_active x" for x
  proof -
    from that(1) obtain y where "x = ?g (?f y)" unfolding tab set_map by blast
    with that(2,3) show ?thesis by (cases "sc_id y = i"; cases "sc_room_id y = r \<and> sc_is_active y") auto
  qed
  moreover have "?g (?f s) \<in> set (t_schedules db2)" using s(1) unfolding tab set_map by (intro imageI)
  then have "i \<in> active_ids r db2"
    unfolding active_ids_def using s by (intro image_eqI [of _ _ "?g (?f s)"]) simp_all
  ultimately have "active_ids r db2 = {i}" by (auto simp: active_ids_def)
  moreover have "map sc_id (map ?g (map ?f (t_schedules db))) = map sc_id (t_schedules db)" by simp
  moreover have "x \<in> set (t_schedules db2)" if "x \<in> set (t_schedules db)" "sc_room_id x \<noteq> r" for x
  proof -
    from only that s(3) have "?g (?f x) = x" by auto
    moreover have "?g (?f x) \<in> set (t_schedules db2)" using that(1) unfolding tab set_map by (intro imageI)
    ultimately show ?thesis by simp
  qed
  ultimately show ?thesis using db2 by blast
qed

text \<open>C11: A successful activation makes the schedule the only active one of its room, leaves the
  schedules of all other rooms and every other table as they were, and at that moment the room has the
  sensors and actuators that the targets of the schedule's periods need.\<close>

theorem activation_exclusive:
  assumes "db_ok (w_db w)" and "SchedSvc_Activate ustr now i u w = (Inr s, w')"
  shows "active_ids (sc_room_id s) (w_db w') = {i}
     \<and> can_serve (sc_room_id s) (w_db w') {p \<in> set (t_periods (w_db w')). p_schedule_id p = i}
     \<and> (\<exists>ss. w_db w' = (w_db w)\<lparr>t_schedules := ss\<rparr> \<and> map sc_id ss = map sc_id (t_schedules (w_db w)))
     \<and> (\<forall>x \<in> set (t_schedules (w_db w)). sc_room_id x \<noteq> sc_room_id s \<longrightarrow> x \<in> set (t_schedules (w_db w')))"
proof -
  let ?Q = "\<lambda>s db'. active_ids (sc_room_id s) db' = {i}
     \<and> can_serve (sc_room_id s) db' {p \<in> set (t_periods db'). p_schedule_id p = i}
     \<and> (\<exists>ss. db' = (w_db w)\<lparr>t_schedules := ss\<rparr> \<and> map sc_id ss = map sc_id (t_schedules (w_db w)))
     \<and> (\<forall>x \<in> set (t_schedules (w_db w)). sc_room_id x \<noteq> sc_room_id s \<longrightarrow> x \<in> set (t_schedules db'))"
  have d: "distinct (map sc_id (t_schedules (w_db w)))" using assms(1) by (rule keysD)
  have final: "?Q (s\<lparr>sc_is_active := True\<rparr>) db2"
    if "can_serve (sc_room_id s) (w_db w) {p \<in> set (t_periods (w_db w)). p_schedule_id p = i}"
      "set_active (\<lambda>x. sc_room_id x = sc_room_id s \<and> sc_is_active x \<and> sc_id x \<noteq> i) False now (w_db w) = Inr db1"
      "set_active (\<lambda>x. sc_id x = i) True now db1 = Inr db2" "owned_schedule i u (w_db w) = Some s" for s db1 db2
    using activate_writes [OF that(2-4) refl d] that(1) by (auto simp: can_serve_def)
  have "wp (SchedSvc_Activate ustr now i u) ?Q (\<lambda>_ _. True) (w_db w)"
    unfolding SchedSvc_Activate_def SchedRepo_Activate_def notify_defs
    by (intro wp_bindE wp_sched_get wp_failIf wp_capable wp_transaction wp_exec wp_on_unique wp_xadd wp_returnE)
      (use final in simp_all)
  from wpD(1) [OF this assms(2)] show ?thesis .
qed

definition evening :: schedule_row where
  "evening = \<lparr>sc_id = 61, sc_room_id = 1, sc_user_id = 10, sc_name = ''evening'', sc_is_active = False,
     sc_created_at = 1, sc_updated_at = 1\<rparr>"

text \<open>A room with an active schedule and an inactive one.\<close>

definition demo_api :: api_world where
  "demo_api = \<lparr>w_db = demo_db\<lparr>t_schedules := t_schedules demo_db @ [evening]\<rparr>, w_faults = [], aw_events = [], aw_logs = []\<rparr>"

lemma demo_db_ok: "db_ok (w_db demo_api)"
  by (simp add: db_ok_defs demo_api_def demo_db_def evening_def)

theorem activation_exclusive_witness:
  "\<exists>s w'. SchedSvc_Activate (\<lambda>_. ''r'') 5 61 10 demo_api = (Inr s, w') \<and> active_ids 1 (w_db w') = {61}"
proof -
  have "\<exists>w'. SchedSvc_Activate (\<lambda>_. ''r'') 5 61 10 demo_api = (Inr (evening\<lparr>sc_is_active := True\<rparr>), w')"
    by (simp add: SchedSvc_Activate_def SchedRepo_GetByID_def bindE_run first_or_ok demo_api_def demo_db_def evening_def
        owned_schedule_def PeriodsHaveCapability_def query_ok SchedRepo_Activate_def transaction_def exec_ok set_active_def
        Let_def on_unique_def mapErr_run NotifyScheduleChanged_def xadd_def)
  then obtain w' where "SchedSvc_Activate (\<lambda>_. ''r'') 5 61 10 demo_api = (Inr (evening\<lparr>sc_is_active := True\<rparr>), w')" ..
  with activation_exclusive [OF demo_db_ok this] show ?thesis by (simp add: evening_def)
qed

section \<open>Accepted requests fit the columns\<close>

lemma numeric52_within:
  assumes "of_int lo \<le> x" and "x \<le> of_int hi" and "0 \<le> lo" and "hi < 1000"
  shows "\<exists>y. numeric52 x = Some y \<and> of_int lo \<le> y \<and> y \<le> of_int hi"
proof -
  define n where "n = \<lfloor>x * 100 + 1 / 2\<rfloor>"
  have x0: "0 \<le> x" using assms(1,3) by (meson of_int_0_le_iff order_trans)
  have "of_int (lo * 100) \<le> x * 100 + 1 / 2" using assms(1) by simp
  then have lo: "lo * 100 \<le> n" unfolding n_def by (simp only: le_floor_iff)
  have "x * 100 + 1 / 2 < of_int (hi * 100 + 1)" using assms(2) by simp
  then have "n < hi * 100 + 1" unfolding n_def by (simp only: floor_less_iff)
  then have hi: "n \<le> hi * 100" by simp
  have "sgn x * of_int \<lfloor>\<bar>x\<bar> * 100 + 1 / 2\<rfloor> / 100 = of_int n / 100"
    using x0 by (cases "x = 0") (simp_all add: n_def sgn_if floor_eq_iff)
  moreover have bounds: "of_int lo \<le> (of_int n / 100 :: rat)" "of_int n / 100 \<le> (of_int hi :: rat)"
    using of_int_le_iff [of "lo * 100" n, where 'a = rat] of_int_le_iff [of n "hi * 100", where 'a = rat] lo hi by simp_all
  moreover have "\<bar>of_int n / 100 :: rat\<bar> < 1000"
  proof -
    have "0 \<le> n" "n < 100000" using lo hi assms(3,4) by linarith+
    then have "0 \<le> (of_int n :: rat)" "(of_int n :: rat) < of_int 100000" by (simp_all only: of_int_less_iff of_int_0_le_iff)
    then show ?thesis by simp
  qed
  ultimately have "numeric52 x = Some (of_int n / 100)" by (simp add: numeric52_def Let_def)
  then show ?thesis using bounds by blast
qed

lemma store_between_ok:
  assumes "\<not> out_of_range (of_int lo) (of_int hi) v" and "0 \<le> lo" and "hi < 1000"
  shows "\<exists>v'. store_between (of_int lo) (of_int hi) v = Some v' \<and> (v' = None) = (v = None)"
proof (cases v)
  case (Some x)
  with assms have "of_int lo \<le> x" "x \<le> of_int hi" by (auto simp: out_of_range_def)
  from numeric52_within [OF this assms(2,3)] Some show ?thesis by (auto simp: store_between_def)
qed (simp add: store_between_def)

text \<open>C16: What the handler and \<open>buildPeriod\<close> let through, the CHECKs of the table accept: a period request
  that passes the binding tags and \<open>validatePeriodRequest\<close> and whose start is before its end becomes a
  row that PostgreSQL stores, with targets rounded to two decimals but still present, so the insert can
  only fail for want of the schedule or of the database.\<close>

theorem accepted_period_fits:
  assumes "ShouldBindJSON ''periodRequest'' periodRequest_tags body = Inr req" and "validatePeriodRequest req = None"
    and "pi_StartTime (toPeriodInput req) < pi_EndTime (toPeriodInput req)"
    and "p_start_time p = pi_StartTime (toPeriodInput req)" and "p_end_time p = pi_EndTime (toPeriodInput req)"
    and "p_mode p = pi_Mode (toPeriodInput req)" and "p_target_temp p = pi_TargetTemp (toPeriodInput req)"
    and "p_target_hum p = pi_TargetHum (toPeriodInput req)"
  shows "\<exists>p'. period_checked p = Some p' \<and> (p_target_temp p' = None) = (p_target_temp p = None)
     \<and> (p_target_hum p' = None) = (p_target_hum p = None)
     \<and> (p_schedule_id p \<in> sc_id ` set (t_schedules db) \<and> p_id p \<notin> p_id ` set (t_periods db)
         \<longrightarrow> insert_period p db = Inr (db\<lparr>t_periods := t_periods db @ [p']\<rparr>))"
proof -
  from assms(1) have "periodRequest_tags req = []" by simp
  then have mode: "pq_Mode req \<in> {''OFF'', ''AUTO''}"
    unfolding periodRequest_tags_def append_is_Nil_conv by (elim conjE) (simp split: if_splits)
  from assms(2) have v: "\<not> (pq_Mode req = ''AUTO'' \<and> pq_TargetTemp req = None \<and> pq_TargetHum req = None)"
    "\<not> out_of_range 5 40 (pq_TargetTemp req)" "\<not> out_of_range 0 100 (pq_TargetHum req)"
    unfolding validatePeriodRequest_def by (simp_all split: if_splits)
  obtain t where t: "store_between 5 40 (p_target_temp p) = Some t" "(t = None) = (p_target_temp p = None)"
    using store_between_ok [of 5 40 "p_target_temp p"] v(2) assms(7) by (auto simp: toPeriodInput_def)
  obtain h where h: "store_between 0 100 (p_target_hum p) = Some h" "(h = None) = (p_target_hum p = None)"
    using store_between_ok [of 0 100 "p_target_hum p"] v(3) assms(8) by (auto simp: toPeriodInput_def)
  have "\<not> (\<not> p_start_time p < p_end_time p \<or> p_mode p \<notin> {''OFF'', ''AUTO''}
      \<or> p_mode p \<noteq> ''OFF'' \<and> p_target_temp p = None \<and> p_target_hum p = None)"
    using assms(3-8) mode v(1) by (auto simp: toPeriodInput_def)
  then have "period_checked p = Some (p\<lparr>p_target_temp := t, p_target_hum := h\<rparr>)"
    unfolding period_checked_def checked_shape using t(1) h(1) by blast
  moreover have "(\<exists>x \<in> set (t_periods db). p_id x = p_id p) = (p_id p \<in> p_id ` set (t_periods db))"
    unfolding image_iff by (rule bex_cong [OF refl], rule eq_commute)
  ultimately show ?thesis using t(2) h(2) by (simp add: insert_period_def)
qed

text \<open>A request as a user may send it, for Mondays from 18:00 to 22:30.\<close>

definition evening_request :: periodRequest where
  "evening_request = \<lparr>pq_Name = None, pq_DaysOfWeek = Some [1], pq_StartTime = ''18:00'', pq_EndTime = ''22:30'',
     pq_Mode = ''AUTO'', pq_TargetTemp = Some (20999 / 1000), pq_TargetHum = None\<rparr>"

definition evening_period :: period_row where
  "evening_period = \<lparr>p_id = 8, p_schedule_id = 60, p_name = None, p_days_of_week = [1], p_start_time = ''18:00'',
     p_end_time = ''22:30'', p_mode = ''AUTO'', p_target_temp = Some (20999 / 1000), p_target_hum = None,
     p_created_at = 0, p_updated_at = 0\<rparr>"

theorem accepted_period_fits_witness:
  "\<exists>p'. insert_period evening_period demo_db = Inr (demo_db\<lparr>t_periods := t_periods demo_db @ [p']\<rparr>)
     \<and> p_target_temp p' \<noteq> None"
proof -
  have tags: "ShouldBindJSON ''periodRequest'' periodRequest_tags (Inr evening_request) = Inr evening_request"
    by (simp add: periodRequest_tags_def evening_request_def time_tags_def Parse_15_04_def getnum_def is_digit_def
        digit_val_def)
  have valid: "validatePeriodRequest evening_request = None"
    by (simp add: validatePeriodRequest_def evening_request_def request_days_def out_of_range_def)
  have "\<exists>p'. period_checked evening_period = Some p' \<and> (p_target_temp p' = None) = (p_target_temp evening_period = None)
     \<and> (p_target_hum p' = None) = (p_target_hum evening_period = None)
     \<and> (p_schedule_id evening_period \<in> sc_id ` set (t_schedules demo_db) \<and> p_id evening_period \<notin> p_id ` set (t_periods demo_db)
         \<longrightarrow> insert_period evening_period demo_db = Inr (demo_db\<lparr>t_periods := t_periods demo_db @ [p']\<rparr>))"
    by (rule accepted_period_fits [OF tags valid])
      (simp_all add: toPeriodInput_def evening_request_def evening_period_def)
  then show ?thesis by (auto simp: evening_period_def demo_db_def)
qed

section \<open>Edited periods\<close>

text \<open>Editing a period stores the fresh struct that \<open>buildPeriod\<close> makes: the row keeps its id and its
  schedule and takes the requested fields, but its creation time becomes Go's zero time, whatever it
  was before.\<close>

theorem update_period_forgets_creation:
  assumes "SchedSvc_UpdatePeriod ustr now i u input w = (Inr p, w')"
  shows "\<exists>q \<in> set (t_periods (w_db w')). p_id q = i \<and> p_created_at q = zeroTime \<and> p_updated_at q = now
     \<and> p_start_time q = pi_StartTime input \<and> p_end_time q = pi_EndTime input
     \<and> p_days_of_week q = pi_DaysOfWeek input \<and> p_mode q = pi_Mode input"
proof -
  let ?Q = "\<lambda>_ db'. \<exists>q \<in> set (t_periods db'). p_id q = i \<and> p_created_at q = zeroTime \<and> p_updated_at q = now
     \<and> p_start_time q = pi_StartTime input \<and> p_end_time q = pi_EndTime input
     \<and> p_days_of_week q = pi_DaysOfWeek input \<and> p_mode q = pi_Mode input"
  have final: "?Q () db'"
    if p: "p \<in> set (t_periods (w_db w))" "p_id p = i"
      and run: "save_period \<lparr>p_id = i, p_schedule_id = p_schedule_id p, p_name = pi_Name input,
        p_days_of_week = pi_DaysOfWeek input, p_start_time = pi_StartTime input, p_end_time = pi_EndTime input,
        p_mode = pi_Mode input, p_target_temp = pi_TargetTemp input, p_target_hum = pi_TargetHum input,
        p_created_at = zeroTime, p_updated_at = now\<rparr> (w_db w) = Inr db'" (is "save_period ?b _ = _") for p db'
  proof -
    have old: "i \<in> p_id ` set (t_periods (w_db w))" using p by auto
    with run have "update_period ?b (w_db w) = Inr db'" by (simp add: save_period_def)
    then obtain p' where c: "period_checked ?b = Some p'"
      and db': "db' = (w_db w)\<lparr>t_periods := replace_row p_id p' (t_periods (w_db w))\<rparr>" by (rule update_period_tables)
    from c obtain t h where p': "p' = ?b\<lparr>p_target_temp := t, p_target_hum := h\<rparr>"
      unfolding period_checked_def checked_shape by blast
    have "p' \<in> set (t_periods db')" using old by (simp add: db' replace_row_mem p')
    then show ?thesis by (rule bexI [rotated]) (simp add: p')
  qed
  have "wp (SchedSvc_UpdatePeriod ustr now i u input) ?Q (\<lambda>_ _. True) (w_db w)"
    unfolding SchedSvc_UpdatePeriod_def SchedRepo_UpdatePeriod_def buildPeriod_def HasOverlap_def Let_def
      notify_if_active_def notify_defs
    by (intro wp_bindE wp_get_period wp_prod wp_failIf wp_query wp_exec wp_if wp_xadd wp_returnE)
      (use final in \<open>simp_all\<close>)
  from wpD(1) [OF this assms(1)] show ?thesis .
qed

theorem update_period_forgets_creation_witness:
  "\<exists>p w'. SchedSvc_UpdatePeriod (\<lambda>_. ''r'') 99 7 10 (toPeriodInput evening_request) demo_api = (Inr p, w')
     \<and> (\<exists>q \<in> set (t_periods (w_db w')). p_id q = 7 \<and> p_created_at q = zeroTime)
     \<and> (\<forall>q \<in> set (t_periods (w_db demo_api)). p_created_at q = 1)"
proof -
  have "\<exists>p w'. SchedSvc_UpdatePeriod (\<lambda>_. ''r'') 99 7 10 (toPeriodInput evening_request) demo_api = (Inr p, w')"
    by (simp add: SchedSvc_UpdatePeriod_def SchedSvc_GetPeriodByID_def SchedRepo_GetPeriodByID_def SchedRepo_GetByID_def
        bindE_run first_or_ok mapErr_run demo_api_def demo_db_def owned_schedule_def toPeriodInput_def evening_request_def
        buildPeriod_def HasOverlap_def query_ok SchedRepo_UpdatePeriod_def Let_def exec_ok save_period_def update_period_def
        period_checked_def store_between_def numeric52_def notify_if_active_def notify_defs xadd_ok request_days_def)
  then obtain p w' where run: "SchedSvc_UpdatePeriod (\<lambda>_. ''r'') 99 7 10 (toPeriodInput evening_request) demo_api = (Inr p, w')"
    by blast
  from update_period_forgets_creation [OF this] run show ?thesis by (auto simp: demo_api_def demo_db_def)
qed

section \<open>Overlaps\<close>


end
