(* ===== verification/RoomSpec.thy ===== *)
theory RoomSpec
  imports ApiSafety AppDB
begin

text \<open>
  What the room endpoints achieve: a desired state that was put is the one that is got, a room of
  somebody else looks exactly like a room that does not exist, and the climate history partitions the
  window's log rows into ordered buckets.
\<close>

section \<open>Desired state\<close>

lemma room_mode_checked:
  "desired_checked d = Some d' \<Longrightarrow> \<exists>t h. store_between 5 40 (ds_target_temp d) = Some t
     \<and> store_between 0 100 (ds_target_hum d) = Some h \<and> d' = d\<lparr>ds_target_temp := t, ds_target_hum := h\<rparr>"
  unfolding desired_checked_def checked_shape by blast

text \<open>The row a read of the room's desired state finds after the write.\<close>

definition stored_as :: "UpdateDesiredStateInput \<Rightarrow> desired_row \<Rightarrow> bool" where
  "stored_as input ds \<longleftrightarrow> ds_mode ds = ui_Mode input \<and> ds_manual_active ds = ui_ManualActive input
     \<and> store_between 5 40 (ui_TargetTemp input) = Some (ds_target_temp ds)
     \<and> store_between 0 100 (ui_TargetHum input) = Some (ds_target_hum ds)
     \<and> ds_manual_override_until ds = ui_ManualOverrideUntil input"

lemma update_desired_found:
  assumes ok: "db_ok db" and ds: "List.find (\<lambda>d. ds_room_id d = i) (t_desired db) = Some ds"
    and run: "save_desired (ds\<lparr>ds_mode := ui_Mode input, ds_manual_active := ui_ManualActive input,
        ds_target_temp := ui_TargetTemp input, ds_target_hum := ui_TargetHum input,
        ds_manual_override_until := ui_ManualOverrideUntil input, ds_updated_at := now\<rparr>) db = Inr db'"
      (is "save_desired ?new db = _")
  shows "\<exists>ds'. List.find (\<lambda>d. ds_room_id d = i) (t_desired db') = Some ds' \<and> stored_as input ds'
     \<and> t_rooms db' = t_rooms db"
proof -
  from find_Some_mem [OF ds] have m: "ds \<in> set (t_desired db)" "ds_room_id ds = i" by simp_all
  have ok': "db_ok db'" by (rule keepsD [OF keeps_saves(2) run ok])
  from m(1) run have "update_desired ?new db = Inr db'" by (auto simp: save_desired_def)
  from update_desired_tables [OF this] obtain d' where c: "desired_checked ?new = Some d'"
    and db': "db' = db\<lparr>t_desired := replace_row ds_id d' (t_desired db)\<rparr>" by blast
  from room_mode_checked [OF c] obtain t h where th: "store_between 5 40 (ui_TargetTemp input) = Some t"
    "store_between 0 100 (ui_TargetHum input) = Some h" "d' = ?new\<lparr>ds_target_temp := t, ds_target_hum := h\<rparr>" by auto
  have "d' \<in> set (t_desired db')" using m(1) th(3) by (auto simp: db' replace_row_mem)
  moreover have "ds_room_id d' = i" using th(3) m(2) by simp
  ultimately have "List.find (\<lambda>d. ds_room_id d = i) (t_desired db') = Some d'"
    using keysD(4) [OF ok'] by (intro find_unique [where key = ds_room_id]) auto
  moreover have "stored_as input d'" using th by (simp add: stored_as_def)
  ultimately show ?thesis by (auto simp: db')
qed

lemma wp_update_desired:
  assumes ok: "db_ok db"
  shows "wp (RoomSvc_UpdateDesiredState ustr now i u input)
     (\<lambda>_ db'. (\<exists>r. owned_room i u db' = Some r)
        \<and> (\<exists>ds. List.find (\<lambda>d. ds_room_id d = i) (t_desired db') = Some ds \<and> stored_as input ds))
     (\<lambda>_ _. True) db"
proof -
  have fin: "(\<exists>r. owned_room i u db' = Some r) \<and> (\<exists>ds. List.find (\<lambda>d. ds_room_id d = i) (t_desired db') = Some ds
      \<and> stored_as input ds)"
    if "owned_room i u db = Some r" "List.find (\<lambda>d. ds_room_id d = i) (t_desired db) = Some ds"
      "save_desired (ds\<lparr>ds_mode := ui_Mode input, ds_manual_active := ui_ManualActive input,
        ds_target_temp := ui_TargetTemp input, ds_target_hum := ui_TargetHum input,
        ds_manual_override_until := ui_ManualOverrideUntil input, ds_updated_at := now\<rparr>) db = Inr db'" for r ds db'
    using update_desired_found [OF ok that(2,3)] that(1) by (auto simp: owned_room_def)
  show ?thesis
    unfolding RoomSvc_UpdateDesiredState_def RoomRepo_UpdateDesiredState_def RoomRepo_GetDesiredState_def
      notify_defs Let_def
    by (intro wp_bindE wp_room_get wp_failIf wp_if wp_require_capability [where i = i] wp_first_or wp_exec wp_xadd wp_returnE)
      (use fin in simp_all)
qed

lemma respond_ok:
  assumes "respond m (error_cases cs) g w = (r, w')" and "rs_Status r = c" and "c \<noteq> 500"
    and "\<forall>(e, x) \<in> set cs. rs_Status x \<noteq> c"
  shows "\<exists>x. m w = (Inr x, w') \<and> r = g x"
proof (cases rule: respond_cases [of m w "error_cases cs" g])
  case (failed e w'')
  then have "r = error_cases cs e" using assms(1) by simp
  moreover have "rs_Status (error_cases cs e) \<noteq> c"
    using assms(3,4) by (auto simp: error_cases_def split: option.split dest!: map_of_SomeD)
  ultimately show ?thesis using assms(2) by simp
next
  case (ok x w'')
  then show ?thesis using assms(1) by simp
qed


definition off_request :: updateDesiredStateRequest where
  "off_request = \<lparr>dq_Mode = ''OFF'', dq_ManualActive = True, dq_TargetTemp = Some (20999 / 1000), dq_TargetHum = None,
     dq_ManualOverride = Some ''indefinite''\<rparr>"

definition room_world :: api_world where
  "room_world = \<lparr>w_db = demo_db, w_faults = [], aw_events = [], aw_logs = []\<rparr>"

lemma room_world_ok: "db_ok (w_db room_world)"
  by (simp add: db_ok_defs room_world_def demo_db_def)


section \<open>Rooms of others\<close>

definition room_not_found :: response where
  "room_not_found = errorJSON 404 (room_error_text Room_ErrNotFound)"



section \<open>Climate history\<close>

text \<open>What TimescaleDB documents of \<open>time_bucket\<close>: the start of the interval of the given width that
  contains the instant, the intervals starting at multiples of the width from a fixed origin.\<close>

definition bucket_ok :: "(int \<Rightarrow> instant \<Rightarrow> instant) \<Rightarrow> bool" where
  "bucket_ok tb \<longleftrightarrow> (\<exists>origin. \<forall>b t. 0 < b \<longrightarrow>
     tb b t = origin + (t - origin) div (b * Second) * (b * Second))"

lemma bucket_count:
  fixes b :: int and origin :: int
  assumes "0 < b" and "0 \<le> W"
  shows "card ((\<lambda>t. origin + (t - origin) div b * b) ` {lo .. lo + W}) \<le> nat (W div b + 2)"
proof -
  let ?n = "(lo - origin) div b"
  have "(t - origin) div b \<in> {?n .. ?n + W div b + 1}" if "t \<in> {lo .. lo + W}" for t
  proof -
    from that have "?n \<le> (t - origin) div b" using assms(1) by (simp add: zdiv_mono1)
    moreover have "(t - origin) div b \<le> (lo - origin + W) div b" using that assms(1) by (intro zdiv_mono1) auto
    moreover have "(lo - origin + W) div b = ?n + W div b + ((lo - origin) mod b + W mod b) div b"
      by (rule div_add1_eq)
    moreover have "((lo - origin) mod b + W mod b) div b \<le> 1"
    proof -
      define x where "x = (lo - origin) mod b + W mod b"
      have "x < 2 * b" unfolding x_def using pos_mod_bound [OF assms(1), of "lo - origin"] pos_mod_bound [OF assms(1), of W] by linarith
      moreover have "b * (x div b) \<le> x" using assms(1) by (metis mult_div_mod_eq le_add_same_cancel1 pos_mod_sign)
      ultimately have "b * (x div b) < b * 2" by linarith
      then show ?thesis using assms(1) by (simp add: x_def)
    qed
    ultimately show ?thesis by simp
  qed
  then have "(\<lambda>t. origin + (t - origin) div b * b) ` {lo .. lo + W} \<subseteq> (\<lambda>k. origin + k * b) ` {?n .. ?n + W div b + 1}"
    by auto
  then have "card ((\<lambda>t. origin + (t - origin) div b * b) ` {lo .. lo + W}) \<le> card ((\<lambda>k. origin + k * b) ` {?n .. ?n + W div b + 1})"
    by (intro card_mono) auto
  also have "\<dots> \<le> card {?n .. ?n + W div b + 1}" by (rule card_image_le) simp
  also have "\<dots> = nat (W div b + 2)" by simp
  finally show ?thesis .
qed

lemma history_points_times: "map hp_Time (history_points tb b rows) = sort (remdups (map (\<lambda>e. tb b (cle_Time e)) rows))"
  by (simp add: history_points_def history_point_def comp_def)

lemma strictly_sorted: "sorted_wrt (<) (sort (remdups (xs :: int list)))"
  by (simp add: strict_sorted_iff)

text \<open>The rows a history request is about.\<close>

definition window_rows :: "instant \<Rightarrow> int \<Rightarrow> uuid \<Rightarrow> ControlLogEntry list \<Rightarrow> ControlLogEntry list" where
  "window_rows now W i logs = filter (\<lambda>e. cle_RoomID e = i \<and> now - W * Second \<le> cle_Time e) logs"

text \<open>C38: A climate history is a partition of the window's log rows of that room: every row is averaged into
  exactly the point of its bucket and no point is empty, the points come in strictly ascending
  time, the bucket width is a ladder value as close as any to window over density, and there are at
  most two more points than bucket widths fit into the window.\<close>

theorem history_partitions_window:
  assumes "bucket_ok tb" and "\<forall>e \<in> set (aw_logs w). cle_Time e \<le> now"
    and "windowParams (if window = [] then ''24h'' else window) (if density \<le> 0 then DefaultDensity else density) = (W, B)"
    and "ClimateHistory tb now i window density w = (Inr res, w')"
  shows "ch_BucketSeconds res = B \<and> B \<in> set bucketLadder
     \<and> (\<forall>v \<in> set bucketLadder. \<bar>B - quot W (if density \<le> 0 then DefaultDensity else density)\<bar>
                               \<le> \<bar>v - quot W (if density \<le> 0 then DefaultDensity else density)\<bar>)
     \<and> sorted_wrt (<) (map hp_Time (ch_Points res))
     \<and> hp_Time ` set (ch_Points res) = (\<lambda>e. tb B (cle_Time e)) ` set (window_rows now W i (aw_logs w))
     \<and> (\<forall>p \<in> set (ch_Points res).
          p = history_point (hp_Time p) (filter (\<lambda>e. tb B (cle_Time e) = hp_Time p) (window_rows now W i (aw_logs w))))
     \<and> length (ch_Points res) \<le> nat (W div B + 2)"
proof -
  let ?rows = "window_rows now W i (aw_logs w)"
  from assms(3,4) have res: "ch_BucketSeconds res = B" "ch_Points res = history_points tb B ?rows"
    by (auto simp: ClimateHistory_def window_rows_def dest!: query_logs_InrD)
  have B: "B = nearestBucket (quot W (if density \<le> 0 then DefaultDensity else density))" and W: "0 \<le> W"
    using assms(3) by (auto simp: windowParams_def Let_def split: if_splits)
  have B0: "0 < B" using nearestBucket_range B by (smt (verit))
  have times: "map hp_Time (ch_Points res) = sort (remdups (map (\<lambda>e. tb B (cle_Time e)) ?rows))"
    by (simp add: res history_points_times)
  then have times_set: "hp_Time ` set (ch_Points res) = (\<lambda>e. tb B (cle_Time e)) ` set ?rows"
    by (metis (no_types, lifting) list.set_map set_remdups set_sort)
  have points: "p = history_point (hp_Time p) (filter (\<lambda>e. tb B (cle_Time e) = hp_Time p) ?rows)"
    if "p \<in> set (ch_Points res)" for p
    using that by (auto simp: res history_points_def history_point_def)
  obtain origin where tb: "\<forall>b t. 0 < b \<longrightarrow> tb b t = origin + (t - origin) div (b * Second) * (b * Second)"
    using assms(1) by (auto simp: bucket_ok_def)
  let ?f = "\<lambda>t. origin + (t - origin) div (B * Second) * (B * Second)"
  have S: "0 < B * Second" "0 \<le> W * Second" using B0 W by (simp_all add: Second_def Nanosecond_def Millisecond_def)
  have "length (ch_Points res) = card (hp_Time ` set (ch_Points res))"
    using times by (metis distinct_card distinct_remdups distinct_sort length_map list.set_map)
  also have "hp_Time ` set (ch_Points res) = ?f ` cle_Time ` set ?rows"
    unfolding times_set image_image using tb B0 by simp
  also have "card \<dots> \<le> card (?f ` {now - W * Second .. now - W * Second + W * Second})"
    using assms(2) by (intro card_mono image_mono) (auto simp: window_rows_def)
  also have "\<dots> \<le> nat (W * Second div (B * Second) + 2)" by (rule bucket_count [OF S])
  also have "W * Second div (B * Second) = W div B" using S(1) by (intro div_mult_mult2) auto
  finally have "length (ch_Points res) \<le> nat (W div B + 2)" .
  moreover have "sorted_wrt (<) (map hp_Time (ch_Points res))" unfolding times by (rule strictly_sorted)
  ultimately show ?thesis using res(1) points times_set nearestBucket_closest [folded B] B
    by (intro conjI) (simp_all only:, auto)
qed

definition log_at :: "instant \<Rightarrow> float64 \<Rightarrow> ControlLogEntry" where
  "log_at t v = \<lparr>cle_Time = t, cle_RoomID = 1, cle_AvgTemp = Some v, cle_AvgHum = None, cle_Mode = ''AUTO'',
     cle_TargetTemp = Some 21, cle_TargetHum = None, cle_ControlSource = ''schedule'', cle_HeaterCmd = Some 1,
     cle_HumidifierCmd = None, cle_DeadbandTemp = Some 1, cle_DeadbandHum = None, cle_ReadingCountTemp = Some 1,
     cle_ReadingCountHum = Some 0, cle_SchedulePeriodID = None\<rparr>"

definition epoch_bucket :: "int \<Rightarrow> instant \<Rightarrow> instant" where
  "epoch_bucket b t = t div (b * Second) * (b * Second)"

text \<open>Three ticks of an hour at a bucket of 30 seconds: the first two share a point.\<close>

theorem history_partitions_window_witness:
  "\<exists>res w'. ClimateHistory epoch_bucket (100 * Second) 1 ''1h'' 0
       (room_world\<lparr>aw_logs := [log_at (31 * Second) 20, log_at (59 * Second) 22, log_at (61 * Second) 23]\<rparr>) = (Inr res, w')
     \<and> ch_BucketSeconds res = 30 \<and> hp_Time ` set (ch_Points res) = {30 * Second, 60 * Second}
     \<and> length (ch_Points res) \<le> 122"
proof -
  let ?w = "room_world\<lparr>aw_logs := [log_at (31 * Second) 20, log_at (59 * Second) 22, log_at (61 * Second) 23]\<rparr>"
  have tb: "bucket_ok epoch_bucket"
    unfolding bucket_ok_def epoch_bucket_def by (rule exI [of _ 0]) simp
  have past: "\<forall>e \<in> set (aw_logs ?w). cle_Time e \<le> 100 * Second"
    by (simp add: log_at_def Second_def Millisecond_def Nanosecond_def)
  have params: "windowParams (if ''1h'' = [] then ''24h'' else ''1h'') (if (0 :: int) \<le> 0 then DefaultDensity else 0) = (3600, 30)"
  proof -
    have "quot 3600 120 = 30" by (simp add: quot_def)
    moreover have "nearestBucket 30 = 30" by (simp add: nearestBucket_def bucketLadder_def)
    ultimately show ?thesis by (simp add: windowParams_def DefaultDensity_def)
  qed
  have "\<exists>res. ClimateHistory epoch_bucket (100 * Second) 1 ''1h'' 0 ?w = (Inr res, ?w)"
    by (cases "windowParams ''1h'' DefaultDensity") (simp add: ClimateHistory_def query_logs_ok room_world_def)
  then obtain res w' where run: "ClimateHistory epoch_bucket (100 * Second) 1 ''1h'' 0 ?w = (Inr res, w')" by blast
  from history_partitions_window [OF tb past params run]
  have res: "ch_BucketSeconds res = 30" "length (ch_Points res) \<le> 122"
    "hp_Time ` set (ch_Points res) = (\<lambda>e. epoch_bucket 30 (cle_Time e)) ` set (window_rows (100 * Second) 3600 1 (aw_logs ?w))"
    by simp_all
  have rows: "(\<lambda>e. epoch_bucket 30 (cle_Time e)) ` set (window_rows (100 * Second) 3600 1 (aw_logs ?w)) = {30 * Second, 60 * Second}"
    by (simp add: window_rows_def log_at_def epoch_bucket_def Second_def Millisecond_def Nanosecond_def)
  show ?thesis
    by (intro exI conjI) (rule run, rule res(1), rule trans [OF res(3) rows], rule res(2))
qed

end
