(* ===== verification/DeviceSpec.thy ===== *)
theory DeviceSpec
  imports ApiSafety AppDB
begin

text \<open>
  What the device operations guarantee: a device that leaves a room, by deletion or by reassignment,
  leaves behind a room that can still serve every target it is being asked to hold.
\<close>

section \<open>Removal\<close>

text \<open>The room can serve the targets of its desired state and of its active schedule.\<close>

definition targets_served :: "uuid \<Rightarrow> appdb \<Rightarrow> bool" where
  "targets_served roomID db \<longleftrightarrow>
     (case List.find (\<lambda>d. ds_room_id d = roomID) (t_desired db) of None \<Rightarrow> True
      | Some ds \<Rightarrow> \<not> unmet (cap_Temperature (room_capabilities (in_room roomID) db))
          (cap_Humidity (room_capabilities (in_room roomID) db)) (ds_target_temp ds) (ds_target_hum ds))
   \<and> (\<forall>p \<in> set (active_periods roomID db).
        \<not> unmet (cap_Temperature (room_capabilities (in_room roomID) db))
          (cap_Humidity (room_capabilities (in_room roomID) db)) (p_target_temp p) (p_target_hum p))"

text \<open>The same question about the room without one of its devices.\<close>

definition served_without :: "uuid \<Rightarrow> uuid \<Rightarrow> appdb \<Rightarrow> bool" where
  "served_without roomID deviceID db \<longleftrightarrow>
     (case List.find (\<lambda>d. ds_room_id d = roomID) (t_desired db) of None \<Rightarrow> True
      | Some ds \<Rightarrow> \<not> unmet (cap_Temperature (room_capabilities (in_room_without roomID deviceID) db))
          (cap_Humidity (room_capabilities (in_room_without roomID deviceID) db)) (ds_target_temp ds) (ds_target_hum ds))
   \<and> (\<forall>p \<in> set (active_periods roomID db).
        \<not> unmet (cap_Temperature (room_capabilities (in_room_without roomID deviceID) db))
          (cap_Humidity (room_capabilities (in_room_without roomID deviceID) db)) (p_target_temp p) (p_target_hum p))"

lemma wp_removal_check:
  assumes "served_without r i db \<Longrightarrow> Q () db" and "\<And>e. E e db"
  shows "wp (check_removal r i) Q E db"
  unfolding check_removal_def HasCapabilityConflictAfterRemoval_def hasTemperatureCapabilityAfterRemoval_def
    hasHumidityCapabilityAfterRemoval_def desiredStateHasConflict_def activeSchedulePeriodsHaveConflict_def
  by (intro wp_bindE wp_query wp_if wp_option wp_failIf wp_returnE; (rule assms(2))?; (intro assms(1))?)
    (auto simp: served_without_def unmet_def room_capabilities_def split: option.split)

text \<open>A write that takes the device out of the room and touches nothing else the question looks at.\<close>

lemma served_after:
  assumes "served_without r i db"
    and "t_desired db' = t_desired db" "t_schedules db' = t_schedules db" "t_periods db' = t_periods db"
    and stay: "\<And>d. d \<in> set (t_devices db) \<Longrightarrow> in_room_without r i d \<Longrightarrow> d \<in> set (t_devices db')"
    and "\<And>s. s \<in> set (t_sensors db) \<Longrightarrow> s_device_id s \<noteq> i \<Longrightarrow> s \<in> set (t_sensors db')"
    and "\<And>a. a \<in> set (t_actuators db) \<Longrightarrow> a_device_id a \<noteq> i \<Longrightarrow> a \<in> set (t_actuators db')"
  shows "targets_served r db'"
proof -
  have "exists_sensor (in_room r) ty db'" if "exists_sensor (in_room_without r i) ty db" for ty
  proof -
    from that obtain d s where "d \<in> set (t_devices db)" "in_room_without r i d" "s \<in> set (t_sensors db)"
      "s_device_id s = d_id d" "s_measurement_type s = ty" by (auto simp: exists_sensor_def)
    with assms(5,6) show ?thesis unfolding exists_sensor_def by (metis (mono_tags, lifting))
  qed
  moreover have "exists_actuator (in_room r) ty db'" if "exists_actuator (in_room_without r i) ty db" for ty
  proof -
    from that obtain d a where "d \<in> set (t_devices db)" "in_room_without r i d" "a \<in> set (t_actuators db)"
      "a_device_id a = d_id d" "a_actuator_type a = ty" by (auto simp: exists_actuator_def)
    with assms(5,7) show ?thesis unfolding exists_actuator_def by (metis (mono_tags, lifting))
  qed
  ultimately have caps:
    "cap_Temperature (room_capabilities (in_room_without r i) db) \<Longrightarrow> cap_Temperature (room_capabilities (in_room r) db')"
    "cap_Humidity (room_capabilities (in_room_without r i) db) \<Longrightarrow> cap_Humidity (room_capabilities (in_room r) db')"
    by (simp_all add: room_capabilities_def)
  have "active_periods r db' = active_periods r db" using assms(3,4) by (simp add: active_periods_def)
  with assms(1,2) caps show ?thesis
    unfolding targets_served_def served_without_def unmet_def
    by (cases "List.find (\<lambda>d. ds_room_id d = r) (t_desired db)") auto
qed

lemma wp_delete_device:
  assumes d: "owned_device i u db = Some d" "d_room_id d = Some r"
  shows "wp (DevSvc_Delete i u) (\<lambda>_. targets_served r) (\<lambda>_ _. True) db"
proof -
  have fin: "targets_served r db'" if "served_without r i db" "delete_device i db = Inr db'" for db'
    using that by (intro served_after [OF that(1)]) (auto simp: delete_device_def delete_devices_def Let_def)
  show ?thesis
    unfolding DevSvc_Delete_def DevRepo_Delete_def
    by (intro wp_bindE wp_device_get wp_option wp_removal_check wp_exec wp_returnE) (use d fin in auto)
qed

lemma wp_move_device:
  assumes d: "owned_device i u db = Some d" "d_room_id d = Some r" and leave: "up_RoomID input \<noteq> Some r"
  shows "wp (DevSvc_Update ustr now i u input) (\<lambda>_. targets_served r) (\<lambda>_ _. True) db"
proof -
  from owned_device_mem [OF d(1)] have m: "d \<in> set (t_devices db)" "d_id d = i" by simp_all
  have fin: "targets_served r db'"
    if "served_without r i db" "save_device (d\<lparr>d_name := nm, d_room_id := rm, d_updated_at := now\<rparr>) db = Inr db'" for nm rm db'
  proof -
    from m that(2) have "update_device (d\<lparr>d_name := nm, d_room_id := rm, d_updated_at := now\<rparr>) db = Inr db'"
      by (auto simp: save_device_def)
    from update_device_tables [OF this] m(2) show ?thesis
      by (intro served_after [OF that(1)]) (auto simp: replace_row_mem)
  qed
  have E: "E \<Longrightarrow> True" for E by simp
  show ?thesis
    unfolding DevSvc_Update_def DevRepo_Update_def Let_def notify_defs
    by (intro wp_bindE wp_device_get wp_option wp_if wp_require_room wp_removal_check wp_on_unique wp_exec wp_xadd wp_returnE)
      (use d leave fin in auto)
qed

text \<open>C12: Deleting a device, or moving it out of its room, succeeds only when the room it leaves keeps the
  sensors and actuators for every target of its desired state and of every period of its active
  schedule: the control loop is never left with a target it cannot measure or drive because a device was
  taken away.\<close>

theorem removal_keeps_targets_served:
  assumes "owned_device i u (w_db w) = Some d" and "d_room_id d = Some r"
    and "DevSvc_Delete i u w = (Inr (), w')
      \<or> (up_RoomID input \<noteq> Some r \<and> DevSvc_Update ustr now i u input w = (Inr dev, w'))"
  shows "targets_served r (w_db w')"
  using assms(3) wpD(1) [OF wp_delete_device [OF assms(1,2)]] wpD(1) [OF wp_move_device [OF assms(1,2)]] by blast

text \<open>In the example the heating period of the active schedule keeps the only device in its room; once the
  period is gone the device can be moved out.\<close>

definition idle_room :: api_world where
  "idle_room = \<lparr>w_db = demo_db\<lparr>t_periods := []\<rparr>, w_faults = [], aw_events = [], aw_logs = []\<rparr>"

theorem removal_keeps_targets_served_witness:
  "(\<exists>w'. DevSvc_Delete 20 10 idle_room = (Inr (), w') \<and> targets_served 1 (w_db w'))
   \<and> DevSvc_Delete 20 10 (idle_room\<lparr>w_db := demo_db\<rparr>)
       = (Inl (DeviceE Device_ErrCapabilityConflict), idle_room\<lparr>w_db := demo_db\<rparr>)"
proof -
  note run = DevSvc_Delete_def bindE_run DevRepo_GetByIDAndUserID_def first_or_ok owned_device_def attachCapabilities_def
    Let_def query_ok check_removal_def HasCapabilityConflictAfterRemoval_def hasTemperatureCapabilityAfterRemoval_def
    hasHumidityCapabilityAfterRemoval_def desiredStateHasConflict_def activeSchedulePeriodsHaveConflict_def active_periods_def
    unmet_def exists_sensor_def exists_actuator_def
  have "\<exists>w'. DevSvc_Delete 20 10 idle_room = (Inr (), w')"
    by (simp add: run idle_room_def demo_db_def DevRepo_Delete_def exec_ok delete_device_def)
  then obtain w' where del: "DevSvc_Delete 20 10 idle_room = (Inr (), w')" ..
  have own: "owned_device 20 10 (w_db idle_room) = Some (hd (t_devices demo_db))" "d_room_id (hd (t_devices demo_db)) = Some 1"
    by (simp_all add: owned_device_def idle_room_def demo_db_def)
  from removal_keeps_targets_served [OF own disjI1 [OF del]] del
  have "\<exists>w'. DevSvc_Delete 20 10 idle_room = (Inr (), w') \<and> targets_served 1 (w_db w')" by blast
  moreover have "DevSvc_Delete 20 10 (idle_room\<lparr>w_db := demo_db\<rparr>)
       = (Inl (DeviceE Device_ErrCapabilityConflict), idle_room\<lparr>w_db := demo_db\<rparr>)"
    by (simp add: run idle_room_def demo_db_def)
  ultimately show ?thesis by blast
qed

end
