(* ===== verification/AccountSpec.thy ===== *)
theory AccountSpec
  imports AccountApi AppDB
begin

text \<open>
  What the tokens guarantee: the access token of a login identifies that user until it expires and
  nobody afterwards; a refresh token works once when requests come one after the other, and twice when
  two of them overlap.
\<close>

section \<open>Assumptions on the libraries\<close>

text \<open>
  \<open>jwt.Parse\<close> with the right secret returns the claims that were signed, and refuses a token from the
  second of its \<open>exp\<close> on.
\<close>

definition jwt_ok :: "crypto \<Rightarrow> bool" where
  "jwt_ok cy \<longleftrightarrow> (\<forall>secret s exp t now. cy_sign cy secret s exp = Some t \<longrightarrow>
     cy_verify cy secret now t = (if now < exp * Second then Some (Some s) else None))"

section \<open>Steps\<close>

lemma redis_ok: "w_faults w = [] \<Longrightarrow> redis f w = f w"
  by (simp add: redis_def bindE_run query_ok)

lemma redis_InrD: "redis f w = (Inr x, w') \<Longrightarrow> \<exists>fs. f (w\<lparr>w_faults := fs\<rparr>) = (Inr x, w')"
  unfolding redis_def by (elim bindE_InrE) (auto dest!: query_InrD)

lemma issue_ok:
  assumes "w_faults w = []" and "newAccessToken cy ustr cfg now i = Inr a"
  shows "issueTokenPair cy ustr cfg now bytes i w = (Inr (a, newRefreshToken bytes),
     w\<lparr>au_tokens := (au_tokens w)(hashToken cy (newRefreshToken bytes) \<mapsto> (ustr i, now + cf_refreshTTL cfg))\<rparr>)"
  using assms by (simp add: issueTokenPair_def bindE_run Let_def TokRepo_Store_def redis_ok)

lemma rotate_ok:
  assumes "w_faults w = []" and "newAccessToken cy ustr cfg now i = Inr a"
  shows "rotate cy ustr cfg now bytes t i w = (Inr (a, newRefreshToken bytes),
     w\<lparr>au_tokens := (au_tokens w)(hashToken cy t := None,
         hashToken cy (newRefreshToken bytes) \<mapsto> (ustr i, now + cf_refreshTTL cfg))\<rparr>)"
  using assms by (simp add: rotate_def TokRepo_Delete_def redis_ok issue_ok)

lemma lookup_ok:
  assumes "w_faults w = []" and "live_token now (au_tokens w) (hashToken cy t) = Some v" and "uparse v = Some i"
  shows "TokRepo_GetUserID cy uparse now t w = (Inr i, w)"
  using assms by (simp add: TokRepo_GetUserID_def redis_ok)

section \<open>Properties\<close>

text \<open>C18: The access token that a login returns is accepted by the middleware as the user with that
  e-mail and password, up to the second its lifetime ends, and answered with 401 from then on.\<close>

theorem login_token_identifies_caller:
  assumes "AuthSvc_Login cy ustr cfg now bytes email password w = (Inr (a, rt), w')"
    and "jwt_ok cy" and "\<forall>usr \<in> set (t_users (w_db w)). uparse (ustr (u_id usr)) = Some (u_id usr)"
  shows "\<exists>usr \<in> set (t_users (w_db w)). u_email usr = email \<and> cy_compare cy (u_password_hash usr) password
     \<and> (\<forall>t. Middleware cy uparse cfg t (bearer @ a) =
          (if t < Unix (now + cf_accessTTL cfg) * Second then Inr (u_id usr)
           else Inl (errorJSON 401 ''invalid or expired token'')))"
proof -
  from assms(1) obtain usr w1 where u: "UserRepo_GetByEmail email w = (Inr usr, w1)"
    and pw: "cy_compare cy (u_password_hash usr) password"
    and iss: "issueTokenPair cy ustr cfg now bytes (u_id usr) w1 = (Inr (a, rt), w')"
    unfolding AuthSvc_Login_def
    by (elim bindE_InrE) (auto dest!: mapErr_InrD split: if_splits)
  from u have m: "usr \<in> set (t_users (w_db w))" "u_email usr = email"
    unfolding UserRepo_GetByEmail_def by (auto dest!: first_or_InrD find_Some_mem)
  from iss have "newAccessToken cy ustr cfg now (u_id usr) = Inr a"
    unfolding issueTokenPair_def by (elim bindE_InrE) (auto simp: Let_def elim!: bindE_InrE)
  then have "cy_sign cy (cf_secret cfg) (ustr (u_id usr)) (Unix (now + cf_accessTTL cfg)) = Some a"
    by (auto simp: newAccessToken_def Add_def split: option.splits)
  with assms(2) have "cy_verify cy (cf_secret cfg) t a = (if t < Unix (now + cf_accessTTL cfg) * Second
      then Some (Some (ustr (u_id usr))) else None)" for t
    unfolding jwt_ok_def by blast
  then have "Middleware cy uparse cfg t (bearer @ a) =
      (if t < Unix (now + cf_accessTTL cfg) * Second then Inr (u_id usr)
       else Inl (errorJSON 401 ''invalid or expired token''))" for t
    using assms(3) m(1) by (simp add: Middleware_def bearer_def ValidateAccessToken_def)
  with m pw show ?thesis by blast
qed

text \<open>C37: A refresh token is spent by its use: with a live token the refresh returns a new pair, stores the
  new token for the same user for the refresh lifetime, and every later refresh with the old token is
  refused.\<close>

theorem refresh_token_is_spent:
  assumes "live_token now (au_tokens w) (hashToken cy t) = Some (ustr i)" and "uparse (ustr i) = Some i"
    and "w_faults w = []" and "newAccessToken cy ustr cfg now i = Inr a"
    and "hashToken cy (newRefreshToken bytes) \<noteq> hashToken cy t"
  shows "\<exists>w'. AuthSvc_Refresh cy ustr uparse cfg now bytes t w = (Inr (a, newRefreshToken bytes), w')
     \<and> (\<forall>now'. live_token now' (au_tokens w') (hashToken cy (newRefreshToken bytes))
            = (if now' < now + cf_refreshTTL cfg then Some (ustr i) else None))
     \<and> (\<forall>now' bytes'. AuthSvc_Refresh cy ustr uparse cfg now' bytes' t w' = (Inl (AuthE Auth_ErrInvalidToken), w'))
     \<and> w_db w' = w_db w"
proof -
  have "AuthSvc_Refresh cy ustr uparse cfg now bytes t w = rotate cy ustr cfg now bytes t i w"
    using lookup_ok [where uparse = uparse, OF assms(3,1,2)] by (simp add: AuthSvc_Refresh_def bindE_run mapErr_run)
  also have "\<dots> = (Inr (a, newRefreshToken bytes),
     w\<lparr>au_tokens := (au_tokens w)(hashToken cy t := None,
         hashToken cy (newRefreshToken bytes) \<mapsto> (ustr i, now + cf_refreshTTL cfg))\<rparr>)" (is "_ = (_, ?w)")
    using assms(3,4) by (rule rotate_ok)
  finally have run: "AuthSvc_Refresh cy ustr uparse cfg now bytes t w = (Inr (a, newRefreshToken bytes), ?w)" .
  have "AuthSvc_Refresh cy ustr uparse cfg now' bytes' t ?w = (Inl (AuthE Auth_ErrInvalidToken), ?w)" for now' bytes'
    using assms(3,5)
    by (simp add: AuthSvc_Refresh_def bindE_run mapErr_run TokRepo_GetUserID_def redis_ok live_token_def)
  with run show ?thesis by (intro exI [of _ ?w]) (simp add: live_token_def)
qed

text \<open>The rotation does not survive concurrency: when two refreshes with the same token both look it up
  before either deletes it, the second finds the token gone, carries on, and both callers leave with a
  live refresh token of their own, so a stolen token can be turned into a session that the owner's next
  refresh does not end.\<close>

theorem concurrent_refreshes_both_succeed:
  assumes "live_token now (au_tokens w) (hashToken cy t) = Some (ustr i)" and "uparse (ustr i) = Some i"
    and "w_faults w = []" and "newAccessToken cy ustr cfg now i = Inr a" and "0 < cf_refreshTTL cfg"
    and "distinct [hashToken cy t, hashToken cy (newRefreshToken b1), hashToken cy (newRefreshToken b2)]"
  shows "\<exists>w'. bindE (TokRepo_GetUserID cy uparse now t) (\<lambda>i1.
             bindE (TokRepo_GetUserID cy uparse now t) (\<lambda>i2.
             bindE (rotate cy ustr cfg now b1 t i1) (\<lambda>p1.
             bindE (rotate cy ustr cfg now b2 t i2) (\<lambda>p2.
             returnE (p1, p2))))) w = (Inr ((a, newRefreshToken b1), (a, newRefreshToken b2)), w')
     \<and> live_token now (au_tokens w') (hashToken cy (newRefreshToken b1)) = Some (ustr i)
     \<and> live_token now (au_tokens w') (hashToken cy (newRefreshToken b2)) = Some (ustr i)"
proof -
  have "TokRepo_GetUserID cy uparse now t w = (Inr i, w)"
    using assms(1-3) by (intro lookup_ok)
  then show ?thesis
    using assms(3-6) by (auto simp: bindE_run rotate_ok live_token_def)
qed

section \<open>Witnesses\<close>

text \<open>Tokens that are the text of the identifier and expire at second 60.\<close>

definition toy_crypto :: crypto where
  "toy_crypto = \<lparr>cy_bcrypt = Some, cy_compare = (=), cy_sha256 = (\<lambda>s. s),
     cy_sign = (\<lambda>_ s e. if e = 60 then Some s else None),
     cy_verify = (\<lambda>_ now t. if now < 60 * Second then Some (Some t) else None)\<rparr>"

definition toy_config :: auth_config where
  "toy_config = \<lparr>cf_secret = ''s'', cf_accessTTL = 60 * Second, cf_refreshTTL = 100 * Second\<rparr>"

definition toy_world :: auth_world where
  "toy_world = \<lparr>w_db = demo_db, w_faults = [], aw_events = [], aw_logs = [],
     au_tokens = [hashToken toy_crypto ''old'' \<mapsto> (''u10'', 50 * Second)]\<rparr>"

lemma toy_access: "newAccessToken toy_crypto (\<lambda>_. ''u10'') toy_config 0 i = Inr ''u10''"
  by (simp add: newAccessToken_def toy_crypto_def toy_config_def Add_def Unix_def Second_def Millisecond_def Nanosecond_def
      wrap64_def)

lemma toy_live: "live_token 0 (au_tokens toy_world) (hashToken toy_crypto ''old'') = Some ''u10''"
  by (simp add: live_token_def toy_world_def Second_def Millisecond_def Nanosecond_def)

lemma toy_hashes:
  "hashToken toy_crypto (newRefreshToken ''a'') \<noteq> hashToken toy_crypto ''old''"
  "hashToken toy_crypto (newRefreshToken ''b'') \<noteq> hashToken toy_crypto ''old''"
  "hashToken toy_crypto (newRefreshToken ''a'') \<noteq> hashToken toy_crypto (newRefreshToken ''b'')"
  by (simp_all add: hashToken_def toy_crypto_def newRefreshToken_def hex_encode_def hex_digit_def)

theorem login_token_identifies_caller_witness:
  "\<exists>a rt w'. AuthSvc_Login toy_crypto (\<lambda>_. ''u10'') toy_config 0 ''a'' ''a@b.c'' ''h'' toy_world = (Inr (a, rt), w')
     \<and> Middleware toy_crypto (\<lambda>_. Some 10) toy_config (59 * Second) (bearer @ a) = Inr 10"
proof -
  have "\<exists>w'. AuthSvc_Login toy_crypto (\<lambda>_. ''u10'') toy_config 0 ''a'' ''a@b.c'' ''h'' toy_world
      = (Inr (''u10'', newRefreshToken ''a''), w')"
  proof -
    have "UserRepo_GetByEmail ''a@b.c'' toy_world = (Inr (hd (t_users demo_db)), toy_world)"
      by (simp add: UserRepo_GetByEmail_def first_or_ok toy_world_def demo_db_def)
    moreover have "cy_compare toy_crypto (u_password_hash (hd (t_users demo_db))) ''h''"
      by (simp add: toy_crypto_def demo_db_def)
    moreover have "w_faults toy_world = []" by (simp add: toy_world_def)
    ultimately show ?thesis using toy_access by (simp add: AuthSvc_Login_def bindE_run mapErr_run issue_ok)
  qed
  then obtain w' where run: "AuthSvc_Login toy_crypto (\<lambda>_. ''u10'') toy_config 0 ''a'' ''a@b.c'' ''h'' toy_world
      = (Inr (''u10'', newRefreshToken ''a''), w')" ..
  have jwt: "jwt_ok toy_crypto" by (auto simp: jwt_ok_def toy_crypto_def split: if_splits)
  have ids: "\<forall>usr \<in> set (t_users (w_db toy_world)). (\<lambda>_. Some 10) ((\<lambda>_. ''u10'') (u_id usr)) = Some (u_id usr)"
    by (simp add: toy_world_def demo_db_def)
  from login_token_identifies_caller [OF run jwt ids] obtain usr where
    "usr \<in> set (t_users (w_db toy_world))" and
    "Middleware toy_crypto (\<lambda>_. Some 10) toy_config (59 * Second) (bearer @ ''u10'')
       = (if 59 * Second < Unix (0 + cf_accessTTL toy_config) * Second then Inr (u_id usr)
          else Inl (errorJSON 401 ''invalid or expired token''))" by blast
  then have "Middleware toy_crypto (\<lambda>_. Some 10) toy_config (59 * Second) (bearer @ ''u10'') = Inr 10"
    by (simp add: toy_world_def demo_db_def toy_config_def Unix_def Second_def Millisecond_def Nanosecond_def)
  with run show ?thesis by blast
qed

theorem refresh_token_is_spent_witness:
  "\<exists>w'. AuthSvc_Refresh toy_crypto (\<lambda>_. ''u10'') (\<lambda>_. Some 10) toy_config 0 ''a'' ''old'' toy_world
       = (Inr (''u10'', newRefreshToken ''a''), w')
     \<and> AuthSvc_Refresh toy_crypto (\<lambda>_. ''u10'') (\<lambda>_. Some 10) toy_config 1 ''b'' ''old'' w' = (Inl (AuthE Auth_ErrInvalidToken), w')"
proof -
  have nf: "w_faults toy_world = []" by (simp add: toy_world_def)
  have "\<exists>w'. AuthSvc_Refresh toy_crypto (\<lambda>_. ''u10'') (\<lambda>_. Some 10) toy_config 0 ''a'' ''old'' toy_world
       = (Inr (''u10'', newRefreshToken ''a''), w')
     \<and> (\<forall>now'. live_token now' (au_tokens w') (hashToken toy_crypto (newRefreshToken ''a''))
            = (if now' < 0 + cf_refreshTTL toy_config then Some ((\<lambda>_. ''u10'') (10 :: uuid)) else None))
     \<and> (\<forall>now' bytes'. AuthSvc_Refresh toy_crypto (\<lambda>_. ''u10'') (\<lambda>_. Some 10) toy_config now' bytes' ''old'' w'
            = (Inl (AuthE Auth_ErrInvalidToken), w'))
     \<and> w_db w' = w_db toy_world"
    by (rule refresh_token_is_spent [OF toy_live _ nf toy_access toy_hashes(1)]) simp
  then show ?thesis by blast
qed

theorem concurrent_refreshes_both_succeed_witness:
  "\<exists>w'. live_token 0 (au_tokens w') (hashToken toy_crypto (newRefreshToken ''a'')) = Some ''u10''
     \<and> live_token 0 (au_tokens w') (hashToken toy_crypto (newRefreshToken ''b'')) = Some ''u10''
     \<and> (\<exists>p. bindE (TokRepo_GetUserID toy_crypto (\<lambda>_. Some (10 :: uuid)) 0 ''old'') (\<lambda>i1.
             bindE (TokRepo_GetUserID toy_crypto (\<lambda>_. Some (10 :: uuid)) 0 ''old'') (\<lambda>i2.
             bindE (rotate toy_crypto (\<lambda>_. ''u10'') toy_config 0 ''a'' ''old'' i1) (\<lambda>p1.
             bindE (rotate toy_crypto (\<lambda>_. ''u10'') toy_config 0 ''b'' ''old'' i2) (\<lambda>p2.
             returnE (p1, p2))))) toy_world = (Inr p, w'))"
proof -
  have nf: "w_faults toy_world = []" by (simp add: toy_world_def)
  have ttl: "0 < cf_refreshTTL toy_config" by (simp add: toy_config_def Second_def Millisecond_def Nanosecond_def)
  have d: "distinct [hashToken toy_crypto ''old'', hashToken toy_crypto (newRefreshToken ''a''), hashToken toy_crypto (newRefreshToken ''b'')]"
    using toy_hashes by simp
  from concurrent_refreshes_both_succeed [where uparse = "\<lambda>_. Some 10" and i = 10 and ustr = "\<lambda>_. ''u10''",
      OF toy_live refl nf toy_access ttl d]
  show ?thesis by blast
qed

end
