(* ===== verification/EndToEnd.thy ===== *)
theory EndToEnd
  imports Stream RoomSpec
begin

text \<open>
  Both services together: what the API writes and announces is what the control loop of the device
  service acts on.
\<close>

section \<open>The announcement of a desired state\<close>

lemma frames_events_reads [frame_rules]:
  "frames aw_events (RoomRepo_GetByIDAndUserID i u)" "frames aw_events (RoomRepo_GetDesiredState i)"
  "frames aw_events (HasTemperatureCapability i)" "frames aw_events (HasHumidityCapability i)"
  "frames aw_events (RoomRepo_UpdateDesiredState now ds)"
  unfolding RoomRepo_GetByIDAndUserID_def RoomRepo_GetDesiredState_def HasTemperatureCapability_def
    HasHumidityCapability_def RoomRepo_RoomCapabilities_def RoomRepo_UpdateDesiredState_def Let_def
  by (intro frame_rules)+

lemma frames_require [frame_rules]: "frames obs m \<Longrightarrow> frames obs (require_capability b m)"
  unfolding require_capability_def by (intro frame_rules)

text \<open>An operation that announces at most the one event \<open>e\<close>.\<close>

definition announces :: "XValues \<Rightarrow> ('z api_world_scheme, 'a) act \<Rightarrow> bool" where
  "announces e m \<longleftrightarrow> (\<forall>w. aw_events (snd (m w)) = aw_events w \<or> aw_events (snd (m w)) = aw_events w @ [e])"

lemma announces_xadd: "announces e (xadd e)"
  by (simp add: announces_def xadd_events)

lemma announces_after:
  assumes "frames aw_events m" and "\<And>x. announces e (k x)"
  shows "announces e (bindE m k)"
  unfolding announces_def
proof
  fix w
  obtain r w1 where m: "m w = (r, w1)" by (cases "m w")
  have k: "aw_events (snd (k x w1)) = aw_events w1 \<or> aw_events (snd (k x w1)) = aw_events w1 @ [e]" for x
    using assms(2) by (simp add: announces_def)
  from framesD [OF assms(1) m] k
  show "aw_events (snd (bindE m k w)) = aw_events w \<or> aw_events (snd (bindE m k w)) = aw_events w @ [e]"
    by (cases r) (simp_all add: bindE_run m)
qed

lemma announces_before:
  assumes "announces e m" and "\<And>x. frames aw_events (k x)"
  shows "announces e (bindE m k)"
  unfolding announces_def
proof
  fix w
  obtain r w1 where m: "m w = (r, w1)" by (cases "m w")
  with assms(1) have "aw_events w1 = aw_events w \<or> aw_events w1 = aw_events w @ [e]"
    unfolding announces_def by (metis snd_conv)
  then show "aw_events (snd (bindE m k w)) = aw_events w \<or> aw_events (snd (bindE m k w)) = aw_events w @ [e]"
    using framesD [OF assms(2)] by (auto simp: bindE_run m split: sum.split) (metis prod.collapse)+
qed

lemma announces_desired:
  "announces (room_event ustr ''desired_state_changed'' i) (RoomSvc_UpdateDesiredState ustr now i u input)"
  unfolding RoomSvc_UpdateDesiredState_def NotifyDesiredStateChanged_def
  by (intro announces_before [OF announces_xadd frames_returnE] announces_after frame_rules)

lemma desired_event:
  assumes "RoomSvc_UpdateDesiredState ustr now i u input w = (Inr ds, w')" and "aw_events w' = aw_events w @ [m]"
  shows "m = room_event ustr ''desired_state_changed'' i"
  using announces_desired [of ustr i now u input] assms unfolding announces_def
  by (metis append_self_conv list.distinct(1) list.inject same_append_eq snd_conv)

section \<open>From the request to the control loop\<close>

text \<open>The desired state in a cache entry is the one of the request, with the targets as stored.\<close>

definition cached_as :: "UpdateDesiredStateInput \<Rightarrow> DesiredStateCache \<Rightarrow> bool" where
  "cached_as input c \<longleftrightarrow> dsc_Mode c = ui_Mode input \<and> dsc_ManualActive c = ui_ManualActive input
     \<and> dsc_ManualOverrideUntil c = ui_ManualOverrideUntil input
     \<and> (\<exists>t h. store_between 5 40 (ui_TargetTemp input) = Some t \<and> store_between 0 100 (ui_TargetHum input) = Some h
          \<and> dsc_Targets c = target_map t h)"

lemma represents_stored:
  assumes ok: "db_ok db" and rep: "desired_matches db r c"
    and ds: "List.find (\<lambda>d. ds_room_id d = r) (t_desired db) = Some ds" "stored_as input ds"
  shows "cached_as input c"
proof -
  from find_Some_mem [OF ds(1)] have m: "ds \<in> set (t_desired db)" "ds_room_id ds = r" by simp_all
  then have "\<exists>d \<in> set (t_desired db). ds_room_id d = r" by blast
  with rep obtain d where d: "d \<in> set (t_desired db)" "ds_room_id d = r" "dsc_Mode c = ds_mode d"
    "dsc_ManualActive c = ds_manual_active d" "dsc_Targets c = target_map (ds_target_temp d) (ds_target_hum d)"
    "dsc_ManualOverrideUntil c = ds_manual_override_until d"
    unfolding desired_matches_def by (simp only: if_True) blast
  have "d = ds" by (rule same_key [OF keysD(4) [OF ok] d(1) m(1)]) (simp add: d(2) m(2))
  with d ds(2) show ?thesis by (auto simp: cached_as_def stored_as_def)
qed


definition off_input :: UpdateDesiredStateInput where
  "off_input = \<lparr>ui_Mode = ''OFF'', ui_ManualActive = True, ui_TargetTemp = None, ui_TargetHum = None,
     ui_ManualOverrideUntil = Some indefiniteOverride\<rparr>"


section \<open>From the schedule checks to the control loop\<close>

text \<open>Every stored time is written with two-digit hours.\<close>

definition padded_times :: "appdb \<Rightarrow> bool" where
  "padded_times db \<longleftrightarrow> (\<forall>p \<in> set (t_periods db).
     (length (p_start_time p) = 5 \<and> Parse_15_04 (p_start_time p) \<noteq> None)
   \<and> (length (p_end_time p) = 5 \<and> Parse_15_04 (p_end_time p) \<noteq> None))"

lemma padded_minutes:
  assumes "padded_times db" and "p \<in> set (t_periods db)" and "q \<in> set (t_periods db)"
    and "parseTimeToMinutes (p_start_time p) = Inr a" and "parseTimeToMinutes (p_end_time q) = Inr b"
  shows "p_start_time p < p_end_time q \<longleftrightarrow> a < b"
proof -
  from assms(1,2) have s: "length (p_start_time p) = 5" "Parse_15_04 (p_start_time p) \<noteq> None"
    by (simp_all add: padded_times_def)
  from assms(1,3) have e: "length (p_end_time q) = 5" "Parse_15_04 (p_end_time q) \<noteq> None"
    by (simp_all add: padded_times_def)
  from s obtain h m where st: "Parse_15_04 (p_start_time p) = Some (h, m)" "length (p_start_time p) = 5" by auto
  from e obtain h' m' where en: "Parse_15_04 (p_end_time q) = Some (h', m')" "length (p_end_time q) = 5" by auto
  from parseTimeToMinutes_Parse [OF st(1)] parseTimeToMinutes_Parse [OF en(1)] assms(4,5)
  have "a = 60 * h + m" "b = 60 * h' + m'" by simp_all
  with padded_order [OF st(1) en(1) st(2) en(2)] show ?thesis by simp
qed

lemma disjoint_periods:
  assumes inv: "api_inv db" and pad: "padded_times db"
    and pq: "(p, s) \<in> active_pairs db r" "(q, s') \<in> active_pairs db r"
    and match: "period_matches (period_row_of p s) c" "period_matches (period_row_of q s') c'"
    and day: "1 \<le> day" "day \<le> 7" and cov: "covers day mins c" "covers day mins c'"
  shows "p_id p = p_id q"
proof (rule ccontr)
  assume ne: "p_id p \<noteq> p_id q"
  from pq have m: "p \<in> set (t_periods db)" "q \<in> set (t_periods db)" "s \<in> set (t_schedules db)" "s' \<in> set (t_schedules db)"
    and ids: "sc_id s = p_schedule_id p" "sc_id s' = p_schedule_id q"
    and act: "sc_is_active s" "sc_is_active s'" "sc_room_id s = sc_room_id s'" by (auto simp: active_pairs_def)
  note ok = api_invD(1) [OF inv]
  from ok have "one_active db" by (simp add: db_ok_def)
  with one_active_iff [OF keysD(5) [OF ok]] m(3,4) act have "sc_id s = sc_id s'" by blast
  with ids api_invD(3) [OF inv] m(1,2) ne have no: "\<not> overlaps (p_days_of_week q) (p_start_time q) (p_end_time q) p"
    unfolding periods_disjoint_def by metis
  have days: "day \<in> set (p_days_of_week p)" "day \<in> set (p_days_of_week q)"
    using match day cov by (auto simp: period_matches_def period_row_of_def covers_def)
  have times: "parseTimeToMinutes (p_start_time p) = Inr (spc_StartMinutes c)"
    "parseTimeToMinutes (p_end_time p) = Inr (spc_EndMinutes c)"
    "parseTimeToMinutes (p_start_time q) = Inr (spc_StartMinutes c')"
    "parseTimeToMinutes (p_end_time q) = Inr (spc_EndMinutes c')"
    using match by (simp_all add: period_matches_def period_row_of_def)
  have "p_start_time p < p_end_time q" "p_start_time q < p_end_time p"
    using padded_minutes [OF pad m(1,2) times(1,4)] padded_minutes [OF pad m(2,1) times(3,2)] cov
    by (simp_all add: covers_def)
  with days no show False by (auto simp: overlaps_def)
qed

text \<open>C15: The schedule the control loop follows is unambiguous: under the invariant that every API history
  keeps, and when all stored times are zero-padded, at most one period of a reloaded room covers any
  minute of any day, so "the first matching period" does not depend on the order in which the
  database returns them.\<close>

theorem loaded_periods_never_collide:
  assumes "api_inv (w_db v)" and "padded_times (w_db v)"
    and "ReloadRoom tz r v = (Inr x, v')" and "wf_store (dw_store v)" and "room_view (dw_store v') r = Some rv"
    and "c \<in> set (rc_ActivePeriods rv)" and "c' \<in> set (rc_ActivePeriods rv)"
    and "1 \<le> day" and "day \<le> 7" and "covers day mins c" and "covers day mins c'"
  shows "spc_ID c = spc_ID c' \<and> spc_Mode c = spc_Mode c' \<and> spc_Targets c = spc_Targets c'"
proof -
  from ReloadRoom_coherent [OF assms(3,4)] assms(5) have rep: "represents_room tz (w_db v) r rv" by simp
  from rep assms(6) obtain p s where p: "(p, s) \<in> active_pairs (w_db v) r" "period_matches (period_row_of p s) c"
    by (auto simp: represents_room_def)
  from rep assms(7) obtain q s' where q: "(q, s') \<in> active_pairs (w_db v) r" "period_matches (period_row_of q s') c'"
    by (auto simp: represents_room_def)
  have "p_id p = p_id q" by (rule disjoint_periods [OF assms(1,2) p(1) q(1) p(2) q(2) assms(8-11)])
  moreover have "p \<in> set (t_periods (w_db v))" "q \<in> set (t_periods (w_db v))"
    using p(1) q(1) by (auto simp: active_pairs_def)
  ultimately have "p = q" using same_key [OF keysD(6) [OF api_invD(1) [OF assms(1)]]] by blast
  with p(2) q(2) show ?thesis by (simp add: period_matches_def period_row_of_def)
qed

text \<open>Two periods that touch at 09:00.\<close>

definition two_periods :: appdb where
  "two_periods = demo_db\<lparr>t_periods := t_periods demo_db @ [(hd (t_periods demo_db))\<lparr>p_id := 8,
     p_start_time := ''09:00'', p_end_time := ''10:00''\<rparr>]\<rparr>"

lemma two_periods_times: "Parse_15_04 ''08:00'' = Some (8, 0)" "Parse_15_04 ''09:00'' = Some (9, 0)"
  "Parse_15_04 ''10:00'' = Some (10, 0)"
  by (simp_all add: Parse_15_04_def getnum_def is_digit_def digit_val_def)

theorem loaded_periods_never_collide_witness:
  "\<exists>v' rv. ReloadRoom (\<lambda>_. None) 1 (demo_svc\<lparr>w_db := two_periods\<rparr>) = (Inr (), v') \<and> room_view (dw_store v') 1 = Some rv
     \<and> (\<forall>c \<in> set (rc_ActivePeriods rv). \<forall>c' \<in> set (rc_ActivePeriods rv). \<forall>mins.
          covers 1 mins c \<longrightarrow> covers 1 mins c' \<longrightarrow> spc_ID c = spc_ID c')"
proof -
  let ?v = "demo_svc\<lparr>w_db := two_periods\<rparr>"
  have inv: "api_inv (w_db ?v)"
    by (simp add: api_inv_def db_ok_defs owner_ok_def periods_disjoint_def overlaps_def two_periods_def demo_db_def)
  have pad: "padded_times (w_db ?v)"
    by (simp add: padded_times_def two_periods_def demo_db_def two_periods_times)
  have "w_faults ?v = []" "convertible (\<lambda>_. None) (w_db ?v)"
    using demo_convertible
    by (simp_all add: demo_svc_def init_svc_def convertible_def two_periods_def demo_db_def two_periods_times)
  then obtain v' where v': "ReloadRoom (\<lambda>_. None) 1 ?v = (Inr (), v')" using ReloadRoom_total by blast
  have wf: "wf_store (dw_store ?v)" using demo_svc_facts(1) by simp
  have "room_view (dw_store v') 1 \<noteq> None"
  proof
    assume "room_view (dw_store v') 1 = None"
    with ReloadRoom_coherent [OF v' wf] show False by (auto simp: two_periods_def demo_db_def)
  qed
  then obtain rv where rv: "room_view (dw_store v') 1 = Some rv" by blast
  have one: "(1 :: int) \<le> 1" "(1 :: int) \<le> 7" by simp_all
  have "spc_ID c = spc_ID c'" if "c \<in> set (rc_ActivePeriods rv)" "c' \<in> set (rc_ActivePeriods rv)"
    "covers 1 mins c" "covers 1 mins c'" for c c' mins
    using loaded_periods_never_collide [OF inv pad v' wf rv that(1,2) one that(3,4)] by (rule conjunct1)
  with v' rv show ?thesis by blast
qed

end
