(* ===== verification/SimConfig.thy ===== *)
theory SimConfig
  imports GoStd
begin

text \<open>
  Package \<open>simulator-service/internal/config\<close>: the simulator's topology and physical parameters, resolved
  from template files, a simulation file and environment variables. Reading a file, decoding its YAML
  and reading the environment are arguments of \<open>Load\<close>; everything in between is modelled: overrides,
  template resolution, scaling against the physical constants, the time scale and publish interval,
  and the validation of name prefixes. \<open>float64\<close> values are exact rationals.
\<close>

section \<open>Constants\<close>

definition baseThermalMass :: "string \<Rightarrow> float64" where
  "baseThermalMass typ = (if typ = ''temperature'' then 10000000 else if typ = ''humidity'' then 325 else 1)"

definition baseConductance :: "string \<Rightarrow> float64" where
  "baseConductance typ = (if typ = ''temperature'' then 100 else if typ = ''humidity'' then 1 / 1000 else 1)"

definition baseRate :: "string \<Rightarrow> float64" where
  "baseRate typ = (if typ = ''temperature'' then 1000 else if typ = ''humidity'' then 9 / 1000 else 1)"

definition defaultMinPublishIntervalMS :: int where "defaultMinPublishIntervalMS = 500"
definition defaultTimeScale :: float64 where "defaultTimeScale = 1"
definition defaultRoomType :: string where "defaultRoomType = ''static''"
definition maxTimeScale :: int where "maxTimeScale = 400"
definition watchdogMultiplier :: int where "watchdogMultiplier = 3"

definition MeasurementBounds :: "string \<rightharpoonup> float64 \<times> float64" where
  "MeasurementBounds = [''temperature'' \<mapsto> (5, 40), ''humidity'' \<mapsto> (0, 100)]"

definition MeasurementToActuatorName :: "string \<rightharpoonup> string" where
  "MeasurementToActuatorName = [''temperature'' \<mapsto> ''heater'', ''humidity'' \<mapsto> ''humidifier'']"

definition ActuatorNameToMeasurement :: "string \<rightharpoonup> string" where
  "ActuatorNameToMeasurement = [''heater'' \<mapsto> ''temperature'', ''humidifier'' \<mapsto> ''humidity'']"

text \<open>The two translations are inverse to each other.\<close>

lemma actuator_names:
  "MeasurementToActuatorName typ = Some name \<longleftrightarrow> ActuatorNameToMeasurement name = Some typ"
  by (auto simp: MeasurementToActuatorName_def ActuatorNameToMeasurement_def split: if_splits)

section \<open>Resolved configuration\<close>

record MeasurementConfig =
  mc_Base :: float64
  mc_ThermalMass :: float64
  mc_Conductance :: float64
  mc_Noise :: float64

record SensorConfig =
  sen_Type :: string
  sen_Noise :: float64
  sen_Offset :: float64

record ActuatorConfig =
  acf_Type :: string
  acf_Rate :: float64

record DeviceDef =
  dv_NamePrefix :: string
  dv_Count :: int
  dv_Sensors :: "SensorConfig list"
  dv_Actuators :: "ActuatorConfig list"

record ResolvedDesiredState =
  rds_TargetTemp :: "float64 option"
  rds_TargetHum :: "float64 option"

record ResolvedPeriod =
  rp_DaysOfWeek :: "int list"
  rp_StartTime :: string
  rp_EndTime :: string
  rp_Mode :: string
  rp_TargetTemp :: "float64 option"
  rp_TargetHum :: "float64 option"

record ResolvedSchedule =
  rsc_Name :: string
  rsc_Periods :: "ResolvedPeriod list"

record RoomDef =
  rmd_NamePrefix :: string
  rmd_Count :: int
  rmd_Type :: string
  rmd_Noisy :: bool
  rmd_Measurements :: "string \<rightharpoonup> MeasurementConfig"
  rmd_Devices :: "DeviceDef list"
  rmd_DesiredState :: "ResolvedDesiredState option"
  rmd_Schedule :: "ResolvedSchedule option"

record UserGroup =
  ug_Count :: int
  ug_Interactive :: bool
  ug_Rooms :: "RoomDef list"

record Simulation =
  sim_Name :: string
  sim_TimeScale :: float64
  sim_MinPublishIntervalMS :: int
  sim_UserGroups :: "UserGroup list"

record Config =
  cf_APIURL :: string
  cf_MQTTHost :: string
  cf_MQTTPort :: int
  cf_MQTTClientID :: string
  cf_MQTTUsername :: string
  cf_MQTTPassword :: string
  cf_EmailTemplate :: string
  cf_Password :: string
  cf_BaseTickSeconds :: int
  cf_EffectivePublishInterval :: duration
  cf_SimulatedTickSeconds :: float64
  cf_Simulation :: Simulation

definition WatchdogTimeoutSeconds :: "Config \<Rightarrow> int" where
  "WatchdogTimeoutSeconds c = wrap64 (cf_BaseTickSeconds c * watchdogMultiplier)"

section \<open>Raw YAML\<close>

record rawMeasurementConfig =
  rmc_Base :: float64
  rmc_Noise :: float64
  rmc_ThermalMassScale :: float64
  rmc_ConductanceScale :: float64

record rawRoomTemplate =
  rrt_ID :: string
  rrt_Measurements :: "string \<rightharpoonup> rawMeasurementConfig"

record rawSensorConfig =
  rsn_Type :: string
  rsn_Noise :: float64
  rsn_Offset :: float64

record rawActuatorConfig =
  rac_Type :: string
  rac_RateScale :: float64

record rawDeviceTemplate =
  rdt_ID :: string
  rdt_Sensors :: "rawSensorConfig list"
  rdt_Actuators :: "rawActuatorConfig list"

record rawDesiredStateTemplate =
  rst_ID :: string
  rst_TargetTemp :: "float64 option"
  rst_TargetHum :: "float64 option"

record rawPeriodTemplate =
  rpt_DaysOfWeek :: "int list"
  rpt_StartTime :: string
  rpt_EndTime :: string
  rpt_Mode :: string
  rpt_TargetTemp :: "float64 option"
  rpt_TargetHum :: "float64 option"

record rawScheduleTemplate =
  rcht_ID :: string
  rcht_Name :: string
  rcht_Periods :: "rawPeriodTemplate list"

record rawDevice =
  rdv_Template :: string
  rdv_NamePrefix :: string
  rdv_Count :: int
  rdv_RateScale :: "float64 option"

record rawRoom =
  rrm_Template :: string
  rrm_NamePrefix :: string
  rrm_Count :: int
  rrm_Type :: string
  rrm_Noisy :: bool
  rrm_ThermalMassScale :: "float64 option"
  rrm_ConductanceScale :: "float64 option"
  rrm_Devices :: "rawDevice list"
  rrm_DesiredStateRef :: string
  rrm_TargetTemp :: "float64 option"
  rrm_TargetHum :: "float64 option"
  rrm_ScheduleRef :: string

record rawUserGroup =
  rug_Count :: int
  rug_Interactive :: bool
  rug_Rooms :: "rawRoom list"

record rawSimulationBlock =
  rsb_TimeScale :: float64
  rsb_MinPublishIntervalMS :: int
  rsb_UserGroups :: "rawUserGroup list"

record rawTemplateOverrides =
  rto_RoomTemplates :: "rawRoomTemplate list"
  rto_DeviceTemplates :: "rawDeviceTemplate list"

record rawSimulation =
  rsi_TemplateOverrides :: rawTemplateOverrides
  rsi_Simulation :: rawSimulationBlock

section \<open>Resolution\<close>

text \<open>\<open>%q\<close> of a printable string without quotes or backslashes; such texts only reach the log.\<close>

definition Quote :: "string \<Rightarrow> string" where
  "Quote s = [CHR 0x22] @ s @ [CHR 0x22]"

text \<open>\<open>templates[t.ID] = t\<close> for every template of the file, then the simulation's overrides.\<close>

definition by_id :: "('t \<Rightarrow> string) \<Rightarrow> 't list \<Rightarrow> (string \<rightharpoonup> 't)" where
  "by_id key ts = foldl (\<lambda>m t. m(key t \<mapsto> t)) Map.empty ts"

definition applyRoomOverrides ::
    "(string \<rightharpoonup> rawRoomTemplate) \<Rightarrow> rawRoomTemplate list \<Rightarrow> (string \<rightharpoonup> rawRoomTemplate)" where
  "applyRoomOverrides base overrides = foldl (\<lambda>m t. m(rrt_ID t \<mapsto> t)) base overrides"

definition applyDeviceOverrides ::
    "(string \<rightharpoonup> rawDeviceTemplate) \<Rightarrow> rawDeviceTemplate list \<Rightarrow> (string \<rightharpoonup> rawDeviceTemplate)" where
  "applyDeviceOverrides base overrides = foldl (\<lambda>m t. m(rdt_ID t \<mapsto> t)) base overrides"

definition resolve_scale :: "float64 \<Rightarrow> float64 option \<Rightarrow> float64" where
  "resolve_scale templateScale simScale =
     (let scale = (if templateScale = 0 then 1 else templateScale)
      in case simScale of None \<Rightarrow> scale | Some s \<Rightarrow> s)"

definition resolveMeasurements ::
    "(string \<rightharpoonup> rawMeasurementConfig) \<Rightarrow> bool \<Rightarrow> float64 option \<Rightarrow> float64 option
     \<Rightarrow> (string \<rightharpoonup> MeasurementConfig)" where
  "resolveMeasurements raw noisy simThermalMassScale simConductanceScale = (\<lambda>typ. case raw typ of
     None \<Rightarrow> None
   | Some m \<Rightarrow> Some \<lparr>mc_Base = rmc_Base m,
       mc_ThermalMass = baseThermalMass typ * resolve_scale (rmc_ThermalMassScale m) simThermalMassScale,
       mc_Conductance = baseConductance typ * resolve_scale (rmc_ConductanceScale m) simConductanceScale,
       mc_Noise = (if noisy then rmc_Noise m else 0)\<rparr>)"

definition resolveDevice :: "rawDevice \<Rightarrow> rawDeviceTemplate \<Rightarrow> DeviceDef" where
  "resolveDevice rd tpl =
     \<lparr>dv_NamePrefix = rdv_NamePrefix rd, dv_Count = rdv_Count rd,
      dv_Sensors = map (\<lambda>s. \<lparr>sen_Type = rsn_Type s, sen_Noise = rsn_Noise s, sen_Offset = rsn_Offset s\<rparr>)
        (rdt_Sensors tpl),
      dv_Actuators = map (\<lambda>a. \<lparr>acf_Type = rac_Type a,
          acf_Rate = baseRate (rac_Type a) * resolve_scale (rac_RateScale a) (rdv_RateScale rd)\<rparr>)
        (rdt_Actuators tpl)\<rparr>"

definition resolveDesiredState ::
    "rawRoom \<Rightarrow> (string \<rightharpoonup> rawDesiredStateTemplate) \<Rightarrow> error + ResolvedDesiredState option" where
  "resolveDesiredState rr tpls =
     bindR (if rrm_DesiredStateRef rr \<noteq> [] then
              (case tpls (rrm_DesiredStateRef rr) of
                 None \<Rightarrow> Inl (Msg (''desired_state template '' @ Quote (rrm_DesiredStateRef rr) @ '' not found''))
               | Some tpl \<Rightarrow> Inr tpl)
            else Inr \<lparr>rst_ID = [], rst_TargetTemp = None, rst_TargetHum = None\<rparr>) (\<lambda>base.
     let targetTemp = (if rrm_TargetTemp rr \<noteq> None then rrm_TargetTemp rr else rst_TargetTemp base);
         targetHum = (if rrm_TargetHum rr \<noteq> None then rrm_TargetHum rr else rst_TargetHum base)
     in if targetTemp = None \<and> targetHum = None then Inr None
        else Inr (Some \<lparr>rds_TargetTemp = targetTemp, rds_TargetHum = targetHum\<rparr>))"

definition resolve_period :: "rawPeriodTemplate \<Rightarrow> ResolvedPeriod" where
  "resolve_period p = \<lparr>rp_DaysOfWeek = rpt_DaysOfWeek p, rp_StartTime = rpt_StartTime p,
     rp_EndTime = rpt_EndTime p, rp_Mode = rpt_Mode p, rp_TargetTemp = rpt_TargetTemp p,
     rp_TargetHum = rpt_TargetHum p\<rparr>"

definition resolveSchedule ::
    "rawRoom \<Rightarrow> (string \<rightharpoonup> rawScheduleTemplate) \<Rightarrow> error + ResolvedSchedule option" where
  "resolveSchedule rr tpls =
     (if rrm_ScheduleRef rr = [] then Inr None
      else case tpls (rrm_ScheduleRef rr) of
        None \<Rightarrow> Inl (Msg (''schedule template '' @ Quote (rrm_ScheduleRef rr) @ '' not found''))
      | Some tpl \<Rightarrow> Inr (Some \<lparr>rsc_Name = rcht_Name tpl, rsc_Periods = map resolve_period (rcht_Periods tpl)\<rparr>))"

definition room_error :: "rawRoom \<Rightarrow> error \<Rightarrow> error" where
  "room_error rr = Wrap (''room '' @ Quote (rrm_NamePrefix rr))"

definition resolve_room ::
    "(string \<rightharpoonup> rawRoomTemplate) \<Rightarrow> (string \<rightharpoonup> rawDeviceTemplate) \<Rightarrow> (string \<rightharpoonup> rawDesiredStateTemplate)
     \<Rightarrow> (string \<rightharpoonup> rawScheduleTemplate) \<Rightarrow> rawRoom \<Rightarrow> error + RoomDef" where
  "resolve_room roomTpls devTpls dsTpls schedTpls rr = (case roomTpls (rrm_Template rr) of
     None \<Rightarrow> Inl (Msg (''room template '' @ Quote (rrm_Template rr) @ '' not found''))
   | Some tpl \<Rightarrow>
       bindR (eachR (\<lambda>rd. case devTpls (rdv_Template rd) of
           None \<Rightarrow> Inl (Msg (''device template '' @ Quote (rdv_Template rd) @ '' not found''))
         | Some dtpl \<Rightarrow> Inr (resolveDevice rd dtpl)) (rrm_Devices rr)) (\<lambda>devices.
       bindR (mapErrR (room_error rr) (resolveDesiredState rr dsTpls)) (\<lambda>ds.
       bindR (mapErrR (room_error rr) (resolveSchedule rr schedTpls)) (\<lambda>sched.
       if ds \<noteq> None \<and> sched \<noteq> None
       then Inl (Msg (''room '' @ Quote (rrm_NamePrefix rr) @ '': desired_state and schedule are mutually exclusive''))
       else Inr \<lparr>rmd_NamePrefix = rrm_NamePrefix rr, rmd_Count = rrm_Count rr,
          rmd_Type = (if rrm_Type rr = [] then defaultRoomType else rrm_Type rr), rmd_Noisy = rrm_Noisy rr,
          rmd_Measurements = resolveMeasurements (rrt_Measurements tpl) (rrm_Noisy rr)
            (rrm_ThermalMassScale rr) (rrm_ConductanceScale rr),
          rmd_Devices = devices, rmd_DesiredState = ds, rmd_Schedule = sched\<rparr>))))"

definition resolve_group ::
    "(string \<rightharpoonup> rawRoomTemplate) \<Rightarrow> (string \<rightharpoonup> rawDeviceTemplate) \<Rightarrow> (string \<rightharpoonup> rawDesiredStateTemplate)
     \<Rightarrow> (string \<rightharpoonup> rawScheduleTemplate) \<Rightarrow> rawUserGroup \<Rightarrow> error + UserGroup" where
  "resolve_group roomTpls devTpls dsTpls schedTpls rg =
     bindR (eachR (resolve_room roomTpls devTpls dsTpls schedTpls) (rug_Rooms rg)) (\<lambda>rooms.
     Inr \<lparr>ug_Count = rug_Count rg, ug_Interactive = rug_Interactive rg, ug_Rooms = rooms\<rparr>)"

text \<open>\<open>%.0f\<close>: the nearest integer, halves to even.\<close>

definition round_half_even :: "float64 \<Rightarrow> int" where
  "round_half_even x = (let f = \<lfloor>x\<rfloor> in
     if x - of_int f < 1 / 2 then f else if 1 / 2 < x - of_int f then f + 1 else if even f then f else f + 1)"

definition resolveSimulation ::
    "string \<Rightarrow> rawSimulationBlock \<Rightarrow> (string \<rightharpoonup> rawRoomTemplate) \<Rightarrow> (string \<rightharpoonup> rawDeviceTemplate)
     \<Rightarrow> (string \<rightharpoonup> rawDesiredStateTemplate) \<Rightarrow> (string \<rightharpoonup> rawScheduleTemplate) \<Rightarrow> error + Simulation" where
  "resolveSimulation name raw roomTpls devTpls dsTpls schedTpls =
     (let timeScale = (if rsb_TimeScale raw \<le> 0 then defaultTimeScale else rsb_TimeScale raw);
          minPublishIntervalMS = (if rsb_MinPublishIntervalMS raw \<le> 0 then defaultMinPublishIntervalMS
                                  else rsb_MinPublishIntervalMS raw)
      in if of_int maxTimeScale < timeScale
         then Inl (Msg (''time_scale '' @ dec (nat (round_half_even timeScale)) @ '' exceeds maximum of ''
                @ dec (nat maxTimeScale)))
         else bindR (eachR (resolve_group roomTpls devTpls dsTpls schedTpls) (rsb_UserGroups raw)) (\<lambda>groups.
           Inr \<lparr>sim_Name = name, sim_TimeScale = timeScale, sim_MinPublishIntervalMS = minPublishIntervalMS,
                sim_UserGroups = groups\<rparr>))"

section \<open>Validation\<close>

text \<open>The loops with their \<open>map[string]bool\<close> of the prefixes seen so far, here a list; the first duplicate
  is the error.\<close>

fun duplicate_device :: "string list \<Rightarrow> DeviceDef list \<Rightarrow> string option" where
  "duplicate_device seen [] = None"
| "duplicate_device seen (dev # devs) =
     (if dv_NamePrefix dev \<in> set seen then Some (dv_NamePrefix dev)
      else duplicate_device (dv_NamePrefix dev # seen) devs)"

fun validate_rooms :: "nat \<Rightarrow> string list \<Rightarrow> RoomDef list \<Rightarrow> error + unit" where
  "validate_rooms i seen [] = Inr ()"
| "validate_rooms i seen (rm # rms) =
     (if rmd_NamePrefix rm \<in> set seen
      then Inl (Msg (''user group '' @ dec i @ '' has duplicate room name_prefix '' @ Quote (rmd_NamePrefix rm)))
      else (case duplicate_device [] (rmd_Devices rm) of
         Some p \<Rightarrow> Inl (Msg (''room '' @ Quote (rmd_NamePrefix rm) @ '' in user group '' @ dec i
                      @ '' has duplicate device name_prefix '' @ Quote p))
       | None \<Rightarrow> validate_rooms i (rmd_NamePrefix rm # seen) rms))"

fun validate_groups :: "nat \<Rightarrow> UserGroup list \<Rightarrow> error + unit" where
  "validate_groups i [] = Inr ()"
| "validate_groups i (g # gs) = bindR (validate_rooms i [] (ug_Rooms g)) (\<lambda>_. validate_groups (Suc i) gs)"

definition validateSimulation :: "Simulation \<Rightarrow> error + unit" where
  "validateSimulation sim = validate_groups 0 (sim_UserGroups sim)"

section \<open>Load\<close>

text \<open>The file system, the YAML decoder (one per document type) and the environment.\<close>

record loader =
  ld_ReadFile :: "string \<Rightarrow> error + string"
  ld_rooms :: "string \<Rightarrow> error + rawRoomTemplate list"
  ld_devices :: "string \<Rightarrow> error + rawDeviceTemplate list"
  ld_desired_states :: "string \<Rightarrow> error + rawDesiredStateTemplate list"
  ld_schedules :: "string \<Rightarrow> error + rawScheduleTemplate list"
  ld_simulation :: "string \<Rightarrow> error + rawSimulation"
  ld_Getenv :: "string \<Rightarrow> string"

definition loadRoomTemplates :: "loader \<Rightarrow> string \<Rightarrow> error + (string \<rightharpoonup> rawRoomTemplate)" where
  "loadRoomTemplates ld path =
     bindR (ld_ReadFile ld path) (\<lambda>data. bindR (ld_rooms ld data) (\<lambda>raw. Inr (by_id rrt_ID raw)))"

definition loadDeviceTemplates :: "loader \<Rightarrow> string \<Rightarrow> error + (string \<rightharpoonup> rawDeviceTemplate)" where
  "loadDeviceTemplates ld path =
     bindR (ld_ReadFile ld path) (\<lambda>data. bindR (ld_devices ld data) (\<lambda>raw. Inr (by_id rdt_ID raw)))"

definition loadDesiredStateTemplates :: "loader \<Rightarrow> string \<Rightarrow> error + (string \<rightharpoonup> rawDesiredStateTemplate)" where
  "loadDesiredStateTemplates ld path =
     bindR (ld_ReadFile ld path) (\<lambda>data. bindR (ld_desired_states ld data) (\<lambda>raw. Inr (by_id rst_ID raw)))"

definition loadScheduleTemplates :: "loader \<Rightarrow> string \<Rightarrow> error + (string \<rightharpoonup> rawScheduleTemplate)" where
  "loadScheduleTemplates ld path =
     bindR (ld_ReadFile ld path) (\<lambda>data. bindR (ld_schedules ld data) (\<lambda>raw. Inr (by_id rcht_ID raw)))"

definition loadSimulation :: "loader \<Rightarrow> string \<Rightarrow> error + rawSimulation" where
  "loadSimulation ld path = bindR (ld_ReadFile ld path) (ld_simulation ld)"

definition mustGetEnv :: "loader \<Rightarrow> string \<Rightarrow> error + string" where
  "mustGetEnv ld key =
     (let v = ld_Getenv ld key
      in if v = [] then Inl (Panic (''required env var '' @ Quote key @ '' is not set'')) else Inr v)"

definition mustGetEnvInt :: "loader \<Rightarrow> string \<Rightarrow> error + int" where
  "mustGetEnvInt ld key = bindR (mustGetEnv ld key) (\<lambda>v. case Atoi v of
     None \<Rightarrow> Inl (Msg (''env var '' @ Quote key @ '' must be an integer''))
   | Some n \<Rightarrow> Inr n)"

text \<open>\<open>float64 -> int64\<close> drops the fraction.\<close>

definition trunc :: "float64 \<Rightarrow> int" where
  "trunc x = (if 0 \<le> x then \<lfloor>x\<rfloor> else \<lceil>x\<rceil>)"

definition Seconds :: "duration \<Rightarrow> float64" where
  "Seconds d = of_int d / of_int Second"

definition publishInterval :: "int \<Rightarrow> Simulation \<Rightarrow> duration" where
  "publishInterval baseTickSeconds simulation =
     (let minPublishInterval = wrap64 (sim_MinPublishIntervalMS simulation * Millisecond);
          naturalInterval = trunc (of_int Second * of_int baseTickSeconds / sim_TimeScale simulation)
      in if naturalInterval < minPublishInterval then minPublishInterval else naturalInterval)"

definition Load :: "loader \<Rightarrow> string \<Rightarrow> error + Config" where
  "Load ld simulationName =
     bindR (mapErrR (Wrap ''load room templates'')
       (loadRoomTemplates ld ''/app/config/templates/rooms.yaml'')) (\<lambda>roomTemplates.
     bindR (mapErrR (Wrap ''load device templates'')
       (loadDeviceTemplates ld ''/app/config/templates/devices.yaml'')) (\<lambda>deviceTemplates.
     bindR (mapErrR (Wrap ''load desired state templates'')
       (loadDesiredStateTemplates ld ''/app/config/templates/desired_states.yaml'')) (\<lambda>desiredStateTemplates.
     bindR (mapErrR (Wrap ''load schedule templates'')
       (loadScheduleTemplates ld ''/app/config/templates/schedules.yaml'')) (\<lambda>scheduleTemplates.
     bindR (mapErrR (Wrap (''load simulation '' @ Quote simulationName))
       (loadSimulation ld (''/app/config/simulations/'' @ simulationName @ ''.yaml''))) (\<lambda>rawSim.
     bindR (mapErrR (Wrap ''resolve simulation'')
       (resolveSimulation simulationName (rsi_Simulation rawSim)
          (applyRoomOverrides roomTemplates (rto_RoomTemplates (rsi_TemplateOverrides rawSim)))
          (applyDeviceOverrides deviceTemplates (rto_DeviceTemplates (rsi_TemplateOverrides rawSim)))
          desiredStateTemplates scheduleTemplates)) (\<lambda>simulation.
     bindR (mapErrR (Wrap (''invalid simulation '' @ Quote simulationName))
       (validateSimulation simulation)) (\<lambda>_.
     bindR (mustGetEnvInt ld ''CONTROL_TICK_INTERVAL_SECONDS'') (\<lambda>baseTickSeconds.
     let effectivePublishInterval = publishInterval baseTickSeconds simulation;
         simulatedTickSeconds = sim_TimeScale simulation * Seconds effectivePublishInterval
     in bindR (mustGetEnv ld ''MQTT_DEVICE_USERNAME'') (\<lambda>mqttUser.
        bindR (mustGetEnv ld ''MQTT_DEVICE_PASSWORD'') (\<lambda>mqttPassword.
        bindR (mustGetEnv ld ''SIMULATOR_EMAIL'') (\<lambda>email.
        bindR (mustGetEnv ld ''SIMULATOR_PASSWORD'') (\<lambda>password.
        Inr \<lparr>cf_APIURL = ''http://api-service:8080'', cf_MQTTHost = ''mosquitto'', cf_MQTTPort = 1883,
             cf_MQTTClientID = ''sim-'' @ sim_Name simulation, cf_MQTTUsername = mqttUser,
             cf_MQTTPassword = mqttPassword, cf_EmailTemplate = email, cf_Password = password,
             cf_BaseTickSeconds = baseTickSeconds, cf_EffectivePublishInterval = effectivePublishInterval,
             cf_SimulatedTickSeconds = simulatedTickSeconds, cf_Simulation = simulation\<rparr>))))))))))))"

end
