(* ===== verification/SimApi.thy ===== *)
theory SimApi
  imports SimConfig Http
begin

text \<open>
  Package \<open>simulator-service/internal/api\<close>: the HTTP client of \<open>api-service\<close>. Sending a request and
  decoding a JSON body are \<open>net/http\<close>'s and \<open>encoding/json\<close>'s, the fields of the parameter \<open>client\<close>;
  the paths, bodies, bearer headers and the reading of status codes are modelled.
\<close>

section \<open>Requests and responses\<close>

record http_request =
  hq_Method :: string
  hq_Path :: string
  hq_Authorization :: "string option"
  hq_Body :: "json option"

record 'b http_response =
  hr_StatusCode :: int
  hr_Body :: 'b

record RoomResponse =
  rr_ID :: string
  rr_Name :: string

record DeviceResponse =
  dr_ID :: string
  dr_Name :: string
  dr_HwID :: string

record ScheduleResponse =
  sr2_ID :: string
  sr2_Name :: string

text \<open>\<open>http.Client.Do\<close>, and \<open>json.NewDecoder(resp.Body).Decode\<close> into each response struct.\<close>

record ('w, 'b) client =
  cl_Do :: "http_request \<Rightarrow> ('w, 'b http_response) act"
  cl_access_token :: "'b \<Rightarrow> error + string"
  cl_room :: "'b \<Rightarrow> error + RoomResponse"
  cl_rooms :: "'b \<Rightarrow> error + RoomResponse list"
  cl_device :: "'b \<Rightarrow> error + DeviceResponse"
  cl_devices :: "'b \<Rightarrow> error + DeviceResponse list"
  cl_schedule :: "'b \<Rightarrow> error + ScheduleResponse"
  cl_schedules :: "'b \<Rightarrow> error + ScheduleResponse list"
  cl_error :: "'b \<Rightarrow> error + string"

definition client_do ::
    "('w, 'b) client \<Rightarrow> string \<Rightarrow> string \<Rightarrow> string \<Rightarrow> json option \<Rightarrow> ('w, 'b http_response) act" where
  "client_do c method path token body = cl_Do c
     \<lparr>hq_Method = method, hq_Path = path,
      hq_Authorization = (if token \<noteq> [] then Some (''Bearer '' @ token) else None), hq_Body = body\<rparr>"

definition client_post :: "('w, 'b) client \<Rightarrow> string \<Rightarrow> string \<Rightarrow> json \<Rightarrow> ('w, 'b http_response) act" where
  "client_post c path token body = client_do c ''POST'' path token (Some body)"

definition client_put :: "('w, 'b) client \<Rightarrow> string \<Rightarrow> string \<Rightarrow> json \<Rightarrow> ('w, 'b http_response) act" where
  "client_put c path token body = client_do c ''PUT'' path token (Some body)"

definition client_patch :: "('w, 'b) client \<Rightarrow> string \<Rightarrow> string \<Rightarrow> ('w, 'b http_response) act" where
  "client_patch c path token = client_do c ''PATCH'' path token None"

definition client_get :: "('w, 'b) client \<Rightarrow> string \<Rightarrow> string \<Rightarrow> ('w, 'b http_response) act" where
  "client_get c path token = client_do c ''GET'' path token None"

definition client_delete :: "('w, 'b) client \<Rightarrow> string \<Rightarrow> string \<Rightarrow> ('w, 'b http_response) act" where
  "client_delete c path token = client_do c ''DELETE'' path token None"

text \<open>\<open>if resp.StatusCode != want { return fmt.Errorf("... failed: status %d", resp.StatusCode) }\<close>\<close>

definition expect :: "int \<Rightarrow> string \<Rightarrow> 'b http_response \<Rightarrow> ('w, unit) act" where
  "expect want what resp = failIf (hr_StatusCode resp \<noteq> want)
     (Msg (what @ '' failed: status '' @ dec (nat (hr_StatusCode resp))))"

text \<open>\<open>if resp.StatusCode == http.StatusConflict { return ErrConflict }\<close>\<close>

definition conflict_check :: "'b http_response \<Rightarrow> ('w, unit) act" where
  "conflict_check resp = failIf (hr_StatusCode resp = 409) (SimE ErrConflict)"

definition decode :: "string \<Rightarrow> error + 'a \<Rightarrow> ('w, 'a) act" where
  "decode what r = liftE (mapErrR (Wrap (''decode '' @ what @ '' response'')) r)"

section \<open>Authentication\<close>

definition credentials :: "string \<Rightarrow> string \<Rightarrow> json" where
  "credentials email password = JObj [(''email'', JStr email), (''password'', JStr password)]"

definition client_Register :: "('w, 'b) client \<Rightarrow> string \<Rightarrow> string \<Rightarrow> ('w, unit) act" where
  "client_Register c email password =
     bindE (client_post c ''/api/v1/auth/register'' [] (credentials email password)) (expect 201 ''register'')"

definition client_Login :: "('w, 'b) client \<Rightarrow> string \<Rightarrow> string \<Rightarrow> ('w, string) act" where
  "client_Login c email password =
     bindE (client_post c ''/api/v1/auth/login'' [] (credentials email password)) (\<lambda>resp.
     bindE (expect 200 ''login'' resp) (\<lambda>_. decode ''login'' (cl_access_token c (hr_Body resp))))"

definition client_DeleteMe :: "('w, 'b) client \<Rightarrow> string \<Rightarrow> ('w, unit) act" where
  "client_DeleteMe c token = bindE (client_delete c ''/api/v1/users/me'' token) (expect 204 ''delete user'')"

section \<open>Rooms, devices, desired state\<close>

definition client_CreateRoom :: "('w, 'b) client \<Rightarrow> string \<Rightarrow> string \<Rightarrow> ('w, string) act" where
  "client_CreateRoom c token name =
     bindE (client_post c ''/api/v1/rooms'' token (JObj [(''name'', JStr name)])) (\<lambda>resp.
     bindE (conflict_check resp) (\<lambda>_.
     bindE (expect 201 ''create room'' resp) (\<lambda>_.
     bindE (decode ''room'' (cl_room c (hr_Body resp))) (\<lambda>rm. returnE (rr_ID rm)))))"

definition client_ListRooms :: "('w, 'b) client \<Rightarrow> string \<Rightarrow> ('w, RoomResponse list) act" where
  "client_ListRooms c token =
     bindE (client_get c ''/api/v1/rooms'' token) (\<lambda>resp.
     bindE (expect 200 ''list rooms'' resp) (\<lambda>_. decode ''rooms'' (cl_rooms c (hr_Body resp))))"

definition client_CreateDevice ::
    "('w, 'b) client \<Rightarrow> string \<Rightarrow> string \<Rightarrow> string \<Rightarrow> string list \<Rightarrow> string list \<Rightarrow> ('w, string) act" where
  "client_CreateDevice c token name hwID sensors actuators =
     bindE (client_post c ''/api/v1/devices'' token (JObj [(''name'', JStr name), (''hw_id'', JStr hwID),
        (''sensors'', JList (map JStr sensors)), (''actuators'', JList (map JStr actuators))])) (\<lambda>resp.
     bindE (conflict_check resp) (\<lambda>_.
     bindE (expect 201 ''create device'' resp) (\<lambda>_.
     bindE (decode ''device'' (cl_device c (hr_Body resp))) (\<lambda>dev. returnE (dr_ID dev)))))"

definition client_ListDevices :: "('w, 'b) client \<Rightarrow> string \<Rightarrow> ('w, DeviceResponse list) act" where
  "client_ListDevices c token =
     bindE (client_get c ''/api/v1/devices'' token) (\<lambda>resp.
     bindE (expect 200 ''list devices'' resp) (\<lambda>_. decode ''devices'' (cl_devices c (hr_Body resp))))"

definition client_AssignDevice ::
    "('w, 'b) client \<Rightarrow> string \<Rightarrow> string \<Rightarrow> string \<Rightarrow> string \<Rightarrow> ('w, unit) act" where
  "client_AssignDevice c token name deviceID roomID =
     bindE (client_put c (''/api/v1/devices/'' @ deviceID) token
        (JObj [(''name'', JStr name), (''room_id'', JStr roomID)])) (expect 200 ''assign device'')"

definition client_UpdateDesiredState ::
    "('w, 'b) client \<Rightarrow> string \<Rightarrow> string \<Rightarrow> float64 option \<Rightarrow> float64 option \<Rightarrow> ('w, unit) act" where
  "client_UpdateDesiredState c token roomID targetTemp targetHum =
     bindE (client_put c (''/api/v1/rooms/'' @ roomID @ ''/desired-state'') token
        (JObj [(''mode'', JStr ''AUTO''), (''manual_active'', JBool True),
           (''manual_override_until'', JStr ''indefinite''), (''target_temp'', JOpt JNum targetTemp),
           (''target_hum'', JOpt JNum targetHum)])) (expect 200 ''update desired state'')"

section \<open>Schedules\<close>

definition client_CreateSchedule :: "('w, 'b) client \<Rightarrow> string \<Rightarrow> string \<Rightarrow> string \<Rightarrow> ('w, string) act" where
  "client_CreateSchedule c token roomID name =
     bindE (client_post c (''/api/v1/rooms/'' @ roomID @ ''/schedules'') token
        (JObj [(''name'', JStr name)])) (\<lambda>resp.
     bindE (conflict_check resp) (\<lambda>_.
     bindE (expect 201 ''create schedule'' resp) (\<lambda>_.
     bindE (decode ''schedule'' (cl_schedule c (hr_Body resp))) (\<lambda>s. returnE (sr2_ID s)))))"

definition client_ListSchedules :: "('w, 'b) client \<Rightarrow> string \<Rightarrow> string \<Rightarrow> ('w, ScheduleResponse list) act" where
  "client_ListSchedules c token roomID =
     bindE (client_get c (''/api/v1/rooms/'' @ roomID @ ''/schedules'') token) (\<lambda>resp.
     bindE (expect 200 ''list schedules'' resp) (\<lambda>_. decode ''schedules'' (cl_schedules c (hr_Body resp))))"

definition client_CreatePeriod ::
    "('w, 'b) client \<Rightarrow> string \<Rightarrow> string \<Rightarrow> ResolvedPeriod \<Rightarrow> ('w, unit) act" where
  "client_CreatePeriod c token scheduleID p =
     bindE (client_post c (''/api/v1/schedules/'' @ scheduleID @ ''/periods'') token
        (JObj [(''days_of_week'', JList (map (JNum \<circ> of_int) (rp_DaysOfWeek p))),
           (''start_time'', JStr (rp_StartTime p)), (''end_time'', JStr (rp_EndTime p)),
           (''mode'', JStr (rp_Mode p)), (''target_temp'', JOpt JNum (rp_TargetTemp p)),
           (''target_hum'', JOpt JNum (rp_TargetHum p))])) (\<lambda>resp.
     bindE (conflict_check resp) (\<lambda>_. expect 201 ''create period'' resp))"

definition client_ActivateSchedule :: "('w, 'b) client \<Rightarrow> string \<Rightarrow> string \<Rightarrow> ('w, unit) act" where
  "client_ActivateSchedule c token scheduleID =
     bindE (client_patch c (''/api/v1/schedules/'' @ scheduleID @ ''/activate'') token) (\<lambda>resp.
     if hr_StatusCode resp = 409
     then bindE (liftE (mapErrR (Wrap ''activate schedule failed: status 409, could not decode body'')
                   (cl_error c (hr_Body resp)))) (\<lambda>msg.
          failIf (msg = ''room lacks required capability for one or more periods'') (SimE ErrCapabilityConflict))
     else expect 200 ''activate schedule'' resp)"

end
