(* ===== verification/SimProvision.thy ===== *)
theory SimProvision
  imports SimApi
begin

text \<open>
  Package \<open>simulator-service/internal/provisioning\<close>: users, rooms, devices, desired states and schedules
  are created through the HTTP client, falling back to a lookup where the API answers 409; \<open>Teardown\<close>
  deletes the users again. The file system the credentials go to is an argument.
\<close>

section \<open>Provisioned types\<close>

record ProvisionedDevice =
  pd_HwID :: string
  pd_Config :: DeviceDef

record ProvisionedRoom =
  pr_ID :: string
  pr_Name :: string
  pr_Config :: RoomDef
  pr_Devices :: "ProvisionedDevice list"

record ProvisionedUser =
  pus_Rooms :: "ProvisionedRoom list"

record provisionedUserWithCreds =
  pc_email :: string
  pc_password :: string
  pc_user :: ProvisionedUser

section \<open>Identities\<close>

definition generateEmail :: "string \<Rightarrow> nat \<Rightarrow> string \<Rightarrow> string" where
  "generateEmail simName userIdx domain = ''sim-'' @ simName @ ''-user-'' @ dec03 userIdx @ ''@'' @ domain"

definition generateHwID :: "string \<Rightarrow> nat \<Rightarrow> nat \<Rightarrow> nat \<Rightarrow> string" where
  "generateHwID simName userIdx roomIdx deviceIdx =
     ''sim-'' @ simName @ ''-'' @ dec userIdx @ ''-'' @ dec roomIdx @ ''-'' @ dec deviceIdx"

definition emailDomain :: "string \<Rightarrow> string" where
  "emailDomain emailTemplate = (case SplitN2 (CHR 0x40) emailTemplate of
     [_, domain] \<Rightarrow> domain | _ \<Rightarrow> ''local.dev'')"

definition room_name :: "RoomDef \<Rightarrow> nat \<Rightarrow> string" where
  "room_name def localRoomIdx = rmd_NamePrefix def @ ''-'' @ dec localRoomIdx"

definition device_name :: "string \<Rightarrow> DeviceDef \<Rightarrow> nat \<Rightarrow> string" where
  "device_name roomName def i = roomName @ ''-'' @ dv_NamePrefix def @ ''-'' @ dec i"

section \<open>Type strings\<close>

definition sensorTypeStrings :: "SensorConfig list \<Rightarrow> string list" where
  "sensorTypeStrings = map sen_Type"

definition actuatorTypeStrings :: "ActuatorConfig list \<Rightarrow> error + string list" where
  "actuatorTypeStrings = eachR (\<lambda>a. case MeasurementToActuatorName (acf_Type a) of
     None \<Rightarrow> Inl (Msg (''no actuator name mapping for measurement type '' @ Quote (acf_Type a)))
   | Some name \<Rightarrow> Inr name)"

section \<open>Devices\<close>

text \<open>\<open>if err != nil { if err != ErrConflict { return wrap(err) }; id, ok := known[key]; ... }\<close>\<close>

definition or_existing ::
    "string \<Rightarrow> error \<Rightarrow> string option \<Rightarrow> ('w, string) act \<Rightarrow> ('w, string) act" where
  "or_existing what missing known m = (\<lambda>w. case m w of
     (Inr i, w') \<Rightarrow> (Inr i, w')
   | (Inl e, w') \<Rightarrow>
       if e \<noteq> SimE ErrConflict then (Inl (Wrap what e), w')
       else (case known of None \<Rightarrow> (Inl missing, w') | Some i \<Rightarrow> (Inr i, w')))"

text \<open>\<open>for _, def := range defs { for i := 0; i < def.Count; i++ { ... } }\<close>\<close>

definition expand :: "('d \<Rightarrow> int) \<Rightarrow> 'd list \<Rightarrow> ('d \<times> nat) list" where
  "expand num defs = concat (map (\<lambda>def. map (\<lambda>i. (def, i)) [0..<nat (num def)]) defs)"

definition provisionDevice ::
    "('w, 'b) client \<Rightarrow> string \<Rightarrow> string \<Rightarrow> nat \<Rightarrow> nat \<Rightarrow> string \<Rightarrow> string \<Rightarrow> (string \<rightharpoonup> string)
     \<Rightarrow> nat \<times> DeviceDef \<times> nat \<Rightarrow> ('w, ProvisionedDevice) act" where
  "provisionDevice c token simName userIdx roomIdx roomID roomName devicesByHwID = (\<lambda>(globalDeviceIdx, def, i).
     let deviceName = device_name roomName def i;
         hwID = generateHwID simName userIdx roomIdx globalDeviceIdx
     in bindE (liftE (mapErrR (Wrap (''device '' @ deviceName)) (actuatorTypeStrings (dv_Actuators def))))
          (\<lambda>actuatorTypes.
        bindE (or_existing (''create device '' @ deviceName)
                 (Msg (''device with hw_id '' @ Quote hwID @ '' not found in list after conflict''))
                 (devicesByHwID hwID)
                 (client_CreateDevice c token deviceName hwID (sensorTypeStrings (dv_Sensors def)) actuatorTypes))
          (\<lambda>deviceID.
        bindE (mapErr (Wrap (''assign device '' @ deviceName @ '' to room '' @ roomName))
                 (client_AssignDevice c token deviceName deviceID roomID)) (\<lambda>_.
        returnE \<lparr>pd_HwID = hwID, pd_Config = def\<rparr>))))"

definition provisionDevices ::
    "('w, 'b) client \<Rightarrow> string \<Rightarrow> string \<Rightarrow> nat \<Rightarrow> nat \<Rightarrow> string \<Rightarrow> string \<Rightarrow> DeviceDef list
     \<Rightarrow> (string \<rightharpoonup> string) \<Rightarrow> ('w, ProvisionedDevice list) act" where
  "provisionDevices c token simName userIdx roomIdx roomID roomName deviceDefs devicesByHwID =
     collectE (provisionDevice c token simName userIdx roomIdx roomID roomName devicesByHwID)
       (enumerate 0 (expand dv_Count deviceDefs))"

section \<open>Schedules\<close>

definition existing_schedule :: "('w, 'b) client \<Rightarrow> string \<Rightarrow> string \<Rightarrow> string \<Rightarrow> ('w, string) act" where
  "existing_schedule c token roomID name =
     bindE (mapErr (Wrap ''list schedules after conflict'') (client_ListSchedules c token roomID)) (\<lambda>existing.
     let scheduleID = (case List.find (\<lambda>s. sr2_Name s = name) existing of None \<Rightarrow> [] | Some s \<Rightarrow> sr2_ID s)
     in bindE (failIf (scheduleID = []) (Msg (''schedule '' @ Quote name @ '' not found in list after conflict'')))
          (\<lambda>_. returnE scheduleID))"

definition provision_period ::
    "('w, 'b) client \<Rightarrow> string \<Rightarrow> string \<Rightarrow> string \<Rightarrow> ResolvedPeriod \<Rightarrow> ('w, unit) act" where
  "provision_period c token scheduleID name p = (\<lambda>w. case client_CreatePeriod c token scheduleID p w of
     (Inr _, w') \<Rightarrow> (Inr (), w')
   | (Inl e, w') \<Rightarrow> if e = SimE ErrConflict then (Inr (), w')
                    else (Inl (Wrap (''create period for schedule '' @ Quote name) e), w'))"

definition provisionSchedule ::
    "('w, 'b) client \<Rightarrow> string \<Rightarrow> string \<Rightarrow> string \<Rightarrow> ResolvedSchedule \<Rightarrow> ('w, unit) act" where
  "provisionSchedule c token roomID roomName sched =
     bindE (\<lambda>w. case client_CreateSchedule c token roomID (rsc_Name sched) w of
         (Inr i, w') \<Rightarrow> (Inr i, w')
       | (Inl e, w') \<Rightarrow>
           if e \<noteq> SimE ErrConflict then (Inl (Wrap (''create schedule '' @ Quote (rsc_Name sched)) e), w')
           else existing_schedule c token roomID (rsc_Name sched) w') (\<lambda>scheduleID.
     bindE (forE (provision_period c token scheduleID (rsc_Name sched)) (rsc_Periods sched)) (\<lambda>_.
     mapErr (\<lambda>e. if e = SimE ErrCapabilityConflict
                 then Msg (''activate schedule '' @ Quote (rsc_Name sched) @ '' for room '' @ roomName
                        @ '': room lacks required device capabilities'')
                 else Wrap (''activate schedule '' @ Quote (rsc_Name sched)) e)
       (client_ActivateSchedule c token scheduleID)))"

section \<open>Rooms\<close>

definition provisionRoom ::
    "('w, 'b) client \<Rightarrow> string \<Rightarrow> string \<Rightarrow> nat \<Rightarrow> (string \<rightharpoonup> string) \<Rightarrow> (string \<rightharpoonup> string)
     \<Rightarrow> nat \<times> RoomDef \<times> nat \<Rightarrow> ('w, ProvisionedRoom) act" where
  "provisionRoom c token simName userIdx roomsByName devicesByHwID = (\<lambda>(localRoomIdx, def, _).
     let roomName = room_name def localRoomIdx
     in bindE (or_existing (''create room '' @ roomName)
                 (Msg (''room '' @ Quote roomName @ '' not found in list after conflict''))
                 (roomsByName roomName) (client_CreateRoom c token roomName)) (\<lambda>roomID.
        bindE (mapErr (Wrap (''provision devices for room '' @ roomName))
                 (provisionDevices c token simName userIdx localRoomIdx roomID roomName (rmd_Devices def)
                    devicesByHwID)) (\<lambda>devices.
        bindE (case rmd_DesiredState def of
                 None \<Rightarrow> returnE ()
               | Some ds \<Rightarrow> mapErr (Wrap (''update desired state for room '' @ roomName))
                   (client_UpdateDesiredState c token roomID (rds_TargetTemp ds) (rds_TargetHum ds))) (\<lambda>_.
        bindE (case rmd_Schedule def of
                 None \<Rightarrow> returnE ()
               | Some sched \<Rightarrow> mapErr (Wrap (''provision schedule for room '' @ roomName))
                   (provisionSchedule c token roomID roomName sched)) (\<lambda>_.
        returnE \<lparr>pr_ID = roomID, pr_Name = roomName, pr_Config = def, pr_Devices = devices\<rparr>)))))"

definition provisionRooms ::
    "('w, 'b) client \<Rightarrow> string \<Rightarrow> string \<Rightarrow> nat \<Rightarrow> RoomDef list \<Rightarrow> (string \<rightharpoonup> string) \<Rightarrow> (string \<rightharpoonup> string)
     \<Rightarrow> ('w, ProvisionedRoom list) act" where
  "provisionRooms c token simName userIdx roomDefs roomsByName devicesByHwID =
     collectE (provisionRoom c token simName userIdx roomsByName devicesByHwID)
       (enumerate 0 (expand rmd_Count roomDefs))"

section \<open>Credentials file\<close>

definition join :: "string \<Rightarrow> string list \<Rightarrow> string" where
  "join sep xs = (case xs of [] \<Rightarrow> [] | x # ys \<Rightarrow> x @ concat (map (\<lambda>y. sep @ y) ys))"

definition actuator_label :: "ActuatorConfig \<Rightarrow> string" where
  "actuator_label a = (case MeasurementToActuatorName (acf_Type a) of Some name \<Rightarrow> name | None \<Rightarrow> acf_Type a)"

definition nl :: string where "nl = [CHR 0x0A]"

definition device_line :: "ProvisionedDevice \<Rightarrow> string" where
  "device_line d = ''      '' @ pd_HwID d
     @ (if dv_Sensors (pd_Config d) \<noteq> []
        then '' (sensors: '' @ join '', '' (sensorTypeStrings (dv_Sensors (pd_Config d))) @ '')'' else [])
     @ (if dv_Actuators (pd_Config d) \<noteq> []
        then '' (actuators: '' @ join '', '' (map actuator_label (dv_Actuators (pd_Config d))) @ '')'' else [])
     @ nl"

definition room_block :: "ProvisionedRoom \<Rightarrow> string" where
  "room_block r = ''  '' @ pr_Name r @ nl @ ''    Devices:'' @ nl @ concat (map device_line (pr_Devices r))"

definition user_block :: "nat \<times> provisionedUserWithCreds \<Rightarrow> string" where
  "user_block = (\<lambda>(i, u). nl @ ''--- User '' @ dec i @ '' ---'' @ nl @ ''Email:    '' @ pc_email u @ nl
     @ ''Password: '' @ pc_password u @ nl @ nl @ ''Rooms:'' @ nl @ concat (map room_block (pus_Rooms (pc_user u))))"

definition credentials_text :: "string \<Rightarrow> string \<Rightarrow> provisionedUserWithCreds list \<Rightarrow> string" where
  "credentials_text simName generated users = ''Simulation: '' @ simName @ nl @ ''Generated:  '' @ generated @ nl
     @ concat (map user_block (enumerate 0 users))"

text \<open>The file system: \<open>os.Create\<close> truncates the file, writing appends; and the clock's text.\<close>

record 'w files =
  fs_Create :: "string \<Rightarrow> ('w, unit) act"
  fs_Write :: "string \<Rightarrow> string \<Rightarrow> ('w, unit) act"
  fs_Now :: "'w \<Rightarrow> string"

definition writeCredentials :: "'w files \<Rightarrow> string \<Rightarrow> provisionedUserWithCreds list \<Rightarrow> ('w, unit) act" where
  "writeCredentials fs simName users =
     (let path = ''/app/config/credentials/'' @ simName @ ''.txt''
      in bindE (mapErr (Wrap ''create credentials file'') (fs_Create fs path)) (\<lambda>_.
         (\<lambda>w. fs_Write fs path (credentials_text simName (fs_Now fs w) users) w)))"

section \<open>Run and Teardown\<close>

text \<open>Log in; if that fails, for whatever reason, register and log in again.\<close>

definition login_or_register :: "('w, 'b) client \<Rightarrow> string \<Rightarrow> string \<Rightarrow> ('w, string) act" where
  "login_or_register c email password = (\<lambda>w. case client_Login c email password w of
     (Inr token, w') \<Rightarrow> (Inr token, w')
   | (Inl _, w') \<Rightarrow>
       bindE (mapErr (Wrap (''register user '' @ email)) (client_Register c email password)) (\<lambda>_.
       mapErr (Wrap (''login user '' @ email @ '' after register'')) (client_Login c email password)) w')"

definition provision_user ::
    "('w, 'b) client \<Rightarrow> Config \<Rightarrow> RoomDef list \<Rightarrow> nat \<Rightarrow> ('w, provisionedUserWithCreds) act" where
  "provision_user c cfg roomDefs userIdx =
     (let simName = sim_Name (cf_Simulation cfg);
          email = generateEmail simName userIdx (emailDomain (cf_EmailTemplate cfg))
      in bindE (login_or_register c email (cf_Password cfg)) (\<lambda>token.
         bindE (mapErr (Wrap (''list rooms for user '' @ email)) (client_ListRooms c token)) (\<lambda>existingRooms.
         bindE (mapErr (Wrap (''list devices for user '' @ email)) (client_ListDevices c token)) (\<lambda>existingDevices.
         bindE (mapErr (Wrap (''provision rooms for user '' @ email))
                  (provisionRooms c token simName userIdx roomDefs
                     (foldl (\<lambda>m rm. m(rr_Name rm \<mapsto> rr_ID rm)) Map.empty existingRooms)
                     (foldl (\<lambda>m dev. m(dr_HwID dev \<mapsto> dr_ID dev)) Map.empty existingDevices))) (\<lambda>rooms.
         returnE \<lparr>pc_email = email, pc_password = cf_Password cfg, pc_user = \<lparr>pus_Rooms = rooms\<rparr>\<rparr>)))))"

fun run_groups ::
    "('w, 'b) client \<Rightarrow> 'w files \<Rightarrow> Config \<Rightarrow> nat \<Rightarrow> UserGroup list
     \<Rightarrow> ('w, ProvisionedUser list) act" where
  "run_groups c fs cfg globalUserIdx [] = returnE []"
| "run_groups c fs cfg globalUserIdx (grp # groups) =
     bindE (collectE (provision_user c cfg (ug_Rooms grp))
       [globalUserIdx..<globalUserIdx + nat (ug_Count grp)]) (\<lambda>groupUsers.
     bindE (if ug_Interactive grp
            then mapErr (Wrap ''write credentials'')
                   (writeCredentials fs (sim_Name (cf_Simulation cfg)) groupUsers)
            else returnE ()) (\<lambda>_.
     bindE (run_groups c fs cfg (globalUserIdx + nat (ug_Count grp)) groups) (\<lambda>users.
     returnE (map pc_user groupUsers @ users))))"

definition provisioning_Run ::
    "('w, 'b) client \<Rightarrow> 'w files \<Rightarrow> Config \<Rightarrow> ('w, ProvisionedUser list) act" where
  "provisioning_Run c fs cfg =
     run_groups c fs cfg 0 (sim_UserGroups (cf_Simulation cfg))"

text \<open>A user that cannot log in is skipped.\<close>

definition teardown_user :: "('w, 'b) client \<Rightarrow> Config \<Rightarrow> nat \<Rightarrow> ('w, unit) act" where
  "teardown_user c cfg globalUserIdx =
     (let email = generateEmail (sim_Name (cf_Simulation cfg)) globalUserIdx (emailDomain (cf_EmailTemplate cfg))
      in (\<lambda>w. case client_Login c email (cf_Password cfg) w of
            (Inl _, w') \<Rightarrow> (Inr (), w')
          | (Inr token, w') \<Rightarrow> mapErr (Wrap (''delete user '' @ email)) (client_DeleteMe c token) w'))"

fun teardown_groups :: "('w, 'b) client \<Rightarrow> Config \<Rightarrow> nat \<Rightarrow> UserGroup list \<Rightarrow> ('w, unit) act" where
  "teardown_groups c cfg globalUserIdx [] = returnE ()"
| "teardown_groups c cfg globalUserIdx (grp # groups) =
     bindE (forE (teardown_user c cfg) [globalUserIdx..<globalUserIdx + nat (ug_Count grp)]) (\<lambda>_.
     teardown_groups c cfg (globalUserIdx + nat (ug_Count grp)) groups)"

definition Teardown :: "('w, 'b) client \<Rightarrow> Config \<Rightarrow> ('w, unit) act" where
  "Teardown c cfg = teardown_groups c cfg 0 (sim_UserGroups (cf_Simulation cfg))"

end
