(* ===== verification/SimRoom.thy ===== *)
theory SimRoom
  imports SimConfig "HOL-Library.AList"
begin

text \<open>
  The simulated environment, \<open>simulator-service/internal/simulator/model.go\<close> and \<open>room_state.go\<close>, with
  \<open>advanceRoom\<close> and \<open>roundTo2DP\<close> of \<open>simulator.go\<close>: a room's current values, the actuators' contributions
  and the derived heat input. Go maps that are only looked up are maps, the two that are ranged over to
  build a sum are association lists with distinct keys, in some iteration order. Draws of the
  normal distribution are arguments, one per measurement type.
\<close>

section \<open>Rooms\<close>

type_synonym measurements = "string \<rightharpoonup> float64"

text \<open>\<open>m[k]\<close> of a \<open>map[string]float64\<close>: zero when absent.\<close>

definition num_at :: "measurements \<Rightarrow> string \<Rightarrow> float64" where
  "num_at m k = (case m k of None \<Rightarrow> 0 | Some v \<Rightarrow> v)"

lemma num_at_simps [simp]: "num_at Map.empty k = 0" "num_at (m(k \<mapsto> v)) j = (if j = k then v else num_at m j)"
  by (simp_all add: num_at_def)

record RoomState =
  rmst_Current :: measurements
  rmst_Ambient :: measurements
  rmst_contributions :: "(string \<times> (string \<times> float64) list) list"
  rmst_heatInput :: measurements

definition newRoomState :: "measurements \<Rightarrow> RoomState" where
  "newRoomState ambient = \<lparr>rmst_Current = ambient, rmst_Ambient = ambient, rmst_contributions = [],
     rmst_heatInput = Map.empty\<rparr>"

text \<open>\<open>for typ, rate := range rates { heatInput[typ] += rate }\<close>\<close>

definition add_rates :: "measurements \<Rightarrow> (string \<times> float64) list \<Rightarrow> measurements" where
  "add_rates heat rates = foldl (\<lambda>h (typ, rate). h(typ \<mapsto> num_at h typ + rate)) heat rates"

definition recomputeHeatInput :: "RoomState \<Rightarrow> RoomState" where
  "recomputeHeatInput rs = rs\<lparr>rmst_heatInput :=
     foldl (\<lambda>h (hwID, rates). add_rates h rates) Map.empty (rmst_contributions rs)\<rparr>"

definition SetContribution :: "string \<Rightarrow> (string \<times> float64) list \<Rightarrow> RoomState \<Rightarrow> RoomState" where
  "SetContribution hwID rates rs =
     recomputeHeatInput (rs\<lparr>rmst_contributions := AList.update hwID rates (rmst_contributions rs)\<rparr>)"

definition ClearContribution :: "string \<Rightarrow> RoomState \<Rightarrow> RoomState" where
  "ClearContribution hwID rs =
     recomputeHeatInput (rs\<lparr>rmst_contributions := AList.delete hwID (rmst_contributions rs)\<rparr>)"

definition HeatInput :: "RoomState \<Rightarrow> measurements" where
  "HeatInput rs = rmst_heatInput rs"

section \<open>The environment model\<close>

record EnvironmentModel =
  em_thermalMass :: measurements
  em_conductance :: measurements
  em_noise :: measurements

definition newEnvironmentModel :: "(string \<rightharpoonup> MeasurementConfig) \<Rightarrow> EnvironmentModel" where
  "newEnvironmentModel ms = \<lparr>em_thermalMass = (\<lambda>typ. map_option mc_ThermalMass (ms typ)),
     em_conductance = (\<lambda>typ. map_option mc_Conductance (ms typ)), em_noise = (\<lambda>typ. map_option mc_Noise (ms typ))\<rparr>"

definition Advance ::
    "EnvironmentModel \<Rightarrow> RoomState \<Rightarrow> measurements \<Rightarrow> float64 \<Rightarrow> (string \<Rightarrow> float64) \<Rightarrow> measurements" where
  "Advance m st heatInput simulatedTickSeconds draw = (\<lambda>typ. case rmst_Current st typ of
     None \<Rightarrow> None
   | Some current \<Rightarrow> Some (case em_thermalMass m typ of
        None \<Rightarrow> 0
      | Some thermalMass \<Rightarrow>
          if thermalMass = 0 then 0
          else (let effectiveAmbient = num_at (rmst_Ambient st) typ + draw typ * num_at (em_noise m) typ;
                    energyInput = num_at heatInput typ * simulatedTickSeconds;
                    passiveLoss = num_at (em_conductance m) typ * (current - effectiveAmbient) * simulatedTickSeconds
                in (energyInput - passiveLoss) / thermalMass)))"

definition clamp :: "string \<Rightarrow> float64 \<Rightarrow> float64" where
  "clamp typ v = (case MeasurementBounds typ of
     None \<Rightarrow> v
   | Some (lo, hi) \<Rightarrow> if v < lo then lo else if hi < v then hi else v)"

text \<open>The part of \<open>advanceRoom\<close> under the lock; the heat input was read before, under its own lock.\<close>

definition apply_advance ::
    "EnvironmentModel \<Rightarrow> measurements \<Rightarrow> float64 \<Rightarrow> (string \<Rightarrow> float64) \<Rightarrow> RoomState \<Rightarrow> RoomState" where
  "apply_advance m heatInput simulatedTickSeconds draw st =
     (let deltas = Advance m st heatInput simulatedTickSeconds draw
      in st\<lparr>rmst_Current := (\<lambda>typ. case deltas typ of
              None \<Rightarrow> rmst_Current st typ
            | Some delta \<Rightarrow> Some (clamp typ (num_at (rmst_Current st) typ + delta)))\<rparr>)"

definition advanceRoom ::
    "EnvironmentModel \<Rightarrow> float64 \<Rightarrow> (string \<Rightarrow> float64) \<Rightarrow> RoomState \<Rightarrow> RoomState" where
  "advanceRoom m simulatedTickSeconds draw st =
     apply_advance m (HeatInput st) simulatedTickSeconds draw st"

definition roundTo2DP :: "float64 \<Rightarrow> float64" where
  "roundTo2DP v = of_int (trunc (v * 100 + 1 / 2)) / 100"

section \<open>Heat input is the sum of the contributions\<close>

definition total_rate :: "string \<Rightarrow> (string \<times> float64) list \<Rightarrow> float64" where
  "total_rate typ rates = sum_list (map snd (filter (\<lambda>r. fst r = typ) rates))"

definition heat_of :: "(string \<times> (string \<times> float64) list) list \<Rightarrow> string \<Rightarrow> float64" where
  "heat_of cs typ = sum_list (map (\<lambda>c. total_rate typ (snd c)) cs)"

lemma total_rate_simps [simp]:
  "total_rate typ [] = 0" "total_rate typ ((t, r) # rs) = (if t = typ then r else 0) + total_rate typ rs"
  by (simp_all add: total_rate_def)

lemma heat_of_simps [simp]: "heat_of [] typ = 0" "heat_of (c # cs) typ = total_rate typ (snd c) + heat_of cs typ"
  by (simp_all add: heat_of_def)

lemma num_at_add_rates: "num_at (add_rates h rates) typ = num_at h typ + total_rate typ rates"
  by (induction rates arbitrary: h) (auto simp: add_rates_def)

lemma num_at_recompute:
  "num_at (rmst_heatInput (recomputeHeatInput rs)) typ = heat_of (rmst_contributions rs) typ"
proof -
  have "num_at (foldl (\<lambda>h (hwID, rates). add_rates h rates) h cs) typ = num_at h typ + heat_of cs typ" for h cs
    by (induction cs arbitrary: h) (auto simp: num_at_add_rates)
  then show ?thesis by (simp add: recomputeHeatInput_def)
qed

lemma recompute_frame [simp]:
  "rmst_Current (recomputeHeatInput rs) = rmst_Current rs" "rmst_Ambient (recomputeHeatInput rs) = rmst_Ambient rs"
  "rmst_contributions (recomputeHeatInput rs) = rmst_contributions rs"
  by (simp_all add: recomputeHeatInput_def)

lemma heat_of_update:
  "distinct (map fst cs) \<Longrightarrow> heat_of (AList.update k rates cs) typ
     = heat_of cs typ - total_rate typ (case map_of cs k of None \<Rightarrow> [] | Some r \<Rightarrow> r) + total_rate typ rates"
  by (induction cs) (auto split: option.splits)

lemma heat_of_delete:
  "distinct (map fst cs) \<Longrightarrow> heat_of (AList.delete k cs) typ
     = heat_of cs typ - total_rate typ (case map_of cs k of None \<Rightarrow> [] | Some r \<Rightarrow> r)"
  by (induction cs) (auto simp: delete_idem dest: map_of_SomeD split: option.splits intro: rev_image_eqI)

section \<open>The room invariant\<close>

text \<open>The heat input is the sum of the contributions, each actuator contributes once, and every bounded
  measurement is within its bounds.\<close>

definition room_ok :: "RoomState \<Rightarrow> bool" where
  "room_ok rs \<longleftrightarrow> distinct (map fst (rmst_contributions rs))
     \<and> (\<forall>typ. num_at (rmst_heatInput rs) typ = heat_of (rmst_contributions rs) typ)
     \<and> (\<forall>typ v. rmst_Current rs typ = Some v \<longrightarrow> clamp typ v = v)"

lemma clamp_clamp [simp]: "clamp typ (clamp typ v) = clamp typ v"
  by (auto simp: clamp_def MeasurementBounds_def)

lemma clamp_within: "MeasurementBounds typ = Some (lo, hi) \<Longrightarrow> clamp typ v = v \<longleftrightarrow> lo \<le> v \<and> v \<le> hi"
  by (auto simp: clamp_def MeasurementBounds_def split: if_splits)

lemma room_ok_SetContribution: "room_ok rs \<Longrightarrow> room_ok (SetContribution k rates rs)"
  by (simp add: room_ok_def SetContribution_def num_at_recompute distinct_update)

lemma room_ok_ClearContribution: "room_ok rs \<Longrightarrow> room_ok (ClearContribution k rs)"
  by (simp add: room_ok_def ClearContribution_def num_at_recompute distinct_delete)

lemma Advance_None [simp]: "Advance m st h dt draw typ = None \<longleftrightarrow> rmst_Current st typ = None"
  by (simp add: Advance_def split: option.split)

lemma room_ok_advance: "room_ok rs \<Longrightarrow> room_ok (apply_advance m h dt draw rs)"
  by (auto simp: room_ok_def apply_advance_def Let_def split: option.splits)

lemma room_ok_new: "(\<And>typ v. ambient typ = Some v \<Longrightarrow> clamp typ v = v) \<Longrightarrow> room_ok (newRoomState ambient)"
  by (simp add: room_ok_def newRoomState_def)

lemma current_dom:
  "dom (rmst_Current (apply_advance m h dt draw rs)) = dom (rmst_Current rs)"
proof -
  have "rmst_Current (apply_advance m h dt draw rs) ty = None \<longleftrightarrow> rmst_Current rs ty = None" for ty
    by (cases "rmst_Current rs ty") (auto simp: apply_advance_def Advance_def)
  then show ?thesis unfolding dom_def by (simp only:)
qed

section \<open>Free response of a room\<close>

text \<open>One undisturbed tick contracts the distance to the equilibrium \<open>ambient + heat / conductance\<close>.\<close>

definition equilibrium :: "EnvironmentModel \<Rightarrow> RoomState \<Rightarrow> string \<Rightarrow> float64" where
  "equilibrium m st typ =
     num_at (rmst_Ambient st) typ + num_at (rmst_heatInput st) typ / num_at (em_conductance m) typ"

definition retention :: "EnvironmentModel \<Rightarrow> float64 \<Rightarrow> string \<Rightarrow> float64" where
  "retention m dt typ = 1 - num_at (em_conductance m) typ * dt / num_at (em_thermalMass m) typ"

text \<open>The parameters a room needs not to overshoot: positive, and a tick too short to lose the whole
  difference at once.\<close>

definition well_damped :: "EnvironmentModel \<Rightarrow> float64 \<Rightarrow> string \<Rightarrow> bool" where
  "well_damped m dt typ \<longleftrightarrow> 0 < num_at (em_thermalMass m) typ \<and> 0 < num_at (em_conductance m) typ \<and> 0 \<le> dt
     \<and> num_at (em_conductance m) typ * dt \<le> num_at (em_thermalMass m) typ"

lemma retention_range: "well_damped m dt typ \<Longrightarrow> 0 \<le> retention m dt typ \<and> retention m dt typ \<le> 1"
  by (simp add: well_damped_def retention_def field_simps)

lemma tick_arith:
  fixes mass k :: float64
  assumes "0 < mass" "0 < k"
  shows "c + (h * dt - k * (c - (a + n)) * dt) / mass
    = (a + h / k) + (1 - k * dt / mass) * (c - (a + h / k)) + k * dt / mass * n"
  using assms by (simp add: field_simps)

lemma advance_value:
  assumes "rmst_Current st typ = Some c" and "well_damped m dt typ"
  shows "rmst_Current (advanceRoom m dt draw st) typ = Some (clamp typ
     (equilibrium m st typ + retention m dt typ * (c - equilibrium m st typ)
      + num_at (em_conductance m) typ * dt / num_at (em_thermalMass m) typ * (draw typ * num_at (em_noise m) typ)))"
proof -
  from assms(2) obtain mass where mass: "em_thermalMass m typ = Some mass" "0 < mass"
    by (auto simp: well_damped_def num_at_def split: option.splits)
  from assms(2) have mass_pos: "0 < num_at (em_thermalMass m) typ" and k: "0 < num_at (em_conductance m) typ" by (simp_all add: well_damped_def)
  show ?thesis
    unfolding equilibrium_def retention_def tick_arith [OF mass_pos k, symmetric] using mass
    by (simp add: advanceRoom_def apply_advance_def Advance_def assms(1) HeatInput_def Let_def
        num_at_def [of "rmst_Current st"] num_at_def [of "em_thermalMass m"])
qed

lemma clamp_between:
  assumes "clamp typ a = a" and "clamp typ b = b" and "a \<le> v \<and> v \<le> b \<or> b \<le> v \<and> v \<le> a"
  shows "clamp typ v = v"
  using assms by (auto simp: clamp_def split: option.splits prod.splits if_splits)

lemma mix_between:
  fixes q c e :: float64
  assumes "0 \<le> q" "q \<le> 1"
  shows "c \<le> e + q * (c - e) \<and> e + q * (c - e) \<le> e \<or> e \<le> e + q * (c - e) \<and> e + q * (c - e) \<le> c"
proof (cases "c \<le> e")
  case True
  then have "(1 - q) * (e - c) \<ge> 0" "q * (c - e) \<le> 0" using assms by (simp_all add: mult_nonneg_nonpos)
  then show ?thesis by (auto simp: algebra_simps)
next
  case False
  then have "(1 - q) * (c - e) \<ge> 0" "q * (c - e) \<ge> 0" using assms by simp_all
  then show ?thesis by (auto simp: algebra_simps)
qed

lemma advance_frame [simp]:
  "rmst_Ambient (advanceRoom m dt draw st) = rmst_Ambient st"
  "rmst_heatInput (advanceRoom m dt draw st) = rmst_heatInput st"
  "rmst_contributions (advanceRoom m dt draw st) = rmst_contributions st"
  by (simp_all add: advanceRoom_def apply_advance_def)

lemma equilibrium_advance [simp]: "equilibrium m (advanceRoom m dt draw st) typ = equilibrium m st typ"
  by (simp add: equilibrium_def)


text \<open>The standard room of the shipped templates, temperature only, ticking every ten simulated minutes.\<close>

definition demo_measurements :: "string \<rightharpoonup> MeasurementConfig" where
  "demo_measurements = resolveMeasurements [''temperature'' \<mapsto> \<lparr>rmc_Base = 20, rmc_Noise = 1 / 2,
     rmc_ThermalMassScale = 0, rmc_ConductanceScale = 0\<rparr>] False None None"

lemma demo_model [simp]:
  "em_thermalMass (newEnvironmentModel demo_measurements) = [''temperature'' \<mapsto> 10000000]"
  "em_conductance (newEnvironmentModel demo_measurements) = [''temperature'' \<mapsto> 100]"
  "em_noise (newEnvironmentModel demo_measurements) = [''temperature'' \<mapsto> 0]"
  by (auto simp: newEnvironmentModel_def demo_measurements_def resolveMeasurements_def resolve_scale_def
      baseThermalMass_def baseConductance_def fun_eq_iff)

definition demo_heated :: RoomState where
  "demo_heated = SetContribution ''sim-demo-0-0-0/temperature'' [(''temperature'', 1000)]
     (newRoomState [''temperature'' \<mapsto> 20])"

lemma demo_heated_simps [simp]:
  "rmst_Current demo_heated = [''temperature'' \<mapsto> 20]" "rmst_Ambient demo_heated = [''temperature'' \<mapsto> 20]"
  "rmst_heatInput demo_heated = [''temperature'' \<mapsto> 1000]"
  by (simp_all add: demo_heated_def SetContribution_def newRoomState_def recomputeHeatInput_def add_rates_def)


end
