(* ===== verification/SimLoop.thy ===== *)
theory SimLoop
  imports SimProvision SimRoom
begin

text \<open>
  Package \<open>simulator-service/internal/simulator\<close>, file \<open>simulator.go\<close>: \<open>Run\<close> spawns one goroutine per device
  with sensors and one per actuator; sensor loops advance their room and publish telemetry, actuator
  loops take commands and watch for silence. A goroutine's critical sections are the atomic steps of
  the relation \<open>sim_step\<close>; whatever the mutexes do not order may interleave. The MQTT broker is left
  to the environment: which handlers it calls for a message is part of the step.
\<close>

section \<open>Telemetry\<close>

record sim_reading =
  smr_Type :: string
  smr_Value :: float64

record sim_telemetry =
  stl_HwID :: string
  stl_Readings :: "sim_reading list"

text \<open>The loop over the sensors; the draw of the \<open>i\<close>-th sensor is \<open>draw i\<close>.\<close>

definition sensor_readings :: "DeviceDef \<Rightarrow> RoomState \<Rightarrow> (nat \<Rightarrow> float64) \<Rightarrow> sim_reading list" where
  "sensor_readings dev st draw = concat (map (\<lambda>(i, sensor). case rmst_Current st (sen_Type sensor) of
       None \<Rightarrow> []
     | Some base \<Rightarrow> [\<lparr>smr_Type = sen_Type sensor,
         smr_Value = roundTo2DP (base + draw i * sen_Noise sensor + sen_Offset sensor)\<rparr>])
     (enumerate 0 (dv_Sensors dev)))"

text \<open>What is handed to \<open>mqttClient.Publish\<close>: nothing when there are no readings.\<close>

definition publishTelemetry ::
    "ProvisionedDevice \<Rightarrow> RoomState \<Rightarrow> (nat \<Rightarrow> float64) \<Rightarrow> (string \<times> sim_telemetry) option" where
  "publishTelemetry dev st draw =
     (let readings = sensor_readings (pd_Config dev) st draw
      in if readings = [] then None
         else Some (''devices/'' @ pd_HwID dev @ ''/telemetry'', \<lparr>stl_HwID = pd_HwID dev, stl_Readings = readings\<rparr>))"

section \<open>Goroutines\<close>

text \<open>Where a sensor goroutine stands within one tick.\<close>

datatype sensor_pc =
    Waiting
  | Snapshot measurements
  | Advanced

record sensor_loop =
  sl_Device :: ProvisionedDevice
  sl_Room :: nat
  sl_Offset :: duration
  sl_PC :: sensor_pc

text \<open>An actuator goroutine with its \<open>lastCmd\<close>; \<open>al_Touch\<close> is true between the two critical sections of its
  command handler.\<close>

record actuator_loop =
  al_HwID :: string
  al_Act :: ActuatorConfig
  al_Room :: nat
  al_LastCmd :: instant
  al_Touch :: bool

record sim_state =
  ss_Rooms :: "RoomState list"
  ss_Models :: "EnvironmentModel list"
  ss_Sensors :: "sensor_loop list"
  ss_Actuators :: "actuator_loop list"
  ss_Published :: "(string \<times> sim_telemetry) list"

definition room_entries :: "ProvisionedUser list \<Rightarrow> (nat \<times> ProvisionedRoom) list" where
  "room_entries users = enumerate 0 (concat (map pus_Rooms users))"

definition device_entries :: "ProvisionedUser list \<Rightarrow> (ProvisionedDevice \<times> nat) list" where
  "device_entries users = concat (map (\<lambda>(k, room). map (\<lambda>dev. (dev, k)) (pr_Devices room)) (room_entries users))"

definition ambient_of :: "ProvisionedRoom \<Rightarrow> measurements" where
  "ambient_of room = (\<lambda>typ. map_option mc_Base (rmd_Measurements (pr_Config room) typ))"

definition staggerOffset :: "nat \<Rightarrow> nat \<Rightarrow> duration \<Rightarrow> duration" where
  "staggerOffset i totalDevices interval = trunc (of_nat i / of_nat totalDevices * of_int interval)"

definition spawn_sensors :: "duration \<Rightarrow> (ProvisionedDevice \<times> nat) list \<Rightarrow> sensor_loop list" where
  "spawn_sensors interval entries = concat (map (\<lambda>(i, dev, k).
     if dv_Sensors (pd_Config dev) \<noteq> []
     then [\<lparr>sl_Device = dev, sl_Room = k, sl_Offset = staggerOffset i (length entries) interval, sl_PC = Waiting\<rparr>]
     else []) (enumerate 0 entries))"

definition spawn_actuators :: "instant \<Rightarrow> (ProvisionedDevice \<times> nat) list \<Rightarrow> actuator_loop list" where
  "spawn_actuators now entries = concat (map (\<lambda>(dev, k).
     map (\<lambda>act. \<lparr>al_HwID = pd_HwID dev, al_Act = act, al_Room = k, al_LastCmd = now, al_Touch = False\<rparr>)
       (dv_Actuators (pd_Config dev))) entries)"

text \<open>The state of \<open>Run\<close> once every goroutine is spawned; without devices it returns at once.\<close>

definition simulator_Run :: "Config \<Rightarrow> ProvisionedUser list \<Rightarrow> instant \<Rightarrow> sim_state option" where
  "simulator_Run cfg users now =
     (if device_entries users = [] then None
      else Some \<lparr>ss_Rooms = map (\<lambda>room. newRoomState (ambient_of room)) (concat (map pus_Rooms users)),
                ss_Models = map (\<lambda>room. newEnvironmentModel (rmd_Measurements (pr_Config room)))
                  (concat (map pus_Rooms users)),
                ss_Sensors = spawn_sensors (cf_EffectivePublishInterval cfg) (device_entries users),
                ss_Actuators = spawn_actuators now (device_entries users), ss_Published = []\<rparr>)"

definition watchdogTimeout :: "Config \<Rightarrow> duration" where
  "watchdogTimeout cfg = wrap64 (WatchdogTimeoutSeconds cfg * Second)"

section \<open>Commands and watchdog\<close>

record command_msg =
  cm_ActuatorType :: string
  cm_State :: bool

definition contribution_key :: "actuator_loop \<Rightarrow> string" where
  "contribution_key al = al_HwID al @ ''/'' @ acf_Type (al_Act al)"

definition on_room :: "nat \<Rightarrow> (RoomState \<Rightarrow> RoomState) \<Rightarrow> sim_state \<Rightarrow> sim_state" where
  "on_room k f s = s\<lparr>ss_Rooms := (ss_Rooms s)[k := f (ss_Rooms s ! k)]\<rparr>"

text \<open>The handler's first part, on the payload as \<open>json.Unmarshal\<close> decodes it: a malformed payload or
  another measurement type is dropped.\<close>

definition concerns :: "actuator_loop \<Rightarrow> command_msg option \<Rightarrow> bool" where
  "concerns al payload = (case payload of
     None \<Rightarrow> False
   | Some msg \<Rightarrow> (case ActuatorNameToMeasurement (cm_ActuatorType msg) of None \<Rightarrow> [] | Some t \<Rightarrow> t) = acf_Type (al_Act al))"

definition contribute :: "actuator_loop \<Rightarrow> command_msg option \<Rightarrow> RoomState \<Rightarrow> RoomState" where
  "contribute al payload rs =
     (if \<not> concerns al payload then rs
      else if (case payload of None \<Rightarrow> False | Some msg \<Rightarrow> cm_State msg)
      then SetContribution (contribution_key al) [(acf_Type (al_Act al), acf_Rate (al_Act al))] rs
      else ClearContribution (contribution_key al) rs)"

definition on_command :: "nat \<Rightarrow> command_msg option \<Rightarrow> sim_state \<Rightarrow> sim_state" where
  "on_command j payload s =
     (let al = ss_Actuators s ! j
      in (on_room (al_Room al) (contribute al payload) s)
           \<lparr>ss_Actuators := (ss_Actuators s)[j := al\<lparr>al_Touch := concerns al payload\<rparr>]\<rparr>)"

definition touch :: "nat \<Rightarrow> instant \<Rightarrow> sim_state \<Rightarrow> sim_state" where
  "touch j now s =
     s\<lparr>ss_Actuators := (ss_Actuators s)[j := (ss_Actuators s ! j)\<lparr>al_LastCmd := now, al_Touch := False\<rparr>]\<rparr>"

definition on_watchdog :: "duration \<Rightarrow> nat \<Rightarrow> instant \<Rightarrow> sim_state \<Rightarrow> sim_state" where
  "on_watchdog timeout j now s =
     (let al = ss_Actuators s ! j
      in if timeout \<le> Sub now (al_LastCmd al) then on_room (al_Room al) (ClearContribution (contribution_key al)) s
         else s)"

definition set_pc :: "nat \<Rightarrow> sensor_pc \<Rightarrow> sim_state \<Rightarrow> sim_state" where
  "set_pc i pc s = s\<lparr>ss_Sensors := (ss_Sensors s)[i := (ss_Sensors s ! i)\<lparr>sl_PC := pc\<rparr>]\<rparr>"

section \<open>Steps\<close>

text \<open>
  One tick of a sensor goroutine is three critical sections: the snapshot of the heat input, the
  advance, and the reading of the current values with the publication after it. A command is two: the
  contribution and the time of the last command. The handler of a subscription runs on a goroutine of
  the MQTT library, beside the loop that subscribed it.
\<close>

datatype sim_actor = SensorLoop nat | ActuatorLoop nat | CommandHandler nat

inductive sim_act :: "Config \<Rightarrow> sim_actor \<Rightarrow> sim_state \<Rightarrow> sim_state \<Rightarrow> bool" for cfg where
  snapshot: "i < length (ss_Sensors s) \<Longrightarrow> sl_PC (ss_Sensors s ! i) = Waiting \<Longrightarrow>
     sim_act cfg (SensorLoop i) s (set_pc i (Snapshot (HeatInput (ss_Rooms s ! sl_Room (ss_Sensors s ! i)))) s)"
| advance: "i < length (ss_Sensors s) \<Longrightarrow> sl_PC (ss_Sensors s ! i) = Snapshot heat \<Longrightarrow>
     sim_act cfg (SensorLoop i) s (set_pc i Advanced (on_room (sl_Room (ss_Sensors s ! i))
       (apply_advance (ss_Models s ! sl_Room (ss_Sensors s ! i)) heat (cf_SimulatedTickSeconds cfg) draw) s))"
| publish: "i < length (ss_Sensors s) \<Longrightarrow> sl_PC (ss_Sensors s ! i) = Advanced \<Longrightarrow>
     sim_act cfg (SensorLoop i) s (set_pc i Waiting (s\<lparr>ss_Published := ss_Published s
       @ (case publishTelemetry (sl_Device (ss_Sensors s ! i)) (ss_Rooms s ! sl_Room (ss_Sensors s ! i)) noise of
            None \<Rightarrow> [] | Some m \<Rightarrow> [m])\<rparr>))"
| publish_fails: "i < length (ss_Sensors s) \<Longrightarrow> sl_PC (ss_Sensors s ! i) = Advanced \<Longrightarrow>
     sim_act cfg (SensorLoop i) s (set_pc i Waiting s)"
| command: "j < length (ss_Actuators s) \<Longrightarrow> \<not> al_Touch (ss_Actuators s ! j) \<Longrightarrow>
     sim_act cfg (CommandHandler j) s (on_command j payload s)"
| touched: "j < length (ss_Actuators s) \<Longrightarrow> al_Touch (ss_Actuators s ! j) \<Longrightarrow> sim_act cfg (CommandHandler j) s (touch j now s)"
| watchdog: "j < length (ss_Actuators s) \<Longrightarrow> sim_act cfg (ActuatorLoop j) s (on_watchdog (watchdogTimeout cfg) j now s)"

inductive_cases sim_actE: "sim_act cfg a s s'"

text \<open>Any of them, in any order.\<close>

inductive sim_step :: "Config \<Rightarrow> sim_state \<Rightarrow> sim_state \<Rightarrow> bool" for cfg where
  step: "sim_act cfg a s s' \<Longrightarrow> sim_step cfg s s'"

inductive_cases sim_stepE: "sim_step cfg s s'"

inductive sim_reachable :: "Config \<Rightarrow> sim_state \<Rightarrow> sim_state \<Rightarrow> bool" for cfg s0 where
  start: "sim_reachable cfg s0 s0"
| more: "sim_reachable cfg s0 s \<Longrightarrow> sim_step cfg s s' \<Longrightarrow> sim_reachable cfg s0 s'"

end
