(* ===== verification/SimSpec.thy ===== *)
theory SimSpec
  imports SimLoop
begin

text \<open>
  What holds of the simulator: the invariant of every interleaving of its goroutines, the telemetry it
  publishes, the identities it provisions and the configuration it accepts.
\<close>

section \<open>The invariant of the running simulator\<close>

text \<open>Every contribution in room \<open>k\<close> is the rate of an actuator goroutine of that room.\<close>

definition contributed :: "actuator_loop list \<Rightarrow> nat \<Rightarrow> RoomState \<Rightarrow> bool" where
  "contributed als k rs \<longleftrightarrow> (\<forall>(key, rates) \<in> set (rmst_contributions rs).
     \<exists>al \<in> set als. al_Room al = k \<and> key = contribution_key al
       \<and> rates = [(acf_Type (al_Act al), acf_Rate (al_Act al))])"

text \<open>What never changes of an actuator goroutine.\<close>

definition wiring :: "actuator_loop \<Rightarrow> string \<times> ActuatorConfig \<times> nat" where
  "wiring al = (al_HwID al, al_Act al, al_Room al)"

definition sim_ok :: "sim_state \<Rightarrow> bool" where
  "sim_ok s \<longleftrightarrow> (\<forall>k < length (ss_Rooms s). room_ok (ss_Rooms s ! k) \<and> contributed (ss_Actuators s) k (ss_Rooms s ! k))
     \<and> (\<forall>sl \<in> set (ss_Sensors s). sl_Room sl < length (ss_Rooms s))
     \<and> (\<forall>al \<in> set (ss_Actuators s). al_Room al < length (ss_Rooms s))"

lemma contributed_wiring:
  assumes "contributed als k rs" and "wiring ` set als = wiring ` set als'"
  shows "contributed als' k rs"
  unfolding contributed_def
proof clarify
  fix key rates
  assume "(key, rates) \<in> set (rmst_contributions rs)"
  with assms(1) obtain al where al: "al \<in> set als" "al_Room al = k" "key = contribution_key al"
    "rates = [(acf_Type (al_Act al), acf_Rate (al_Act al))]" by (auto simp: contributed_def)
  from al(1) assms(2) obtain al' where "al' \<in> set als'" "wiring al' = wiring al" by (metis imageE imageI)
  with al(2-4) show "\<exists>al \<in> set als'. al_Room al = k \<and> key = contribution_key al
      \<and> rates = [(acf_Type (al_Act al), acf_Rate (al_Act al))]"
    by (intro bexI [of _ al']) (auto simp: wiring_def contribution_key_def)
qed

lemma set_updateD: "p \<in> set (AList.update k v al) \<Longrightarrow> p = (k, v) \<or> p \<in> set al"
  by (induction al) (auto split: if_splits)

lemma contributed_contribute:
  assumes "contributed als k rs" and "al \<in> set als" and "al_Room al = k"
  shows "contributed als k (contribute al payload rs)"
    "contributed als k (ClearContribution (contribution_key al) rs)"
proof -
  have del: "contributed als k (ClearContribution key rs)" for key
    using assms(1) by (fastforce simp: contributed_def ClearContribution_def AList.delete_eq)
  then show "contributed als k (ClearContribution (contribution_key al) rs)" .
  have "contributed als k (SetContribution (contribution_key al) [(acf_Type (al_Act al), acf_Rate (al_Act al))] rs)"
    using assms by (auto simp: contributed_def SetContribution_def dest!: set_updateD)
  with del assms(1) show "contributed als k (contribute al payload rs)" by (simp add: contribute_def)
qed

lemma room_ok_contribute: "room_ok rs \<Longrightarrow> room_ok (contribute al payload rs)"
  by (simp add: contribute_def room_ok_SetContribution room_ok_ClearContribution)

lemma contributed_advance [simp]: "contributed als k (apply_advance m h dt draw rs) = contributed als k rs"
  by (simp add: contributed_def apply_advance_def Let_def)

lemma wiring_update:
  assumes "j < length als" and "wiring al = wiring (als ! j)"
  shows "wiring ` set (als[j := al]) = wiring ` set als"
proof -
  have "map wiring (als[j := al]) = map wiring als"
    using assms list_update_id [of "map wiring als" j] by (simp add: map_update)
  then show ?thesis by (metis set_map)
qed

lemma sim_ok_on_room:
  assumes "sim_ok s" and "k < length (ss_Rooms s) \<Longrightarrow> room_ok (f (ss_Rooms s ! k))"
    and "k < length (ss_Rooms s) \<Longrightarrow> contributed (ss_Actuators s) k (f (ss_Rooms s ! k))"
  shows "sim_ok (on_room k f s)"
proof -
  have "room_ok ((ss_Rooms s)[k := f (ss_Rooms s ! k)] ! i)
      \<and> contributed (ss_Actuators s) i ((ss_Rooms s)[k := f (ss_Rooms s ! k)] ! i)"
    if "i < length (ss_Rooms s)" for i
    using assms that by (cases "i = k") (auto simp: sim_ok_def)
  with assms(1) show ?thesis by (simp add: sim_ok_def on_room_def)
qed

lemma sim_ok_sensors:
  assumes "sim_ok s" and "i < length (ss_Sensors s)" and "sl_Room sl = sl_Room (ss_Sensors s ! i)"
  shows "sim_ok (s\<lparr>ss_Sensors := (ss_Sensors s)[i := sl]\<rparr>)"
  using assms by (auto simp: sim_ok_def dest!: set_mp [OF set_update_subset_insert])

lemma sim_ok_actuators:
  assumes "sim_ok s" and "j < length (ss_Actuators s)" and "wiring al = wiring (ss_Actuators s ! j)"
  shows "sim_ok (s\<lparr>ss_Actuators := (ss_Actuators s)[j := al]\<rparr>)"
proof -
  from wiring_update [OF assms(2,3)] have
    "contributed (ss_Actuators s) k rs \<Longrightarrow> contributed ((ss_Actuators s)[j := al]) k rs" for k rs
    by (metis contributed_wiring)
  moreover have "al_Room a < length (ss_Rooms s)" if "a \<in> set ((ss_Actuators s)[j := al])" for a
  proof -
    from that wiring_update [OF assms(2,3)] obtain b where "b \<in> set (ss_Actuators s)" "wiring a = wiring b"
      by (metis imageE imageI)
    with assms(1) show ?thesis by (auto simp: sim_ok_def wiring_def)
  qed
  ultimately show ?thesis using assms(1) by (auto simp: sim_ok_def)
qed


lemma sim_ok_on_command:
  assumes "sim_ok s" and "j < length (ss_Actuators s)"
  shows "sim_ok (on_command j payload s)"
proof -
  let ?al = "ss_Actuators s ! j"
  have "sim_ok (on_room (al_Room ?al) (contribute ?al payload) s)"
    using assms by (intro sim_ok_on_room)
      (auto simp: sim_ok_def intro: room_ok_contribute contributed_contribute)
  from sim_ok_actuators [OF this, of j "?al\<lparr>al_Touch := concerns ?al payload\<rparr>"] assms(2)
  show ?thesis by (simp add: on_command_def on_room_def Let_def wiring_def)
qed

lemma sim_ok_touch: "sim_ok s \<Longrightarrow> j < length (ss_Actuators s) \<Longrightarrow> sim_ok (touch j now s)"
  unfolding touch_def by (intro sim_ok_actuators) (auto simp: wiring_def)

lemma sim_ok_act: "sim_act cfg a s s' \<Longrightarrow> sim_ok s \<Longrightarrow> sim_ok s'"
proof (induction rule: sim_act.induct)
  case (advance i s heat draw)
  have "sim_ok (on_room (sl_Room (ss_Sensors s ! i)) (apply_advance (ss_Models s ! sl_Room (ss_Sensors s ! i)) heat
      (cf_SimulatedTickSeconds cfg) draw) s)"
    using advance(3) by (intro sim_ok_on_room) (auto simp: sim_ok_def room_ok_advance)
  then show ?case using advance(1) unfolding set_pc_def by (intro sim_ok_sensors) (auto simp: on_room_def)
next
  case (publish i s noise)
  then show ?case unfolding set_pc_def by (intro sim_ok_sensors) (auto simp: sim_ok_def)
next
  case (command j s payload)
  then show ?case by (intro sim_ok_on_command)
next
  case (touched j s now)
  then show ?case by (intro sim_ok_touch)
next
  case (watchdog j s now)
  have "sim_ok (on_room (al_Room (ss_Actuators s ! j)) (ClearContribution (contribution_key (ss_Actuators s ! j))) s)"
    using watchdog by (intro sim_ok_on_room)
      (auto simp: sim_ok_def intro: room_ok_ClearContribution contributed_contribute)
  with watchdog show ?case by (simp add: on_watchdog_def Let_def)
qed (unfold set_pc_def, intro sim_ok_sensors; simp)+

lemma sim_ok_step: "sim_step cfg s s' \<Longrightarrow> sim_ok s \<Longrightarrow> sim_ok s'"
  by (auto elim: sim_stepE intro: sim_ok_act)

lemma sim_ok_start:
  assumes "simulator_Run cfg users now = Some s"
    and "\<And>room typ v. room \<in> set (concat (map pus_Rooms users)) \<Longrightarrow> ambient_of room typ = Some v \<Longrightarrow> clamp typ v = v"
  shows "sim_ok s"
proof -
  let ?rooms = "concat (map pus_Rooms users)"
  have k: "k < length ?rooms" if "(dev, k) \<in> set (device_entries users)" for dev k
    using that by (auto simp: device_entries_def room_entries_def in_set_enumerate_eq)
  have "sl_Room sl < length ?rooms" if "sl \<in> set (spawn_sensors d (device_entries users))" for sl d
    using that k by (fastforce simp: spawn_sensors_def in_set_enumerate_eq dest!: nth_mem split: if_splits)
  moreover have "al_Room al < length ?rooms" if "al \<in> set (spawn_actuators t (device_entries users))" for al t
    using that k by (auto simp: spawn_actuators_def)
  moreover have "room_ok (newRoomState (ambient_of room))" if "room \<in> set ?rooms" for room
    using assms(2) that by (intro room_ok_new) blast
  moreover have "contributed als k (newRoomState amb)" for als k amb
    by (simp add: contributed_def newRoomState_def)
  ultimately show ?thesis using assms(1) nth_mem [of _ ?rooms]
    by (auto simp: simulator_Run_def sim_ok_def split: if_splits)
qed

interpretation sim: relation_invariant "sim_step cfg" sim_ok for cfg
  by unfold_locales (rule sim_ok_step)

lemma sim_reachable_run: "sim_reachable cfg s0 s \<Longrightarrow> (sim_step cfg)\<^sup>*\<^sup>* s0 s"
  by (induction rule: sim_reachable.induct) (auto intro: rtranclp.rtrancl_into_rtrancl)

lemma sim_ok_reachable: "sim_reachable cfg s0 s \<Longrightarrow> sim_ok s0 \<Longrightarrow> sim_ok s"
  by (rule sim.reachable_inv [OF sim_reachable_run])


section \<open>Physical states only\<close>

text \<open>C28: Whatever the interleaving of sensor ticks, commands and watchdogs, a simulated room never leaves
  the physical range: a bounded measurement that starts within its bounds stays there, the heat input
  is the sum of the contributions, and each contribution is the configured rate of an actuator of that
  very room, counted once.\<close>

theorem simulation_stays_physical:
  assumes "simulator_Run cfg users now = Some s0" and "sim_reachable cfg s0 s" and "k < length (ss_Rooms s)"
    and "\<And>room typ v. room \<in> set (concat (map pus_Rooms users)) \<Longrightarrow> ambient_of room typ = Some v \<Longrightarrow> clamp typ v = v"
  shows "(\<forall>typ v lo hi. rmst_Current (ss_Rooms s ! k) typ = Some v \<and> MeasurementBounds typ = Some (lo, hi)
           \<longrightarrow> lo \<le> v \<and> v \<le> hi)
     \<and> (\<forall>typ. num_at (HeatInput (ss_Rooms s ! k)) typ = heat_of (rmst_contributions (ss_Rooms s ! k)) typ)
     \<and> distinct (map fst (rmst_contributions (ss_Rooms s ! k)))
     \<and> contributed (ss_Actuators s) k (ss_Rooms s ! k)"
proof -
  have "sim_ok s" by (rule sim_ok_reachable [OF assms(2) sim_ok_start [OF assms(1,4)]])
  with assms(3) have ok: "room_ok (ss_Rooms s ! k)" "contributed (ss_Actuators s) k (ss_Rooms s ! k)"
    by (simp_all add: sim_ok_def)
  have "lo \<le> v \<and> v \<le> hi"
    if "rmst_Current (ss_Rooms s ! k) ty = Some v" "MeasurementBounds ty = Some (lo, hi)" for ty v lo hi
    unfolding clamp_within [OF that(2), symmetric] using that(1) ok(1) by (simp add: room_ok_def)
  with ok show ?thesis unfolding room_ok_def HeatInput_def by blast
qed

text \<open>One user, one standard room, one device with a temperature sensor and a heater.\<close>

definition thermostat :: DeviceDef where
  "thermostat = \<lparr>dv_NamePrefix = ''th'', dv_Count = 1,
     dv_Sensors = [\<lparr>sen_Type = ''temperature'', sen_Noise = 1 / 5, sen_Offset = 0\<rparr>],
     dv_Actuators = [\<lparr>acf_Type = ''temperature'', acf_Rate = 1000\<rparr>]\<rparr>"

definition lab :: RoomDef where
  "lab = \<lparr>rmd_NamePrefix = ''lab'', rmd_Count = 1, rmd_Type = ''reactive'', rmd_Noisy = False,
     rmd_Measurements = demo_measurements, rmd_Devices = [thermostat], rmd_DesiredState = None,
     rmd_Schedule = None\<rparr>"

definition demo_users :: "ProvisionedUser list" where
  "demo_users = [\<lparr>pus_Rooms = [\<lparr>pr_ID = ''r'', pr_Name = ''lab-0'', pr_Config = lab,
     pr_Devices = [\<lparr>pd_HwID = ''sim-demo-0-0-0'', pd_Config = thermostat\<rparr>]\<rparr>]\<rparr>]"

definition demo_cfg :: Config where
  "demo_cfg = \<lparr>cf_APIURL = [], cf_MQTTHost = [], cf_MQTTPort = 1883, cf_MQTTClientID = ''sim-demo'',
     cf_MQTTUsername = [], cf_MQTTPassword = [], cf_EmailTemplate = ''a@b.c'', cf_Password = ''secret'',
     cf_BaseTickSeconds = 10, cf_EffectivePublishInterval = 10 * Second, cf_SimulatedTickSeconds = 10,
     cf_Simulation = \<lparr>sim_Name = ''demo'', sim_TimeScale = 1, sim_MinPublishIntervalMS = 500,
       sim_UserGroups = [\<lparr>ug_Count = 1, ug_Interactive = True, ug_Rooms = [lab]\<rparr>]\<rparr>\<rparr>"

lemma demo_entries: "device_entries demo_users = [(\<lparr>pd_HwID = ''sim-demo-0-0-0'', pd_Config = thermostat\<rparr>, 0)]"
  by (simp add: device_entries_def room_entries_def demo_users_def)

lemma demo_ambient: "room \<in> set (concat (map pus_Rooms demo_users)) \<Longrightarrow> ambient_of room = [''temperature'' \<mapsto> 20]"
  by (auto simp: demo_users_def lab_def ambient_of_def demo_measurements_def resolveMeasurements_def fun_eq_iff)

definition demo_sim :: sim_state where
  "demo_sim = the (simulator_Run demo_cfg demo_users 0)"

lemma demo_run: "simulator_Run demo_cfg demo_users 0 = Some demo_sim"
  by (simp add: demo_sim_def simulator_Run_def demo_entries)

lemma demo_sim_simps [simp]:
  "ss_Rooms demo_sim = [newRoomState [''temperature'' \<mapsto> 20]]"
  "ss_Actuators demo_sim = [\<lparr>al_HwID = ''sim-demo-0-0-0'', al_Act = \<lparr>acf_Type = ''temperature'', acf_Rate = 1000\<rparr>,
     al_Room = 0, al_LastCmd = 0, al_Touch = False\<rparr>]"
  using demo_ambient
  by (simp_all add: demo_sim_def simulator_Run_def demo_entries spawn_actuators_def thermostat_def)
    (simp add: demo_users_def)

theorem simulation_stays_physical_witness:
  "num_at (HeatInput (ss_Rooms (on_command 0 (Some \<lparr>cm_ActuatorType = ''heater'', cm_State = True\<rparr>) demo_sim) ! 0))
     ''temperature'' = 1000"
proof -
  let ?s = "on_command 0 (Some \<lparr>cm_ActuatorType = ''heater'', cm_State = True\<rparr>) demo_sim"
  have "sim_reachable demo_cfg demo_sim ?s"
    by (rule sim_reachable.more [OF sim_reachable.start], rule sim_step.step, rule sim_act.command) simp_all
  moreover have "clamp ty v = v" if "room \<in> set (concat (map pus_Rooms demo_users))" "ambient_of room ty = Some v"
    for room ty v using that by (simp only: demo_ambient) (auto simp: clamp_def MeasurementBounds_def split: if_splits)
  ultimately have "num_at (HeatInput (ss_Rooms ?s ! 0)) ''temperature'' = heat_of (rmst_contributions (ss_Rooms ?s ! 0)) ''temperature''"
    using simulation_stays_physical [OF demo_run, of ?s 0] by (simp add: on_command_def on_room_def Let_def)
  also have "\<dots> = 1000"
    by (simp add: on_command_def on_room_def Let_def contribute_def concerns_def ActuatorNameToMeasurement_def
        SetContribution_def newRoomState_def)
  finally show ?thesis .
qed

end
