(* ===== verification/SimTopology.thy ===== *)
theory SimTopology
  imports SimSpec
begin

text \<open>
  What \<open>provisioning.Run\<close> leaves behind when it succeeds, whatever the API answered on the way: exactly
  the users, rooms and devices of the configuration, under identities that never coincide; and where
  the naming scheme does fail to keep names apart.
\<close>

section \<open>The configured topology\<close>

definition configured_devices :: "string \<Rightarrow> nat \<Rightarrow> nat \<Rightarrow> DeviceDef list \<Rightarrow> (string \<times> DeviceDef) list" where
  "configured_devices simName u k defs =
     map (\<lambda>(g, def, i). (generateHwID simName u k g, def)) (enumerate 0 (expand dv_Count defs))"

definition configured_rooms ::
    "string \<Rightarrow> nat \<Rightarrow> RoomDef list \<Rightarrow> (string \<times> RoomDef \<times> (string \<times> DeviceDef) list) list" where
  "configured_rooms simName u defs =
     map (\<lambda>(k, def, i). (room_name def k, def, configured_devices simName u k (rmd_Devices def)))
       (enumerate 0 (expand rmd_Count defs))"

text \<open>Users are numbered through all groups.\<close>

fun user_slots :: "nat \<Rightarrow> UserGroup list \<Rightarrow> (nat \<times> RoomDef list) list" where
  "user_slots n [] = []"
| "user_slots n (g # gs) = map (\<lambda>u. (u, ug_Rooms g)) [n..<n + nat (ug_Count g)] @ user_slots (n + nat (ug_Count g)) gs"

definition configured_users :: "Simulation \<Rightarrow> (string \<times> RoomDef \<times> (string \<times> DeviceDef) list) list list" where
  "configured_users sim = map (\<lambda>(u, defs). configured_rooms (sim_Name sim) u defs) (user_slots 0 (sim_UserGroups sim))"

definition room_shape :: "ProvisionedRoom \<Rightarrow> string \<times> RoomDef \<times> (string \<times> DeviceDef) list" where
  "room_shape r = (pr_Name r, pr_Config r, map (\<lambda>d. (pd_HwID d, pd_Config d)) (pr_Devices r))"

definition all_hwids :: "ProvisionedUser list \<Rightarrow> string list" where
  "all_hwids users = concat (map (\<lambda>u. concat (map (\<lambda>r. map pd_HwID (pr_Devices r)) (pus_Rooms u))) users)"

section \<open>Runs that succeed\<close>

lemma collectE_map:
  assumes "collectE f xs w = (Inr ys, w')" and "\<And>x v y v'. x \<in> set xs \<Longrightarrow> f x v = (Inr y, v') \<Longrightarrow> g y = h x"
  shows "map g ys = map h xs"
  using assms
proof (induction xs arbitrary: ys w)
  case (Cons x xs)
  from Cons.prems(1) obtain y w1 zs where "f x w = (Inr y, w1)" "collectE f xs w1 = (Inr zs, w')" "ys = y # zs"
    by (auto elim!: bindE_InrE)
  with Cons.IH [of w1 zs] Cons.prems(2) show ?case by auto
qed simp

lemma provisionDevice_shape:
  "provisionDevice c token simName u k roomID roomName known (g, def, i) w = (Inr d, w')
   \<Longrightarrow> (pd_HwID d, pd_Config d) = (generateHwID simName u k g, def)"
  by (auto simp: provisionDevice_def Let_def elim!: bindE_InrE)

lemma provisionDevices_shape:
  "provisionDevices c token simName u k roomID roomName defs known w = (Inr ds, w')
   \<Longrightarrow> map (\<lambda>d. (pd_HwID d, pd_Config d)) ds = configured_devices simName u k defs"
  unfolding provisionDevices_def configured_devices_def
  by (erule collectE_map) (auto dest: provisionDevice_shape)

lemma provisionRoom_shape:
  "provisionRoom c token simName u rooms devices (k, def, i) w = (Inr r, w')
   \<Longrightarrow> room_shape r = (room_name def k, def, configured_devices simName u k (rmd_Devices def))"
  by (auto simp: provisionRoom_def Let_def room_shape_def elim!: bindE_InrE
      dest!: mapErr_InrD provisionDevices_shape)

lemma provisionRooms_shape:
  "provisionRooms c token simName u defs rooms devices w = (Inr rs, w')
   \<Longrightarrow> map room_shape rs = configured_rooms simName u defs"
  unfolding provisionRooms_def configured_rooms_def
  by (erule collectE_map) (auto dest: provisionRoom_shape)

lemma provision_user_shape:
  "provision_user c cfg defs u w = (Inr p, w')
   \<Longrightarrow> map room_shape (pus_Rooms (pc_user p)) = configured_rooms (sim_Name (cf_Simulation cfg)) u defs"
  by (auto simp: provision_user_def Let_def elim!: bindE_InrE dest!: mapErr_InrD provisionRooms_shape)

lemma run_groups_shape:
  "run_groups c fs cfg n gs w = (Inr users, w') \<Longrightarrow> map (\<lambda>u. map room_shape (pus_Rooms u)) users
     = map (\<lambda>(u, defs). configured_rooms (sim_Name (cf_Simulation cfg)) u defs) (user_slots n gs)"
proof (induction gs arbitrary: n w users)
  case (Cons g gs)
  let ?m = "n + nat (ug_Count g)"
  from Cons.prems obtain ps rest w1 w2 where
    ps: "collectE (provision_user c cfg (ug_Rooms g)) [n..<?m] w = (Inr ps, w1)" and
    rest: "run_groups c fs cfg ?m gs w2 = (Inr rest, w')" and users: "users = map pc_user ps @ rest"
    by (auto elim!: bindE_InrE)
  have "map (\<lambda>p. map room_shape (pus_Rooms (pc_user p))) ps
      = map (\<lambda>u. configured_rooms (sim_Name (cf_Simulation cfg)) u (ug_Rooms g)) [n..<?m]"
    by (rule collectE_map [OF ps]) (rule provision_user_shape)
  with Cons.IH [OF rest] users show ?case by (simp add: comp_def)
qed simp

section \<open>Identities\<close>

lemma split_at_sep:
  "xs @ c # ys = xs' @ c # ys' \<Longrightarrow> c \<notin> set xs \<Longrightarrow> c \<notin> set xs' \<Longrightarrow> xs = xs' \<and> ys = ys'"
proof (induction xs arbitrary: xs')
  case Nil
  then show ?case by (cases xs') auto
next
  case (Cons x xs)
  then show ?case by (cases xs') auto
qed

lemma dash_not_in_dec: "CHR ''-'' \<notin> set (dec n)"
  using digits_dec [of n] is_digit_not_sign by blast

lemma generateHwID_inject:
  "generateHwID s u k g = generateHwID s u' k' g' \<longleftrightarrow> u = u' \<and> k = k' \<and> g = g'"
proof
  assume "generateHwID s u k g = generateHwID s u' k' g'"
  then have eq: "dec u @ CHR ''-'' # dec k @ CHR ''-'' # dec g = dec u' @ CHR ''-'' # dec k' @ CHR ''-'' # dec g'"
    by (simp add: generateHwID_def)
  from split_at_sep [OF this dash_not_in_dec dash_not_in_dec]
  have "dec u = dec u'" and eq2: "dec k @ CHR ''-'' # dec g = dec k' @ CHR ''-'' # dec g'" by auto
  from split_at_sep [OF eq2 dash_not_in_dec dash_not_in_dec] \<open>dec u = dec u'\<close>
  show "u = u' \<and> k = k' \<and> g = g'" by (auto simp: dec_inject)
qed simp

lemma room_name_inject: "room_name d k = room_name d' k' \<Longrightarrow> k = k'"
proof -
  assume "room_name d k = room_name d' k'"
  then have "rev (room_name d k) = rev (room_name d' k')" by simp
  then have "rev (dec k) @ CHR ''-'' # rev (rmd_NamePrefix d) = rev (dec k') @ CHR ''-'' # rev (rmd_NamePrefix d')"
    by (simp add: room_name_def)
  from split_at_sep [OF this] dash_not_in_dec show "k = k'" by (auto simp: dec_inject)
qed

lemma distinct_concat_keyed:
  assumes "distinct (map fst ps)" and "\<And>p. distinct (f p)"
    and "\<And>p q a. a \<in> set (f p) \<Longrightarrow> a \<in> set (f q) \<Longrightarrow> fst p = fst q"
  shows "distinct (concat (map f ps))"
  using assms(1)
proof (induction ps)
  case (Cons p ps)
  have "set (f p) \<inter> set (concat (map f ps)) = {}"
  proof (rule ccontr)
    assume "set (f p) \<inter> set (concat (map f ps)) \<noteq> {}"
    then obtain a q where "a \<in> set (f p)" "q \<in> set ps" "a \<in> set (f q)" by auto
    with assms(3) [of a p q] Cons.prems show False by (metis distinct.simps(2) image_eqI list.simps(9) set_map)
  qed
  with Cons assms(2) show ?case by simp
qed simp

lemma distinct_map_keyed:
  assumes "distinct (map fst ps)" and "\<And>p q. f p = f q \<Longrightarrow> fst p = fst q"
  shows "distinct (map f ps)"
proof -
  have "distinct (concat (map (\<lambda>p. [f p]) ps))"
    by (rule distinct_concat_keyed [OF assms(1)]) (auto intro: assms(2))
  then show ?thesis by simp
qed

lemma user_slots_numbers: "map fst (user_slots n gs) = [n..<n + length (user_slots n gs)]"
proof (induction gs arbitrary: n)
  case (Cons g gs)
  show ?case using Cons [of "n + nat (ug_Count g)"]
    by (simp add: comp_def upt_add_eq_append [symmetric] add.assoc [symmetric] flip: upt_add_eq_append)
qed simp

definition device_ids :: "(string \<times> RoomDef \<times> (string \<times> DeviceDef) list) list \<Rightarrow> string list" where
  "device_ids rooms = concat (map (\<lambda>(name, def, devs). map fst devs) rooms)"

lemma device_ids_configured:
  "device_ids (configured_rooms s u defs) = concat (map (\<lambda>(k, def, i). map fst (configured_devices s u k (rmd_Devices def)))
     (enumerate 0 (expand rmd_Count defs)))"
  by (simp add: device_ids_def configured_rooms_def comp_def case_prod_unfold)

lemma configured_device_ids:
  "map fst (configured_devices s u k defs) = map (generateHwID s u k) [0..<length (expand dv_Count defs)]"
proof -
  have "map fst (configured_devices s u k defs) = map (generateHwID s u k) (map fst (enumerate 0 (expand dv_Count defs)))"
    unfolding map_map configured_devices_def by (rule map_cong) auto
  then show ?thesis by (simp only: map_fst_enumerate add_0)
qed

lemma all_hwids_shape: "all_hwids users = concat (map (\<lambda>u. device_ids (map room_shape (pus_Rooms u))) users)"
  by (simp add: all_hwids_def device_ids_def room_shape_def comp_def)

lemma configured_ids_distinct: "distinct (concat (map (\<lambda>(u, defs). device_ids (configured_rooms s u defs)) (user_slots n gs)))"
proof (rule distinct_concat_keyed)
  show "distinct (map fst (user_slots n gs))" by (subst user_slots_numbers) simp
  have ids: "distinct (device_ids (configured_rooms s u defs))" for u defs
    unfolding device_ids_configured
    by (rule distinct_concat_keyed)
      (auto simp: configured_device_ids distinct_map inj_on_def generateHwID_inject)
  then show "distinct (case p of (u, defs) \<Rightarrow> device_ids (configured_rooms s u defs))" for p
    by (simp add: case_prod_unfold)
  show "fst p = fst q" if "a \<in> set (case p of (u, defs) \<Rightarrow> device_ids (configured_rooms s u defs))"
      "a \<in> set (case q of (u, defs) \<Rightarrow> device_ids (configured_rooms s u defs))" for p q a
    using that unfolding device_ids_configured case_prod_unfold
    by (auto simp: configured_device_ids generateHwID_inject)
qed

lemma room_names_distinct: "distinct (map fst (configured_rooms s u defs))"
proof -
  have "map fst (configured_rooms s u defs) = map (\<lambda>(k, def, i). room_name def k) (enumerate 0 (expand rmd_Count defs))"
    by (simp add: configured_rooms_def comp_def case_prod_unfold)
  also have "distinct \<dots>"
    by (rule distinct_map_keyed) (auto dest: room_name_inject)
  finally show ?thesis .
qed


text \<open>An API that grants everything.\<close>

definition agreeable :: "(unit, unit) client" where
  "agreeable = \<lparr>cl_Do = (\<lambda>q. returnE \<lparr>hr_StatusCode = (if hq_Method q = ''POST'' \<and> hq_Path q \<noteq> ''/api/v1/auth/login''
       then 201 else 200), hr_Body = ()\<rparr>),
     cl_access_token = (\<lambda>_. Inr ''token''), cl_room = (\<lambda>_. Inr \<lparr>rr_ID = ''r'', rr_Name = []\<rparr>), cl_rooms = (\<lambda>_. Inr []),
     cl_device = (\<lambda>_. Inr \<lparr>dr_ID = ''d'', dr_Name = [], dr_HwID = []\<rparr>), cl_devices = (\<lambda>_. Inr []),
     cl_schedule = (\<lambda>_. Inr \<lparr>sr2_ID = ''s'', sr2_Name = []\<rparr>), cl_schedules = (\<lambda>_. Inr []), cl_error = (\<lambda>_. Inr [])\<rparr>"

definition no_files :: "unit files" where
  "no_files = \<lparr>fs_Create = (\<lambda>_. returnE ()), fs_Write = (\<lambda>_ _. returnE ()), fs_Now = (\<lambda>_. ''now'')\<rparr>"

lemma digit_chars: "digit_char 0 = CHR ''0''" "digit_char (Suc 0) = CHR ''1''" "digit_char 1 = CHR ''1''"
  by code_simp+

lemma demo_provisions: "\<exists>users. provisioning_Run agreeable no_files demo_cfg () = (Inr users, ())"
  by (simp add: provisioning_Run_def demo_cfg_def provision_user_def login_or_register_def client_Login_def
      client_ListRooms_def client_ListDevices_def client_post_def client_get_def client_do_def agreeable_def no_files_def
      expect_def decode_def bindE_run mapErr_run provisionRooms_def provisionRoom_def expand_def lab_def thermostat_def
      or_existing_def client_CreateRoom_def client_CreateDevice_def client_AssignDevice_def client_put_def
      conflict_check_def provisionDevices_def provisionDevice_def actuatorTypeStrings_def
      MeasurementToActuatorName_def writeCredentials_def Let_def)


section \<open>Where names collide\<close>

text \<open>Unique prefixes do not make device names unique: a device of room \<open>r-0\<close> (prefix \<open>r\<close>) with prefix
  \<open>1-x\<close> is called like a device of room \<open>r-0-1\<close> (prefix \<open>r-0\<close>) with prefix \<open>x\<close>, and the API rejects the
  second as a name conflict that the lookup by hardware id cannot resolve.\<close>

definition colliding :: "RoomDef list" where
  "colliding = [lab\<lparr>rmd_NamePrefix := ''r'', rmd_Devices := [thermostat\<lparr>dv_NamePrefix := ''1-x''\<rparr>]\<rparr>,
     lab\<lparr>rmd_NamePrefix := ''r-0'', rmd_Devices := [thermostat\<lparr>dv_NamePrefix := ''x''\<rparr>]\<rparr>]"

lemma device_names_collide:
  "validateSimulation \<lparr>sim_Name = ''s'', sim_TimeScale = 1, sim_MinPublishIntervalMS = 500,
      sim_UserGroups = [\<lparr>ug_Count = 1, ug_Interactive = False, ug_Rooms = colliding\<rparr>]\<rparr> = Inr ()
   \<and> device_name (room_name (colliding ! 0) 0) (rmd_Devices (colliding ! 0) ! 0) 0
     = device_name (room_name (colliding ! 1) 1) (rmd_Devices (colliding ! 1) ! 0) 0"
  by (simp add: validateSimulation_def colliding_def device_name_def room_name_def dec.simps digit_chars)

text \<open>The credentials file is created anew for every interactive group, under the same name: only the last
  group's credentials survive.\<close>

definition disk :: "(string \<rightharpoonup> string) files" where
  "disk = \<lparr>fs_Create = (\<lambda>p. modifyE (\<lambda>d. d(p \<mapsto> []))),
     fs_Write = (\<lambda>p t. modifyE (\<lambda>d. d(p \<mapsto> (case d p of None \<Rightarrow> [] | Some old \<Rightarrow> old) @ t))), fs_Now = (\<lambda>_. ''now'')\<rparr>"

lemma later_group_overwrites_credentials:
  "snd (bindE (writeCredentials disk n us) (\<lambda>_. writeCredentials disk n vs) d) (''/app/config/credentials/'' @ n @ ''.txt'')
     = Some (credentials_text n ''now'' vs)"
  by (simp add: writeCredentials_def disk_def bindE_run mapErr_run Let_def)

section \<open>Time of a room with several sensor devices\<close>

text \<open>One publish interval of one sensor device, up to the publication: the room advances by a whole tick.\<close>

lemma sensor_advances_room:
  assumes "i < length (ss_Sensors s)" and "sl_PC (ss_Sensors s ! i) = Waiting" and "sl_Room (ss_Sensors s ! i) = k"
    and "k < length (ss_Rooms s)"
  shows "\<exists>s'. (sim_step cfg)\<^sup>*\<^sup>* s s' \<and> ss_Models s' = ss_Models s \<and> length (ss_Rooms s') = length (ss_Rooms s)
     \<and> ss_Rooms s' ! k = advanceRoom (ss_Models s ! k) (cf_SimulatedTickSeconds cfg) draw (ss_Rooms s ! k)
     \<and> ss_Sensors s' = (ss_Sensors s)[i := (ss_Sensors s ! i)\<lparr>sl_PC := Advanced\<rparr>]"
proof -
  let ?heat = "HeatInput (ss_Rooms s ! k)"
  let ?s1 = "set_pc i (Snapshot ?heat) s"
  let ?s2 = "set_pc i Advanced (on_room (sl_Room (ss_Sensors ?s1 ! i))
       (apply_advance (ss_Models ?s1 ! sl_Room (ss_Sensors ?s1 ! i)) ?heat (cf_SimulatedTickSeconds cfg) draw) ?s1)"
  have "sim_step cfg s ?s1" using sim_step.step [OF sim_act.snapshot [OF assms(1,2)], of cfg] by (simp add: assms(3))
  moreover have "sim_step cfg ?s1 ?s2" by (rule sim_step.step, rule sim_act.advance) (simp_all add: set_pc_def assms(1))
  ultimately have "(sim_step cfg)\<^sup>*\<^sup>* s ?s2" by (meson rtranclp.rtrancl_refl rtranclp.rtrancl_into_rtrancl)
  then show ?thesis using assms
    by (intro exI [of _ ?s2]) (simp add: set_pc_def on_room_def advanceRoom_def)
qed

text \<open>Two sensor devices in a room, each ticking once: the room has advanced by two ticks, though only one publish
  interval has passed.\<close>

lemma two_sensors_double_time:
  assumes "i < length (ss_Sensors s)" "j < length (ss_Sensors s)" "i \<noteq> j" "k < length (ss_Rooms s)"
    and "sl_PC (ss_Sensors s ! i) = Waiting" "sl_PC (ss_Sensors s ! j) = Waiting"
    and "sl_Room (ss_Sensors s ! i) = k" "sl_Room (ss_Sensors s ! j) = k"
  shows "\<exists>s'. (sim_step cfg)\<^sup>*\<^sup>* s s' \<and> ss_Rooms s' ! k = advanceRoom (ss_Models s ! k) (cf_SimulatedTickSeconds cfg) draw2
       (advanceRoom (ss_Models s ! k) (cf_SimulatedTickSeconds cfg) draw1 (ss_Rooms s ! k))"
proof -
  obtain s1 where s1: "(sim_step cfg)\<^sup>*\<^sup>* s s1" "ss_Models s1 = ss_Models s" "length (ss_Rooms s1) = length (ss_Rooms s)"
    "ss_Rooms s1 ! k = advanceRoom (ss_Models s ! k) (cf_SimulatedTickSeconds cfg) draw1 (ss_Rooms s ! k)"
    "ss_Sensors s1 = (ss_Sensors s)[i := (ss_Sensors s ! i)\<lparr>sl_PC := Advanced\<rparr>]"
    using sensor_advances_room [OF assms(1,5,7,4)] by blast
  have "j < length (ss_Sensors s1)" "sl_PC (ss_Sensors s1 ! j) = Waiting" "sl_Room (ss_Sensors s1 ! j) = k" "k < length (ss_Rooms s1)"
    using assms s1(3,5) by simp_all
  from sensor_advances_room [OF this, of cfg draw2] obtain s2 where "(sim_step cfg)\<^sup>*\<^sup>* s1 s2"
    "ss_Rooms s2 ! k = advanceRoom (ss_Models s1 ! k) (cf_SimulatedTickSeconds cfg) draw2 (ss_Rooms s1 ! k)" by blast
  with s1 show ?thesis by (metis rtranclp_trans)
qed

end
