(* ===== verification/SimConfigSpec.thy ===== *)
theory SimConfigSpec
  imports SimConfig
begin

text \<open>
  What \<open>config.Load\<close> accepts and what it hands on: when references resolve, which shapes a resolved
  simulation never has, and how closely simulated time follows the configured time scale.
\<close>

section \<open>Which simulations resolve\<close>

definition wants_desired_state :: "rawRoom \<Rightarrow> (string \<rightharpoonup> rawDesiredStateTemplate) \<Rightarrow> bool" where
  "wants_desired_state rr tpls \<longleftrightarrow> rrm_TargetTemp rr \<noteq> None \<or> rrm_TargetHum rr \<noteq> None
     \<or> (rrm_DesiredStateRef rr \<noteq> [] \<and> (case tpls (rrm_DesiredStateRef rr) of None \<Rightarrow> False
          | Some t \<Rightarrow> rst_TargetTemp t \<noteq> None \<or> rst_TargetHum t \<noteq> None))"

definition room_resolvable ::
    "(string \<rightharpoonup> rawRoomTemplate) \<Rightarrow> (string \<rightharpoonup> rawDeviceTemplate) \<Rightarrow> (string \<rightharpoonup> rawDesiredStateTemplate)
     \<Rightarrow> (string \<rightharpoonup> rawScheduleTemplate) \<Rightarrow> rawRoom \<Rightarrow> bool" where
  "room_resolvable rts dts sts cts rr \<longleftrightarrow> rts (rrm_Template rr) \<noteq> None
     \<and> (\<forall>rd \<in> set (rrm_Devices rr). dts (rdv_Template rd) \<noteq> None)
     \<and> (rrm_DesiredStateRef rr \<noteq> [] \<longrightarrow> sts (rrm_DesiredStateRef rr) \<noteq> None)
     \<and> (rrm_ScheduleRef rr \<noteq> [] \<longrightarrow> cts (rrm_ScheduleRef rr) \<noteq> None)
     \<and> \<not> (wants_desired_state rr sts \<and> rrm_ScheduleRef rr \<noteq> [])"

definition resolvable ::
    "rawSimulationBlock \<Rightarrow> (string \<rightharpoonup> rawRoomTemplate) \<Rightarrow> (string \<rightharpoonup> rawDeviceTemplate)
     \<Rightarrow> (string \<rightharpoonup> rawDesiredStateTemplate) \<Rightarrow> (string \<rightharpoonup> rawScheduleTemplate) \<Rightarrow> bool" where
  "resolvable raw rts dts sts cts \<longleftrightarrow> rsb_TimeScale raw \<le> 400
     \<and> (\<forall>g \<in> set (rsb_UserGroups raw). \<forall>rr \<in> set (rug_Rooms g). room_resolvable rts dts sts cts rr)"

lemma resolveDesiredState_Inr:
  "(\<exists>ds. resolveDesiredState rr sts = Inr ds)
     \<longleftrightarrow> (rrm_DesiredStateRef rr = [] \<or> sts (rrm_DesiredStateRef rr) \<noteq> None)"
  by (auto simp: resolveDesiredState_def Let_def split: option.splits)

lemma resolveDesiredState_Some:
  "resolveDesiredState rr sts = Inr ds \<Longrightarrow> (ds \<noteq> None) = wants_desired_state rr sts"
  by (auto simp: resolveDesiredState_def wants_desired_state_def Let_def split: option.splits if_splits)

lemma resolveSchedule_Inr:
  "(\<exists>sched. resolveSchedule rr cts = Inr sched) \<longleftrightarrow> (rrm_ScheduleRef rr = [] \<or> cts (rrm_ScheduleRef rr) \<noteq> None)"
  by (auto simp: resolveSchedule_def split: option.splits)

lemma resolveSchedule_Some: "resolveSchedule rr cts = Inr sched \<Longrightarrow> (sched \<noteq> None) = (rrm_ScheduleRef rr \<noteq> [])"
  by (auto simp: resolveSchedule_def split: option.splits if_splits)

lemma resolve_room_Inr:
  "(\<exists>rm. resolve_room rts dts sts cts rr = Inr rm) \<longleftrightarrow> room_resolvable rts dts sts cts rr"
proof -
  let ?dev = "\<lambda>rd. case dts (rdv_Template rd) of
      None \<Rightarrow> Inl (Msg (''device template '' @ Quote (rdv_Template rd) @ '' not found''))
    | Some dtpl \<Rightarrow> Inr (resolveDevice rd dtpl)"
  have devs: "(\<exists>devs. eachR ?dev (rrm_Devices rr) = Inr devs) \<longleftrightarrow> (\<forall>rd \<in> set (rrm_Devices rr). dts (rdv_Template rd) \<noteq> None)"
    unfolding eachR_ok by (auto split: option.splits)
  show ?thesis
  proof
    assume "\<exists>rm. resolve_room rts dts sts cts rr = Inr rm"
    then obtain ds sched where "rts (rrm_Template rr) \<noteq> None" "\<exists>devs. eachR ?dev (rrm_Devices rr) = Inr devs"
      and ds: "resolveDesiredState rr sts = Inr ds" and sched: "resolveSchedule rr cts = Inr sched"
      and "\<not> (ds \<noteq> None \<and> sched \<noteq> None)"
      by (auto simp: resolve_room_def bindR_Inr mapErrR_Inr split: option.splits if_splits)
    with resolveDesiredState_Inr [of rr sts] resolveSchedule_Inr [of rr cts]
    show "room_resolvable rts dts sts cts rr"
      unfolding room_resolvable_def devs resolveDesiredState_Some [OF ds] resolveSchedule_Some [OF sched] by blast
  next
    assume res: "room_resolvable rts dts sts cts rr"
    with devs obtain ds where ds: "eachR ?dev (rrm_Devices rr) = Inr ds" by (auto simp: room_resolvable_def)
    from res resolveDesiredState_Inr [of rr sts] obtain st where st: "resolveDesiredState rr sts = Inr st"
      by (auto simp: room_resolvable_def)
    from res resolveSchedule_Inr [of rr cts] obtain sc where sc: "resolveSchedule rr cts = Inr sc"
      by (auto simp: room_resolvable_def)
    from res resolveDesiredState_Some [OF st] resolveSchedule_Some [OF sc] have "\<not> (st \<noteq> None \<and> sc \<noteq> None)"
      by (simp add: room_resolvable_def)
    with res ds st sc show "\<exists>rm. resolve_room rts dts sts cts rr = Inr rm"
      by (auto simp: resolve_room_def room_resolvable_def)
  qed
qed


section \<open>The shape of a loaded configuration\<close>

definition room_well_formed :: "RoomDef \<Rightarrow> bool" where
  "room_well_formed rm \<longleftrightarrow> distinct (map dv_NamePrefix (rmd_Devices rm))
     \<and> \<not> (rmd_DesiredState rm \<noteq> None \<and> rmd_Schedule rm \<noteq> None)
     \<and> (\<forall>ds. rmd_DesiredState rm = Some ds \<longrightarrow> rds_TargetTemp ds \<noteq> None \<or> rds_TargetHum ds \<noteq> None)
     \<and> rmd_Type rm \<noteq> []
     \<and> (\<forall>typ m. \<not> rmd_Noisy rm \<and> rmd_Measurements rm typ = Some m \<longrightarrow> mc_Noise m = 0)"

definition simulation_well_formed :: "Simulation \<Rightarrow> bool" where
  "simulation_well_formed sim \<longleftrightarrow> 0 < sim_TimeScale sim \<and> sim_TimeScale sim \<le> 400 \<and> 0 < sim_MinPublishIntervalMS sim
     \<and> (\<forall>g \<in> set (sim_UserGroups sim). distinct (map rmd_NamePrefix (ug_Rooms g))
          \<and> (\<forall>rm \<in> set (ug_Rooms g). room_well_formed rm))"

lemma duplicate_device_None:
  "duplicate_device seen devs = None \<longleftrightarrow> distinct (map dv_NamePrefix devs)
     \<and> set seen \<inter> dv_NamePrefix ` set devs = {}"
  by (induction devs arbitrary: seen) auto

lemma duplicate_device_Some: "duplicate_device [] devs = Some p \<Longrightarrow> \<not> distinct (map dv_NamePrefix devs)"
  using duplicate_device_None [of "[]" devs] by auto

lemma validate_rooms_Inr:
  "validate_rooms i seen rms = Inr () \<longleftrightarrow> distinct (map rmd_NamePrefix rms)
     \<and> set seen \<inter> rmd_NamePrefix ` set rms = {} \<and> (\<forall>rm \<in> set rms. distinct (map dv_NamePrefix (rmd_Devices rm)))"
  by (induction rms arbitrary: seen) (auto simp: duplicate_device_None dest: duplicate_device_Some split: option.splits)

lemma validate_groups_Inr:
  "validate_groups i gs = Inr () \<longleftrightarrow> (\<forall>g \<in> set gs. distinct (map rmd_NamePrefix (ug_Rooms g))
     \<and> (\<forall>rm \<in> set (ug_Rooms g). distinct (map dv_NamePrefix (rmd_Devices rm))))"
  by (induction gs arbitrary: i) (auto simp: bindR_Inr validate_rooms_Inr)

lemma resolveDesiredState_target:
  "resolveDesiredState rr sts = Inr (Some ds) \<Longrightarrow> rds_TargetTemp ds \<noteq> None \<or> rds_TargetHum ds \<noteq> None"
  by (auto simp: resolveDesiredState_def Let_def bindR_Inr split: if_splits)

lemma resolve_room_well_formed:
  "resolve_room rts dts sts cts rr = Inr rm \<Longrightarrow> distinct (map dv_NamePrefix (rmd_Devices rm)) \<Longrightarrow> room_well_formed rm"
  by (auto simp: resolve_room_def room_well_formed_def bindR_Inr mapErrR_Inr resolveMeasurements_def
      defaultRoomType_def dest: resolveDesiredState_target split: option.splits if_splits)

lemma resolveSimulation_rooms:
  assumes "resolveSimulation name raw rts dts sts cts = Inr sim" and "g \<in> set (sim_UserGroups sim)" and "rm \<in> set (ug_Rooms g)"
  shows "\<exists>rr. resolve_room rts dts sts cts rr = Inr rm"
proof -
  from assms(1) have "list_all2 (\<lambda>x y. resolve_group rts dts sts cts x = Inr y) (rsb_UserGroups raw) (sim_UserGroups sim)"
    by (auto simp: resolveSimulation_def Let_def bindR_Inr eachR_Inr split: if_splits)
  with assms(2) obtain rg where "resolve_group rts dts sts cts rg = Inr g"
    by (auto simp: list_all2_conv_all_nth in_set_conv_nth)
  then have "list_all2 (\<lambda>x y. resolve_room rts dts sts cts x = Inr y) (rug_Rooms rg) (ug_Rooms g)"
    by (auto simp: resolve_group_def bindR_Inr eachR_Inr)
  with assms(3) show ?thesis by (auto simp: list_all2_conv_all_nth in_set_conv_nth)
qed

lemma resolveSimulation_scale:
  "resolveSimulation name raw rts dts sts cts = Inr sim
   \<Longrightarrow> 0 < sim_TimeScale sim \<and> sim_TimeScale sim \<le> 400 \<and> 0 < sim_MinPublishIntervalMS sim"
  by (auto simp: resolveSimulation_def Let_def bindR_Inr maxTimeScale_def defaultTimeScale_def
      defaultMinPublishIntervalMS_def split: if_splits)

text \<open>What \<open>Load\<close> did when it succeeded.\<close>

lemma LoadE:
  assumes "Load ld name = Inr c"
  obtains raw rts dts sts cts where "resolveSimulation name raw rts dts sts cts = Inr (cf_Simulation c)"
    and "validateSimulation (cf_Simulation c) = Inr ()"
    and "cf_EffectivePublishInterval c = publishInterval (cf_BaseTickSeconds c) (cf_Simulation c)"
    and "cf_SimulatedTickSeconds c = sim_TimeScale (cf_Simulation c) * Seconds (cf_EffectivePublishInterval c)"
  using assms by (auto simp: Load_def bindR_Inr mapErrR_Inr Let_def)

section \<open>A loadable configuration\<close>

text \<open>One standard room with one device, simulated at three times real speed, with a ten second control tick.\<close>

definition demo_raw_room :: rawRoom where
  "demo_raw_room = \<lparr>rrm_Template = ''standard'', rrm_NamePrefix = ''lab'', rrm_Count = 2, rrm_Type = [],
     rrm_Noisy = False, rrm_ThermalMassScale = None, rrm_ConductanceScale = None,
     rrm_Devices = [\<lparr>rdv_Template = ''heater'', rdv_NamePrefix = ''h'', rdv_Count = 1, rdv_RateScale = None\<rparr>],
     rrm_DesiredStateRef = [], rrm_TargetTemp = Some 21, rrm_TargetHum = None, rrm_ScheduleRef = []\<rparr>"

definition demo_raw :: rawSimulationBlock where
  "demo_raw = \<lparr>rsb_TimeScale = 3, rsb_MinPublishIntervalMS = 0,
     rsb_UserGroups = [\<lparr>rug_Count = 1, rug_Interactive = False, rug_Rooms = [demo_raw_room]\<rparr>]\<rparr>"

definition demo_loader :: loader where
  "demo_loader = \<lparr>ld_ReadFile = Inr,
     ld_rooms = (\<lambda>_. Inr [\<lparr>rrt_ID = ''standard'', rrt_Measurements = [''temperature'' \<mapsto> \<lparr>rmc_Base = 20,
        rmc_Noise = 1 / 2, rmc_ThermalMassScale = 0, rmc_ConductanceScale = 0\<rparr>]\<rparr>]),
     ld_devices = (\<lambda>_. Inr [\<lparr>rdt_ID = ''heater'', rdt_Sensors = [],
        rdt_Actuators = [\<lparr>rac_Type = ''temperature'', rac_RateScale = 0\<rparr>]\<rparr>]),
     ld_desired_states = (\<lambda>_. Inr []), ld_schedules = (\<lambda>_. Inr []),
     ld_simulation = (\<lambda>_. Inr \<lparr>rsi_TemplateOverrides = \<lparr>rto_RoomTemplates = [], rto_DeviceTemplates = []\<rparr>,
        rsi_Simulation = demo_raw\<rparr>),
     ld_Getenv = (\<lambda>_. ''10'')\<rparr>"

lemma demo_loads:
  "\<exists>c. Load demo_loader ''demo'' = Inr c \<and> cf_BaseTickSeconds c = 10 \<and> sim_TimeScale (cf_Simulation c) = 3
     \<and> sim_MinPublishIntervalMS (cf_Simulation c) = 500"
proof -
  have "Atoi ''10'' = Some 10" by (simp add: Atoi_def is_digit_def digit_val_def in_int64_def)
  then show ?thesis
    by (simp add: Load_def demo_loader_def demo_raw_def demo_raw_room_def loadRoomTemplates_def loadDeviceTemplates_def
        loadDesiredStateTemplates_def loadScheduleTemplates_def loadSimulation_def by_id_def applyRoomOverrides_def
        applyDeviceOverrides_def resolveSimulation_def resolve_group_def resolve_room_def resolveDesiredState_def
        resolveSchedule_def resolveDevice_def validateSimulation_def mustGetEnvInt_def mustGetEnv_def Let_def
        maxTimeScale_def defaultMinPublishIntervalMS_def)
qed

text \<open>C33: What \<open>Load\<close> returns is well formed: the time scale lies in (0, 400], name prefixes are unique
  (rooms in their group, devices in their room), no room has both a desired state and a schedule, a
  desired state always has a target, and a room that is not noisy has no noise.\<close>

theorem loaded_simulation_well_formed:
  assumes "Load ld name = Inr c"
  shows "simulation_well_formed (cf_Simulation c)"
proof -
  from assms obtain raw rts dts sts cts where
    res: "resolveSimulation name raw rts dts sts cts = Inr (cf_Simulation c)" and
    val: "validateSimulation (cf_Simulation c) = Inr ()" by (rule LoadE)
  note resolveSimulation_scale [OF res]
  moreover have "room_well_formed rm" if "g \<in> set (sim_UserGroups (cf_Simulation c))" "rm \<in> set (ug_Rooms g)" for g rm
    using resolveSimulation_rooms [OF res that] val that resolve_room_well_formed
    by (auto simp: validateSimulation_def validate_groups_Inr)
  ultimately show ?thesis using val
    by (auto simp: simulation_well_formed_def validateSimulation_def validate_groups_Inr)
qed

theorem loaded_simulation_well_formed_witness:
  "\<exists>c. Load demo_loader ''demo'' = Inr c \<and> simulation_well_formed (cf_Simulation c)"
  using demo_loads loaded_simulation_well_formed by blast

section \<open>Simulated time\<close>

lemma trunc_bounds: "0 \<le> x \<Longrightarrow> of_int (trunc x) \<le> x \<and> x < of_int (trunc x) + 1"
  by (simp add: trunc_def) linarith

text \<open>Simulated time keeps the configured pace: one publish interval of real time never falls below the
  configured minimum, and the simulated time it stands for is the control tick up to the nanosecond the
  interval is truncated to (times the time scale), or, when the minimum stretches the interval, at
  most the scaled minimum.\<close>

theorem simulated_tick_bounds:
  assumes "Load ld name = Inr c" and "0 < cf_BaseTickSeconds c"
    and "sim_MinPublishIntervalMS (cf_Simulation c) \<le> 9000000000000"
  shows "sim_MinPublishIntervalMS (cf_Simulation c) * Millisecond \<le> cf_EffectivePublishInterval c
     \<and> of_int (cf_BaseTickSeconds c) - sim_TimeScale (cf_Simulation c) / 1000000000 < cf_SimulatedTickSeconds c
     \<and> cf_SimulatedTickSeconds c \<le> max (of_int (cf_BaseTickSeconds c))
         (sim_TimeScale (cf_Simulation c) * of_int (sim_MinPublishIntervalMS (cf_Simulation c)) / 1000)"
proof -
  let ?ts = "sim_TimeScale (cf_Simulation c)" and ?ms = "sim_MinPublishIntervalMS (cf_Simulation c)"
  let ?natural = "of_int Second * of_int (cf_BaseTickSeconds c) / ?ts"
  from assms(1) obtain raw rts dts sts cts where
    res: "resolveSimulation name raw rts dts sts cts = Inr (cf_Simulation c)" and
    int: "cf_EffectivePublishInterval c = publishInterval (cf_BaseTickSeconds c) (cf_Simulation c)" and
    tick: "cf_SimulatedTickSeconds c = ?ts * Seconds (cf_EffectivePublishInterval c)" by (rule LoadE)
  from res have ts: "0 < ?ts" and ms: "0 < ?ms"
    by (simp_all add: resolveSimulation_scale)
  have wrap: "wrap64 (?ms * Millisecond) = ?ms * Millisecond"
    using ms assms(3) by (intro wrap64_id) (simp add: in_int64_def Millisecond_def)
  have nat0: "0 \<le> ?natural" using ts assms(2) by (simp add: Second_def)
  have eff: "cf_EffectivePublishInterval c = max (trunc ?natural) (?ms * Millisecond)"
    by (simp add: int publishInterval_def wrap Let_def max_def)
  have natural: "?ts * ?natural / 1000000000 = of_int (cf_BaseTickSeconds c)"
    using ts by (simp add: Second_def)
  have scale: "?ts * a / 1000000000 \<le> ?ts * b / 1000000000" if "a \<le> b" for a b
    using that ts by (simp add: divide_right_mono)
  have tick': "cf_SimulatedTickSeconds c = ?ts * of_int (cf_EffectivePublishInterval c) / 1000000000"
    by (simp add: tick Seconds_def Second_def)
  have "?natural - 1 < of_int (cf_EffectivePublishInterval c)"
    using trunc_bounds [OF nat0] by (simp add: eff) linarith
  then have "?ts * (?natural - 1) / 1000000000 < cf_SimulatedTickSeconds c"
    using ts by (simp add: tick' divide_strict_right_mono)
  then have low: "of_int (cf_BaseTickSeconds c) - ?ts / 1000000000 < cf_SimulatedTickSeconds c"
    using natural by (simp add: right_diff_distrib diff_divide_distrib)
  have high: "cf_SimulatedTickSeconds c \<le> max (of_int (cf_BaseTickSeconds c)) (?ts * of_int ?ms / 1000)"
  proof (cases "trunc ?natural \<le> ?ms * Millisecond")
    case True
    then show ?thesis by (simp add: tick' eff Millisecond_def)
  next
    case False
    then have "of_int (cf_EffectivePublishInterval c) \<le> ?natural" using trunc_bounds [OF nat0] by (simp add: eff)
    from scale [OF this] natural show ?thesis by (simp add: tick')
  qed
  from low high show ?thesis by (simp add: eff)
qed

theorem simulated_tick_bounds_witness:
  "\<exists>c. Load demo_loader ''demo'' = Inr c \<and> 10 - 3 / 1000000000 < cf_SimulatedTickSeconds c \<and> cf_SimulatedTickSeconds c \<le> 10"
proof -
  from demo_loads obtain c where c: "Load demo_loader ''demo'' = Inr c" "cf_BaseTickSeconds c = 10"
    "sim_TimeScale (cf_Simulation c) = 3" "sim_MinPublishIntervalMS (cf_Simulation c) = 500" by blast
  with simulated_tick_bounds [OF c(1)] show ?thesis by (intro exI [of _ c]) simp
qed

end
