(* ===== verification/SimControl.thy ===== *)
theory SimControl
  imports SimSpec Scheduler
begin

text \<open>
  The two services joined at the broker: the commands a control tick of \<open>device-service\<close> publishes and
  the actuator goroutines of the simulator that take them. The broker and the MQTT client library decide
  which subscribed handlers a message reaches; that is the parameter \<open>route\<close>.
\<close>

section \<open>Delivery\<close>

definition cmdTopic :: "actuator_loop \<Rightarrow> string" where
  "cmdTopic al = ''devices/'' @ al_HwID al @ ''/cmd''"

text \<open>The JSON written by \<open>mqtt.Publish\<close> of \<open>device-service\<close> as the simulator's struct reads it: the tags agree.\<close>

definition wire :: "CmdPayload \<Rightarrow> command_msg" where
  "wire p = \<lparr>cm_ActuatorType = cp_actuator_type p, cm_State = cp_state p\<rparr>"

text \<open>A handler run to its end.\<close>

definition handle :: "instant \<Rightarrow> command_msg \<Rightarrow> nat \<Rightarrow> sim_state \<Rightarrow> sim_state" where
  "handle now msg j s =
     (let s' = on_command j (Some msg) s in if al_Touch (ss_Actuators s' ! j) then touch j now s' else s')"

definition deliver ::
    "(string list \<Rightarrow> string \<Rightarrow> nat list) \<Rightarrow> instant \<Rightarrow> Published \<Rightarrow> sim_state \<Rightarrow> sim_state" where
  "deliver route now pub s = foldl (\<lambda>s j. handle now (wire (pu_payload pub)) j s) s
     (route (map cmdTopic (ss_Actuators s)) (pu_topic pub))"

definition deliver_all ::
    "(string list \<Rightarrow> string \<Rightarrow> nat list) \<Rightarrow> instant \<Rightarrow> Published list \<Rightarrow> sim_state \<Rightarrow> sim_state" where
  "deliver_all route now pubs s = foldl (\<lambda>s pub. deliver route now pub s) s pubs"

text \<open>What the broker and the client library promise: a message is delivered at most once to a handler, only to
  handlers subscribed to its topic, and to the handler of the topic when there is only one. When one client
  subscribes several handlers to one topic, MQTT leaves open which of them it calls.\<close>

definition mqtt_route :: "(string list \<Rightarrow> string \<Rightarrow> nat list) \<Rightarrow> bool" where
  "mqtt_route route \<longleftrightarrow> (\<forall>topics t. distinct (route topics t)
     \<and> set (route topics t) \<subseteq> {j. j < length topics \<and> topics ! j = t}
     \<and> (\<forall>j < length topics. topics ! j = t \<and> (\<forall>i < length topics. topics ! i = t \<longrightarrow> i = j) \<longrightarrow> j \<in> set (route topics t)))"

lemma mqtt_routeD:
  assumes "mqtt_route route"
  shows "j \<in> set (route ts t) \<Longrightarrow> j < length ts \<and> ts ! j = t"
    and "j < length ts \<Longrightarrow> ts ! j = t \<Longrightarrow> (\<And>i. i < length ts \<Longrightarrow> ts ! i = t \<Longrightarrow> i = j) \<Longrightarrow> j \<in> set (route ts t)"
  using assms unfolding mqtt_route_def by blast+

lemma mqtt_routeI:
  assumes "\<And>ts t. distinct (route ts t)" and "\<And>ts t j. j \<in> set (route ts t) \<Longrightarrow> j < length ts \<and> ts ! j = t"
    and "\<And>ts t j. j < length ts \<Longrightarrow> ts ! j = t \<Longrightarrow> (\<And>i. i < length ts \<Longrightarrow> ts ! i = t \<Longrightarrow> i = j) \<Longrightarrow> j \<in> set (route ts t)"
  shows "mqtt_route route"
  using assms unfolding mqtt_route_def by blast

text \<open>No other actuator has the topic of an actuator of room \<open>k\<close>.\<close>

definition own_topics :: "actuator_loop list \<Rightarrow> nat \<Rightarrow> bool" where
  "own_topics als k \<longleftrightarrow> (\<forall>i < length als. \<forall>j < length als. al_Room (als ! i) = k \<and> al_HwID (als ! j) = al_HwID (als ! i) \<longrightarrow> j = i)"

section \<open>One handler\<close>

abbreviation contributions :: "sim_state \<Rightarrow> nat \<Rightarrow> string \<rightharpoonup> (string \<times> float64) list" where
  "contributions s k \<equiv> map_of (rmst_contributions (ss_Rooms s ! k))"

definition rates_of :: "actuator_loop \<Rightarrow> (string \<times> float64) list" where
  "rates_of al = [(acf_Type (al_Act al), acf_Rate (al_Act al))]"

lemma wiring_eq:
  "wiring al = wiring al' \<Longrightarrow> cmdTopic al = cmdTopic al' \<and> contribution_key al = contribution_key al'
     \<and> rates_of al = rates_of al' \<and> al_Room al = al_Room al' \<and> concerns al = concerns al'"
  by (auto simp: wiring_def cmdTopic_def contribution_key_def rates_of_def concerns_def fun_eq_iff split: option.splits)

lemma handle_frame:
  assumes "j < length (ss_Actuators s)"
  shows "map wiring (ss_Actuators (handle now msg j s)) = map wiring (ss_Actuators s)"
    and "length (ss_Rooms (handle now msg j s)) = length (ss_Rooms s)"
    and "ss_Models (handle now msg j s) = ss_Models s" and "ss_Sensors (handle now msg j s) = ss_Sensors s"
proof -
  have "map wiring ((ss_Actuators s)[j := al]) = map wiring (ss_Actuators s)"
    if "wiring al = wiring (ss_Actuators s ! j)" for al
    using assms that list_update_id [of "map wiring (ss_Actuators s)" j] by (simp add: map_update)
  then show "map wiring (ss_Actuators (handle now msg j s)) = map wiring (ss_Actuators s)"
    using assms by (simp add: handle_def on_command_def on_room_def touch_def wiring_def Let_def)
  show "length (ss_Rooms (handle now msg j s)) = length (ss_Rooms s)"
    "ss_Models (handle now msg j s) = ss_Models s" "ss_Sensors (handle now msg j s) = ss_Sensors s"
    by (simp_all add: handle_def on_command_def on_room_def touch_def Let_def)
qed

lemma handle_room:
  assumes "k < length (ss_Rooms s)"
  shows "ss_Rooms (handle now msg j s) ! k
     = (if al_Room (ss_Actuators s ! j) = k then contribute (ss_Actuators s ! j) (Some msg) (ss_Rooms s ! k)
        else ss_Rooms s ! k)"
  using assms by (simp add: handle_def on_command_def on_room_def touch_def Let_def)

lemma contribute_frame [simp]:
  "rmst_Current (contribute al p rs) = rmst_Current rs" "rmst_Ambient (contribute al p rs) = rmst_Ambient rs"
  by (simp_all add: contribute_def SetContribution_def ClearContribution_def)

lemma contribute_contributions:
  "map_of (rmst_contributions (contribute al (Some msg) rs)) =
     (if concerns al (Some msg)
      then (map_of (rmst_contributions rs))(contribution_key al := (if cm_State msg then Some (rates_of al) else None))
      else map_of (rmst_contributions rs))"
  by (simp add: contribute_def SetContribution_def ClearContribution_def update_conv' delete_conv' rates_of_def)

section \<open>One message, many messages\<close>

text \<open>Actuators of room \<open>k\<close> have keys of their own.\<close>

definition keys_distinct :: "actuator_loop list \<Rightarrow> nat \<Rightarrow> bool" where
  "keys_distinct als k \<longleftrightarrow> distinct (map contribution_key (filter (\<lambda>al. al_Room al = k) als))"

lemma keys_distinct_nth:
  assumes "keys_distinct als k" and "i < length als" "j < length als" "al_Room (als ! i) = k" "al_Room (als ! j) = k"
    and "contribution_key (als ! i) = contribution_key (als ! j)"
  shows "i = j"
  using assms
proof (induction als arbitrary: i j)
  case (Cons al als)
  have head: "contribution_key al \<noteq> contribution_key (als ! n)"
    if "n < length als" "al_Room (als ! n) = k" "al_Room al = k" for n
  proof -
    from that have "als ! n \<in> set (filter (\<lambda>al. al_Room al = k) als)" by simp
    then have "contribution_key (als ! n) \<in> set (map contribution_key (filter (\<lambda>al. al_Room al = k) als))"
      unfolding set_map by (rule imageI)
    with Cons.prems(1) that(3) show ?thesis by (auto simp: keys_distinct_def)
  qed
  show ?case
  proof (cases i)
    case 0
    then show ?thesis using Cons.prems head [of "j - 1"] by (cases j) auto
  next
    case (Suc i')
    then show ?thesis using Cons.prems head [of i'] Cons.IH [of i' "j - 1"]
      by (cases j) (auto simp: keys_distinct_def split: if_splits)
  qed
qed simp

text \<open>The handlers run for one message change the contributions of exactly the actuators they belong to.\<close>

lemma handlers_contributions:
  assumes "keys_distinct (ss_Actuators s) k" and "k < length (ss_Rooms s)" and "set js \<subseteq> {..<length (ss_Actuators s)}"
    and "i < length (ss_Actuators s)" and "al_Room (ss_Actuators s ! i) = k"
  shows "contributions (foldl (\<lambda>s j. handle now msg j s) s js) k (contribution_key (ss_Actuators s ! i))
     = (if i \<in> set js \<and> concerns (ss_Actuators s ! i) (Some msg)
        then (if cm_State msg then Some (rates_of (ss_Actuators s ! i)) else None)
        else contributions s k (contribution_key (ss_Actuators s ! i)))"
  using assms
proof (induction js arbitrary: s)
  case (Cons j js)
  let ?s = "handle now msg j s" and ?al = "ss_Actuators s ! i"
  have j: "j < length (ss_Actuators s)" using Cons.prems(3) by simp
  note fr = handle_frame [OF j, of now msg]
  have len: "length (ss_Actuators ?s) = length (ss_Actuators s)" using fr(1) by (metis length_map)
  have w: "wiring (ss_Actuators ?s ! n) = wiring (ss_Actuators s ! n)" if "n < length (ss_Actuators s)" for n
    using that fr(1) len by (metis nth_map)
  note we = wiring_eq [OF w [OF Cons.prems(4)]]
  have kd: "keys_distinct (ss_Actuators ?s) k"
  proof -
    have "map contribution_key (filter (\<lambda>al. al_Room al = k) als)
        = map (\<lambda>(h, a, r). h @ ''/'' @ acf_Type a) (filter (\<lambda>(h, a, r). r = k) (map wiring als))" for als
      by (induction als) (auto simp: wiring_def contribution_key_def)
    with fr(1) Cons.prems(1) show ?thesis by (simp add: keys_distinct_def)
  qed
  have step: "contributions ?s k (contribution_key ?al)
      = (if j = i \<and> concerns ?al (Some msg) then (if cm_State msg then Some (rates_of ?al) else None)
         else contributions s k (contribution_key ?al))"
  proof (cases "al_Room (ss_Actuators s ! j) = k")
    case True
    have "contribution_key (ss_Actuators s ! j) = contribution_key ?al \<longleftrightarrow> j = i"
      using keys_distinct_nth [OF Cons.prems(1) j Cons.prems(4) True Cons.prems(5)] by blast
    with True show ?thesis by (auto simp: handle_room [OF Cons.prems(2)] contribute_contributions)
  next
    case False
    with Cons.prems(5) show ?thesis by (auto simp: handle_room [OF Cons.prems(2)])
  qed
  have "contributions (foldl (\<lambda>s j. handle now msg j s) ?s js) k (contribution_key (ss_Actuators ?s ! i))
     = (if i \<in> set js \<and> concerns (ss_Actuators ?s ! i) (Some msg)
        then (if cm_State msg then Some (rates_of (ss_Actuators ?s ! i)) else None)
        else contributions ?s k (contribution_key (ss_Actuators ?s ! i)))"
    using Cons.prems(2-5) kd fr(2) len we by (intro Cons.IH) auto
  with step we show ?case by auto
qed simp

text \<open>What delivery never touches.\<close>

definition same_setup :: "sim_state \<Rightarrow> sim_state \<Rightarrow> bool" where
  "same_setup s s' \<longleftrightarrow> map wiring (ss_Actuators s') = map wiring (ss_Actuators s)
     \<and> length (ss_Rooms s') = length (ss_Rooms s) \<and> ss_Models s' = ss_Models s \<and> ss_Sensors s' = ss_Sensors s
     \<and> (\<forall>k < length (ss_Rooms s). rmst_Current (ss_Rooms s' ! k) = rmst_Current (ss_Rooms s ! k)
          \<and> rmst_Ambient (ss_Rooms s' ! k) = rmst_Ambient (ss_Rooms s ! k))"

lemma same_setup_refl [simp]: "same_setup s s"
  by (simp add: same_setup_def)

lemma same_setup_trans: "same_setup s s' \<Longrightarrow> same_setup s' s'' \<Longrightarrow> same_setup s s''"
  by (simp add: same_setup_def)

lemma same_setup_length: "same_setup s s' \<Longrightarrow> length (ss_Actuators s') = length (ss_Actuators s)"
  unfolding same_setup_def by (metis length_map)

lemma same_setup_nth:
  assumes "same_setup s s'" and "i < length (ss_Actuators s)"
  shows "wiring (ss_Actuators s' ! i) = wiring (ss_Actuators s ! i)"
proof -
  have "map wiring (ss_Actuators s') ! i = map wiring (ss_Actuators s) ! i" using assms(1) by (simp add: same_setup_def)
  with assms same_setup_length [OF assms(1)] show ?thesis by simp
qed

lemma same_setup_topics: "same_setup s s' \<Longrightarrow> map cmdTopic (ss_Actuators s') = map cmdTopic (ss_Actuators s)"
  by (rule nth_equalityI) (auto simp: same_setup_length dest: same_setup_nth [THEN wiring_eq])

lemma same_setup_keys:
  assumes "same_setup s s'"
  shows "keys_distinct (ss_Actuators s') k = keys_distinct (ss_Actuators s) k"
proof -
  have "map contribution_key (filter (\<lambda>al. al_Room al = k) als)
      = map (\<lambda>(h, a, r). h @ ''/'' @ acf_Type a) (filter (\<lambda>(h, a, r). r = k) (map wiring als))" for als
    by (induction als) (auto simp: wiring_def contribution_key_def)
  with assms show ?thesis by (simp add: keys_distinct_def same_setup_def)
qed

lemma own_topics_wiring:
  "map wiring als' = map wiring als \<Longrightarrow> own_topics als' k = own_topics als k"
proof -
  have "own_topics as k \<longleftrightarrow> (let ws = map wiring as in \<forall>i < length ws. \<forall>j < length ws.
      snd (snd (ws ! i)) = k \<and> fst (ws ! j) = fst (ws ! i) \<longrightarrow> j = i)" for as
    by (simp add: own_topics_def wiring_def)
  then show "map wiring als' = map wiring als \<Longrightarrow> own_topics als' k = own_topics als k" by presburger
qed

lemma handle_same_setup:
  assumes "j < length (ss_Actuators s)"
  shows "same_setup s (handle now msg j s)"
  using handle_frame [OF assms, of now msg] by (auto simp: same_setup_def handle_room)

lemma handle_ok: "sim_ok s \<Longrightarrow> j < length (ss_Actuators s) \<Longrightarrow> sim_ok (handle now msg j s)"
  using sim_ok_on_command [of s j "Some msg"]
  by (auto simp: handle_def Let_def on_command_def on_room_def intro!: sim_ok_touch)

lemma handlers_frame:
  assumes "set js \<subseteq> {..<length (ss_Actuators s)}"
  shows "same_setup s (foldl (\<lambda>s j. handle now msg j s) s js)
     \<and> (sim_ok s \<longrightarrow> sim_ok (foldl (\<lambda>s j. handle now msg j s) s js))"
  using assms
proof (induction js arbitrary: s)
  case (Cons j js)
  then have j: "j < length (ss_Actuators s)" by simp
  from Cons.IH [of "handle now msg j s"] Cons.prems same_setup_length [OF handle_same_setup [OF j]]
  show ?case using handle_same_setup [OF j, of now msg] handle_ok [OF _ j, of now msg] by (auto intro: same_setup_trans)
qed simp

lemma deliver_frame:
  assumes "mqtt_route route"
  shows "same_setup s (deliver route now pub s)" and "sim_ok s \<Longrightarrow> sim_ok (deliver route now pub s)"
proof -
  have "set (route (map cmdTopic (ss_Actuators s)) (pu_topic pub)) \<subseteq> {..<length (ss_Actuators s)}"
    using mqtt_routeD(1) [OF assms] by fastforce
  from handlers_frame [OF this, of now "wire (pu_payload pub)"]
  show "same_setup s (deliver route now pub s)" and "sim_ok s \<Longrightarrow> sim_ok (deliver route now pub s)"
    unfolding deliver_def by blast+
qed

lemma deliver_all_frame:
  assumes "mqtt_route route"
  shows "same_setup s (deliver_all route now pubs s) \<and> (sim_ok s \<longrightarrow> sim_ok (deliver_all route now pubs s))"
proof (induction pubs arbitrary: s)
  case (Cons pub pubs)
  from Cons [of "deliver route now pub s"] deliver_frame [OF assms, of s now pub] show ?case
    by (auto simp: deliver_all_def intro: same_setup_trans)
qed (simp add: deliver_all_def)

text \<open>The actuators a command is for.\<close>

definition commands_it :: "actuator_loop \<Rightarrow> ActuatorCommand \<Rightarrow> bool" where
  "commands_it al c \<longleftrightarrow> al_HwID al = ac_HwID c \<and> concerns al (Some (wire (MarshalPayload c)))"

lemma commands_it_wiring: "wiring al = wiring al' \<Longrightarrow> commands_it al = commands_it al'"
  by (frule wiring_eq) (simp add: commands_it_def fun_eq_iff wiring_def)

lemma deliver_contributions:
  assumes "mqtt_route route" and "keys_distinct (ss_Actuators s) k" and "own_topics (ss_Actuators s) k"
    and "k < length (ss_Rooms s)" and "i < length (ss_Actuators s)" and "al_Room (ss_Actuators s ! i) = k"
  shows "contributions (deliver route now (published_of r c) s) k (contribution_key (ss_Actuators s ! i))
     = (if commands_it (ss_Actuators s ! i) c then (if ac_State c then Some (rates_of (ss_Actuators s ! i)) else None)
        else contributions s k (contribution_key (ss_Actuators s ! i)))"
proof -
  let ?als = "ss_Actuators s" and ?t = "''devices/'' @ ac_HwID c @ ''/cmd''"
  let ?js = "route (map cmdTopic ?als) (pu_topic (published_of r c))"
  have topic: "map cmdTopic ?als ! j = ?t \<longleftrightarrow> al_HwID (?als ! j) = ac_HwID c" if "j < length ?als" for j
    using that by (simp add: cmdTopic_def)
  have t: "pu_topic (published_of r c) = ?t" by (simp add: published_of_def)
  have "i \<in> set ?js" if hw: "al_HwID (?als ! i) = ac_HwID c"
    unfolding t
  proof (rule mqtt_routeD(2) [OF assms(1)])
    show "j = i" if j: "j < length (map cmdTopic ?als)" "map cmdTopic ?als ! j = ?t" for j
    proof -
      from j topic have "al_HwID (?als ! j) = al_HwID (?als ! i)" by (simp add: hw)
      with assms(3,5,6) j(1) show ?thesis unfolding own_topics_def length_map by blast
    qed
  qed (use assms(5) hw topic in auto)
  moreover have "al_HwID (?als ! i) = ac_HwID c" if "i \<in> set ?js"
    using mqtt_routeD(1) [OF assms(1) that] topic [OF assms(5)] unfolding t by blast
  ultimately have it: "i \<in> set ?js \<and> concerns (?als ! i) (Some (wire (MarshalPayload c)))
      \<longleftrightarrow> commands_it (?als ! i) c" by (auto simp: commands_it_def)
  have sub': "set ?js \<subseteq> {..<length ?als}" using mqtt_routeD(1) [OF assms(1)] by fastforce
  have st: "cm_State (wire (MarshalPayload c)) = ac_State c" by (simp add: wire_def MarshalPayload_def)
  have run: "deliver route now (published_of r c) s = foldl (\<lambda>s j. handle now (wire (MarshalPayload c)) j s) s ?js"
    by (simp add: deliver_def published_of_def)
  from handlers_contributions [OF assms(2,4) sub' assms(5,6), of now "wire (MarshalPayload c)"]
  show ?thesis unfolding run it st .
qed

text \<open>When all commands for an actuator agree, the last one decides.\<close>

lemma deliver_all_contributions:
  assumes "mqtt_route route" and "keys_distinct (ss_Actuators s) k" and "own_topics (ss_Actuators s) k"
    and "k < length (ss_Rooms s)" and "i < length (ss_Actuators s)" and "al_Room (ss_Actuators s ! i) = k"
    and "\<And>c. c \<in> set cs \<Longrightarrow> commands_it (ss_Actuators s ! i) c \<Longrightarrow> ac_State c = on"
  shows "contributions (deliver_all route now (map (published_of r) cs) s) k (contribution_key (ss_Actuators s ! i))
     = (if \<exists>c \<in> set cs. commands_it (ss_Actuators s ! i) c then (if on then Some (rates_of (ss_Actuators s ! i)) else None)
        else contributions s k (contribution_key (ss_Actuators s ! i)))"
  using assms(2-7)
proof (induction cs arbitrary: s)
  case (Cons c cs)
  let ?s = "deliver route now (published_of r c) s" and ?al = "ss_Actuators s ! i"
  note fr = deliver_frame(1) [OF assms(1), of s now "published_of r c"]
  note w = same_setup_nth [OF fr Cons.prems(4)]
  note we = wiring_eq [OF w] commands_it_wiring [OF w]
  have "contributions (deliver_all route now (map (published_of r) cs) ?s) k (contribution_key (ss_Actuators ?s ! i))
     = (if \<exists>c \<in> set cs. commands_it (ss_Actuators ?s ! i) c then (if on then Some (rates_of (ss_Actuators ?s ! i)) else None)
        else contributions ?s k (contribution_key (ss_Actuators ?s ! i)))"
  proof (rule Cons.IH)
    show "keys_distinct (ss_Actuators ?s) k" using Cons.prems(1) by (simp add: same_setup_keys [OF fr])
    show "own_topics (ss_Actuators ?s) k" using Cons.prems(2) fr own_topics_wiring unfolding same_setup_def by blast
    show "k < length (ss_Rooms ?s)" using Cons.prems(3) fr by (simp add: same_setup_def)
    show "i < length (ss_Actuators ?s)" using Cons.prems(4) by (simp add: same_setup_length [OF fr])
    show "al_Room (ss_Actuators ?s ! i) = k" using Cons.prems(5) we by simp
    show "ac_State c' = on" if "c' \<in> set cs" "commands_it (ss_Actuators ?s ! i) c'" for c'
      using Cons.prems(6) [of c'] that we by simp
  qed
  then have "contributions (deliver_all route now (map (published_of r) (c # cs)) s) k (contribution_key ?al)
     = (if \<exists>c \<in> set cs. commands_it ?al c then (if on then Some (rates_of ?al) else None)
        else contributions ?s k (contribution_key ?al))"
    by (simp add: deliver_all_def we)
  then show ?case
    using deliver_contributions [OF assms(1) Cons.prems(1-5), of now r c] Cons.prems(6) [of c] by simp
qed (simp add: deliver_all_def)

section \<open>Heat after a tick\<close>

lemma heat_of_keyed:
  fixes key :: "'x \<Rightarrow> string"
  assumes "distinct (map fst cs)" and "distinct (map key xs)" and "fst ` set cs \<subseteq> key ` set xs"
  shows "heat_of cs typ = sum_list (map (\<lambda>x. case map_of cs (key x) of None \<Rightarrow> 0 | Some r \<Rightarrow> total_rate typ r) xs)"
proof -
  let ?g = "\<lambda>k. case map_of cs k of None \<Rightarrow> 0 | Some r \<Rightarrow> total_rate typ r"
  from assms(1,2) have d: "distinct cs" "inj_on fst (set cs)" "distinct xs" "inj_on key (set xs)"
    by (auto simp: distinct_map)
  have "heat_of cs typ = (\<Sum>c \<in> set cs. ?g (fst c))"
    unfolding heat_of_def using assms(1) by (subst sum_list_distinct_conv_sum_set [OF d(1)]) (auto intro!: sum.cong)
  also have "\<dots> = sum ?g (fst ` set cs)" by (simp add: sum.reindex [OF d(2)])
  also have "\<dots> = sum ?g (key ` set xs)"
    using assms(3) by (intro sum.mono_neutral_left) (auto simp flip: map_of_eq_None_iff split: option.splits)
  also have "\<dots> = sum_list (map (\<lambda>x. ?g (key x)) xs)"
    by (simp add: sum.reindex [OF d(4)] sum_list_distinct_conv_sum_set [OF d(3)])
  finally show ?thesis .
qed

text \<open>Whether the controller wants a measurement driven, and what the room's actuators of it deliver
  together.\<close>

definition demanded :: "RoomView \<Rightarrow> instant \<Rightarrow> duration \<Rightarrow> string \<Rightarrow> bool" where
  "demanded rv now th typ = (case MeasurementToActuatorName typ of None \<Rightarrow> False | Some name \<Rightarrow> control_law rv now th name)"

definition full_rate :: "actuator_loop list \<Rightarrow> nat \<Rightarrow> string \<Rightarrow> float64" where
  "full_rate als k typ = sum_list (map (\<lambda>al. acf_Rate (al_Act al))
     (filter (\<lambda>al. al_Room al = k \<and> acf_Type (al_Act al) = typ) als))"

text \<open>The controller knows the simulated actuators of the room.\<close>

definition registered :: "actuator_loop list \<Rightarrow> nat \<Rightarrow> RoomView \<Rightarrow> bool" where
  "registered als k rv \<longleftrightarrow> (\<forall>al \<in> set als. al_Room al = k \<longrightarrow> (case MeasurementToActuatorName (acf_Type (al_Act al)) of
     None \<Rightarrow> False | Some name \<Rightarrow> al_HwID al \<in> set (slice_at (rc_ActuatorHwIDs rv) name)))"

lemma commands_it_type:
  assumes "commands_it al c" and "MeasurementToActuatorName (acf_Type (al_Act al)) = Some name"
  shows "ac_ActuatorType c = name"
proof -
  have inject: "a = b" if "ActuatorNameToMeasurement a = Some t" "ActuatorNameToMeasurement b = Some t" for a b t
    using that by (auto simp: ActuatorNameToMeasurement_def split: if_splits)
  from assms(2) have name: "ActuatorNameToMeasurement name = Some (acf_Type (al_Act al))" by (simp add: actuator_names)
  then have "acf_Type (al_Act al) \<noteq> []" by (auto simp: ActuatorNameToMeasurement_def split: if_splits)
  with assms(1) have "ActuatorNameToMeasurement (ac_ActuatorType c) = Some (acf_Type (al_Act al))"
    by (auto simp: commands_it_def concerns_def wire_def MarshalPayload_def split: option.splits)
  from inject [OF this name] show ?thesis .
qed

lemma registered_commanded:
  assumes "registered als k rv" and "al \<in> set als" and "al_Room al = k"
    and "known_types rv" and "key_order (rc_ActuatorHwIDs rv) order"
  shows "\<exists>c \<in> set (tk_Commands (Evaluate order rv now th)). commands_it al c"
    and "c \<in> set (tk_Commands (Evaluate order rv now th)) \<Longrightarrow> commands_it al c \<Longrightarrow>
      ac_State c = demanded rv now th (acf_Type (al_Act al))"
proof -
  from assms(1-3) obtain name where name: "MeasurementToActuatorName (acf_Type (al_Act al)) = Some name"
    and hw: "al_HwID al \<in> set (slice_at (rc_ActuatorHwIDs rv) name)"
    by (auto simp: registered_def split: option.splits)
  from hw slice_outside_order [OF assms(5), of name] have "name \<in> set order" by fastforce
  with hw have "(name, al_HwID al) \<in> set (concat (map (\<lambda>t. map (Pair t) (slice_at (rc_ActuatorHwIDs rv) t)) order))"
    by auto
  then have "(name, al_HwID al) \<in> set (command_keys (tk_Commands (Evaluate order rv now th)))"
    using mset_eq_setD [OF Evaluate_keys [OF assms(4,5), of now th]] by simp
  then show "\<exists>c \<in> set (tk_Commands (Evaluate order rv now th)). commands_it al c"
    using name by (auto simp: command_keys_def commands_it_def concerns_def wire_def MarshalPayload_def actuator_names)
  show "ac_State c = demanded rv now th (acf_Type (al_Act al))"
    if "c \<in> set (tk_Commands (Evaluate order rv now th))" "commands_it al c"
    using Evaluate_command_law [OF that(1)] commands_it_type [OF that(2) name] name by (simp add: demanded_def)
qed

lemma heat_after_tick:
  assumes "mqtt_route route" and "sim_ok s" and "k < length (ss_Rooms s)" and "keys_distinct (ss_Actuators s) k"
    and "own_topics (ss_Actuators s) k" and "registered (ss_Actuators s) k rv" and "known_types rv" and "key_order (rc_ActuatorHwIDs rv) order"
  shows "num_at (HeatInput (ss_Rooms (deliver_all route t (map (published_of r) (tk_Commands (Evaluate order rv now th))) s) ! k)) typ
     = (if demanded rv now th typ then full_rate (ss_Actuators s) k typ else 0)"
proof -
  let ?cs = "tk_Commands (Evaluate order rv now th)"
  let ?s = "deliver_all route t (map (published_of r) ?cs) s"
  let ?als = "filter (\<lambda>al. al_Room al = k) (ss_Actuators s)"
  note fr = deliver_all_frame [OF assms(1), of s t "map (published_of r) ?cs", THEN conjunct1]
  have ok: "sim_ok ?s" using deliver_all_frame [OF assms(1)] assms(2) by blast
  have k: "k < length (ss_Rooms ?s)" using assms(3) fr by (simp add: same_setup_def)
  with ok have room: "room_ok (ss_Rooms ?s ! k)" and con: "contributed (ss_Actuators ?s) k (ss_Rooms ?s ! k)"
    by (simp_all add: sim_ok_def)
  have con': "contributed (ss_Actuators s) k (ss_Rooms ?s ! k)"
    by (rule contributed_wiring [OF con]) (metis fr same_setup_def set_map)
  have each: "contributions ?s k (contribution_key al) = (if demanded rv now th (acf_Type (al_Act al)) then Some (rates_of al) else None)"
    if "al \<in> set ?als" for al
  proof -
    from that obtain i where i: "i < length (ss_Actuators s)" "ss_Actuators s ! i = al" by (auto simp: in_set_conv_nth)
    with that have al: "al \<in> set (ss_Actuators s)" "al_Room al = k" by auto
    note rc = registered_commanded [OF assms(6) al assms(7,8), where now = now and th = th]
    show ?thesis
      using deliver_all_contributions [OF assms(1,4,5,3) i(1), of ?cs "demanded rv now th (acf_Type (al_Act al))" t r]
        rc al(2) i(2) by simp
  qed
  have "num_at (HeatInput (ss_Rooms ?s ! k)) typ = heat_of (rmst_contributions (ss_Rooms ?s ! k)) typ"
    using room by (simp add: room_ok_def HeatInput_def)
  also have "\<dots> = sum_list (map (\<lambda>al. case contributions ?s k (contribution_key al) of None \<Rightarrow> 0 | Some r \<Rightarrow> total_rate typ r) ?als)"
  proof (rule heat_of_keyed)
    show "distinct (map fst (rmst_contributions (ss_Rooms ?s ! k)))" using room by (simp add: room_ok_def)
    show "distinct (map contribution_key ?als)" using assms(4) by (simp add: keys_distinct_def)
    show "fst ` set (rmst_contributions (ss_Rooms ?s ! k)) \<subseteq> contribution_key ` set ?als"
      using con' by (auto simp: contributed_def)
  qed
  also have "\<dots> = sum_list (map (\<lambda>al. if demanded rv now th typ \<and> acf_Type (al_Act al) = typ then acf_Rate (al_Act al) else 0) ?als)"
    by (rule arg_cong [where f = sum_list], rule map_cong [OF refl], subst each) (auto simp: rates_of_def)
  also have "\<dots> = (if demanded rv now th typ then full_rate (ss_Actuators s) k typ else 0)"
    by (simp add: full_rate_def sum_list_map_filter' [symmetric] filter_filter conj_commute)
  finally show ?thesis .
qed

lemma tick_publishes:
  assumes "room_view (dw_store w) r = Some rv" and "w_faults w = []" and "tick stale order r now w = (res, w')"
  shows "drop (length (mq_published w)) (mq_published w') = map (published_of r) (tk_Commands (Evaluate order rv now stale))"
proof -
  obtain p where "Room (dw_store w) r = Some p" "view (dw_store w) p = Some rv"
    using assms(1) by (rule room_view_SomeE)
  from tick_run [OF this, where order = order and now = now and stale = stale] obtain sent fs ls
    where "w_faults w = [] \<Longrightarrow> sent = tk_Commands (Evaluate order rv now stale)"
      and "tick stale order r now w = (Inr (), w\<lparr>w_faults := fs,
        dw_store := tick_store p sent (tk_LastActivePeriod (Evaluate order rv now stale)) (dw_store w),
        mw_logs := ls, mq_published := mq_published w @ map (published_of r) sent\<rparr>)" by metis
  with assms(2,3) show ?thesis by auto
qed

text \<open>C4: The controller drives the simulated room: once the commands of a tick have been delivered, the heat
  input of the room is the combined rate of all its actuators of a measurement if the control law wants
  that measurement driven, and zero if not, whatever was on before; for every measurement type,
  provided the controller knows the room's actuators and each of them is on a device of its own, so that the
  client library has one handler for its topic.\<close>

theorem tick_drives_simulated_room:
  assumes "room_view (dw_store w) r = Some rv" and "w_faults w = []" and "tick stale order r now w = (res, w')"
    and "known_types rv" and "key_order (rc_ActuatorHwIDs rv) order"
    and "mqtt_route route" and "sim_ok s" and "k < length (ss_Rooms s)" and "keys_distinct (ss_Actuators s) k"
    and "own_topics (ss_Actuators s) k" and "registered (ss_Actuators s) k rv"
  shows "num_at (HeatInput (ss_Rooms (deliver_all route t (drop (length (mq_published w)) (mq_published w')) s) ! k)) typ
     = (if demanded rv now stale typ then full_rate (ss_Actuators s) k typ else 0)"
  unfolding tick_publishes [OF assms(1-3)] using assms(6-11,4,5) by (rule heat_after_tick)

text \<open>Two heaters in one room, known to the controller as \<open>a\<close> and \<open>b\<close>, and the broker that does what MQTT says.\<close>

definition two_heaters :: sim_state where
  "two_heaters = demo_sim\<lparr>ss_Sensors := [], ss_Actuators := map (\<lambda>h. \<lparr>al_HwID = h,
     al_Act = \<lparr>acf_Type = ''temperature'', acf_Rate = 1000\<rparr>, al_Room = 0, al_LastCmd = 0, al_Touch = False\<rparr>) [''a'', ''b'']\<rparr>"

definition subscribers :: "string list \<Rightarrow> string \<Rightarrow> nat list" where
  "subscribers topics t = filter (\<lambda>j. topics ! j = t) [0..<length topics]"

lemma subscribers_set: "j \<in> set (subscribers ts t) \<longleftrightarrow> j < length ts \<and> ts ! j = t"
  by (auto simp: subscribers_def)

lemma mqtt_route_subscribers: "mqtt_route subscribers"
proof (rule mqtt_routeI)
  show "distinct (subscribers ts t)" for ts t by (simp add: subscribers_def)
qed (unfold subscribers_set, blast+)

text \<open>A client library whose later subscription of a topic replaces the handler of the earlier one keeps the promise
  too, and there an actuator whose device has a later actuator never gets a command.\<close>

definition last_handler :: "string list \<Rightarrow> string \<Rightarrow> nat list" where
  "last_handler topics t = (case rev (subscribers topics t) of [] \<Rightarrow> [] | j # _ \<Rightarrow> [j])"

lemma last_handler_set: "j \<in> set (last_handler topics t) \<longleftrightarrow> j < length topics \<and> topics ! j = t \<and> (\<forall>i < length topics. topics ! i = t \<longrightarrow> i \<le> j)"
proof (cases "subscribers topics t" rule: rev_cases)
  case Nil
  then show ?thesis by (auto simp: last_handler_def subscribers_def filter_empty_conv)
next
  case (snoc js m)
  have "sorted (subscribers topics t)" "set (subscribers topics t) = {j. j < length topics \<and> topics ! j = t}"
    using sorted_filter [of "\<lambda>j. j" "[0..<length topics]"] by (auto simp: subscribers_def)
  then have "m < length topics" "topics ! m = t" "\<forall>i < length topics. topics ! i = t \<longrightarrow> i \<le> m"
    using snoc by (auto simp: sorted_append)
  moreover have "set (last_handler topics t) = {m}" by (simp add: last_handler_def snoc)
  ultimately show ?thesis by (auto intro: antisym)
qed

lemma mqtt_route_last_handler: "mqtt_route last_handler"
proof (rule mqtt_routeI)
  show "distinct (last_handler ts t)" for ts t by (simp add: last_handler_def split: list.split)
  show "j \<in> set (last_handler ts t) \<Longrightarrow> j < length ts \<and> ts ! j = t" for ts t j unfolding last_handler_set by blast
  show "j \<in> set (last_handler ts t)"
    if "j < length ts" "ts ! j = t" "\<And>i. i < length ts \<Longrightarrow> ts ! i = t \<Longrightarrow> i = j" for ts t j
    unfolding last_handler_set using that(1,2) that(3) by (metis order_refl)
qed

lemma shadowed_actuator_never_commanded:
  "i < j \<Longrightarrow> j < length als \<Longrightarrow> al_HwID (als ! j) = al_HwID (als ! i) \<Longrightarrow> i \<notin> set (last_handler (map cmdTopic als) t)"
  by (auto simp: last_handler_set cmdTopic_def)

lemma two_heaters_ok:
  "sim_ok two_heaters" "keys_distinct (ss_Actuators two_heaters) 0" "own_topics (ss_Actuators two_heaters) 0" "registered (ss_Actuators two_heaters) 0 demo_room"
  "length (ss_Rooms two_heaters) = 1" "full_rate (ss_Actuators two_heaters) 0 ''temperature'' = 2000"
  by (auto simp: two_heaters_def sim_ok_def contributed_def newRoomState_def keys_distinct_def contribution_key_def
      own_topics_def less_Suc_eq registered_def MeasurementToActuatorName_def slice_at_def full_rate_def
      intro!: room_ok_new [unfolded newRoomState_def])
    (auto simp: clamp_def MeasurementBounds_def split: if_splits)

theorem tick_drives_simulated_room_witness:
  "num_at (HeatInput (ss_Rooms (deliver_all subscribers 501 (drop (length (mq_published demo_svc))
     (mq_published (snd (tick 1000 [''heater''] 1 500 demo_svc)))) two_heaters) ! 0)) ''temperature'' = 2000"
proof -
  obtain res w' where run: "tick 1000 [''heater''] 1 500 demo_svc = (res, w')" by fastforce
  have "demanded demo_room 500 1000 ''temperature''"
    by (simp add: demanded_def MeasurementToActuatorName_def demo_room_resolve control_law_def fresh_values_def
        mean_def fresh_def sensor_of_def deadband_of_def target_at_def Sub_def minDuration_def maxDuration_def slice_at_def)
  with tick_drives_simulated_room [OF demo_svc_facts(2,4) run demo_room_types mqtt_route_subscribers two_heaters_ok(1) _
      two_heaters_ok(2,3,4), of 501 "''temperature''"]
  show ?thesis by (simp add: run two_heaters_ok(5,6))
qed

end
