(* ===== verification/ClosedLoop.thy ===== *)
theory ClosedLoop
  imports SimControl
begin

text \<open>
  The whole control loop in one picture: a simulated room publishes its temperature, \<open>device-service\<close>
  ingests it and ticks, the commands reach the simulated actuators, the room advances. Every part is
  the model of the code; only the alternation (one telemetry message, one tick, one advance per interval,
  sensors without noise) is fixed here. The result is the one the product is for: the temperature stays
  in a band around the target whose width follows from deadband, staleness window and heater power.
\<close>

section \<open>One cycle\<close>

record loop_setup =
  lp_Stale :: duration
  lp_Room :: uuid
  lp_Order :: "string list"
  lp_Interval :: duration
  lp_Device :: ProvisionedDevice
  lp_Index :: nat
  lp_TickSeconds :: float64
  lp_Route :: "string list \<Rightarrow> string \<Rightarrow> nat list"

text \<open>The simulator's telemetry JSON as \<open>device-service\<close> decodes it: both structs carry the same tags.\<close>

definition telemetry_wire :: "sim_telemetry \<Rightarrow> telemetryPayload" where
  "telemetry_wire m = \<lparr>tp_HwID = stl_HwID m,
     tp_Readings = map (\<lambda>r. \<lparr>rp_Type = smr_Type r, rp_Value = smr_Value r\<rparr>) (stl_Readings m)\<rparr>"

definition send_telemetry :: "loop_setup \<Rightarrow> instant \<Rightarrow> sim_state \<Rightarrow> svc_world \<Rightarrow> svc_world" where
  "send_telemetry lp now s w = (case publishTelemetry (lp_Device lp) (ss_Rooms s ! lp_Index lp) (\<lambda>_. 0) of
     None \<Rightarrow> w
   | Some (topic, m) \<Rightarrow> snd (on_telemetry (lp_Stale lp) now (Some (telemetry_wire m)) w))"

definition loop_cycle :: "loop_setup \<Rightarrow> instant \<Rightarrow> svc_world \<times> sim_state \<Rightarrow> svc_world \<times> sim_state" where
  "loop_cycle lp now = (\<lambda>(w, s).
     let w1 = send_telemetry lp now s w;
         w2 = snd (tick (lp_Stale lp) (lp_Order lp) (lp_Room lp) now w1);
         s1 = deliver_all (lp_Route lp) now (drop (length (mq_published w1)) (mq_published w2)) s
     in (w2, on_room (lp_Index lp) (advanceRoom (ss_Models s ! lp_Index lp) (lp_TickSeconds lp) (\<lambda>_. 0)) s1))"

fun loop_run :: "loop_setup \<Rightarrow> nat \<Rightarrow> instant \<Rightarrow> svc_world \<times> sim_state \<Rightarrow> svc_world \<times> sim_state" where
  "loop_run lp 0 now x = x"
| "loop_run lp (Suc n) now x = loop_run lp n (now + lp_Interval lp) (loop_cycle lp now x)"

section \<open>The arithmetic of one advance\<close>

lemma round_error: "0 \<le> v \<Longrightarrow> \<bar>roundTo2DP v - v\<bar> \<le> 1 / 200"
proof -
  assume "0 \<le> v"
  then have "roundTo2DP v = of_int \<lfloor>v * 100 + 1 / 2\<rfloor> / 100" by (simp add: roundTo2DP_def trunc_def)
  moreover have "of_int \<lfloor>v * 100 + 1 / 2\<rfloor> \<le> v * 100 + 1 / 2" "v * 100 + 1 / 2 < of_int \<lfloor>v * 100 + 1 / 2\<rfloor> + 1"
    by linarith+
  ultimately show ?thesis unfolding abs_le_iff by linarith
qed

definition next_value :: "float64 \<Rightarrow> float64 \<Rightarrow> float64 \<Rightarrow> bool \<Rightarrow> float64 \<Rightarrow> float64" where
  "next_value q amb G on T = (let eq = amb + (if on then G else 0) in eq + q * (T - eq))"

lemma next_value_bounds:
  assumes "0 \<le> q" "q \<le> 1" "amb \<le> T" "T \<le> amb + G"
  shows "amb \<le> next_value q amb G on T" "next_value q amb G on T \<le> amb + G"
    "\<bar>next_value q amb G on T - T\<bar> \<le> (1 - q) * G"
    "on \<Longrightarrow> T + (1 - q) * (amb + G - T) \<le> next_value q amb G on T"
    "\<not> on \<Longrightarrow> next_value q amb G on T \<le> T - (1 - q) * (T - amb)"
proof -
  have a: "0 \<le> q * (T - amb)" "0 \<le> (1 - q) * (T - amb)" "0 \<le> q * (amb + G - T)" "0 \<le> (1 - q) * (amb + G - T)"
    using assms by simp_all
  show "amb \<le> next_value q amb G on T" "next_value q amb G on T \<le> amb + G"
    "\<bar>next_value q amb G on T - T\<bar> \<le> (1 - q) * G"
    "on \<Longrightarrow> T + (1 - q) * (amb + G - T) \<le> next_value q amb G on T"
    "\<not> on \<Longrightarrow> next_value q amb G on T \<le> T - (1 - q) * (T - amb)"
    using a assms by (auto simp: next_value_def Let_def algebra_simps abs_le_iff)
qed

lemma mean_between:
  assumes "vs \<noteq> []" and "\<forall>v \<in> set vs. lo \<le> v \<and> v \<le> hi"
  shows "lo \<le> mean vs \<and> mean vs \<le> hi"
  using sum_list_bounds [OF assms(2)] assms(1) by (simp add: mean_def pos_le_divide_eq pos_divide_le_eq)

section \<open>Telemetry\<close>

text \<open>The device has one temperature sensor, unbiased.\<close>

definition thermometer :: "ProvisionedDevice \<Rightarrow> bool" where
  "thermometer dev \<longleftrightarrow> pd_HwID dev \<noteq> []
     \<and> map (\<lambda>s. (sen_Type s, sen_Offset s)) (dv_Sensors (pd_Config dev)) = [(''temperature'', 0)]"

definition known_device :: "Store \<Rightarrow> ProvisionedDevice \<Rightarrow> uuid \<Rightarrow> bool" where
  "known_device st dev r = (case Device st (pd_HwID dev) of None \<Rightarrow> False
     | Some dc \<Rightarrow> GetRoomID dc = Some r \<and> dc_Sensors dc ''temperature'' \<noteq> None)"

lemma thermometer_publishes:
  assumes "thermometer dev" and "rmst_Current rs ''temperature'' = Some c"
  shows "publishTelemetry dev rs (\<lambda>_. 0) = Some (''devices/'' @ pd_HwID dev @ ''/telemetry'',
     \<lparr>stl_HwID = pd_HwID dev, stl_Readings = [\<lparr>smr_Type = ''temperature'', smr_Value = roundTo2DP c\<rparr>]\<rparr>)"
  using assms by (auto simp: thermometer_def publishTelemetry_def sensor_readings_def Let_def)

lemma telemetry_effect:
  assumes "wf_store (dw_store w)" and "room_view (dw_store w) r = Some rv" and "w_faults w = []"
    and "known_device (dw_store w) dev r" and "thermometer dev"
    and "rmst_Current (ss_Rooms s ! lp_Index lp) ''temperature'' = Some c"
    and "lp_Device lp = dev" and "lp_Room lp = r"
    and w1_def: "w1 = send_telemetry lp now s w"
  shows "room_view (dw_store w1) r = Some (rv\<lparr>rc_LatestReadings := (rc_LatestReadings rv)(''temperature'' \<mapsto>
        trimStale (slice_at (rc_LatestReadings rv) ''temperature'' @ [\<lparr>tr_Value = roundTo2DP c, tr_Timestamp = now\<rparr>])
          now (lp_Stale lp))\<rparr>)"
    and "wf_store (dw_store w1)" and "w_faults w1 = []" and "Device (dw_store w1) = Device (dw_store w)"
proof -
  obtain p where p: "Room (dw_store w) r = Some p" "view (dw_store w) p = Some rv"
    using assms(2) by (rule room_view_SomeE)
  from assms(4) obtain dc entry where dc: "Device (dw_store w) (pd_HwID dev) = Some dc" "GetRoomID dc = Some r"
    "dc_Sensors dc ''temperature'' = Some entry" by (auto simp: known_device_def split: option.splits)
  let ?rd = "\<lparr>rd_Type = ''temperature'', rd_Value = roundTo2DP c\<rparr>"
  let ?msg = "\<lparr>tm_HwID = pd_HwID dev, tm_RoomID = None, tm_Readings = [?rd], tm_Timestamp = now\<rparr>"
  let ?w = "w\<lparr>dw_store := record_readings p now (lp_Stale lp) [?rd] (dw_store w)\<rparr>"
  have t: "target (dw_store w) ?msg = Some (dc, r, p)" using dc p by (simp add: target_def)
  have "accepted dc ?msg = [(entry, ?rd)]" using dc(3) by (simp add: accepted_def resolve_readings_def)
  then have proc: "Process (lp_Stale lp) ?msg w = WriteSensorReadings (reading_rows r now [(entry, ?rd)]) ?w"
    using Process_target [OF t, of "lp_Stale lp"] by simp
  have "snd (WriteSensorReadings (reading_rows r now [(entry, ?rd)]) ?w)
      = ?w\<lparr>mw_readings := mw_readings ?w @ reading_rows r now [(entry, ?rd)]\<rparr>"
    using assms(3) by (simp add: WriteSensorReadings_def reading_rows_def ext_call_ok)
  moreover have "w1 = snd (Process (lp_Stale lp) ?msg w)"
    using thermometer_publishes [OF assms(5,6)] assms(5,7)
    by (simp add: w1_def send_telemetry_def on_telemetry_def telemetry_wire_def thermometer_def)
  ultimately have w1: "w1 = ?w\<lparr>mw_readings := mw_readings ?w @ reading_rows r now [(entry, ?rd)]\<rparr>" using proc by simp
  show "room_view (dw_store w1) r = Some (rv\<lparr>rc_LatestReadings := (rc_LatestReadings rv)(''temperature'' \<mapsto>
        trimStale (slice_at (rc_LatestReadings rv) ''temperature'' @ [\<lparr>tr_Value = roundTo2DP c, tr_Timestamp = now\<rparr>])
          now (lp_Stale lp))\<rparr>)"
    using record_reading_view [OF p, of now "lp_Stale lp" ?rd] by (simp add: w1 record_readings_def)
  show "wf_store (dw_store w1)" using wf_record_readings [OF assms(1)] by (simp add: w1)
  show "w_faults w1 = []" "Device (dw_store w1) = Device (dw_store w)" using assms(3) by (simp_all add: w1)
qed

section \<open>The tick\<close>

lemma forE_quiet:
  assumes "\<And>x w. w_faults w = [] \<Longrightarrow> w_faults (snd (f x w)) = []" and "w_faults w = []"
  shows "w_faults (snd (forE f xs w)) = []"
  using assms(2)
proof (induction xs arbitrary: w)
  case (Cons x xs)
  from assms(1) [OF Cons.prems, of x] Cons.IH [of "snd (f x w)"] Cons.prems
  show ?case by (auto simp: bindE_run split: prod.split sum.split)
qed simp

lemma publish_quiet: "w_faults w = [] \<Longrightarrow> w_faults (snd (publish_command r p c w)) = []"
  by (cases rule: publish_command_cases [of r p c w]) auto

lemma log_quiet: "w_faults w = [] \<Longrightarrow> w_faults (snd (attempt (WriteControlLogEntry e) w)) = []"
  by (simp add: WriteControlLogEntry_def ext_call_ok)

lemma tick_quiet:
  assumes "w_faults w = []"
  shows "w_faults (snd (tick stale order r now w)) = []"
proof (cases "\<exists>p rc. Room (dw_store w) r = Some p \<and> view (dw_store w) p = Some rc")
  case True
  then obtain p rc where p: "Room (dw_store w) r = Some p" "view (dw_store w) p = Some rc" by blast
  let ?res = "Evaluate order rc now stale"
  obtain x w1 where w1: "forE (publish_command r p) (tk_Commands ?res) w = (x, w1)" by fastforce
  with forE_quiet [of "publish_command r p" w "tk_Commands ?res"] publish_quiet assms have q1: "w_faults w1 = []"
    by (metis snd_conv)
  let ?m = "case tk_LastActivePeriod ?res of None \<Rightarrow> returnE () | Some sp \<Rightarrow> on_store (set_last_period p sp)"
  obtain y w2 where w2: "?m w1 = (y, w2)" by fastforce
  with q1 have q2: "w_faults w2 = []" by (auto split: option.splits)
  obtain z w3 where w3: "attempt (WriteControlLogEntry (tk_LogEntry ?res)) w2 = (z, w3)" by fastforce
  with log_quiet [OF q2, of "tk_LogEntry ?res"] have q3: "w_faults w3 = []" by (metis snd_conv)
  show ?thesis
    using q1 q2 q3 by (auto simp: tick_def p Let_def bindE_run w1 w2 w3 split: sum.split)
next
  case False
  then show ?thesis using assms by (auto simp: tick_def split: option.split)
qed

lemma tick_view:
  assumes "wf_store (dw_store w)" and "room_view (dw_store w) r = Some rv"
    and w'_def: "w' = snd (tick stale order r now w)"
  shows "\<exists>as lp. room_view (dw_store w') r = Some (rv\<lparr>rc_ActuatorStates := as, rc_LastActivePeriod := lp\<rparr>)"
    and "wf_store (dw_store w')" and "Device (dw_store w') = Device (dw_store w)"
proof -
  obtain p where p: "Room (dw_store w) r = Some p" "view (dw_store w) p = Some rv"
    using assms(2) by (rule room_view_SomeE)
  obtain sent fs ls where t: "tick stale order r now w = (Inr (), w\<lparr>w_faults := fs,
        dw_store := tick_store p sent (tk_LastActivePeriod (Evaluate order rv now stale)) (dw_store w),
        mw_logs := ls, mq_published := mq_published w @ map (published_of r) sent\<rparr>)"
    by (rule tick_run [OF p, where order = order and now = now and stale = stale]) blast
  note v = room_view_tick_store [OF assms(1) p, of sent "tk_LastActivePeriod (Evaluate order rv now stale)"]
  show "\<exists>as lp. room_view (dw_store w') r = Some (rv\<lparr>rc_ActuatorStates := as, rc_LastActivePeriod := lp\<rparr>)"
    unfolding w'_def t using v(1) by auto
  show "wf_store (dw_store w')" "Device (dw_store w') = Device (dw_store w)" unfolding w'_def t using v(2,3) by simp_all
qed

section \<open>The loop's parameters\<close>

definition overridden :: "float64 \<Rightarrow> instant \<Rightarrow> RoomView \<Rightarrow> bool" where
  "overridden goal until rv \<longleftrightarrow> dsc_Mode (rc_DesiredState rv) \<noteq> ''OFF'' \<and> dsc_ManualActive (rc_DesiredState rv)
     \<and> dsc_ManualOverrideUntil (rc_DesiredState rv) = Some until
     \<and> dsc_Targets (rc_DesiredState rv) ''temperature'' = Some (Some goal)"

text \<open>The temperature the room would settle at with all heaters on lies \<open>heating_gain\<close> above ambient; one
  tick moves the temperature by at most \<open>tick_step\<close>; an average over the staleness window is off by at
  most \<open>sensing_error\<close>.\<close>

definition ambient_temp :: "loop_setup \<Rightarrow> sim_state \<Rightarrow> float64" where
  "ambient_temp lp s = num_at (rmst_Ambient (ss_Rooms s ! lp_Index lp)) ''temperature''"

definition heating_gain :: "loop_setup \<Rightarrow> sim_state \<Rightarrow> float64" where
  "heating_gain lp s = full_rate (ss_Actuators s) (lp_Index lp) ''temperature''
     / num_at (em_conductance (ss_Models s ! lp_Index lp)) ''temperature''"

definition tick_step :: "loop_setup \<Rightarrow> sim_state \<Rightarrow> float64" where
  "tick_step lp s = (1 - retention (ss_Models s ! lp_Index lp) (lp_TickSeconds lp) ''temperature'') * heating_gain lp s"

definition sensing_error :: "loop_setup \<Rightarrow> sim_state \<Rightarrow> float64" where
  "sensing_error lp s = 1 / 200 + of_int (lp_Stale lp) / of_int (lp_Interval lp) * tick_step lp s"

definition half_band :: "loop_setup \<Rightarrow> float64 \<Rightarrow> sim_state \<Rightarrow> float64" where
  "half_band lp deadband s = deadband + sensing_error lp s + tick_step lp s"

text \<open>Outside the band every cycle gains at least this much, positive when the target is within the heaters'
  reach.\<close>

definition loop_pull :: "loop_setup \<Rightarrow> float64 \<Rightarrow> float64 \<Rightarrow> sim_state \<Rightarrow> float64" where
  "loop_pull lp goal deadband s = (1 - retention (ss_Models s ! lp_Index lp) (lp_TickSeconds lp) ''temperature'')
     * max 0 (half_band lp deadband s + min (ambient_temp lp s + heating_gain lp s - goal) (goal - ambient_temp lp s))"

text \<open>Both services are set up for the room, the override lasts, and the plant is well behaved.\<close>

definition loop_ready :: "loop_setup \<Rightarrow> float64 \<Rightarrow> float64 \<Rightarrow> instant \<Rightarrow> svc_world \<times> sim_state \<Rightarrow> bool" where
  "loop_ready lp goal deadband until = (\<lambda>(w, s).
     wf_store (dw_store w) \<and> w_faults w = [] \<and> sane_threshold (lp_Stale lp) \<and> 0 < lp_Interval lp
   \<and> thermometer (lp_Device lp) \<and> known_device (dw_store w) (lp_Device lp) (lp_Room lp) \<and> mqtt_route (lp_Route lp)
   \<and> sim_ok s \<and> lp_Index lp < length (ss_Rooms s) \<and> keys_distinct (ss_Actuators s) (lp_Index lp)
   \<and> own_topics (ss_Actuators s) (lp_Index lp)
   \<and> (case room_view (dw_store w) (lp_Room lp) of None \<Rightarrow> False | Some rv \<Rightarrow>
        known_types rv \<and> key_order (rc_ActuatorHwIDs rv) (lp_Order lp) \<and> registered (ss_Actuators s) (lp_Index lp) rv
      \<and> overridden goal until rv \<and> rc_DeadbandTemp rv = deadband \<and> 0 \<le> deadband)
   \<and> well_damped (ss_Models s ! lp_Index lp) (lp_TickSeconds lp) ''temperature''
   \<and> clamp ''temperature'' (ambient_temp lp s) = ambient_temp lp s
   \<and> clamp ''temperature'' (ambient_temp lp s + heating_gain lp s) = ambient_temp lp s + heating_gain lp s)"

definition readings_near :: "loop_setup \<Rightarrow> instant \<Rightarrow> float64 \<Rightarrow> float64 \<Rightarrow> TimestampedReading list \<Rightarrow> bool" where
  "readings_near lp now step T rs \<longleftrightarrow> (\<forall>x \<in> set rs. tr_Timestamp x \<le> now
     \<and> \<bar>tr_Value x - T\<bar> \<le> 1 / 200 + of_int (now - tr_Timestamp x) / of_int (lp_Interval lp) * step)"

text \<open>The temperature of the room is \<open>T\<close>, one the heaters can hold, and the stored readings are near it.\<close>

definition loop_inv :: "loop_setup \<Rightarrow> instant \<Rightarrow> svc_world \<times> sim_state \<Rightarrow> float64 \<Rightarrow> bool" where
  "loop_inv lp now = (\<lambda>(w, s) T.
     rmst_Current (ss_Rooms s ! lp_Index lp) ''temperature'' = Some T
   \<and> ambient_temp lp s \<le> T \<and> T \<le> ambient_temp lp s + heating_gain lp s
   \<and> (case room_view (dw_store w) (lp_Room lp) of None \<Rightarrow> False | Some rv \<Rightarrow>
        readings_near lp now (tick_step lp s) T (slice_at (rc_LatestReadings rv) ''temperature'')))"

section \<open>What the controller decides\<close>

lemma demanded_override:
  assumes "overridden goal until rv" and "now < until" and "fresh_values rv ''temperature'' now th \<noteq> []"
    and "\<forall>v \<in> set (fresh_values rv ''temperature'' now th). \<bar>v - T\<bar> \<le> e" and "0 \<le> rc_DeadbandTemp rv"
  shows "T + e < goal - rc_DeadbandTemp rv \<Longrightarrow> demanded rv now th ''temperature''"
    and "goal + rc_DeadbandTemp rv < T - e \<Longrightarrow> \<not> demanded rv now th ''temperature''"
proof -
  let ?vs = "fresh_values rv ''temperature'' now th"
  have "T - e \<le> mean ?vs \<and> mean ?vs \<le> T + e"
    using assms(4) by (intro mean_between [OF assms(3)]) (auto simp: abs_le_iff)
  moreover have "demanded rv now th ''temperature'' \<longleftrightarrow> mean ?vs < goal - rc_DeadbandTemp rv
      \<or> mean ?vs \<le> goal + rc_DeadbandTemp rv \<and> commanded (rc_ActuatorStates rv) ''heater''"
    using assms(1-3) by (auto simp: demanded_def MeasurementToActuatorName_def control_law_def sensor_of_def
        deadband_of_def resolveEffectiveState_def overridden_def After_def target_at_def Let_def)
  ultimately show "T + e < goal - rc_DeadbandTemp rv \<Longrightarrow> demanded rv now th ''temperature''"
    and "goal + rc_DeadbandTemp rv < T - e \<Longrightarrow> \<not> demanded rv now th ''temperature''"
    using assms(5) by auto
qed

text \<open>After a telemetry message the fresh readings are those within the window, the new one among them.\<close>

lemma fresh_after_telemetry:
  assumes "sane_threshold th" and "readings_near lp now step T old" and "0 < lp_Interval lp" and "0 \<le> step"
    and "\<bar>v - T\<bar> \<le> 1 / 200" and "rs = trimStale (old @ [\<lparr>tr_Value = v, tr_Timestamp = now\<rparr>]) now th"
  shows "readings_near lp now step T rs" and "map tr_Value (filter (fresh now th) rs) \<noteq> []"
    and "\<forall>x \<in> set (map tr_Value (filter (fresh now th) rs)). \<bar>x - T\<bar> \<le> 1 / 200 + of_int th / of_int (lp_Interval lp) * step"
proof -
  let ?new = "\<lparr>tr_Value = v, tr_Timestamp = now\<rparr>"
  have sub: "set rs \<subseteq> insert ?new (set old)"
    using assms(6) set_dropWhileD by (fastforce simp: trimStale_eq [OF assms(1)])
  with assms(2,5) show near: "readings_near lp now step T rs" by (auto simp: readings_near_def)
  have th: "0 \<le> th" using assms(1) by (simp add: sane_threshold_def)
  have "?new \<in> set rs"
  proof -
    have "\<not> tr_Timestamp ?new < now - th" using th by simp
    then have "rs = dropWhile (\<lambda>r. tr_Timestamp r < now - th) old @ [?new]"
      unfolding assms(6) trimStale_eq [OF assms(1)] by (rule dropWhile_append3)
    then show ?thesis by simp
  qed
  moreover have "fresh now th ?new" using th by (simp add: fresh_def Sub_def minDuration_def maxDuration_def)
  ultimately show "map tr_Value (filter (fresh now th) rs) \<noteq> []" by (auto simp: filter_empty_conv)
  show "\<forall>x \<in> set (map tr_Value (filter (fresh now th) rs)). \<bar>x - T\<bar> \<le> 1 / 200 + of_int th / of_int (lp_Interval lp) * step"
  proof clarsimp
    fix x assume x: "x \<in> set rs" "fresh now th x"
    with near have le: "tr_Timestamp x \<le> now"
      and d: "\<bar>tr_Value x - T\<bar> \<le> 1 / 200 + of_int (now - tr_Timestamp x) / of_int (lp_Interval lp) * step"
      by (auto simp: readings_near_def)
    have "now - tr_Timestamp x \<le> th"
      using x(2) le assms(1) Sub_le_iff [of th now "tr_Timestamp x"]
      by (simp add: fresh_def sane_threshold_def minDuration_def)
    then have "(of_int (now - tr_Timestamp x) :: float64) / of_int (lp_Interval lp) * step \<le> of_int th / of_int (lp_Interval lp) * step"
      using assms(3,4) by (intro mult_right_mono divide_right_mono) (simp_all only: of_int_le_iff of_int_0_le_iff less_imp_le)
    with d show "\<bar>tr_Value x - T\<bar> \<le> 1 / 200 + of_int th * step / of_int (lp_Interval lp)" by simp
  qed
qed

text \<open>Time passes, the temperature moves by one step.\<close>

lemma readings_near_later:
  assumes "readings_near lp now step T rs" and "0 < lp_Interval lp" and "\<bar>T' - T\<bar> \<le> step"
  shows "readings_near lp (now + lp_Interval lp) step T' rs"
  unfolding readings_near_def
proof
  fix x assume "x \<in> set rs"
  with assms(1) have le: "tr_Timestamp x \<le> now"
    and d: "\<bar>tr_Value x - T\<bar> \<le> 1 / 200 + of_int (now - tr_Timestamp x) / of_int (lp_Interval lp) * step"
    by (auto simp: readings_near_def)
  have "(of_int (now + lp_Interval lp - tr_Timestamp x) :: float64) / of_int (lp_Interval lp) * step
      = of_int (now - tr_Timestamp x) / of_int (lp_Interval lp) * step + step"
    using assms(2) by (simp add: field_simps)
  moreover have "\<bar>tr_Value x - T'\<bar> \<le> \<bar>tr_Value x - T\<bar> + step" using assms(3) by (simp add: abs_le_iff) linarith
  ultimately show "tr_Timestamp x \<le> now + lp_Interval lp \<and> \<bar>tr_Value x - T'\<bar>
      \<le> 1 / 200 + of_int (now + lp_Interval lp - tr_Timestamp x) / of_int (lp_Interval lp) * step"
    using d le assms(2) by simp
qed

section \<open>What a cycle leaves alone\<close>

text \<open>Wiring, models and ambient values decide the loop's parameters.\<close>

definition same_plant :: "nat \<Rightarrow> sim_state \<Rightarrow> sim_state \<Rightarrow> bool" where
  "same_plant k s s' \<longleftrightarrow> map wiring (ss_Actuators s') = map wiring (ss_Actuators s)
     \<and> length (ss_Rooms s') = length (ss_Rooms s) \<and> ss_Models s' = ss_Models s
     \<and> rmst_Ambient (ss_Rooms s' ! k) = rmst_Ambient (ss_Rooms s ! k)"

lemma same_plant_setup: "same_setup s s' \<Longrightarrow> k < length (ss_Rooms s) \<Longrightarrow> same_plant k s s'"
  by (simp add: same_setup_def same_plant_def)

lemma same_plant_advance:
  "same_plant k s s' \<Longrightarrow> k < length (ss_Rooms s) \<Longrightarrow> same_plant k s (on_room k (advanceRoom m dt draw) s')"
  by (simp add: same_plant_def on_room_def)

lemma full_rate_wiring:
  "map wiring als' = map wiring als \<Longrightarrow> full_rate als' k ty = full_rate als k ty"
proof -
  have "map (\<lambda>al. acf_Rate (al_Act al)) (filter (\<lambda>al. al_Room al = k \<and> acf_Type (al_Act al) = ty) as)
      = map (\<lambda>(h, a, r). acf_Rate a) (filter (\<lambda>(h, a, r). r = k \<and> acf_Type a = ty) (map wiring as))" for as
    by (induction as) (auto simp: wiring_def)
  then show "map wiring als' = map wiring als \<Longrightarrow> full_rate als' k ty = full_rate als k ty"
    by (simp add: full_rate_def)
qed

lemma same_plant_parameters:
  assumes "same_plant (lp_Index lp) s s'"
  shows "ambient_temp lp s' = ambient_temp lp s" "heating_gain lp s' = heating_gain lp s"
    "tick_step lp s' = tick_step lp s" "half_band lp deadband s' = half_band lp deadband s"
    "loop_pull lp goal deadband s' = loop_pull lp goal deadband s"
  using assms full_rate_wiring [of "ss_Actuators s'" "ss_Actuators s"]
  by (simp_all add: same_plant_def ambient_temp_def heating_gain_def tick_step_def half_band_def sensing_error_def
      loop_pull_def)

lemma keys_distinct_wiring:
  "map wiring als' = map wiring als \<Longrightarrow> keys_distinct als' k = keys_distinct als k"
proof -
  have "map contribution_key (filter (\<lambda>al. al_Room al = k) as)
      = map (\<lambda>(h, a, r). h @ ''/'' @ acf_Type a) (filter (\<lambda>(h, a, r). r = k) (map wiring as))" for as
    by (induction as) (auto simp: wiring_def contribution_key_def)
  then show "map wiring als' = map wiring als \<Longrightarrow> keys_distinct als' k = keys_distinct als k"
    by (simp add: keys_distinct_def)
qed

lemma registered_wiring:
  "map wiring als' = map wiring als \<Longrightarrow> registered als' k rv = registered als k rv"
proof -
  have "registered as k rv \<longleftrightarrow> (\<forall>(h, a, r) \<in> set (map wiring as). r = k \<longrightarrow> (case MeasurementToActuatorName (acf_Type a) of
      None \<Rightarrow> False | Some name \<Rightarrow> h \<in> set (slice_at (rc_ActuatorHwIDs rv) name)))" for as
    by (auto simp: registered_def wiring_def)
  then show "map wiring als' = map wiring als \<Longrightarrow> registered als' k rv = registered als k rv" by presburger
qed

text \<open>The controller's view of the room may change in readings, actuator states and last period.\<close>

definition same_room :: "RoomView \<Rightarrow> RoomView \<Rightarrow> bool" where
  "same_room rv rv' \<longleftrightarrow> rc_ActuatorHwIDs rv' = rc_ActuatorHwIDs rv \<and> rc_DesiredState rv' = rc_DesiredState rv
     \<and> rc_DeadbandTemp rv' = rc_DeadbandTemp rv"

lemma loop_ready_kept:
  assumes "loop_ready lp goal deadband until (w, s)" and "room_view (dw_store w) (lp_Room lp) = Some rv"
    and "room_view (dw_store w') (lp_Room lp) = Some rv'" and "same_room rv rv'"
    and "wf_store (dw_store w')" and "w_faults w' = []" and "Device (dw_store w') = Device (dw_store w)"
    and "sim_ok s'" and "same_plant (lp_Index lp) s s'"
  shows "loop_ready lp goal deadband until (w', s')"
proof -
  from assms(9) have w: "map wiring (ss_Actuators s') = map wiring (ss_Actuators s)"
    and k: "length (ss_Rooms s') = length (ss_Rooms s)" "ss_Models s' = ss_Models s" by (simp_all add: same_plant_def)
  have rv': "known_types rv' = known_types rv" "registered als k rv' = registered als k rv"
    "overridden goal until rv' = overridden goal until rv" for als k
    using assms(4) by (simp_all add: same_room_def known_types_def registered_def overridden_def cong: option.case_cong)
  show ?thesis
    using assms(1-8) by (simp add: loop_ready_def same_plant_parameters [OF assms(9)] k rv'
        keys_distinct_wiring [OF w] own_topics_wiring [OF w] registered_wiring [OF w] known_device_def same_room_def)
qed

section \<open>One cycle\<close>

lemma plant_advance:
  assumes "rmst_Current (ss_Rooms s ! k) ''temperature'' = Some T" and "k < length (ss_Rooms s)"
    and "well_damped (ss_Models s ! k) dt ''temperature''"
    and "num_at (HeatInput (ss_Rooms s ! k)) ''temperature'' = (if on then rate else 0)"
  shows "rmst_Current (ss_Rooms (on_room k (advanceRoom (ss_Models s ! k) dt (\<lambda>_. 0)) s) ! k) ''temperature''
     = Some (clamp ''temperature'' (next_value (retention (ss_Models s ! k) dt ''temperature'')
         (num_at (rmst_Ambient (ss_Rooms s ! k)) ''temperature'')
         (rate / num_at (em_conductance (ss_Models s ! k)) ''temperature'') on T))"
  using assms(2,4) by (simp add: on_room_def advance_value [OF assms(1,3)] equilibrium_def next_value_def HeatInput_def Let_def)

text \<open>The hysteresis argument: outside the band the command is the right one, inside it one tick cannot
  leave; \<open>e\<close> is the sensing error, \<open>st\<close> the largest move of a tick.\<close>

lemma band_step:
  fixes T goal :: float64
  assumes "0 \<le> d + e" and "\<bar>T' - T\<bar> \<le> st"
    and "on \<Longrightarrow> T + up \<le> T'" and "\<not> on \<Longrightarrow> T' \<le> T - down" and "0 \<le> up" "0 \<le> down"
    and "T + e < goal - d \<Longrightarrow> on" and "goal + d < T - e \<Longrightarrow> \<not> on"
    and "T < goal - (d + e + st) \<Longrightarrow> pull \<le> up" and "goal + (d + e + st) < T \<Longrightarrow> pull \<le> down"
  shows "\<bar>T' - goal\<bar> \<le> max (d + e + st) (\<bar>T - goal\<bar> - pull)"
proof -
  note r = assms(1,2,5,6) [unfolded abs_le_iff]
  consider "\<bar>T - goal\<bar> \<le> d + e + st" | "T < goal - (d + e + st)" | "goal + (d + e + st) < T" by linarith
  then show ?thesis
  proof cases
    case 1
    have "T' - goal \<le> d + e + st" using r assms(4,8) 1 by (cases "goal + d < T - e") auto
    moreover have "goal - T' \<le> d + e + st" using r assms(3,7) 1 by (cases "T + e < goal - d") auto
    ultimately show ?thesis by (simp add: abs_le_iff le_max_iff_disj)
  next
    case 2
    with r assms(3,7,9) show ?thesis by (auto simp: le_max_iff_disj abs_le_iff abs_if)
  next
    case 3
    with r assms(4,8,10) show ?thesis by (auto simp: le_max_iff_disj abs_le_iff abs_if)
  qed
qed

lemma plant_toward_goal:
  assumes "0 \<le> q" "q \<le> 1" "amb \<le> T" "T \<le> amb + G" "0 \<le> d + e"
    and "T + e < goal - d \<Longrightarrow> on" "goal + d < T - e \<Longrightarrow> \<not> on"
  shows "\<bar>next_value q amb G on T - goal\<bar> \<le> max (d + e + (1 - q) * G)
     (\<bar>T - goal\<bar> - (1 - q) * max 0 ((d + e + (1 - q) * G) + min (amb + G - goal) (goal - amb)))"
proof (rule band_step [OF assms(5) next_value_bounds(3-5) [OF assms(1-4)]])
  show "0 \<le> (1 - q) * (amb + G - T)" "0 \<le> (1 - q) * (T - amb)" using assms(1-4) by simp_all
  show "(1 - q) * max 0 ((d + e + (1 - q) * G) + min (amb + G - goal) (goal - amb)) \<le> (1 - q) * (amb + G - T)"
    if "T < goal - (d + e + (1 - q) * G)" using that assms(1-4) by (intro mult_left_mono) auto
  show "(1 - q) * max 0 ((d + e + (1 - q) * G) + min (amb + G - goal) (goal - amb)) \<le> (1 - q) * (T - amb)"
    if "goal + (d + e + (1 - q) * G) < T" using that assms(1-4) by (intro mult_left_mono) auto
qed (use assms(6,7) in auto)

text \<open>The controller's half of a cycle: it senses the temperature to within \<open>sensing_error\<close> and decides.\<close>

lemma controller_half:
  assumes "loop_ready lp goal deadband until (w, s)" and "loop_inv lp now (w, s) T" and "now < until"
    and "room_view (dw_store w) (lp_Room lp) = Some rv"
    and w1: "w1 = send_telemetry lp now s w" and w2: "w2 = snd (tick (lp_Stale lp) (lp_Order lp) (lp_Room lp) now w1)"
  obtains rv1 rv2 where "room_view (dw_store w1) (lp_Room lp) = Some rv1" "room_view (dw_store w2) (lp_Room lp) = Some rv2"
    "same_room rv rv1" "same_room rv rv2" "w_faults w1 = []" "w_faults w2 = []" "wf_store (dw_store w2)"
    "Device (dw_store w2) = Device (dw_store w)"
    "readings_near lp now (tick_step lp s) T (slice_at (rc_LatestReadings rv2) ''temperature'')"
    "T + sensing_error lp s < goal - deadband \<Longrightarrow> demanded rv1 now (lp_Stale lp) ''temperature''"
    "goal + deadband < T - sensing_error lp s \<Longrightarrow> \<not> demanded rv1 now (lp_Stale lp) ''temperature''"
proof -
  let ?r = "lp_Room lp" and ?th = "lp_Stale lp"
  from assms(1,4) have ready: "wf_store (dw_store w)" "w_faults w = []" "sane_threshold ?th" "0 < lp_Interval lp"
      "thermometer (lp_Device lp)" "known_device (dw_store w) (lp_Device lp) ?r"
      "overridden goal until rv" "rc_DeadbandTemp rv = deadband" "0 \<le> deadband"
      "well_damped (ss_Models s ! lp_Index lp) (lp_TickSeconds lp) ''temperature''"
      "clamp ''temperature'' (ambient_temp lp s) = ambient_temp lp s"
    by (simp_all add: loop_ready_def)
  from assms(2,4) have inv: "rmst_Current (ss_Rooms s ! lp_Index lp) ''temperature'' = Some T" "ambient_temp lp s \<le> T"
      "T \<le> ambient_temp lp s + heating_gain lp s"
      "readings_near lp now (tick_step lp s) T (slice_at (rc_LatestReadings rv) ''temperature'')"
    by (simp_all add: loop_inv_def)
  have T: "0 \<le> T" using ready(11) inv(2) by (simp add: clamp_def MeasurementBounds_def split: if_splits)
  have st: "0 \<le> tick_step lp s" using retention_range [OF ready(10)] inv(2,3) by (simp add: tick_step_def)
  note tel = telemetry_effect [OF ready(1) assms(4) ready(2,6,5) inv(1) refl refl w1]
  define rs where "rs = trimStale (slice_at (rc_LatestReadings rv) ''temperature''
      @ [\<lparr>tr_Value = roundTo2DP T, tr_Timestamp = now\<rparr>]) now ?th"
  define rv1 where "rv1 = rv\<lparr>rc_LatestReadings := (rc_LatestReadings rv)(''temperature'' \<mapsto> rs)\<rparr>"
  have view1: "room_view (dw_store w1) ?r = Some rv1" using tel(1) by (simp add: rv1_def rs_def)
  have slice: "slice_at (rc_LatestReadings rv1) ''temperature'' = rs" by (simp add: rv1_def slice_at_def)
  note fr = fresh_after_telemetry [OF ready(3) inv(4) ready(4) st round_error [OF T] rs_def]
  note tick = tick_view [OF tel(2) view1 w2]
  from tick(1) obtain as p where view2: "room_view (dw_store w2) ?r = Some (rv1\<lparr>rc_ActuatorStates := as, rc_LastActivePeriod := p\<rparr>)"
    by blast
  have over: "overridden goal until rv1" "0 \<le> rc_DeadbandTemp rv1" "rc_DeadbandTemp rv1 = deadband"
    using ready(7-9) by (simp_all add: rv1_def overridden_def)
  have sense: "\<forall>v \<in> set (fresh_values rv1 ''temperature'' now ?th). \<bar>v - T\<bar> \<le> sensing_error lp s"
    "fresh_values rv1 ''temperature'' now ?th \<noteq> []"
    unfolding fresh_values_def slice sensing_error_def using fr(2,3) by simp_all
  note decide = demanded_override [OF over(1) assms(3) sense(2,1) over(2), unfolded over(3)]
  show thesis
    by (rule that [OF view1 view2]) (use tel tick(2,3) fr(1) slice decide w2 tick_quiet in \<open>simp_all add: same_room_def rv1_def\<close>)
qed

text \<open>The plant's half: the commands arrive, the room advances.\<close>

lemma plant_half:
  assumes "loop_ready lp goal deadband until (w, s)" and "loop_inv lp now (w, s) T"
    and "room_view (dw_store w1) (lp_Room lp) = Some rv1" and "w_faults w1 = []"
    and "known_types rv1" "key_order (rc_ActuatorHwIDs rv1) (lp_Order lp)" "registered (ss_Actuators s) (lp_Index lp) rv1"
    and w2: "w2 = snd (tick (lp_Stale lp) (lp_Order lp) (lp_Room lp) now w1)"
    and s2: "s2 = on_room (lp_Index lp) (advanceRoom (ss_Models s ! lp_Index lp) (lp_TickSeconds lp) (\<lambda>_. 0))
      (deliver_all (lp_Route lp) now (drop (length (mq_published w1)) (mq_published w2)) s)"
  shows "rmst_Current (ss_Rooms s2 ! lp_Index lp) ''temperature'' = Some (next_value
      (retention (ss_Models s ! lp_Index lp) (lp_TickSeconds lp) ''temperature'') (ambient_temp lp s) (heating_gain lp s)
      (demanded rv1 now (lp_Stale lp) ''temperature'') T)"
    and "sim_ok s2" and "same_plant (lp_Index lp) s s2"
proof -
  let ?k = "lp_Index lp" and ?on = "demanded rv1 now (lp_Stale lp) ''temperature''"
  let ?q = "retention (ss_Models s ! ?k) (lp_TickSeconds lp) ''temperature''"
  from assms(1) have ready: "mqtt_route (lp_Route lp)" "sim_ok s" "?k < length (ss_Rooms s)"
      "keys_distinct (ss_Actuators s) ?k" "own_topics (ss_Actuators s) ?k" "well_damped (ss_Models s ! ?k) (lp_TickSeconds lp) ''temperature''"
      "clamp ''temperature'' (ambient_temp lp s) = ambient_temp lp s"
      "clamp ''temperature'' (ambient_temp lp s + heating_gain lp s) = ambient_temp lp s + heating_gain lp s"
    by (simp_all add: loop_ready_def)
  from assms(2) have inv: "rmst_Current (ss_Rooms s ! ?k) ''temperature'' = Some T" "ambient_temp lp s \<le> T"
      "T \<le> ambient_temp lp s + heating_gain lp s" by (simp_all add: loop_inv_def)
  define s1 where "s1 = deliver_all (lp_Route lp) now (drop (length (mq_published w1)) (mq_published w2)) s"
  obtain res where t: "tick (lp_Stale lp) (lp_Order lp) (lp_Room lp) now w1 = (res, w2)" unfolding w2 by (metis prod.collapse)
  have heat: "num_at (HeatInput (ss_Rooms s1 ! ?k)) ''temperature''
      = (if ?on then full_rate (ss_Actuators s) ?k ''temperature'' else 0)"
    unfolding s1_def tick_publishes [OF assms(3,4) t] by (rule heat_after_tick [OF ready(1-5) assms(7,5,6)])
  have ok1: "sim_ok s1" and ss: "same_setup s s1"
    using deliver_all_frame [OF ready(1)] ready(2) by (auto simp: s1_def)
  from ss ready(3) have k: "?k < length (ss_Rooms s1)" "ss_Models s1 = ss_Models s"
      "rmst_Current (ss_Rooms s1 ! ?k) = rmst_Current (ss_Rooms s ! ?k)"
      "rmst_Ambient (ss_Rooms s1 ! ?k) = rmst_Ambient (ss_Rooms s ! ?k)" by (simp_all add: same_setup_def)
  have s2': "s2 = on_room ?k (advanceRoom (ss_Models s1 ! ?k) (lp_TickSeconds lp) (\<lambda>_. 0)) s1"
    by (simp only: k(2)) (simp only: s2 s1_def)
  have bounds: "ambient_temp lp s \<le> next_value ?q (ambient_temp lp s) (heating_gain lp s) ?on T"
      "next_value ?q (ambient_temp lp s) (heating_gain lp s) ?on T \<le> ambient_temp lp s + heating_gain lp s"
    using next_value_bounds(1,2) [OF _ _ inv(2,3)] retention_range [OF ready(6)] by blast+
  show "rmst_Current (ss_Rooms s2 ! ?k) ''temperature''
      = Some (next_value ?q (ambient_temp lp s) (heating_gain lp s) ?on T)"
    using plant_advance [of s1 ?k T "lp_TickSeconds lp" ?on "full_rate (ss_Actuators s) ?k ''temperature''"] inv(1) k heat
      ready(6) clamp_between [OF ready(7,8)] bounds
    by (simp add: s2' ambient_temp_def heating_gain_def)
  show "sim_ok s2" unfolding s2' by (rule sim_ok_on_room [OF ok1])
    (use ok1 in \<open>auto simp: sim_ok_def advanceRoom_def room_ok_advance\<close>)
  show "same_plant ?k s s2" unfolding s2' using same_plant_advance [OF same_plant_setup [OF ss ready(3)] ready(3)] .
qed

lemma half_cycle_pulls:
  assumes "loop_ready lp goal deadband until (w, s)" and "ambient_temp lp s \<le> T" "T \<le> ambient_temp lp s + heating_gain lp s"
    and "T + sensing_error lp s < goal - deadband \<Longrightarrow> on" and "goal + deadband < T - sensing_error lp s \<Longrightarrow> \<not> on"
    and "T' = next_value (retention (ss_Models s ! lp_Index lp) (lp_TickSeconds lp) ''temperature'')
      (ambient_temp lp s) (heating_gain lp s) on T"
  shows "ambient_temp lp s \<le> T'" "T' \<le> ambient_temp lp s + heating_gain lp s" "\<bar>T' - T\<bar> \<le> tick_step lp s"
    "\<bar>T' - goal\<bar> \<le> max (half_band lp deadband s) (\<bar>T - goal\<bar> - loop_pull lp goal deadband s)"
proof -
  from assms(1) have ready: "0 \<le> deadband" "sane_threshold (lp_Stale lp)" "0 < lp_Interval lp"
    "well_damped (ss_Models s ! lp_Index lp) (lp_TickSeconds lp) ''temperature''"
    by (auto simp: loop_ready_def split: option.splits)
  note q = retention_range [OF ready(4), THEN conjunct1] retention_range [OF ready(4), THEN conjunct2]
  have "0 \<le> tick_step lp s" using q assms(2,3) by (simp add: tick_step_def)
  then have "0 \<le> sensing_error lp s" using ready(2,3) by (simp add: sensing_error_def sane_threshold_def)
  with ready(1) have "0 \<le> deadband + sensing_error lp s" by simp
  from plant_toward_goal [OF q assms(2,3) this assms(4,5)] next_value_bounds(1-3) [OF q assms(2,3), of on]
  show "ambient_temp lp s \<le> T'" "T' \<le> ambient_temp lp s + heating_gain lp s" "\<bar>T' - T\<bar> \<le> tick_step lp s"
    "\<bar>T' - goal\<bar> \<le> max (half_band lp deadband s) (\<bar>T - goal\<bar> - loop_pull lp goal deadband s)"
    unfolding assms(6) tick_step_def half_band_def loop_pull_def by (simp_all only:)
qed

lemma loop_cycle_step:
  assumes "loop_ready lp goal deadband until (w, s)" and "loop_inv lp now (w, s) T" and "now < until"
    and run: "loop_cycle lp now (w, s) = (w2, s2)"
  shows "\<exists>T'. loop_ready lp goal deadband until (w2, s2) \<and> loop_inv lp (now + lp_Interval lp) (w2, s2) T'
     \<and> same_plant (lp_Index lp) s s2
     \<and> \<bar>T' - goal\<bar> \<le> max (half_band lp deadband s) (\<bar>T - goal\<bar> - loop_pull lp goal deadband s)"
proof -
  from assms(1) obtain rv where rv: "room_view (dw_store w) (lp_Room lp) = Some rv" "known_types rv"
      "key_order (rc_ActuatorHwIDs rv) (lp_Order lp)" "registered (ss_Actuators s) (lp_Index lp) rv" "0 < lp_Interval lp"
    by (auto simp: loop_ready_def split: option.splits)
  from assms(2) have T: "ambient_temp lp s \<le> T" "T \<le> ambient_temp lp s + heating_gain lp s" by (simp_all add: loop_inv_def)
  define w1 where "w1 = send_telemetry lp now s w"
  have w2: "w2 = snd (tick (lp_Stale lp) (lp_Order lp) (lp_Room lp) now w1)"
    and s2: "s2 = on_room (lp_Index lp) (advanceRoom (ss_Models s ! lp_Index lp) (lp_TickSeconds lp) (\<lambda>_. 0))
      (deliver_all (lp_Route lp) now (drop (length (mq_published w1)) (mq_published w2)) s)"
    using run by (auto simp: loop_cycle_def w1_def Let_def)
  obtain rv1 rv2 where c: "room_view (dw_store w1) (lp_Room lp) = Some rv1" "room_view (dw_store w2) (lp_Room lp) = Some rv2"
    "same_room rv rv1" "same_room rv rv2" "w_faults w1 = []" "w_faults w2 = []" "wf_store (dw_store w2)"
    "Device (dw_store w2) = Device (dw_store w)"
    "readings_near lp now (tick_step lp s) T (slice_at (rc_LatestReadings rv2) ''temperature'')"
    and on: "T + sensing_error lp s < goal - deadband \<Longrightarrow> demanded rv1 now (lp_Stale lp) ''temperature''"
      "goal + deadband < T - sensing_error lp s \<Longrightarrow> \<not> demanded rv1 now (lp_Stale lp) ''temperature''"
    using controller_half [OF assms(1-3) rv(1) w1_def w2] by blast
  have rv1: "known_types rv1" "key_order (rc_ActuatorHwIDs rv1) (lp_Order lp)" "registered (ss_Actuators s) (lp_Index lp) rv1"
    using rv(2-4) c(3) by (simp_all add: same_room_def known_types_def registered_def cong: option.case_cong)
  note p = plant_half [OF assms(1,2) c(1,5) rv1 w2 s2]
  note h = half_cycle_pulls [OF assms(1) T on refl]
  note par = same_plant_parameters [OF p(3)]
  let ?T' = "next_value (retention (ss_Models s ! lp_Index lp) (lp_TickSeconds lp) ''temperature'') (ambient_temp lp s)
    (heating_gain lp s) (demanded rv1 now (lp_Stale lp) ''temperature'') T"
  have "loop_ready lp goal deadband until (w2, s2)"
    by (rule loop_ready_kept [OF assms(1) rv(1) c(2,4,7,6,8) p(2,3)])
  moreover have "loop_inv lp (now + lp_Interval lp) (w2, s2) ?T'"
    using p(1) h(1,2) readings_near_later [OF c(9) rv(5) h(3)] by (simp add: loop_inv_def par c(2))
  ultimately show ?thesis using p(3) h(4) by blast
qed

section \<open>The loop works\<close>


text \<open>A room at 20 degrees, to be heated to 25 by the two heaters, one cycle per 100 time units, each of ten
  simulated minutes.\<close>

definition loop_room :: RoomView where
  "loop_room = demo_room\<lparr>rc_LatestReadings := Map.empty,
     rc_DesiredState := (rc_DesiredState demo_room)\<lparr>dsc_Targets := [''temperature'' \<mapsto> Some 25]\<rparr>\<rparr>"

definition loop_svc :: svc_world where
  "loop_svc = (init_svc demo_db)\<lparr>dw_store := AddDevice ''hw-1'' demo_device (install_room 1 loop_room NewStore)\<rparr>"

definition demo_loop :: loop_setup where
  "demo_loop = \<lparr>lp_Stale = 1000, lp_Room = 1, lp_Order = [''heater''], lp_Interval = 100,
     lp_Device = \<lparr>pd_HwID = ''hw-1'', pd_Config = thermostat\<rparr>, lp_Index = 0, lp_TickSeconds = 600, lp_Route = subscribers\<rparr>"

lemma demo_loop_fields [simp]:
  "lp_Stale demo_loop = 1000" "lp_Room demo_loop = 1" "lp_Order demo_loop = [''heater'']" "lp_Interval demo_loop = 100"
  "lp_Device demo_loop = \<lparr>pd_HwID = ''hw-1'', pd_Config = thermostat\<rparr>" "lp_Index demo_loop = 0"
  "lp_TickSeconds demo_loop = 600" "lp_Route demo_loop = subscribers"
  by (simp_all add: demo_loop_def)

lemma loop_svc_facts:
  "wf_store (dw_store loop_svc)" "room_view (dw_store loop_svc) 1 = Some loop_room" "w_faults loop_svc = []"
  "Device (dw_store loop_svc) ''hw-1'' = Some demo_device"
  by (simp_all add: loop_svc_def init_svc_def wf_AddDevice wf_install_room wf_NewStore demo_room_ID loop_room_def
      devices_tab.get_put room_view_install_room preserve_def)

lemma two_heaters_models: "ss_Models two_heaters = [newEnvironmentModel demo_measurements]"
  by (simp add: two_heaters_def demo_sim_def simulator_Run_def demo_entries) (simp add: demo_users_def lab_def)

lemma demo_loop_parameters:
  "ambient_temp demo_loop two_heaters = 20" "heating_gain demo_loop two_heaters = 20" "tick_step demo_loop two_heaters = 12 / 100"
  "half_band demo_loop 1 two_heaters = 2325 / 1000" "loop_pull demo_loop 25 1 two_heaters = 4395 / 100000"
proof -
  show amb: "ambient_temp demo_loop two_heaters = 20" and gain: "heating_gain demo_loop two_heaters = 20"
    using two_heaters_ok(6)
    by (simp_all add: ambient_temp_def heating_gain_def two_heaters_models) (simp add: two_heaters_def newRoomState_def)
  show step: "tick_step demo_loop two_heaters = 12 / 100"
    by (simp add: tick_step_def gain retention_def two_heaters_models)
  show band: "half_band demo_loop 1 two_heaters = 2325 / 1000"
    by (simp add: half_band_def sensing_error_def step)
  show "loop_pull demo_loop 25 1 two_heaters = 4395 / 100000"
    by (simp add: loop_pull_def amb gain band) (simp add: retention_def two_heaters_models)
qed

lemma demo_loop_ready: "loop_ready demo_loop 25 1 1000 (loop_svc, two_heaters)"
proof -
  have "well_damped (newEnvironmentModel demo_measurements) 600 ''temperature''" by (simp add: well_damped_def)
  moreover have "registered (ss_Actuators two_heaters) 0 loop_room = registered (ss_Actuators two_heaters) 0 demo_room"
    by (simp add: registered_def loop_room_def cong: option.case_cong)
  moreover have "overridden 25 1000 loop_room \<and> rc_DeadbandTemp loop_room = 1 \<and> rc_ActuatorHwIDs loop_room = [''heater'' \<mapsto> [''a'', ''b'']]"
    by (simp add: overridden_def loop_room_def demo_room_def)
  moreover have "thermometer (lp_Device demo_loop)" by (simp add: thermometer_def thermostat_def)
  moreover have "ss_Rooms two_heaters \<noteq> []" using two_heaters_ok(5) by (metis length_0_conv zero_neq_one)
  ultimately show ?thesis
    using loop_svc_facts two_heaters_ok(1-4) mqtt_route_subscribers
    by (simp add: loop_ready_def demo_loop_parameters)
      (simp add: two_heaters_models sane_threshold_def maxDuration_def known_device_def demo_device_def
        known_types_def key_order_def clamp_def MeasurementBounds_def GetRoomID_def)
qed


end
