(* ===== verification/Boot.thy ===== *)
theory Boot
  imports Stream AccountApi
begin

text \<open>
  Start-up of the two services: the configuration read from the environment (packages \<open>config\<close> of
  \<open>api-service\<close> and \<open>device-service\<close>), what the constructors make of it, and the health endpoint of
  \<open>device-service\<close>. The environment is a function, unset variables being empty as for \<open>os.Getenv\<close>.
\<close>

section \<open>Configuration of device-service\<close>

type_synonym environment = "string \<Rightarrow> string"

record dev_Config =
  dcf_PostgresUser :: string
  dcf_PostgresPassword :: string
  dcf_PostgresDB :: string
  dcf_TimescaleUser :: string
  dcf_TimescalePassword :: string
  dcf_TimescaleDB :: string
  dcf_RedisPassword :: string
  dcf_MQTTClientID :: string
  dcf_MQTTUsername :: string
  dcf_MQTTPassword :: string
  dcf_StaleThreshold :: duration
  dcf_TickInterval :: duration
  dcf_CacheRefreshInterval :: duration
  dcf_DebugLevel :: string
  dcf_TraceIngestion :: bool
  dcf_TraceTick :: bool

definition env_mustGetEnv :: "environment \<Rightarrow> string \<Rightarrow> error + string" where
  "env_mustGetEnv getenv key = (let v = getenv key
     in if v = [] then Inl (Panic (''missing required env var: '' @ key)) else Inr v)"

definition env_getEnvInt :: "environment \<Rightarrow> string \<Rightarrow> int \<Rightarrow> int" where
  "env_getEnvInt getenv key defaultVal = (let s = getenv key
     in if s = [] then defaultVal else (case Atoi s of None \<Rightarrow> defaultVal | Some v \<Rightarrow> v))"

definition dev_Load :: "environment \<Rightarrow> error + dev_Config" where
  "dev_Load getenv =
     (let staleSeconds = env_getEnvInt getenv ''CONTROL_STALE_THRESHOLD_SECONDS'' 90;
          tickSeconds = env_getEnvInt getenv ''CONTROL_TICK_INTERVAL_SECONDS'' 30;
          cacheRefreshMinutes = env_getEnvInt getenv ''CONTROL_CACHE_REFRESH_MINUTES'' 5
      in bindR (env_mustGetEnv getenv ''HOSTNAME'') (\<lambda>hostname. Inr
        \<lparr>dcf_PostgresUser = getenv ''POSTGRES_USER'', dcf_PostgresPassword = getenv ''POSTGRES_PASSWORD'',
         dcf_PostgresDB = getenv ''POSTGRES_DB'', dcf_TimescaleUser = getenv ''TIMESCALE_USER'',
         dcf_TimescalePassword = getenv ''TIMESCALE_PASSWORD'', dcf_TimescaleDB = getenv ''TIMESCALE_DB'',
         dcf_RedisPassword = getenv ''REDIS_PASSWORD'', dcf_MQTTClientID = ''device-service-'' @ hostname,
         dcf_MQTTUsername = getenv ''MQTT_DEVICE_SERVICE_USERNAME'',
         dcf_MQTTPassword = getenv ''MQTT_DEVICE_SERVICE_PASSWORD'',
         dcf_StaleThreshold = wrap64 (staleSeconds * Second), dcf_TickInterval = wrap64 (tickSeconds * Second),
         dcf_CacheRefreshInterval = wrap64 (cacheRefreshMinutes * Minute), dcf_DebugLevel = getenv ''DEVICE_DEBUG'',
         dcf_TraceIngestion = (getenv ''DEVICE_TRACE_INGESTION'' = ''true''),
         dcf_TraceTick = (getenv ''DEVICE_TRACE_TICK'' = ''true'')\<rparr>))"

text \<open>The part the scheduler reads.\<close>

definition sched_cfg :: "dev_Config \<Rightarrow> sched_config" where
  "sched_cfg cfg = \<lparr>cfg_StaleThreshold = dcf_StaleThreshold cfg, cfg_TickInterval = dcf_TickInterval cfg,
     cfg_CacheRefreshInterval = dcf_CacheRefreshInterval cfg\<rparr>"

text \<open>\<open>time.NewTicker\<close> panics unless the interval is positive; both loops of a room begin with it.\<close>

definition NewTicker :: "duration \<Rightarrow> error + unit" where
  "NewTicker d = (if d \<le> 0 then Inl (Panic ''non-positive interval for NewTicker'') else Inr ())"

definition loop_ticker :: "sched_config \<Rightarrow> loop_kind \<Rightarrow> error + unit" where
  "loop_ticker cfg k = NewTicker (case k of ControlLoop \<Rightarrow> cfg_TickInterval cfg | CacheRefresh \<Rightarrow> cfg_CacheRefreshInterval cfg)"

section \<open>Configuration of api-service\<close>

record api_Config =
  acg_PostgresUser :: string
  acg_PostgresPassword :: string
  acg_PostgresDB :: string
  acg_PostgresPort :: int
  acg_TimescaleUser :: string
  acg_TimescalePassword :: string
  acg_TimescaleDB :: string
  acg_TimescalePort :: int
  acg_RedisPassword :: string
  acg_RedisPort :: int
  acg_JWTSecret :: string
  acg_JWTAccessTTLMinutes :: int
  acg_JWTRefreshTTLDays :: int
  acg_APIPort :: int

definition mustInt :: "environment \<Rightarrow> string \<Rightarrow> error + int" where
  "mustInt getenv envName = (case Atoi (getenv envName) of
     None \<Rightarrow> Inl (Panic (''invalid integer config value for: '' @ envName)) | Some v \<Rightarrow> Inr v)"

text \<open>The three port fields are not in the literal, so they stay zero.\<close>

definition api_Load :: "environment \<Rightarrow> error + api_Config" where
  "api_Load getenv =
     bindR (mustInt getenv ''JWT_ACCESS_TTL_MINUTES'') (\<lambda>accessTTL.
     bindR (mustInt getenv ''JWT_REFRESH_TTL_DAYS'') (\<lambda>refreshTTL.
     bindR (mustInt getenv ''API_PORT'') (\<lambda>port. Inr
       \<lparr>acg_PostgresUser = getenv ''POSTGRES_USER'', acg_PostgresPassword = getenv ''POSTGRES_PASSWORD'',
        acg_PostgresDB = getenv ''POSTGRES_DB'', acg_PostgresPort = 0,
        acg_TimescaleUser = getenv ''TIMESCALE_USER'', acg_TimescalePassword = getenv ''TIMESCALE_PASSWORD'',
        acg_TimescaleDB = getenv ''TIMESCALE_DB'', acg_TimescalePort = 0,
        acg_RedisPassword = getenv ''REDIS_PASSWORD'', acg_RedisPort = 0, acg_JWTSecret = getenv ''JWT_SECRET'',
        acg_JWTAccessTTLMinutes = accessTTL, acg_JWTRefreshTTLDays = refreshTTL, acg_APIPort = port\<rparr>)))"

text \<open>\<open>auth.NewService\<close> as \<open>main\<close> calls it; \<open>auth.NewRepository\<close> computes the same lifetime of a refresh token.\<close>

definition auth_cfg :: "api_Config \<Rightarrow> auth_config" where
  "auth_cfg cfg = \<lparr>cf_secret = acg_JWTSecret cfg, cf_accessTTL = wrap64 (acg_JWTAccessTTLMinutes cfg * Minute),
     cf_refreshTTL = wrap64 (wrap64 (acg_JWTRefreshTTLDays cfg * 24) * Hour)\<rparr>"

section \<open>Health of device-service\<close>

record HealthServer =
  hs_ready :: bool

definition health_NewServer :: HealthServer where
  "health_NewServer = \<lparr>hs_ready = False\<rparr>"

definition SetReady :: "HealthServer \<Rightarrow> HealthServer" where
  "SetReady s = s\<lparr>hs_ready := True\<rparr>"

definition handleHealth :: "HealthServer \<Rightarrow> int" where
  "handleHealth s = (if \<not> hs_ready s then 503 else 200)"

section \<open>Which configurations run\<close>

lemma getEnvInt_default: "getenv key = [] \<or> Atoi (getenv key) = None \<Longrightarrow> env_getEnvInt getenv key d = d"
  by (auto simp: env_getEnvInt_def Let_def)

lemma getEnvInt_dec: "getenv key = dec n \<Longrightarrow> int n < 2 ^ 63 \<Longrightarrow> env_getEnvInt getenv key d = int n"
  by (simp add: env_getEnvInt_def Let_def Atoi_dec)

lemma dev_Load_eq:
  "dev_Load getenv = Inr cfg \<Longrightarrow> dcf_StaleThreshold cfg = wrap64 (env_getEnvInt getenv ''CONTROL_STALE_THRESHOLD_SECONDS'' 90 * Second)
     \<and> dcf_TickInterval cfg = wrap64 (env_getEnvInt getenv ''CONTROL_TICK_INTERVAL_SECONDS'' 30 * Second)
     \<and> dcf_CacheRefreshInterval cfg = wrap64 (env_getEnvInt getenv ''CONTROL_CACHE_REFRESH_MINUTES'' 5 * Minute)"
  by (auto simp: dev_Load_def env_mustGetEnv_def Let_def split: if_splits)

lemma dev_Load_ok_iff: "(\<exists>cfg. dev_Load getenv = Inr cfg) \<longleftrightarrow> getenv ''HOSTNAME'' \<noteq> []"
  by (auto simp: dev_Load_def env_mustGetEnv_def Let_def)

text \<open>A setting within its range: absent (or not a number), or the decimal text of a number from 1 to the bound.\<close>

definition setting :: "environment \<Rightarrow> string \<Rightarrow> nat \<Rightarrow> bool" where
  "setting getenv key bound \<longleftrightarrow> getenv key = [] \<or> Atoi (getenv key) = None
     \<or> (\<exists>n. getenv key = dec n \<and> 0 < n \<and> n \<le> bound)"

lemma setting_range:
  assumes "setting getenv key bound" and "0 < d" and "d \<le> int bound" and "int bound < 2 ^ 63"
  shows "0 < env_getEnvInt getenv key d \<and> env_getEnvInt getenv key d \<le> int bound"
  using assms getEnvInt_default [of getenv key d] getEnvInt_dec [of getenv key _ d] by (auto simp: setting_def)

lemma scaled_duration:
  assumes "0 < v" and "v \<le> b" and "0 < u" and "b * u < maxDuration"
  shows "wrap64 (v * u) = v * u" and "0 < v * u" and "v * u < maxDuration"
proof -
  have "v * u \<le> b * u" using assms by simp
  with assms(4) show lt: "v * u < maxDuration" by simp
  show "0 < v * u" using assms by simp
  with lt show "wrap64 (v * u) = v * u" by (simp add: wrap64_id in_int64_def maxDuration_def)
qed



text \<open>A zero interval is accepted by \<open>Load\<close>; the first control loop then panics and takes the process with it.\<close>

lemma zero_interval_crashes:
  assumes "getenv ''CONTROL_TICK_INTERVAL_SECONDS'' = ''0''" and "dev_Load getenv = Inr cfg"
  shows "loop_ticker (sched_cfg cfg) ControlLoop = Inl (Panic ''non-positive interval for NewTicker'')"
proof -
  have "Atoi ''0'' = Some 0" by (subst Atoi_1) (simp_all add: is_digit_def digit_val_def)
  with assms dev_Load_eq [OF assms(2)] show ?thesis
    by (simp add: loop_ticker_def sched_cfg_def NewTicker_def env_getEnvInt_def wrap64_id in_int64_def)
qed

text \<open>\<open>api-service\<close> starts without a signing secret: only the three integers are required.\<close>

lemma api_Load_ok_iff:
  "(\<exists>cfg. api_Load getenv = Inr cfg) \<longleftrightarrow> Atoi (getenv ''JWT_ACCESS_TTL_MINUTES'') \<noteq> None
     \<and> Atoi (getenv ''JWT_REFRESH_TTL_DAYS'') \<noteq> None \<and> Atoi (getenv ''API_PORT'') \<noteq> None"
  by (auto simp: api_Load_def mustInt_def bindR_def split: option.splits)

lemma empty_secret_accepted:
  assumes "api_Load getenv = Inr cfg" and "getenv ''JWT_SECRET'' = []"
  shows "cf_secret (auth_cfg cfg) = []"
  using assms by (auto simp: api_Load_def mustInt_def bindR_def auth_cfg_def split: option.splits)

end
