(* ===== verification/Runtime.thy ===== *)
theory Runtime
  imports Boot
begin

text \<open>
  The whole of \<open>device-service\<close> as one transition system: the main goroutine of \<open>cmd/main.go\<close>, the telemetry
  handler, the two loops of every room, the stream consumer and the health endpoint, interleaved in any
  order with changes of the database, of Redis and of what fails. A step is one message, one tick, one
  refresh, one consumer round or one statement of \<open>main\<close>.
\<close>

section \<open>State\<close>

text \<open>Where \<open>main\<close> stands: each constructor names what it is about to do.\<close>

datatype main_pc =
    Connecting | Warming | Subscribing | Scheduling | Consuming | Announcing | Serving | Stopping | Exited

datatype consumer_pc = NotStarted | EnsureGroup | Draining | Live | Done

record 'r run_world = "'r con_world" +
  rt_main :: main_pc
  rt_health :: HealthServer
  rt_subscribed :: bool
  rt_consumer :: consumer_pc
  rt_cancelled :: bool
  rt_left :: "(nat \<times> loop_kind) list"

text \<open>Configuration, time zone data, UUID parser and Redis: XREADGROUP, XACK and XGROUP CREATE, which answers
  with an error text or not.\<close>

record 'r run_setup =
  rs_cfg :: dev_Config
  rs_tz :: "string \<Rightarrow> location option"
  rs_uparse :: "string \<Rightarrow> uuid option"
  rs_read :: "'r redis_read"
  rs_ack :: "'r redis_ack"
  rs_create :: "string \<Rightarrow> string \<Rightarrow> 'r \<Rightarrow> string option \<times> 'r"
  rs_hostname :: string

definition init_run :: "appdb \<Rightarrow> 'r \<Rightarrow> 'r run_world" where
  "init_run db r0 = \<lparr>w_db = db, w_faults = [], dw_store = NewStore, mw_readings = [], mw_logs = [],
     mq_published = [], sd_activeRooms = Map.empty, sd_cancelled = [], sd_goroutines = [], sd_next = 0,
     cw_redis = r0, rt_main = Connecting, rt_health = health_NewServer, rt_subscribed = False,
     rt_consumer = NotStarted, rt_cancelled = False, rt_left = []\<rparr>"

section \<open>The consumer goroutine\<close>

text \<open>\<open>NewConsumer\<close>: group and consumer name.\<close>

definition NewConsumer :: "string \<Rightarrow> string \<times> string" where
  "NewConsumer hostname = (let h = if hostname = [] then ''unknown'' else hostname in (''device-service-'' @ h, h))"

definition ensureGroup :: "(string \<Rightarrow> string \<Rightarrow> 'r \<Rightarrow> string option \<times> 'r) \<Rightarrow> string \<Rightarrow> (('r, 'z) con_world_scheme, unit) act" where
  "ensureGroup create groupName w = (case create groupName ''$'' (cw_redis w) of (err, r) \<Rightarrow>
     ((case err of None \<Rightarrow> Inr () | Some t \<Rightarrow> if sublist ''BUSYGROUP'' t then Inr () else Inl (Msg t)),
      w\<lparr>cw_redis := r\<rparr>))"

text \<open>One pass of \<open>drainPending\<close>: \<open>None\<close> when it returns.\<close>

definition drain_round :: "'r run_setup \<Rightarrow> ('r, 'z) con_world_scheme \<Rightarrow> ('r, 'z) con_world_scheme option" where
  "drain_round st w = (case readGroup (rs_read st) ''0-0'' w of
     (Inl _, w') \<Rightarrow> None
   | (Inr msgs, w') \<Rightarrow> if msgs = [] then None
       else Some (snd (forE (dispatch (rs_tz st) (rs_uparse st) (rs_ack st)) msgs w')))"

section \<open>Steps\<close>

definition ctx_done :: "Goroutine \<Rightarrow> 'r run_world \<Rightarrow> bool" where
  "ctx_done g w \<longleftrightarrow> rt_cancelled w \<or> gr_ctx g \<in> set (sd_cancelled w)"

text \<open>A goroutine runs from \<open>startRoom\<close> until it returns, which is some time after its context is done:
  \<open>select\<close> may still take the ticker.\<close>

definition alive :: "Goroutine \<Rightarrow> 'r run_world \<Rightarrow> bool" where
  "alive g w \<longleftrightarrow> rt_main w \<noteq> Exited \<and> g \<in> set (sd_goroutines w) \<and> (gr_ctx g, gr_kind g) \<notin> set (rt_left w)"

inductive dev_step :: "'r run_setup \<Rightarrow> 'r run_world \<Rightarrow> 'r run_world \<Rightarrow> bool" for st where
  connect: "rt_main w = Connecting \<Longrightarrow> dev_step st w (w\<lparr>rt_main := Warming\<rparr>)"
| connect_fatal: "rt_main w = Connecting \<Longrightarrow> dev_step st w (w\<lparr>rt_main := Exited\<rparr>)"
| warm: "rt_main w = Warming \<Longrightarrow> WarmCache (rs_tz st) w = (Inr u, w') \<Longrightarrow> dev_step st w (w'\<lparr>rt_main := Subscribing\<rparr>)"
| warm_fatal: "rt_main w = Warming \<Longrightarrow> WarmCache (rs_tz st) w = (Inl e, w') \<Longrightarrow> dev_step st w (w\<lparr>rt_main := Exited\<rparr>)"
| subscribe: "rt_main w = Subscribing \<Longrightarrow> dev_step st w (w\<lparr>rt_subscribed := True, rt_main := Scheduling\<rparr>)"
| subscribe_fatal: "rt_main w = Subscribing \<Longrightarrow> dev_step st w (w\<lparr>rt_main := Exited\<rparr>)"
| start_rooms: "rt_main w = Scheduling \<Longrightarrow> distinct ids \<Longrightarrow> set ids = {r. Room (dw_store w) r \<noteq> None} \<Longrightarrow>
     dev_step st w ((sched_Start (sched_cfg (rs_cfg st)) ids w)\<lparr>rt_main := Consuming\<rparr>)"
| consume: "rt_main w = Consuming \<Longrightarrow> dev_step st w (w\<lparr>rt_consumer := EnsureGroup, rt_main := Announcing\<rparr>)"
| announce: "rt_main w = Announcing \<Longrightarrow> dev_step st w (w\<lparr>rt_health := SetReady (rt_health w), rt_main := Serving\<rparr>)"
| signal: "rt_main w = Serving \<Longrightarrow> dev_step st w (w\<lparr>rt_cancelled := True, rt_main := Stopping\<rparr>)"
| unsubscribe: "rt_main w = Stopping \<Longrightarrow> dev_step st w (w\<lparr>rt_subscribed := False\<rparr>)"
| exit: "rt_main w = Stopping \<Longrightarrow> \<not> rt_subscribed w \<Longrightarrow> (\<And>g. \<not> alive g w) \<Longrightarrow> rt_consumer w = Done \<Longrightarrow>
     dev_step st w (w\<lparr>rt_main := Exited\<rparr>)"
| telemetry: "rt_main w \<noteq> Exited \<Longrightarrow> rt_subscribed w \<Longrightarrow>
     dev_step st w (snd (on_telemetry (dcf_StaleThreshold (rs_cfg st)) now payload w))"
| ticker_panic: "alive g w \<Longrightarrow> loop_ticker (sched_cfg (rs_cfg st)) (gr_kind g) = Inl e \<Longrightarrow>
     dev_step st w (w\<lparr>rt_main := Exited\<rparr>)"
| control_tick: "alive g w \<Longrightarrow> gr_kind g = ControlLoop \<Longrightarrow> loop_ticker (sched_cfg (rs_cfg st)) ControlLoop = Inr () \<Longrightarrow>
     dev_step st w (snd (tick (dcf_StaleThreshold (rs_cfg st)) order (gr_room g) now w))"
| refresh_tick: "alive g w \<Longrightarrow> gr_kind g = CacheRefresh \<Longrightarrow> loop_ticker (sched_cfg (rs_cfg st)) CacheRefresh = Inr () \<Longrightarrow>
     dev_step st w (snd (cache_refresh (rs_tz st) (gr_room g) w))"
| leave: "alive g w \<Longrightarrow> ctx_done g w \<Longrightarrow> dev_step st w (w\<lparr>rt_left := (gr_ctx g, gr_kind g) # rt_left w\<rparr>)"
| ensure: "rt_main w \<noteq> Exited \<Longrightarrow> rt_consumer w = EnsureGroup \<Longrightarrow>
     ensureGroup (rs_create st) (fst (NewConsumer (rs_hostname st))) w = (Inr u, w') \<Longrightarrow>
     dev_step st w (w'\<lparr>rt_consumer := Draining\<rparr>)"
| ensure_fatal: "rt_main w \<noteq> Exited \<Longrightarrow> rt_consumer w = EnsureGroup \<Longrightarrow>
     rt_cancelled w \<or> fst (ensureGroup (rs_create st) (fst (NewConsumer (rs_hostname st))) w) \<noteq> Inr () \<Longrightarrow>
     dev_step st w (w\<lparr>rt_main := Exited\<rparr>)"
| drain: "rt_main w \<noteq> Exited \<Longrightarrow> rt_consumer w = Draining \<Longrightarrow> drain_round st w = Some w' \<Longrightarrow> dev_step st w w'"
| drained: "rt_main w \<noteq> Exited \<Longrightarrow> rt_consumer w = Draining \<Longrightarrow> rt_cancelled w \<or> drain_round st w = None \<Longrightarrow>
     dev_step st w (w\<lparr>rt_consumer := Live\<rparr>)"
| consumer_read: "rt_main w \<noteq> Exited \<Longrightarrow> rt_consumer w = Live \<Longrightarrow>
     dev_step st w (read_round (rs_tz st) (rs_uparse st) (rs_read st) (rs_ack st) w)"
| consumer_leave: "rt_main w \<noteq> Exited \<Longrightarrow> rt_consumer w = Live \<Longrightarrow> rt_cancelled w \<Longrightarrow>
     dev_step st w (w\<lparr>rt_consumer := Done\<rparr>)"
| environment: "rt_main w \<noteq> Exited \<Longrightarrow> dev_step st w (w\<lparr>w_db := db, cw_redis := r, w_faults := fs\<rparr>)"

inductive_cases dev_stepE: "dev_step st w w'"

section \<open>What the actions keep\<close>

text \<open>The store is well formed and every registered room has its two loops.\<close>

definition svc_ok :: "'z svc_world_scheme \<Rightarrow> bool" where
  "svc_ok w \<longleftrightarrow> wf_store (dw_store w) \<and> sched_ok w"

text \<open>A room that is in neither the database nor the cache, and the commands sent for it so far.\<close>

definition gone :: "uuid \<Rightarrow> Published list \<Rightarrow> 'z svc_world_scheme \<Rightarrow> bool" where
  "gone r ps w \<longleftrightarrow> wf_store (dw_store w) \<and> room_view (dw_store w) r = None
     \<and> r \<notin> r_id ` set (t_rooms (w_db w)) \<and> filter (\<lambda>p. pu_room p = r) (mq_published w) = ps"

lemma room_view_None: "wf_store s \<Longrightarrow> room_view s r = None \<longleftrightarrow> Room s r = None"
  by (cases "Room s r") (auto simp: room_view_def elim: wf_room_obj)

lemma frames_sched_writes [frame_rules]: "frames sched_part (WriteSensorReadings rs)"
  unfolding WriteSensorReadings_def
  by (auto intro!: frame_rules frames_ext_call simp: sched_part_def)

lemma frames_published_store [frame_rules]: "frames mq_published (on_store g)"
  "frames mq_published (modifyE (sched_AddRoom r))" "frames mq_published (modifyE (sched_RemoveRoom r))"
  by (simp_all add: frames_def sched_AddRoom_def)

lemma frames_published_reloads [frame_rules]: "frames mq_published (ReloadRoom tz r)" "frames mq_published (ReloadDevice h)"
  unfolding ReloadRoom_def ReloadDevice_def fetch_defs by (intro frame_rules)+

lemma Process_frame:
  "sched_part (snd (Process stale msg w)) = sched_part w" "w_db (snd (Process stale msg w)) = w_db w"
  "mq_published (snd (Process stale msg w)) = mq_published w"
  "wf_store (dw_store w) \<Longrightarrow> wf_store (dw_store (snd (Process stale msg w)))"
  "Room (dw_store (snd (Process stale msg w))) = Room (dw_store w)"
proof -
  have "sched_part (snd (Process stale msg w)) = sched_part w \<and> w_db (snd (Process stale msg w)) = w_db w
     \<and> mq_published (snd (Process stale msg w)) = mq_published w
     \<and> (wf_store (dw_store w) \<longrightarrow> wf_store (dw_store (snd (Process stale msg w))))
     \<and> Room (dw_store (snd (Process stale msg w))) = Room (dw_store w)"
  proof (cases "target (dw_store w) msg")
    case None
    then show ?thesis by (simp add: Process_no_target)
  next
    case (Some t)
    then obtain dc r p where t: "target (dw_store w) msg = Some (dc, r, p)" by (cases t) auto
    let ?w = "w\<lparr>dw_store := record_readings p (tm_Timestamp msg) stale (map snd (accepted dc msg)) (dw_store w)\<rparr>"
    let ?rows = "reading_rows r (tm_Timestamp msg) (accepted dc msg)"
    have "sched_part (snd (WriteSensorReadings ?rows ?w)) = sched_part ?w"
      "w_db (snd (WriteSensorReadings ?rows ?w)) = w_db ?w" "mq_published (snd (WriteSensorReadings ?rows ?w)) = mq_published ?w"
      using frames_sched_writes frames_db_writes(1) frames_published_writes(1) unfolding frames_def by blast+
    then show ?thesis using Process_store [OF t, of stale]
      by (auto simp: Process_target [OF t] wf_record_readings sched_part_def)
  qed
  then show "sched_part (snd (Process stale msg w)) = sched_part w" "w_db (snd (Process stale msg w)) = w_db w"
    "mq_published (snd (Process stale msg w)) = mq_published w"
    "wf_store (dw_store w) \<Longrightarrow> wf_store (dw_store (snd (Process stale msg w)))"
    "Room (dw_store (snd (Process stale msg w))) = Room (dw_store w)" by blast+
qed

text \<open>Both invariants look at the same observations.\<close>

lemma svc_ok_kept:
  "svc_ok w \<Longrightarrow> sched_part w' = sched_part w \<Longrightarrow> wf_store (dw_store w') \<Longrightarrow> svc_ok w'"
  unfolding svc_ok_def using sched_ok_part by metis

lemma gone_kept:
  "gone r ps w \<Longrightarrow> w_db w' = w_db w \<Longrightarrow> mq_published w' = mq_published w \<Longrightarrow> wf_store (dw_store w') \<Longrightarrow>
     room_view (dw_store w') r = None \<Longrightarrow> gone r ps w'"
  by (simp add: gone_def)

lemma telemetry_cases:
  obtains "snd (on_telemetry stale now payload w) = w" | msg where "snd (on_telemetry stale now payload w) = snd (Process stale msg w)"
proof (cases "\<exists>p. payload = Some p \<and> tp_HwID p \<noteq> []")
  case True
  then show thesis using that(2) by (auto simp: on_telemetry_def)
next
  case False
  then show thesis using that(1) by (auto simp: on_telemetry_def split: option.split)
qed

lemma telemetry_svc_ok [stable_rules]: "stable svc_ok (on_telemetry stale now payload)"
proof (rule stableI)
  fix w :: "'z svc_world_scheme"
  assume ok: "svc_ok w"
  then have "wf_store (dw_store w)" by (simp add: svc_ok_def)
  with ok show "svc_ok (snd (on_telemetry stale now payload w))"
    by (cases rule: telemetry_cases [of stale now payload w]) (auto intro: svc_ok_kept [OF ok] simp: Process_frame)
qed

lemma telemetry_gone [stable_rules]: "stable (gone r ps) (on_telemetry stale now payload)"
proof (rule stableI)
  fix w :: "'z svc_world_scheme"
  assume g: "gone r ps w"
  then have "wf_store (dw_store w)" "Room (dw_store w) r = None" by (auto simp: gone_def room_view_None)
  with g show "gone r ps (snd (on_telemetry stale now payload w))"
    by (cases rule: telemetry_cases [of stale now payload w])
      (auto intro!: gone_kept [OF g] simp: Process_frame room_view_None)
qed

lemma tick_cases:
  obtains "snd (tick stale order r now w) = w"
  | p rv sent fs ls lp where "Room (dw_store w) r = Some p" "view (dw_store w) p = Some rv"
    "snd (tick stale order r now w) = w\<lparr>w_faults := fs, dw_store := tick_store p sent lp (dw_store w), mw_logs := ls,
      mq_published := mq_published w @ map (published_of r) sent\<rparr>"
proof (cases "\<exists>p rv. Room (dw_store w) r = Some p \<and> view (dw_store w) p = Some rv")
  case True
  then obtain p rv where p: "Room (dw_store w) r = Some p" "view (dw_store w) p = Some rv" by blast
  show thesis by (rule tick_run [OF p, where order = order and now = now and stale = stale]) (use that(2) [OF p] in simp)
next
  case False
  then have "snd (tick stale order r now w) = w" by (auto simp: tick_def split: option.split)
  then show thesis by (rule that(1))
qed

lemma tick_svc_ok [stable_rules]: "stable svc_ok (tick stale order r now)"
proof (rule stableI)
  fix w :: "'z svc_world_scheme"
  assume ok: "svc_ok w"
  then have wf: "wf_store (dw_store w)" by (simp add: svc_ok_def)
  show "svc_ok (snd (tick stale order r now w))"
  proof (cases rule: tick_cases [of stale order r now w])
    case (2 p rv sent fs ls lp)
    from room_view_tick_store(2) [OF wf 2(1,2)] show ?thesis
      by (intro svc_ok_kept [OF ok]) (simp_all add: 2(3) sched_part_def)
  qed (use ok in simp)
qed

text \<open>A tick of another room sends nothing for \<open>r\<close>, a tick of \<open>r\<close> itself finds no entry.\<close>

lemma tick_gone [stable_rules]: "stable (gone r ps) (tick stale order r' now)"
proof (rule stableI)
  fix w :: "'z svc_world_scheme"
  assume g: "gone r ps w"
  then have wf: "wf_store (dw_store w)" and no: "Room (dw_store w) r = None" by (auto simp: gone_def room_view_None)
  show "gone r ps (snd (tick stale order r' now w))"
  proof (cases rule: tick_cases [of stale order r' now w])
    case (2 p rv sent fs ls lp)
    with no have "r' \<noteq> r" by auto
    then have "filter (\<lambda>p. pu_room p = r) (map (published_of r') sent) = []" by (simp add: filter_empty_conv published_of_def)
    with g no room_view_tick_store(2,4) [OF wf 2(1,2), of sent lp] show ?thesis
      by (simp add: gone_def 2(3) room_view_None)
  qed (use g in simp)
qed

lemma ReloadRoom_wf:
  assumes "ReloadRoom tz r w = (x, w')" and "wf_store (dw_store w)"
  shows "wf_store (dw_store w')"
proof (cases x)
  case (Inl e)
  from reload_failure_harmless [OF disjI1 [OF refl] assms(1) [unfolded Inl]] assms(2) show ?thesis by simp
next
  case (Inr u)
  from ReloadRoom_coherent [OF assms(1) [unfolded Inr] assms(2)] show ?thesis by blast
qed

lemma ReloadRoom_svc_ok [stable_rules]: "stable svc_ok (ReloadRoom tz r)"
proof (rule stableI)
  fix w :: "'z svc_world_scheme"
  assume ok: "svc_ok w"
  obtain x w' where run: "ReloadRoom tz r w = (x, w')" by fastforce
  have "wf_store (dw_store w')" using ReloadRoom_wf [OF run] ok by (simp add: svc_ok_def)
  with run ok show "svc_ok (snd (ReloadRoom tz r w))"
    using framesD [OF frames_sched_ReloadRoom run] by (auto intro: svc_ok_kept)
qed

lemma represents_room_exists: "represents_room tz db r rv \<Longrightarrow> r \<in> r_id ` set (t_rooms db)"
  unfolding represents_room_def by (elim conjE bexE) (rule image_eqI [OF sym])

lemma ReloadRoom_gone [stable_rules]: "stable (gone r ps) (ReloadRoom tz r')"
proof (rule stableI)
  fix w :: "'z svc_world_scheme"
  assume g: "gone r ps w"
  then have wf: "wf_store (dw_store w)" by (simp add: gone_def)
  obtain x w' where run: "ReloadRoom tz r' w = (x, w')" by fastforce
  note f = framesD [OF frames_db_ReloadRoom run] framesD [OF frames_published_reloads(1) run]
  have "room_view (dw_store w') r = None"
  proof (cases x)
    case (Inl e)
    from reload_failure_harmless [OF disjI1 [OF refl] run [unfolded Inl]] g show ?thesis by (simp add: gone_def)
  next
    case (Inr u)
    note coh = ReloadRoom_coherent [OF run [unfolded Inr] wf]
    then show ?thesis
      using g represents_room_exists by (cases "r' = r") (fastforce simp: gone_def split: option.splits)+
  qed
  with g f ReloadRoom_wf [OF run wf] show "gone r ps (snd (ReloadRoom tz r' w))" by (simp add: run gone_kept)
qed

lemma stable_frames:
  "frames dw_store m \<Longrightarrow> frames sched_part m \<Longrightarrow> stable svc_ok m"
  "frames dw_store m \<Longrightarrow> frames w_db m \<Longrightarrow> frames mq_published m \<Longrightarrow> stable (gone r ps) m"
proof -
  show "frames dw_store m \<Longrightarrow> frames sched_part m \<Longrightarrow> stable svc_ok m"
    unfolding frames_def by (intro stableI) (metis svc_ok_kept svc_ok_def)
  show "frames dw_store m \<Longrightarrow> frames w_db m \<Longrightarrow> frames mq_published m \<Longrightarrow> stable (gone r ps) m"
    by (simp add: frames_def stable_def gone_def)
qed

lemma query_stable [stable_rules]: "stable svc_ok (query f)" "stable (gone r ps) (query f)"
  by (intro stable_frames frame_rules)+

lemma stable_case_option [stable_rules]:
  "stable P m \<Longrightarrow> (\<And>x. stable P (k x)) \<Longrightarrow> stable P (case v of None \<Rightarrow> m | Some x \<Rightarrow> k x)"
  by (cases v) simp_all

lemma stable_attempt [stable_rules]: "stable P m \<Longrightarrow> stable P (attempt m)"
  by (simp add: stable_def)

lemma gone_Room: "gone r ps w \<longleftrightarrow> wf_store (dw_store w) \<and> Room (dw_store w) r = None
     \<and> r \<notin> r_id ` set (t_rooms (w_db w)) \<and> filter (\<lambda>p. pu_room p = r) (mq_published w) = ps"
  by (auto simp: gone_def room_view_None)

lemma sched_ok_updates [simp]: "sched_ok (w\<lparr>dw_store := st\<rparr>) = sched_ok w" "sched_ok (w\<lparr>w_faults := fs\<rparr>) = sched_ok w"
  "sched_ok (w\<lparr>w_db := db\<rparr>) = sched_ok w"
  by (simp_all add: sched_ok_def running_def)

lemma Room_ops [simp]: "Room (DeleteDevice h s) = Room s" "Room (AddDevice h dc s) = Room s"
  "Room (DeleteRoom r' s) r = (if r = r' then None else Room s r)"
  by (auto simp: Room_def AddDevice_def DeleteDevice_def DeleteRoom_def)

lemma store_ops_stable [stable_rules]:
  "stable svc_ok (on_store (DeleteDevice h))" "stable svc_ok (on_store (AddDevice h dc))" "stable svc_ok (on_store (DeleteRoom r'))"
  "stable (gone r ps) (on_store (DeleteDevice h))" "stable (gone r ps) (on_store (AddDevice h dc))"
  "stable (gone r ps) (on_store (DeleteRoom r'))"
  by (auto intro!: stable_modifyE simp: svc_ok_def gone_Room wf_AddDevice wf_DeleteDevice wf_DeleteRoom)

lemma sched_ops_stable [stable_rules]:
  "stable svc_ok (modifyE (sched_AddRoom r'))" "stable svc_ok (modifyE (sched_RemoveRoom r'))"
  "stable (gone r ps) (modifyE (sched_AddRoom r'))" "stable (gone r ps) (modifyE (sched_RemoveRoom r'))"
  by (auto intro!: stable_modifyE simp: svc_ok_def gone_def sched_AddRoom_def sched_ok_startRoom sched_ok_RemoveRoom)

lemma ReloadDevice_stable [stable_rules]: "stable svc_ok (ReloadDevice h)" "stable (gone r ps) (ReloadDevice h)"
  unfolding ReloadDevice_def fetch_defs by (intro stable_rules)+

lemma handle_stable [stable_rules]: "stable svc_ok (handle_message tz uparse v)" "stable (gone r ps) (handle_message tz uparse v)"
  unfolding handle_message_def onRoomCreated_def onRoomDeleted_def onRoomReload_def onDeviceChanged_def
  by (intro stable_rules)+

lemma ack_frames [frame_rules]:
  "frames dw_store (ack xack i)" "frames sched_part (ack xack i)" "frames w_db (ack xack i)" "frames mq_published (ack xack i)"
  by (simp_all add: frames_def ack_def query_def sched_part_def split: list.split prod.split sum.split)

lemma readGroup_frames [frame_rules]:
  "frames dw_store (readGroup rd gid)" "frames sched_part (readGroup rd gid)" "frames w_db (readGroup rd gid)"
  "frames mq_published (readGroup rd gid)"
  by (simp_all add: frames_def readGroup_def bindE_run query_def sched_part_def split: list.split prod.split sum.split)

lemma redis_stable [stable_rules]:
  "stable svc_ok (ack xack i)" "stable (gone r ps) (ack xack i)" "stable svc_ok (readGroup rd gid)" "stable (gone r ps) (readGroup rd gid)"
  by (intro stable_frames frame_rules)+

lemma dispatch_stable [stable_rules]:
  "stable svc_ok (dispatch tz uparse xack m)" "stable (gone r ps) (dispatch tz uparse xack m)"
  unfolding dispatch_def by (intro stable_rules)+

lemma read_round_ok:
  "svc_ok w \<Longrightarrow> svc_ok (read_round tz uparse rd xack w)" "gone r ps w \<Longrightarrow> gone r ps (read_round tz uparse rd xack w)"
proof -
  obtain x w1 where rd: "readGroup rd ''>'' w = (x, w1)" by fastforce
  have eq: "read_round tz uparse rd xack w = (case x of Inl _ \<Rightarrow> w1 | Inr msgs \<Rightarrow> snd (forE (dispatch tz uparse xack) msgs w1))"
    by (simp add: read_round_def rd split: sum.split)
  note each = stable_forE [OF dispatch_stable(1)] stable_forE [OF dispatch_stable(2)]
  show "svc_ok (read_round tz uparse rd xack w)" if "svc_ok w"
    unfolding eq using stableD [OF redis_stable(3) that, of rd "''>''"] rd stableD [OF each(1)] by (auto split: sum.split)
  show "gone r ps (read_round tz uparse rd xack w)" if "gone r ps w"
    unfolding eq using stableD [OF redis_stable(4) that, of rd "''>''"] rd stableD [OF each(2)] by (auto split: sum.split)
qed

lemma drain_round_ok:
  assumes "drain_round st w = Some w'"
  shows "svc_ok w \<Longrightarrow> svc_ok w'" and "gone r ps w \<Longrightarrow> gone r ps w'"
proof -
  from assms obtain msgs w1 where rd: "readGroup (rs_read st) ''0-0'' w = (Inr msgs, w1)"
    "w' = snd (forE (dispatch (rs_tz st) (rs_uparse st) (rs_ack st)) msgs w1)"
    by (auto simp: drain_round_def split: prod.splits sum.splits if_splits)
  note each = stable_forE [OF dispatch_stable(1)] stable_forE [OF dispatch_stable(2)]
  show "svc_ok w'" if "svc_ok w" using stableD [OF redis_stable(3) that, of "rs_read st" "''0-0''"] rd stableD [OF each(1)] by auto
  show "gone r ps w'" if "gone r ps w" using stableD [OF redis_stable(4) that, of "rs_read st" "''0-0''"] rd stableD [OF each(2)] by auto
qed

lemma start_fields [simp]:
  "dw_store (sched_Start cfg ids w) = dw_store w" "w_db (sched_Start cfg ids w) = w_db w"
  "mq_published (sched_Start cfg ids w) = mq_published w"
proof -
  have "dw_store (fold (\<lambda>(i, r). startRoom r (f i) (g i)) irs w) = dw_store w
     \<and> w_db (fold (\<lambda>(i, r). startRoom r (f i) (g i)) irs w) = w_db w
     \<and> mq_published (fold (\<lambda>(i, r). startRoom r (f i) (g i)) irs w) = mq_published w" for f g :: "nat \<Rightarrow> duration" and irs
    by (induction irs arbitrary: w) auto
  then show "dw_store (sched_Start cfg ids w) = dw_store w" "w_db (sched_Start cfg ids w) = w_db w"
    "mq_published (sched_Start cfg ids w) = mq_published w" by (simp_all add: sched_Start_def)
qed

lemma WarmCache_run:
  assumes "WarmCache tz w = (Inr u, w')"
  shows "sched_part w' = sched_part w" "mq_published w' = mq_published w" "w_db w' = w_db w"
    and "svc_ok w \<Longrightarrow> svc_ok w'" and "gone r ps w \<Longrightarrow> gone r ps w'"
proof -
  have "frames sched_part (WarmCache tz)" "frames mq_published (WarmCache tz)"
    unfolding WarmCache_eq warm_assemble_def Let_def fetch_defs by (intro frame_rules)+
  then show part: "sched_part w' = sched_part w" and pub: "mq_published w' = mq_published w" and db: "w_db w' = w_db w"
    using assms frames_db_WarmCache unfolding frames_def by (metis snd_conv)+
  show "svc_ok w'" if ok: "svc_ok w"
  proof (rule svc_ok_kept [OF ok part])
    show "wf_store (dw_store w')" using WarmCache_facts [OF assms] ok by (simp add: svc_ok_def)
  qed
  show "gone r ps w'" if g: "gone r ps w"
  proof -
    have "wf_store (dw_store w)" using g by (simp add: gone_def)
    note f = WarmCache_facts [OF assms this]
    have "r \<notin> rr_ID ` set (room_rows (owned_ids (w_db w)) (w_db w))"
      using g by (auto simp: gone_def room_rows_def)
    with f g have "room_view (dw_store w') r = None" by (metis gone_def)
    with f show ?thesis using gone_kept [OF g db pub] by blast
  qed
qed

section \<open>The state of the process\<close>

text \<open>No action of the service touches the fields of \<open>run_world\<close> itself.\<close>

definition process_part :: "'r run_world \<Rightarrow> main_pc \<times> HealthServer \<times> bool \<times> consumer_pc \<times> bool \<times> (nat \<times> loop_kind) list" where
  "process_part w = (rt_main w, rt_health w, rt_subscribed w, rt_consumer w, rt_cancelled w, rt_left w)"

lemma process_frames [frame_rules]:
  "frames process_part (query f)" "frames process_part (on_store g)" "frames process_part (modifyE (sched_AddRoom r))"
  "frames process_part (modifyE (sched_RemoveRoom r))" "frames process_part (ack xack i)" "frames process_part (readGroup rd gid)"
  by (simp_all add: frames_def query_def process_part_def sched_AddRoom_def startRoom_def sched_RemoveRoom_def Let_def ack_def
      readGroup_def bindE_run split: list.split option.split prod.split sum.split)

lemma process_frames_writes [frame_rules]: "frames process_part (WriteSensorReadings rs)"
  unfolding WriteSensorReadings_def by (auto intro!: frame_rules frames_ext_call simp: process_part_def)

lemma process_frames_loads [frame_rules]:
  "frames process_part (ReloadRoom tz r)" "frames process_part (ReloadDevice h)" "frames process_part (WarmCache tz)"
  unfolding ReloadRoom_def ReloadDevice_def WarmCache_eq warm_assemble_def Let_def fetch_defs by (intro frame_rules)+

lemma process_frames_dispatch [frame_rules]: "frames process_part (dispatch tz uparse xack m)"
  unfolding dispatch_def handle_message_def onRoomCreated_def onRoomDeleted_def onRoomReload_def onDeviceChanged_def
  by (intro frame_rules)

lemma process_telemetry: "process_part (snd (on_telemetry stale now payload w)) = process_part w"
proof (cases rule: telemetry_cases [of stale now payload w])
  case (2 msg)
  show ?thesis
  proof (cases "target (dw_store w) msg")
    case None
    then show ?thesis by (simp add: 2 Process_no_target)
  next
    case (Some t)
    then obtain dc r p where t: "target (dw_store w) msg = Some (dc, r, p)" by (cases t) auto
    have "process_part (snd (WriteSensorReadings rows w')) = process_part w'" for rows and w' :: "'a run_world"
      using process_frames_writes unfolding frames_def by blast
    then show ?thesis by (simp add: 2 Process_target [OF t]) (simp add: process_part_def)
  qed
qed simp

lemma process_tick: "process_part (snd (tick stale order r now w)) = process_part w"
  by (cases rule: tick_cases [of stale order r now w]) (simp_all add: process_part_def)

lemma process_reads:
  "process_part (read_round tz uparse rd xack w) = process_part w" "drain_round st w = Some w' \<Longrightarrow> process_part w' = process_part w"
proof -
  have "frames (process_part :: 'a run_world \<Rightarrow> _) (forE (dispatch tz uparse xack) ms)" for tz uparse xack ms
    by (intro frame_rules)
  then have each: "process_part (snd (forE (dispatch tz uparse xack) ms w')) = process_part w'"
    for tz uparse xack ms and w' :: "'a run_world" unfolding frames_def by blast
  have rg: "process_part (snd (readGroup rd g w')) = process_part w'" for rd g and w' :: "'a run_world"
    using process_frames(6) unfolding frames_def by blast
  show "process_part (read_round tz uparse rd xack w) = process_part w"
    using rg [of rd "''>''" w] each by (auto simp: read_round_def split: prod.split sum.split)
  show "drain_round st w = Some w' \<Longrightarrow> process_part w' = process_part w"
    using rg [of "rs_read st" "''0-0''" w] each by (auto simp: drain_round_def split: prod.splits sum.splits if_splits)
qed

lemma process_start: "process_part (sched_Start cfg ids w) = process_part w"
proof -
  have one: "process_part (startRoom r a b w) = process_part w" for r a b and w :: "'a run_world"
    by (simp add: process_part_def startRoom_def Let_def)
  have "process_part (fold (\<lambda>(i, r). startRoom r (f i) (g i)) irs w) = process_part w" for f g :: "nat \<Rightarrow> duration" and irs
    by (induction irs arbitrary: w) (auto simp: one)
  then show ?thesis by (simp add: sched_Start_def)
qed

section \<open>The service invariant\<close>

definition before_rooms :: "main_pc \<Rightarrow> bool" where
  "before_rooms pc \<longleftrightarrow> pc \<in> {Connecting, Warming, Subscribing, Scheduling}"

text \<open>Beside \<open>svc_ok\<close>: what has not happened before \<open>main\<close> came to it.\<close>

definition run_ok :: "'r run_world \<Rightarrow> bool" where
  "run_ok w \<longleftrightarrow> svc_ok w
     \<and> (rt_main w \<in> {Connecting, Warming} \<longrightarrow> dw_store w = NewStore)
     \<and> (rt_main w \<in> {Connecting, Warming, Subscribing} \<longrightarrow> \<not> rt_subscribed w)
     \<and> (before_rooms (rt_main w) \<longrightarrow> sd_goroutines w = [] \<and> mq_published w = [])
     \<and> (before_rooms (rt_main w) \<or> rt_main w = Consuming \<longrightarrow> rt_consumer w = NotStarted)
     \<and> (hs_ready (rt_health w) \<longrightarrow> rt_main w \<in> {Serving, Stopping, Exited})
     \<and> (rt_main w \<in> {Announcing, Serving, Stopping} \<longrightarrow> rt_consumer w \<noteq> NotStarted)
     \<and> (rt_cancelled w \<longrightarrow> rt_main w \<in> {Stopping, Exited})
     \<and> (rt_main w = Stopping \<longrightarrow> rt_cancelled w)
     \<and> (rt_main w \<in> {Scheduling, Consuming, Announcing, Serving} \<longrightarrow> rt_subscribed w)"

lemma svc_ok_process [simp]:
  "svc_ok (w\<lparr>rt_main := pc\<rparr>) = svc_ok w" "svc_ok (w\<lparr>rt_health := h\<rparr>) = svc_ok w" "svc_ok (w\<lparr>rt_subscribed := b\<rparr>) = svc_ok w"
  "svc_ok (w\<lparr>rt_consumer := c\<rparr>) = svc_ok w" "svc_ok (w\<lparr>rt_cancelled := b\<rparr>) = svc_ok w" "svc_ok (w\<lparr>rt_left := gs\<rparr>) = svc_ok w"
  "svc_ok (w\<lparr>cw_redis := r0\<rparr>) = svc_ok w" "svc_ok (w\<lparr>w_db := db\<rparr>) = svc_ok w" "svc_ok (w\<lparr>w_faults := fs\<rparr>) = svc_ok w"
  by (simp_all add: svc_ok_def sched_ok_def running_def)

lemma svc_ok_environment [simp]: "svc_ok (w\<lparr>w_db := db, cw_redis := r0, w_faults := fs\<rparr>) = svc_ok w"
  by (simp add: svc_ok_def sched_ok_def running_def)

lemma run_ok_action:
  assumes "run_ok w" and "\<not> before_rooms (rt_main w)" and "svc_ok w'" and "process_part w' = process_part w"
  shows "run_ok w'"
  using assms by (simp add: run_ok_def process_part_def before_rooms_def)

lemma alive_not_before: "run_ok w \<Longrightarrow> alive g w \<Longrightarrow> \<not> before_rooms (rt_main w)"
  by (auto simp: run_ok_def alive_def)

lemma consumer_not_before: "run_ok w \<Longrightarrow> rt_consumer w \<noteq> NotStarted \<Longrightarrow> \<not> before_rooms (rt_main w)"
  by (auto simp: run_ok_def)

lemma run_ok_step: "dev_step st w w' \<Longrightarrow> run_ok w \<Longrightarrow> run_ok w'"
proof (induction rule: dev_step.induct)
  case (warm w u w')
  from WarmCache_run(1,2,4) [OF warm(2)] framesD [OF process_frames_loads(3) warm(2)] warm(1,3) show ?case
    by (simp add: run_ok_def process_part_def before_rooms_def sched_part_def)
next
  case (start_rooms w ids)
  then have "svc_ok (sched_Start (sched_cfg (rs_cfg st)) ids w)" by (simp add: run_ok_def svc_ok_def sched_ok_Start)
  with start_rooms process_start [of "sched_cfg (rs_cfg st)" ids w] show ?case
    by (simp add: run_ok_def process_part_def before_rooms_def)
next
  case (telemetry w now payload)
  let ?w = "snd (on_telemetry (dcf_StaleThreshold (rs_cfg st)) now payload w)"
  have "svc_ok w" using telemetry(3) by (simp add: run_ok_def)
  from stableD [OF telemetry_svc_ok this] have "svc_ok ?w" .
  moreover have "sd_goroutines ?w = sd_goroutines w \<and> mq_published ?w = mq_published w"
    by (cases rule: telemetry_cases [of "dcf_StaleThreshold (rs_cfg st)" now payload w])
      (use Process_frame(1,3) [of "dcf_StaleThreshold (rs_cfg st)" _ w] in \<open>simp_all add: sched_part_def\<close>)
  ultimately show ?case
    using telemetry process_telemetry [of "dcf_StaleThreshold (rs_cfg st)" now payload w]
    by (auto simp: run_ok_def process_part_def)
next
  case (control_tick g w order now)
  then have "svc_ok w" by (simp add: run_ok_def)
  from run_ok_action [OF control_tick(4) alive_not_before [OF control_tick(4,1)] stableD [OF tick_svc_ok this] process_tick]
  show ?case .
next
  case (refresh_tick g w)
  have "process_part (snd (ReloadRoom (rs_tz st) (gr_room g) w)) = process_part w"
    using process_frames_loads(1) unfolding frames_def by blast
  moreover have "svc_ok w" using refresh_tick(4) by (simp add: run_ok_def)
  from stableD [OF ReloadRoom_svc_ok this] have "svc_ok (snd (ReloadRoom (rs_tz st) (gr_room g) w))" .
  ultimately show ?case using run_ok_action [OF refresh_tick(4) alive_not_before [OF refresh_tick(4,1)]]
    by (simp add: cache_refresh_def)
next
  case (ensure w u w')
  then obtain r0 where "w' = w\<lparr>cw_redis := r0\<rparr>" by (auto simp: ensureGroup_def split: prod.splits)
  with ensure(4) consumer_not_before [OF ensure(4)] ensure(2) show ?case by (auto simp: run_ok_def before_rooms_def)
next
  case (drain w w')
  show ?case by (rule run_ok_action [OF drain(4) consumer_not_before [OF drain(4)]])
    (use drain process_reads(2) [OF drain(3)] drain_round_ok(1) [OF drain(3)] in \<open>auto simp: run_ok_def\<close>)
next
  case (consumer_read w)
  then have "svc_ok w" by (simp add: run_ok_def)
  moreover have "\<not> before_rooms (rt_main w)" using consumer_not_before [OF consumer_read(3)] consumer_read(2) by simp
  ultimately show ?case by (intro run_ok_action [OF consumer_read(3) _ read_round_ok(1) process_reads(1)])
qed (simp_all add: run_ok_def before_rooms_def SetReady_def)

interpretation dev: relation_invariant "dev_step st" run_ok for st
  by unfold_locales (rule run_ok_step)

lemma run_ok_init: "run_ok (init_run db r0)"
  by (simp add: run_ok_def before_rooms_def init_run_def health_NewServer_def svc_ok_def wf_NewStore sched_ok_init)

lemma gone_process [simp]:
  "gone r ps (w\<lparr>rt_main := pc\<rparr>) = gone r ps w" "gone r ps (w\<lparr>rt_health := h\<rparr>) = gone r ps w"
  "gone r ps (w\<lparr>rt_subscribed := b\<rparr>) = gone r ps w" "gone r ps (w\<lparr>rt_consumer := c\<rparr>) = gone r ps w"
  "gone r ps (w\<lparr>rt_cancelled := b\<rparr>) = gone r ps w" "gone r ps (w\<lparr>rt_left := gs\<rparr>) = gone r ps w"
  "gone r ps (w\<lparr>cw_redis := r0\<rparr>) = gone r ps w"
  by (simp_all add: gone_def)

text \<open>A step after which the database still has no room \<open>r\<close>: identifiers are random and not used again.\<close>

definition dev_step_without :: "uuid \<Rightarrow> 'r run_setup \<Rightarrow> 'r run_world \<Rightarrow> 'r run_world \<Rightarrow> bool" where
  "dev_step_without r st w w' \<longleftrightarrow> dev_step st w w' \<and> r \<notin> r_id ` set (t_rooms (w_db w'))"

lemma gone_step:
  assumes "dev_step st w w'" and "r \<notin> r_id ` set (t_rooms (w_db w'))" and "gone r ps w"
  shows "gone r ps w'"
  using assms
proof (induction rule: dev_step.induct)
  case (warm w u w')
  from WarmCache_run(5) [OF warm(2)] warm(4) show ?case by simp
next
  case (telemetry w now payload)
  from stableD [OF telemetry_gone telemetry(4)] show ?case .
next
  case (control_tick g w order now)
  from stableD [OF tick_gone control_tick(5)] show ?case .
next
  case (refresh_tick g w)
  from stableD [OF ReloadRoom_gone refresh_tick(5)] show ?case by (simp add: cache_refresh_def)
next
  case (ensure w u w')
  then obtain r0 where "w' = w\<lparr>cw_redis := r0\<rparr>" by (auto simp: ensureGroup_def split: prod.splits)
  with ensure(5) show ?case by simp
next
  case (drain w w')
  from drain_round_ok(2) [OF drain(3,5)] show ?case .
next
  case (consumer_read w)
  from read_round_ok(2) [OF consumer_read(4)] show ?case .
qed (simp_all add: gone_def)

interpretation silent: relation_invariant "dev_step_without r st" "gone r ps" for r st ps
  by unfold_locales (unfold dev_step_without_def, elim conjE, rule gone_step)

section \<open>Properties\<close>

text \<open>C6: Whatever the interleaving of start-up, telemetry, ticks, refreshes, events, database changes and failures, the running
  device service keeps its cache well formed and has exactly one control loop and one refresh per
  registered room, none for others; nothing is commanded and the health endpoint answers 503 until
  the cache is warm, telemetry is subscribed and the rooms' loops are started.\<close>

theorem service_invariant_of_every_run:
  assumes "(dev_step st)\<^sup>*\<^sup>* (init_run db r0) w"
  shows "wf_store (dw_store w)
     \<and> (\<forall>r k. length (filter (\<lambda>g. gr_room g = r \<and> gr_kind g = k) (running w)) = (if sd_activeRooms w r = None then 0 else 1))
     \<and> (rt_main w \<in> {Connecting, Warming, Subscribing, Scheduling} \<longrightarrow> mq_published w = [] \<and> handleHealth (rt_health w) = 503)"
proof -
  from dev.reachable_inv [OF assms run_ok_init] have run: "run_ok w" .
  then have wf: "wf_store (dw_store w)" and sched: "sched_ok w" by (simp_all add: run_ok_def svc_ok_def)
  from run have "before_rooms (rt_main w) \<longrightarrow> mq_published w = []" and "hs_ready (rt_health w) \<longrightarrow> rt_main w \<in> {Serving, Stopping, Exited}"
    by (simp_all add: run_ok_def)
  then have early: "rt_main w \<in> {Connecting, Warming, Subscribing, Scheduling} \<longrightarrow> mq_published w = [] \<and> handleHealth (rt_health w) = 503"
    by (auto simp: before_rooms_def handleHealth_def)
  from wf running_count [OF sched] early show ?thesis by blast
qed

text \<open>A deployment with no rooms; the setup is the default one.\<close>

definition demo_setup :: "'r redis_read \<Rightarrow> 'r redis_ack \<Rightarrow> (string \<Rightarrow> string \<Rightarrow> 'r \<Rightarrow> string option \<times> 'r) \<Rightarrow> 'r run_setup" where
  "demo_setup rd xack create = \<lparr>rs_cfg = projr (dev_Load ((\<lambda>_. [])(''HOSTNAME'' := ''host''))), rs_tz = (\<lambda>_. None),
     rs_uparse = demo_uparse, rs_read = rd, rs_ack = xack, rs_create = create, rs_hostname = ''host''\<rparr>"

definition idle_setup :: "unit run_setup" where
  "idle_setup = demo_setup (\<lambda>_ r. ([], r)) (\<lambda>_ r. r) (\<lambda>_ _ r. (None, r))"

theorem service_invariant_of_every_run_witness:
  "handleHealth (rt_health ((init_run empty_db ()) \<lparr>rt_main := Warming\<rparr>)) = 503"
proof -
  have "dev_step idle_setup (init_run empty_db ()) ((init_run empty_db ())\<lparr>rt_main := Warming\<rparr>)"
    by (rule dev_step.connect) (simp add: init_run_def)
  then have "(dev_step idle_setup)\<^sup>*\<^sup>* (init_run empty_db ()) ((init_run empty_db ())\<lparr>rt_main := Warming\<rparr>)"
    by (rule r_into_rtranclp)
  from service_invariant_of_every_run [OF this] show ?thesis by simp
qed


text \<open>A room deleted after start-up, found out by its own refresh; then its control loop ticks once more.\<close>

lemma idle_setup_ok: "loop_ticker (sched_cfg (rs_cfg idle_setup)) k = Inr ()" "rs_tz idle_setup = (\<lambda>_. None)"
  by (cases k) (simp_all add: idle_setup_def demo_setup_def dev_Load_def env_mustGetEnv_def env_getEnvInt_def loop_ticker_def NewTicker_def
      sched_cfg_def Second_def Minute_def wrap64_id in_int64_def)

lemma demo_booted:
  obtains w where "(dev_step idle_setup)\<^sup>*\<^sup>* (init_run demo_db ()) w" "rt_main w = Consuming" "rt_left w = []"
    "sd_goroutines w = [\<lparr>gr_ctx = 0, gr_room = 1, gr_kind = ControlLoop, gr_stagger = 0\<rparr>,
      \<lparr>gr_ctx = 0, gr_room = 1, gr_kind = CacheRefresh, gr_stagger = 0\<rparr>]"
proof -
  let ?w0 = "init_run demo_db () \<lparr>rt_main := Warming\<rparr>"
  have "w_faults ?w0 = []" "convertible (\<lambda>_. None) (w_db ?w0)" using demo_convertible by (simp_all add: init_run_def)
  then obtain w1 where w1: "WarmCache (\<lambda>_. None) ?w0 = (Inr (), w1)" using WarmCache_no_faults by blast
  note part = WarmCache_run(1) [OF w1] framesD [OF process_frames_loads(3) w1]
  have rows: "rr_ID ` set (room_rows (owned_ids demo_db) demo_db) = {1}"
    by (auto simp: room_rows_def owned_ids_def demo_db_def)
  have wf: "wf_store (dw_store ?w0)" by (simp add: init_run_def wf_NewStore)
  note facts = WarmCache_facts [OF w1 wf]
  have "Room (dw_store w1) r \<noteq> None \<longleftrightarrow> r = 1" for r
    using facts rows room_view_None [of "dw_store w1" r]
    by (cases "r = 1") (auto simp: init_run_def room_view_def Room_def NewStore_def dest!: spec [of _ r])
  then have rooms: "set [1] = {r. Room (dw_store w1) r \<noteq> None}" by auto
  let ?w2 = "w1\<lparr>rt_main := Subscribing\<rparr>" and ?w3 = "w1\<lparr>rt_main := Subscribing\<rparr>\<lparr>rt_subscribed := True, rt_main := Scheduling\<rparr>"
  let ?s = "sched_Start (sched_cfg (rs_cfg idle_setup)) [1] ?w3"
  have "dev_step idle_setup (init_run demo_db ()) ?w0" by (rule dev_step.connect) (simp add: init_run_def)
  moreover have "dev_step idle_setup ?w0 ?w2" by (rule dev_step.warm [where w = ?w0]) (simp_all add: w1 idle_setup_ok)
  moreover have "dev_step idle_setup ?w2 ?w3" by (rule dev_step.subscribe) simp
  moreover have "dev_step idle_setup ?w3 (?s\<lparr>rt_main := Consuming\<rparr>)"
    by (rule dev_step.start_rooms) (simp_all add: rooms [simplified])
  ultimately have "(dev_step idle_setup)\<^sup>*\<^sup>* (init_run demo_db ()) (?s\<lparr>rt_main := Consuming\<rparr>)"
    by (meson rtranclp.rtrancl_refl rtranclp.rtrancl_into_rtrancl)
  then show thesis
  proof (rule that)
    show "rt_left (?s\<lparr>rt_main := Consuming\<rparr>) = []"
      using process_start [of "sched_cfg (rs_cfg idle_setup)" "[1]" ?w3] part(2) by (simp add: process_part_def init_run_def)
    show "sd_goroutines (?s\<lparr>rt_main := Consuming\<rparr>) = [\<lparr>gr_ctx = 0, gr_room = 1, gr_kind = ControlLoop, gr_stagger = 0\<rparr>,
      \<lparr>gr_ctx = 0, gr_room = 1, gr_kind = CacheRefresh, gr_stagger = 0\<rparr>]"
      using part(1) by (simp add: sched_part_def init_run_def sched_Start_def stagger_def)
  qed simp
qed


lemma leave_listed:
  assumes "rt_cancelled w"
  shows "\<exists>gs. (dev_step st)\<^sup>*\<^sup>* w (w\<lparr>rt_left := gs @ rt_left w\<rparr>) \<and> (\<forall>g \<in> set L. \<not> alive g (w\<lparr>rt_left := gs @ rt_left w\<rparr>))"
proof (induction L)
  case Nil
  show ?case by (intro exI [of _ "[]"]) simp
next
  case (Cons g L)
  then obtain gs where gs: "(dev_step st)\<^sup>*\<^sup>* w (w\<lparr>rt_left := gs @ rt_left w\<rparr>)"
    "\<forall>g \<in> set L. \<not> alive g (w\<lparr>rt_left := gs @ rt_left w\<rparr>)" by blast
  let ?w = "w\<lparr>rt_left := gs @ rt_left w\<rparr>" and ?w' = "w\<lparr>rt_left := ((gr_ctx g, gr_kind g) # gs) @ rt_left w\<rparr>"
  show ?case
  proof (cases "alive g ?w")
    case True
    then have "dev_step st ?w (?w\<lparr>rt_left := (gr_ctx g, gr_kind g) # rt_left ?w\<rparr>)"
      by (rule dev_step.leave) (simp add: ctx_done_def assms)
    then have "(dev_step st)\<^sup>*\<^sup>* w ?w'" using gs(1) by (simp add: rtranclp.rtrancl_into_rtrancl)
    moreover have "\<forall>h \<in> set (g # L). \<not> alive h ?w'" using gs(2) by (auto simp: alive_def)
    ultimately show ?thesis by blast
  next
    case False
    with gs show ?thesis by auto
  qed
qed

lemma leave_all:
  assumes "rt_cancelled w"
  obtains gs where "(dev_step st)\<^sup>*\<^sup>* w (w\<lparr>rt_left := gs @ rt_left w\<rparr>)" "\<And>g. \<not> alive g (w\<lparr>rt_left := gs @ rt_left w\<rparr>)"
  using leave_listed [OF assms, of st "sd_goroutines w"] by (auto simp: alive_def)

lemma consumer_stops:
  assumes "rt_main w = Stopping" and "rt_cancelled w" and "rt_consumer w \<noteq> NotStarted"
  shows "\<exists>w'. (dev_step st)\<^sup>*\<^sup>* w w' \<and> (rt_main w' = Exited \<or> w' = w\<lparr>rt_consumer := Done\<rparr>)"
proof -
  have live: "(dev_step st)\<^sup>*\<^sup>* w (w\<lparr>rt_consumer := Done\<rparr>)" if "(dev_step st)\<^sup>*\<^sup>* w (w\<lparr>rt_consumer := Live\<rparr>)"
  proof -
    have "dev_step st (w\<lparr>rt_consumer := Live\<rparr>) ((w\<lparr>rt_consumer := Live\<rparr>)\<lparr>rt_consumer := Done\<rparr>)"
      by (rule dev_step.consumer_leave) (simp_all add: assms)
    with that show ?thesis by (simp add: rtranclp.rtrancl_into_rtrancl)
  qed
  show ?thesis
  proof (cases "rt_consumer w")
    case EnsureGroup
    have "dev_step st w (w\<lparr>rt_main := Exited\<rparr>)"
      by (rule dev_step.ensure_fatal [OF _ EnsureGroup]) (simp_all add: assms)
    then show ?thesis by (intro exI conjI, rule r_into_rtranclp) auto
  next
    case Draining
    have "dev_step st w (w\<lparr>rt_consumer := Live\<rparr>)"
      by (rule dev_step.drained [OF _ Draining]) (simp_all add: assms)
    then show ?thesis using live by blast
  next
    case Live
    then have "w\<lparr>rt_consumer := Live\<rparr> = w" by simp
    with live show ?thesis by auto
  next
    case Done
    then have "w\<lparr>rt_consumer := Done\<rparr> = w" by simp
    then show ?thesis by (metis rtranclp.rtrancl_refl)
  qed (use assms(3) in simp)
qed

text \<open>C21: Shutdown is never stuck: from any reachable state after the signal, the process can run to its end,
  whatever the consumer and the room loops were doing, a livelocked drain included.\<close>

theorem shutdown_completes:
  assumes "(dev_step st)\<^sup>*\<^sup>* (init_run db r0) w" and "rt_main w = Stopping"
  shows "\<exists>w'. (dev_step st)\<^sup>*\<^sup>* w w' \<and> rt_main w' = Exited"
proof -
  from dev.reachable_inv [OF assms(1) run_ok_init] assms(2) have c: "rt_cancelled w" "rt_consumer w \<noteq> NotStarted"
    by (simp_all add: run_ok_def)
  from consumer_stops [OF assms(2) c] obtain w1 where w1: "(dev_step st)\<^sup>*\<^sup>* w w1"
    "rt_main w1 = Exited \<or> w1 = w\<lparr>rt_consumer := Done\<rparr>" by blast
  show ?thesis
  proof (cases "rt_main w1 = Exited")
    case False
    with w1(2) have w1': "w1 = w\<lparr>rt_consumer := Done\<rparr>" by blast
    then have "rt_cancelled w1" using c(1) by simp
    then obtain gs where gs: "(dev_step st)\<^sup>*\<^sup>* w1 (w1\<lparr>rt_left := gs @ rt_left w1\<rparr>)" "\<And>g. \<not> alive g (w1\<lparr>rt_left := gs @ rt_left w1\<rparr>)"
      using leave_all by blast
    let ?w2 = "w1\<lparr>rt_left := gs @ rt_left w1\<rparr>"
    let ?w3 = "?w2\<lparr>rt_subscribed := False\<rparr>"
    have "dev_step st ?w2 ?w3" by (rule dev_step.unsubscribe) (simp add: w1' assms(2))
    moreover have "dev_step st ?w3 (?w3\<lparr>rt_main := Exited\<rparr>)"
      by (rule dev_step.exit) (use gs(2) in \<open>simp_all add: w1' assms(2) alive_def\<close>)
    ultimately have "(dev_step st)\<^sup>*\<^sup>* w (?w3\<lparr>rt_main := Exited\<rparr>)" using w1(1) gs(1)
      by (meson rtranclp.rtrancl_into_rtrancl rtranclp_trans)
    then show ?thesis by (intro exI conjI) auto
  qed (use w1(1) in blast)
qed

text \<open>A deployment without rooms, started.\<close>

definition booted :: "'r \<Rightarrow> 'r run_world" where
  "booted r0 = (init_run empty_db r0)\<lparr>rt_main := Announcing, rt_subscribed := True, rt_consumer := EnsureGroup\<rparr>"

lemma boot_empty: "(dev_step st)\<^sup>*\<^sup>* (init_run empty_db r0) (booted r0)"
proof -
  let ?w = "\<lambda>pc. (init_run empty_db r0)\<lparr>rt_main := pc\<rparr>" and ?v = "\<lambda>pc. (init_run empty_db r0)\<lparr>rt_subscribed := True, rt_main := pc\<rparr>"
  have "dev_step st (init_run empty_db r0) (?w Warming)" by (rule dev_step.connect) (simp add: init_run_def)
  moreover have "dev_step st (?w Warming) (?w Subscribing)"
    using dev_step.warm [of "?w Warming" st "()" "?w Warming"]
    by (simp add: WarmCache_eq bindE_run query_ok init_run_def empty_db_def)
  moreover have "dev_step st (?w Subscribing) (?v Scheduling)"
    using dev_step.subscribe [of "?w Subscribing" st] by simp
  moreover have "dev_step st (?v Scheduling) (?v Consuming)"
    using dev_step.start_rooms [of "?v Scheduling" "[]" st] by (simp add: sched_Start_def init_run_def Room_def NewStore_def)
  moreover have "dev_step st (?v Consuming) (booted r0)"
    using dev_step.consume [of "?v Consuming" st] by (simp add: booted_def init_run_def)
  ultimately show ?thesis by (meson rtranclp.rtrancl_refl rtranclp.rtrancl_into_rtrancl)
qed

theorem shutdown_completes_witness:
  "\<exists>w w'. (dev_step idle_setup)\<^sup>*\<^sup>* (init_run empty_db ()) w \<and> rt_main w = Stopping \<and> rt_consumer w = EnsureGroup
     \<and> (dev_step idle_setup)\<^sup>*\<^sup>* w w' \<and> rt_main w' = Exited"
proof -
  let ?w1 = "(booted ())\<lparr>rt_health := SetReady (rt_health (booted ())), rt_main := Serving\<rparr>"
  let ?w2 = "?w1\<lparr>rt_cancelled := True, rt_main := Stopping\<rparr>"
  have "dev_step idle_setup (booted ()) ?w1" by (rule dev_step.announce) (simp add: booted_def)
  moreover have "dev_step idle_setup ?w1 ?w2" by (rule dev_step.signal) simp
  ultimately have run: "(dev_step idle_setup)\<^sup>*\<^sup>* (init_run empty_db ()) ?w2"
    using boot_empty by (meson rtranclp.rtrancl_into_rtrancl)
  from shutdown_completes [OF run] run show ?thesis by (auto simp: booted_def)
qed

section \<open>Events lost at start-up\<close>

text \<open>A stream with one consumer group, as Redis documents it: \<open>$\<close> puts a new group at the end of the stream, and
  \<open>>\<close> delivers what is behind the group's position.\<close>

type_synonym stream_state = "XMessage list \<times> nat option"

definition stream_create :: "string \<Rightarrow> string \<Rightarrow> stream_state \<Rightarrow> string option \<times> stream_state" where
  "stream_create g pos = (\<lambda>(ms, p). case p of None \<Rightarrow> (None, (ms, Some (length ms))) | Some _ \<Rightarrow> (Some ''BUSYGROUP'', (ms, p)))"

definition stream_read :: "stream_state redis_read" where
  "stream_read i = (\<lambda>(ms, p). case p of None \<Rightarrow> ([], (ms, p))
     | Some n \<Rightarrow> if i = ''>'' then (drop n ms, (ms, Some (length ms))) else ([], (ms, p)))"

definition stream_setup :: "stream_state run_setup" where
  "stream_setup = demo_setup stream_read (\<lambda>_ s. s) stream_create"

definition room_created_msg :: XMessage where
  "room_created_msg = \<lparr>xm_ID = ''1-0'', xm_Values = room_event demo_ustr ''room_created'' 1\<rparr>"

text \<open>A room created after the cache was warmed and before the consumer group exists stays unknown: the event is
  in the stream, the consumer is live and has read everything, and the room has neither a cache entry
  nor a loop, so not even the periodic refresh will find it.\<close>

theorem startup_gap_loses_room:
  "\<exists>w. (dev_step stream_setup)\<^sup>*\<^sup>* (init_run empty_db ([], None)) w \<and> rt_main w = Serving \<and> rt_consumer w = Live
     \<and> w_db w = demo_db \<and> cw_redis w = ([room_created_msg], Some 1)
     \<and> read_round (rs_tz stream_setup) (rs_uparse stream_setup) stream_read (rs_ack stream_setup) w = w
     \<and> Room (dw_store w) 1 = None \<and> sd_activeRooms w 1 = None"
proof -
  let ?b = "booted (([], None) :: stream_state)"
  let ?w0 = "?b\<lparr>rt_health := SetReady (rt_health ?b), rt_main := Serving\<rparr>"
  let ?w1 = "?w0\<lparr>w_db := demo_db, cw_redis := ([room_created_msg], None), w_faults := []\<rparr>"
  let ?w2 = "?w1\<lparr>cw_redis := ([room_created_msg], Some 1)\<rparr>\<lparr>rt_consumer := Draining\<rparr>"
  let ?w3 = "?w2\<lparr>rt_consumer := Live\<rparr>"
  have "dev_step stream_setup ?b ?w0" by (rule dev_step.announce) (simp add: booted_def)
  moreover have "dev_step stream_setup ?w0 ?w1" by (rule dev_step.environment) simp
  moreover have "dev_step stream_setup ?w1 ?w2"
    by (rule dev_step.ensure) (simp_all add: booted_def ensureGroup_def stream_setup_def demo_setup_def stream_create_def)
  moreover have "dev_step stream_setup ?w2 ?w3"
    by (rule dev_step.drained)
      (simp_all add: drain_round_def readGroup_def bindE_run query_ok stream_setup_def demo_setup_def stream_read_def)
  ultimately have "(dev_step stream_setup)\<^sup>*\<^sup>* (init_run empty_db ([], None)) ?w3"
    using boot_empty by (meson rtranclp.rtrancl_into_rtrancl)
  moreover have "read_round (rs_tz stream_setup) (rs_uparse stream_setup) stream_read (rs_ack stream_setup) ?w3 = ?w3"
    by (simp add: read_round_def readGroup_def bindE_run query_ok stream_read_def)
  ultimately show ?thesis by (intro exI [of _ ?w3]) (simp add: booted_def init_run_def Room_def NewStore_def)
qed

end
