(* ===== verification/SimMain.thy ===== *)
theory SimMain
  imports SimTopology SimControl Boot
begin

text \<open>
  The process of \<open>simulator-service\<close>: the command line of \<open>cmd/main.go\<close>, its wrapper of the MQTT client (package
  \<open>mqtt\<close>), and \<open>run\<close> from provisioning to the exit, interleaved with the goroutines of theory SimLoop.
  Parsing the flags is the library's; \<open>main\<close> gets their values.
\<close>

section \<open>The MQTT client\<close>

text \<open>What \<open>WaitTimeout\<close> and \<open>Error\<close> say of a token after ten seconds.\<close>

datatype token = TimedOut | Completed "error option"

definition await :: "error \<Rightarrow> (error \<Rightarrow> error) \<Rightarrow> token \<Rightarrow> error + unit" where
  "await late wrap tok = (case tok of TimedOut \<Rightarrow> Inl late
     | Completed None \<Rightarrow> Inr () | Completed (Some e) \<Rightarrow> Inl (wrap e))"

record paho_options =
  po_Broker :: string
  po_ClientID :: string
  po_Username :: string
  po_Password :: string
  po_AutoReconnect :: bool
  po_MaxReconnectInterval :: duration

text \<open>The library: connecting, publishing (topic, QoS, retained, payload) and subscribing, on the state of the outside world.\<close>

record ('w, 'p) paho =
  ph_Connect :: "paho_options \<Rightarrow> 'w \<Rightarrow> token \<times> 'w"
  ph_Publish :: "string \<Rightarrow> nat \<Rightarrow> bool \<Rightarrow> 'p \<Rightarrow> 'w \<Rightarrow> token \<times> 'w"
  ph_Subscribe :: "string \<Rightarrow> nat \<Rightarrow> 'w \<Rightarrow> token \<times> 'w"

definition awaited :: "error \<Rightarrow> (error \<Rightarrow> error) \<Rightarrow> ('w \<Rightarrow> token \<times> 'w) \<Rightarrow> ('w, unit) act" where
  "awaited late wrap call w = (case call w of (tok, w') \<Rightarrow> (await late wrap tok, w'))"

definition client_options :: "Config \<Rightarrow> paho_options" where
  "client_options cfg = \<lparr>po_Broker = ''tcp://'' @ cf_MQTTHost cfg @ '':'' @ int_text (cf_MQTTPort cfg),
     po_ClientID = cf_MQTTClientID cfg, po_Username = cf_MQTTUsername cfg, po_Password = cf_MQTTPassword cfg,
     po_AutoReconnect = True, po_MaxReconnectInterval = 30 * Second\<rparr>"

definition mqtt_NewClient :: "('w, 'p) paho \<Rightarrow> Config \<Rightarrow> ('w, unit) act" where
  "mqtt_NewClient ph cfg =
     awaited (Msg ''mqtt connection timed out after 10s'') (Wrap ''mqtt connect'') (ph_Connect ph (client_options cfg))"

definition mqtt_Publish :: "('w, 'p) paho \<Rightarrow> string \<Rightarrow> nat \<Rightarrow> 'p \<Rightarrow> ('w, unit) act" where
  "mqtt_Publish ph topic qos payload =
     awaited (Msg (''mqtt publish timed out: topic '' @ topic)) (\<lambda>e. e) (ph_Publish ph topic qos False payload)"

definition mqtt_Subscribe :: "('w, 'p) paho \<Rightarrow> string \<Rightarrow> nat \<Rightarrow> ('w, unit) act" where
  "mqtt_Subscribe ph topic qos =
     awaited (Msg (''mqtt subscribe timed out: topic '' @ topic)) (\<lambda>e. e) (ph_Subscribe ph topic qos)"

section \<open>The command line\<close>

text \<open>What \<open>main\<close> goes on to do; \<open>log.Fatal\<close> and a panic end the process.\<close>

datatype command_line = Fatal error | RunMode Config | TeardownMode Config

definition fatal :: "string \<Rightarrow> error \<Rightarrow> error" where
  "fatal what e = (case e of Panic m \<Rightarrow> Panic m | _ \<Rightarrow> Wrap what e)"

text \<open>The dash of the message is U+2014, three bytes.\<close>

definition simulator_main :: "loader \<Rightarrow> string \<Rightarrow> string \<Rightarrow> command_line" where
  "simulator_main ld mode simulation =
     (if simulation = [] then Fatal (Msg ''--simulation flag is required'')
      else case Load ld simulation of
        Inl e \<Rightarrow> Fatal (fatal ''load config'' e)
      | Inr cfg \<Rightarrow>
          if mode = ''run'' then RunMode cfg
          else if mode = ''teardown'' then TeardownMode cfg
          else Fatal (Msg (''unknown mode '' @ Quote mode @ '' '' @ [CHR 0xE2, CHR 0x80, CHR 0x94] @ '' must be run or teardown'')))"

definition main_teardown :: "('w, 'b) client \<Rightarrow> Config \<Rightarrow> ('w, unit) act" where
  "main_teardown c cfg = mapErr (Wrap ''teardown'') (Teardown c cfg)"

section \<open>The run\<close>

text \<open>Where \<open>run\<close> stands: at \<open>Selecting\<close> it waits for a signal or for \<open>errCh\<close>, at \<open>Awaiting\<close> it has
  cancelled the context and waits for \<open>errCh\<close>. \<open>Crashed\<close>: a goroutine panicked.\<close>

datatype run_pc = Provisioning | Dialing | Selecting | Awaiting | Returned "error option" | Crashed

text \<open>The goroutine that calls \<open>simulator.Run\<close>.\<close>

datatype routine = Unspawned | Looping sim_state | Gone

record 'w sim_process =
  sp_world :: 'w
  sp_pc :: run_pc
  sp_users :: "ProvisionedUser list"
  sp_routine :: routine
  sp_subscribed :: "nat list"
  sp_left :: "sim_actor list"
  sp_cancelled :: bool
  sp_errCh :: "error option option"

definition init_process :: "'w \<Rightarrow> 'w sim_process" where
  "init_process w = \<lparr>sp_world = w, sp_pc = Provisioning, sp_users = [], sp_routine = Unspawned, sp_subscribed = [],
     sp_left = [], sp_cancelled = False, sp_errCh = None\<rparr>"

text \<open>The goroutines \<open>simulator.Run\<close> waits for.\<close>

definition sim_loops :: "sim_state \<Rightarrow> sim_actor list" where
  "sim_loops sim = map SensorLoop [0..<length (ss_Sensors sim)] @ map ActuatorLoop [0..<length (ss_Actuators sim)]"

text \<open>Its loop makes the ticker once the stagger is over or the topic is subscribed, which panics unless the
  interval is positive; a handler is called from the subscription on, even when the loop is gone.\<close>

definition sim_ticker :: "Config \<Rightarrow> sim_actor \<Rightarrow> error + unit" where
  "sim_ticker cfg a = (case a of
     SensorLoop i \<Rightarrow> NewTicker (cf_EffectivePublishInterval cfg)
   | ActuatorLoop j \<Rightarrow> NewTicker (watchdogTimeout cfg)
   | CommandHandler j \<Rightarrow> Inr ())"

definition may_act :: "'w sim_process \<Rightarrow> sim_actor \<Rightarrow> bool" where
  "may_act s a \<longleftrightarrow> (case a of
     SensorLoop i \<Rightarrow> a \<notin> set (sp_left s)
   | ActuatorLoop j \<Rightarrow> a \<notin> set (sp_left s) \<and> j \<in> set (sp_subscribed s)
   | CommandHandler j \<Rightarrow> j \<in> set (sp_subscribed s))"

text \<open>The loop stands at a \<open>select\<close> (that of the stagger or that of the ticker), where it may notice that the context is done.\<close>

definition at_select :: "Config \<Rightarrow> sim_state \<Rightarrow> sim_actor \<Rightarrow> bool" where
  "at_select cfg sim a \<longleftrightarrow> (case a of
     SensorLoop i \<Rightarrow> i < length (ss_Sensors sim) \<and> sl_PC (ss_Sensors sim ! i) = Waiting
   | ActuatorLoop j \<Rightarrow> j < length (ss_Actuators sim) \<and> sim_ticker cfg a = Inr ()
   | CommandHandler j \<Rightarrow> False)"

text \<open>\<open>fmt.Errorf("simulator: %w", err)\<close> on the nil that \<open>simulator.Run\<close> returns.\<close>

definition wrapped :: "error option \<Rightarrow> error" where
  "wrapped r = Wrap ''simulator'' (case r of None \<Rightarrow> Msg ''%!w(<nil>)'' | Some e \<Rightarrow> e)"

inductive run_step ::
    "('w, 'b) client \<Rightarrow> 'w files \<Rightarrow> ('w, 'p) paho \<Rightarrow> Config \<Rightarrow> 'w sim_process \<Rightarrow> 'w sim_process \<Rightarrow> bool"
  for c fs ph cfg where
  provisioned: "sp_pc s = Provisioning \<Longrightarrow> provisioning_Run c fs cfg (sp_world s) = (Inr users, w) \<Longrightarrow>
     run_step c fs ph cfg s (s\<lparr>sp_world := w, sp_users := users, sp_pc := Dialing\<rparr>)"
| provisioning_fails: "sp_pc s = Provisioning \<Longrightarrow> provisioning_Run c fs cfg (sp_world s) = (Inl e, w) \<Longrightarrow>
     run_step c fs ph cfg s (s\<lparr>sp_world := w, sp_pc := Returned (Some (Wrap ''provisioning'' e))\<rparr>)"
| connected: "sp_pc s = Dialing \<Longrightarrow> mqtt_NewClient ph cfg (sp_world s) = (Inr (), w) \<Longrightarrow>
     run_step c fs ph cfg s (s\<lparr>sp_world := w, sp_pc := Selecting\<rparr>)"
| connect_fails: "sp_pc s = Dialing \<Longrightarrow> mqtt_NewClient ph cfg (sp_world s) = (Inl e, w) \<Longrightarrow>
     run_step c fs ph cfg s (s\<lparr>sp_world := w, sp_pc := Returned (Some (Wrap ''mqtt'' e))\<rparr>)"
| no_devices: "sp_pc s \<in> {Selecting, Awaiting} \<Longrightarrow> sp_routine s = Unspawned \<Longrightarrow>
     simulator_Run cfg (sp_users s) now = None \<Longrightarrow>
     run_step c fs ph cfg s (s\<lparr>sp_routine := Gone, sp_errCh := Some None\<rparr>)"
| spawned: "sp_pc s \<in> {Selecting, Awaiting} \<Longrightarrow> sp_routine s = Unspawned \<Longrightarrow>
     simulator_Run cfg (sp_users s) now = Some sim \<Longrightarrow> run_step c fs ph cfg s (s\<lparr>sp_routine := Looping sim\<rparr>)"
| subscribed: "sp_pc s \<in> {Selecting, Awaiting} \<Longrightarrow> sp_routine s = Looping sim \<Longrightarrow> j < length (ss_Actuators sim) \<Longrightarrow>
     j \<notin> set (sp_subscribed s) \<Longrightarrow> ActuatorLoop j \<notin> set (sp_left s) \<Longrightarrow>
     mqtt_Subscribe ph (cmdTopic (ss_Actuators sim ! j)) 2 (sp_world s) = (Inr (), w) \<Longrightarrow>
     run_step c fs ph cfg s (s\<lparr>sp_world := w, sp_subscribed := j # sp_subscribed s\<rparr>)"
| subscribe_fails: "sp_pc s \<in> {Selecting, Awaiting} \<Longrightarrow> sp_routine s = Looping sim \<Longrightarrow> j < length (ss_Actuators sim) \<Longrightarrow>
     j \<notin> set (sp_subscribed s) \<Longrightarrow> ActuatorLoop j \<notin> set (sp_left s) \<Longrightarrow>
     mqtt_Subscribe ph (cmdTopic (ss_Actuators sim ! j)) 2 (sp_world s) = (Inl e, w) \<Longrightarrow>
     run_step c fs ph cfg s (s\<lparr>sp_world := w, sp_left := ActuatorLoop j # sp_left s\<rparr>)"
| ticker_panics: "sp_pc s \<in> {Selecting, Awaiting} \<Longrightarrow> sp_routine s = Looping sim \<Longrightarrow> a \<in> set (sim_loops sim) \<Longrightarrow>
     may_act s a \<Longrightarrow> sim_ticker cfg a = Inl e \<Longrightarrow> run_step c fs ph cfg s (s\<lparr>sp_pc := Crashed\<rparr>)"
| acts: "sp_pc s \<in> {Selecting, Awaiting} \<Longrightarrow> sp_routine s = Looping sim \<Longrightarrow> may_act s a \<Longrightarrow>
     sim_ticker cfg a = Inr () \<Longrightarrow> sim_act cfg a sim sim' \<Longrightarrow>
     run_step c fs ph cfg s (s\<lparr>sp_routine := Looping sim'\<rparr>)"
| leaves: "sp_pc s \<in> {Selecting, Awaiting} \<Longrightarrow> sp_routine s = Looping sim \<Longrightarrow> sp_cancelled s \<Longrightarrow> may_act s a \<Longrightarrow>
     at_select cfg sim a \<Longrightarrow> run_step c fs ph cfg s (s\<lparr>sp_left := a # sp_left s\<rparr>)"
| all_left: "sp_pc s \<in> {Selecting, Awaiting} \<Longrightarrow> sp_routine s = Looping sim \<Longrightarrow>
     set (sim_loops sim) \<subseteq> set (sp_left s) \<Longrightarrow>
     run_step c fs ph cfg s (s\<lparr>sp_routine := Gone, sp_errCh := Some None\<rparr>)"
| signal: "sp_pc s = Selecting \<Longrightarrow> run_step c fs ph cfg s (s\<lparr>sp_cancelled := True, sp_pc := Awaiting\<rparr>)"
| simulator_returned: "sp_pc s = Selecting \<Longrightarrow> sp_errCh s = Some r \<Longrightarrow>
     run_step c fs ph cfg s (s\<lparr>sp_cancelled := True, sp_pc := Returned (Some (wrapped r))\<rparr>)"
| finished: "sp_pc s = Awaiting \<Longrightarrow> sp_errCh s = Some r \<Longrightarrow> run_step c fs ph cfg s (s\<lparr>sp_pc := Returned None\<rparr>)"

inductive_cases run_stepE: "run_step c fs ph cfg s s'"

section \<open>Invariant\<close>

text \<open>No device publishes anything.\<close>

definition no_sensors :: "ProvisionedUser list \<Rightarrow> bool" where
  "no_sensors users \<longleftrightarrow> (\<forall>dev k. (dev, k) \<in> set (device_entries users) \<longrightarrow> dv_Sensors (pd_Config dev) = [])"

definition outcome_ok :: "'w sim_process \<Rightarrow> error option \<Rightarrow> bool" where
  "outcome_ok s r \<longleftrightarrow> (case r of
     None \<Rightarrow> sp_cancelled s \<and> sp_routine s = Gone
   | Some e \<Rightarrow> (\<exists>e'. e = Wrap ''provisioning'' e' \<or> e = Wrap ''mqtt'' e')
       \<or> e = Wrap ''simulator'' (Msg ''%!w(<nil>)'') \<and> no_sensors (sp_users s))"

definition looping_ok :: "Config \<Rightarrow> 'w sim_process \<Rightarrow> sim_state \<Rightarrow> bool" where
  "looping_ok cfg s sim \<longleftrightarrow> (\<exists>now s0. simulator_Run cfg (sp_users s) now = Some s0 \<and> sim_reachable cfg s0 sim)
     \<and> (\<forall>i < length (ss_Sensors sim). SensorLoop i \<in> set (sp_left s) \<longrightarrow> sl_PC (ss_Sensors sim ! i) = Waiting)"

definition proc_ok :: "Config \<Rightarrow> 'w sim_process \<Rightarrow> bool" where
  "proc_ok cfg s \<longleftrightarrow> sp_errCh s = (if sp_routine s = Gone then Some None else None)
     \<and> (sp_pc s \<in> {Provisioning, Dialing} \<longrightarrow> sp_routine s = Unspawned \<and> sp_left s = [])
     \<and> (sp_pc s \<in> {Provisioning, Dialing, Selecting} \<longrightarrow> \<not> sp_cancelled s)
     \<and> (sp_pc s = Awaiting \<longrightarrow> sp_cancelled s)
     \<and> (\<forall>sim. sp_routine s = Looping sim \<longrightarrow> looping_ok cfg s sim)
     \<and> (\<not> sp_cancelled s \<longrightarrow> (\<forall>i. SensorLoop i \<notin> set (sp_left s)))
     \<and> (sp_routine s = Unspawned \<longrightarrow> sp_left s = [])
     \<and> (sp_routine s = Gone \<and> \<not> sp_cancelled s \<longrightarrow> no_sensors (sp_users s))
     \<and> (\<forall>r. sp_pc s = Returned r \<longrightarrow> outcome_ok s r)"

lemma sim_act_frame:
  "sim_act cfg a s s' \<Longrightarrow> length (ss_Sensors s') = length (ss_Sensors s) \<and> length (ss_Actuators s') = length (ss_Actuators s)
     \<and> (\<forall>i. a \<noteq> SensorLoop i \<longrightarrow> ss_Sensors s' ! i = ss_Sensors s ! i)"
  by (induction rule: sim_act.induct)
    (auto simp: set_pc_def on_room_def on_command_def touch_def on_watchdog_def Let_def nth_list_update)

lemma sim_loops_act: "sim_act cfg a s s' \<Longrightarrow> sim_loops s' = sim_loops s"
  by (simp add: sim_loops_def sim_act_frame)

lemma reachable_lengths: "sim_reachable cfg s0 s \<Longrightarrow> length (ss_Sensors s) = length (ss_Sensors s0)"
  by (induction rule: sim_reachable.induct) (auto elim!: sim_stepE dest: sim_act_frame)

lemma spawn_sensors_empty: "spawn_sensors d es = [] \<longleftrightarrow> (\<forall>dev k. (dev, k) \<in> set es \<longrightarrow> dv_Sensors (pd_Config dev) = [])"
proof -
  have "x \<in> set es \<longleftrightarrow> (\<exists>i. (i, x) \<in> set (enumerate 0 es))" for x
    unfolding in_set_enumerate_eq in_set_conv_nth [of x es] by auto
  then show ?thesis by (fastforce simp: spawn_sensors_def split: if_splits)
qed

lemma run_without_sensors:
  assumes "looping_ok cfg s sim" and "ss_Sensors sim = []"
  shows "no_sensors (sp_users s)"
proof -
  from assms obtain now s0 where "simulator_Run cfg (sp_users s) now = Some s0" "ss_Sensors s0 = []"
    using reachable_lengths by (fastforce simp: looping_ok_def)
  then have "spawn_sensors (cf_EffectivePublishInterval cfg) (device_entries (sp_users s)) = []"
    by (auto simp: simulator_Run_def split: if_splits)
  then show ?thesis by (simp add: no_sensors_def spawn_sensors_empty)
qed

lemma looping_ok_act:
  assumes "looping_ok cfg s sim" and "may_act s a" and "sim_act cfg a sim sim'"
  shows "looping_ok cfg (s\<lparr>sp_routine := Looping sim'\<rparr>) sim'"
  using assms sim_act_frame [OF assms(3)] unfolding looping_ok_def may_act_def
  by (fastforce intro: sim_reachable.more sim_step.step)

lemma looping_ok_updates [simp]:
  "looping_ok cfg (s\<lparr>sp_world := w\<rparr>) sim = looping_ok cfg s sim" "looping_ok cfg (s\<lparr>sp_pc := pc\<rparr>) sim = looping_ok cfg s sim"
  "looping_ok cfg (s\<lparr>sp_cancelled := b\<rparr>) sim = looping_ok cfg s sim" "looping_ok cfg (s\<lparr>sp_subscribed := js\<rparr>) sim = looping_ok cfg s sim"
  "looping_ok cfg (s\<lparr>sp_routine := r\<rparr>) sim = looping_ok cfg s sim" "looping_ok cfg (s\<lparr>sp_errCh := e\<rparr>) sim = looping_ok cfg s sim"
  by (simp_all add: looping_ok_def)

lemma proc_ok_looping: "proc_ok cfg s \<Longrightarrow> sp_routine s = Looping sim \<Longrightarrow> looping_ok cfg s sim"
  by (simp add: proc_ok_def)

lemma proc_ok_outcome: "proc_ok cfg s \<Longrightarrow> sp_pc s = Returned r \<Longrightarrow> outcome_ok s r"
  by (simp add: proc_ok_def)

lemma proc_ok_init: "proc_ok cfg (init_process w)"
  by (simp add: proc_ok_def init_process_def)

lemma all_sensors_left:
  assumes "set (sim_loops sim) \<subseteq> set (sp_left s)" and "\<forall>i. SensorLoop i \<notin> set (sp_left s)"
  shows "ss_Sensors sim = []"
proof (rule ccontr)
  assume "ss_Sensors sim \<noteq> []"
  then have "SensorLoop 0 \<in> set (sim_loops sim)" by (simp add: sim_loops_def)
  with assms show False by blast
qed

lemma looping_ok_leave:
  assumes "looping_ok cfg s sim" and "at_select cfg sim a \<or> (\<exists>j. a = ActuatorLoop j)"
    and "sp_users s' = sp_users s" and "sp_left s' = a # sp_left s"
  shows "looping_ok cfg s' sim"
  using assms by (auto simp: looping_ok_def at_select_def)

lemma looping_ok_start:
  "simulator_Run cfg (sp_users s) now = Some sim \<Longrightarrow> sp_left s = [] \<Longrightarrow> looping_ok cfg s sim"
  by (auto simp: looping_ok_def intro: sim_reachable.start)

lemma proc_ok_step: "run_step c fs ph cfg s s' \<Longrightarrow> proc_ok cfg s \<Longrightarrow> proc_ok cfg s'"
proof (induction rule: run_step.induct)
  case (no_devices s now)
  then have "no_sensors (sp_users s)" by (auto simp: no_sensors_def simulator_Run_def split: if_splits)
  with no_devices show ?case by (auto simp: proc_ok_def)
next
  case (spawned s now sim)
  then have "looping_ok cfg s sim" by (intro looping_ok_start) (auto simp: proc_ok_def)
  with spawned show ?case by (auto simp: proc_ok_def)
next
  case (acts s sim a sim')
  then have "looping_ok cfg (s\<lparr>sp_routine := Looping sim'\<rparr>) sim'" by (intro looping_ok_act) (auto simp: proc_ok_def)
  with acts show ?case by (auto simp: proc_ok_def)
next
  case (all_left s sim)
  then have "\<not> sp_cancelled s \<Longrightarrow> no_sensors (sp_users s)"
    by (intro run_without_sensors [of cfg s sim] all_sensors_left [of sim s]) (auto simp: proc_ok_def)
  with all_left show ?case by (auto simp: proc_ok_def)
next
  case (simulator_returned s r)
  then show ?case by (auto simp: proc_ok_def outcome_ok_def wrapped_def split: if_splits)
next
  case (subscribe_fails s sim j e w)
  then have "looping_ok cfg (s\<lparr>sp_world := w, sp_left := ActuatorLoop j # sp_left s\<rparr>) sim"
    by (intro looping_ok_leave [OF proc_ok_looping]) auto
  with subscribe_fails show ?case by (auto simp: proc_ok_def)
next
  case (leaves s sim a)
  then have "looping_ok cfg (s\<lparr>sp_left := a # sp_left s\<rparr>) sim"
    by (intro looping_ok_leave [OF proc_ok_looping]) auto
  with leaves show ?case by (auto simp: proc_ok_def)
qed (auto simp: proc_ok_def outcome_ok_def split: if_splits)

interpretation process: relation_invariant "run_step c fs ph cfg" "proc_ok cfg" for c fs ph cfg
  by unfold_locales (rule proc_ok_step)

section \<open>How a run ends\<close>

text \<open>C30: The outcome of the simulator's \<open>run\<close> tells what happened. Without an error, there was a signal and
  \<open>simulator.Run\<close> has returned, every goroutine it waits for included. An error is one of provisioning or of
  the connection, or the wrapped nil of a \<open>simulator.Run\<close> that came to its end by itself, which
  happens only when no device has a sensor.\<close>

theorem simulator_outcome:
  assumes "(run_step c fs ph cfg)\<^sup>*\<^sup>* (init_process w0) s" and "sp_pc s = Returned r"
  shows "(r = None \<longrightarrow> sp_cancelled s \<and> sp_routine s = Gone)
     \<and> (\<forall>e. r = Some e \<longrightarrow> (\<exists>e'. e = Wrap ''provisioning'' e' \<or> e = Wrap ''mqtt'' e')
          \<or> e = Wrap ''simulator'' (Msg ''%!w(<nil>)'')
            \<and> (\<forall>dev k. (dev, k) \<in> set (device_entries (sp_users s)) \<longrightarrow> dv_Sensors (pd_Config dev) = []))"
  using proc_ok_outcome [OF process.reachable_inv [OF assms(1) proc_ok_init] assms(2)]
  by (cases r) (simp_all add: outcome_ok_def no_sensors_def)

text \<open>A broker that answers everything, and a simulation without users: \<open>simulator.Run\<close> finds nothing to
  simulate, and the process ends with an error that wraps none.\<close>

definition open_broker :: "(unit, unit) paho" where
  "open_broker = \<lparr>ph_Connect = (\<lambda>_ w. (Completed None, w)), ph_Publish = (\<lambda>_ _ _ _ w. (Completed None, w)),
     ph_Subscribe = (\<lambda>_ _ w. (Completed None, w))\<rparr>"

definition idle_cfg :: Config where
  "idle_cfg = demo_cfg\<lparr>cf_Simulation := (cf_Simulation demo_cfg)\<lparr>sim_UserGroups := []\<rparr>\<rparr>"

lemma idle_run:
  "(run_step agreeable no_files open_broker idle_cfg)\<^sup>*\<^sup>* (init_process ())
     ((init_process ())\<lparr>sp_routine := Gone, sp_errCh := Some None, sp_cancelled := True,
        sp_pc := Returned (Some (wrapped None))\<rparr>)" (is "?R\<^sup>*\<^sup>* ?s ?t")
proof -
  have s1: "?R ?s (?s\<lparr>sp_pc := Dialing\<rparr>)"
    using run_step.provisioned [of ?s agreeable no_files idle_cfg "[]" "()" open_broker]
    by (simp add: init_process_def provisioning_Run_def idle_cfg_def returnE_def)
  have s2: "?R (?s\<lparr>sp_pc := Dialing\<rparr>) (?s\<lparr>sp_pc := Selecting\<rparr>)"
    using run_step.connected [of "?s\<lparr>sp_pc := Dialing\<rparr>" open_broker idle_cfg "()" agreeable no_files]
    by (simp add: init_process_def mqtt_NewClient_def awaited_def await_def open_broker_def)
  have s3: "?R (?s\<lparr>sp_pc := Selecting\<rparr>) (?s\<lparr>sp_pc := Selecting, sp_routine := Gone, sp_errCh := Some None\<rparr>)"
    using run_step.no_devices [of "?s\<lparr>sp_pc := Selecting\<rparr>" idle_cfg 0 agreeable no_files open_broker]
    by (simp add: init_process_def simulator_Run_def device_entries_def room_entries_def)
  have s4: "?R (?s\<lparr>sp_pc := Selecting, sp_routine := Gone, sp_errCh := Some None\<rparr>) ?t"
    using run_step.simulator_returned [of "?s\<lparr>sp_pc := Selecting, sp_routine := Gone, sp_errCh := Some None\<rparr>" None]
    by (simp add: init_process_def)
  from s1 s2 s3 s4 show ?thesis by (meson converse_rtranclp_into_rtranclp rtranclp.rtrancl_refl)
qed

theorem simulator_outcome_witness:
  "\<exists>s. (run_step agreeable no_files open_broker idle_cfg)\<^sup>*\<^sup>* (init_process ()) s
     \<and> sp_pc s = Returned (Some (Wrap ''simulator'' (Msg ''%!w(<nil>)'')))
     \<and> (\<forall>dev k. (dev, k) \<in> set (device_entries (sp_users s)) \<longrightarrow> dv_Sensors (pd_Config dev) = [])"
  using idle_run simulator_outcome [OF idle_run] by (intro exI conjI) (assumption, simp_all add: wrapped_def)

section \<open>Shutdown\<close>

definition stopping :: "'w sim_process \<Rightarrow> sim_state \<Rightarrow> bool" where
  "stopping s sim \<longleftrightarrow> sp_pc s = Awaiting \<and> sp_cancelled s \<and> sp_routine s = Looping sim"

text \<open>From its \<open>select\<close> a loop leaves.\<close>

lemma leave_now:
  assumes "stopping s sim" and "may_act s a" and "at_select cfg sim a"
  shows "\<exists>s'. (run_step c fs ph cfg)\<^sup>*\<^sup>* s s' \<and> stopping s' sim \<and> set (sp_left s') = insert a (set (sp_left s))"
proof (intro exI conjI)
  show "(run_step c fs ph cfg)\<^sup>*\<^sup>* s (s\<lparr>sp_left := a # sp_left s\<rparr>)"
    using assms by (intro r_into_rtranclp run_step.leaves) (simp_all add: stopping_def)
qed (use assms in \<open>simp_all add: stopping_def\<close>)

lemma leave_after:
  assumes "stopping s sim" and "may_act s (SensorLoop i)" and "sim_ticker cfg (SensorLoop i) = Inr ()"
    and "(\<lambda>sim sim'. sim_act cfg (SensorLoop i) sim sim')\<^sup>*\<^sup>* sim sim'" and "at_select cfg sim' (SensorLoop i)"
  shows "\<exists>s'. (run_step c fs ph cfg)\<^sup>*\<^sup>* s s' \<and> stopping s' sim' \<and> set (sp_left s') = insert (SensorLoop i) (set (sp_left s))"
proof -
  have "(run_step c fs ph cfg)\<^sup>*\<^sup>* s (s\<lparr>sp_routine := Looping sim'\<rparr>)"
    using assms(4)
  proof (induction rule: rtranclp_induct)
    case base
    have "s\<lparr>sp_routine := Looping sim\<rparr> = s" using assms(1) by (simp add: stopping_def)
    then show ?case by simp
  next
    case (step y z)
    have "run_step c fs ph cfg (s\<lparr>sp_routine := Looping y\<rparr>) (s\<lparr>sp_routine := Looping y\<rparr>\<lparr>sp_routine := Looping z\<rparr>)"
      by (rule run_step.acts [of _ y "SensorLoop i"]) (use assms(1-3) step(2) in \<open>simp_all add: stopping_def may_act_def\<close>)
    with step.IH show ?case by simp
  qed
  moreover have "\<exists>s'. (run_step c fs ph cfg)\<^sup>*\<^sup>* (s\<lparr>sp_routine := Looping sim'\<rparr>) s' \<and> stopping s' sim'
      \<and> set (sp_left s') = insert (SensorLoop i) (set (sp_left (s\<lparr>sp_routine := Looping sim'\<rparr>)))"
    by (rule leave_now) (use assms(1,2,5) in \<open>simp_all add: stopping_def may_act_def\<close>)
  ultimately show ?thesis by (auto intro: rtranclp_trans)
qed

text \<open>A sensor loop in the middle of a tick finishes it.\<close>

lemma sensor_settles:
  assumes "i < length (ss_Sensors sim)"
  shows "\<exists>sim'. (\<lambda>sim sim'. sim_act cfg (SensorLoop i) sim sim')\<^sup>*\<^sup>* sim sim' \<and> at_select cfg sim' (SensorLoop i)
     \<and> sim_loops sim' = sim_loops sim"
proof -
  have fin: "\<exists>sim'. sim_act cfg (SensorLoop i) sm sim' \<and> at_select cfg sim' (SensorLoop i) \<and> sim_loops sim' = sim_loops sm"
    if "i < length (ss_Sensors sm)" "sl_PC (ss_Sensors sm ! i) = Advanced" for sm
    using sim_act.publish_fails [OF that, of cfg] sim_loops_act [OF sim_act.publish_fails [OF that, of cfg]] that(1)
    by (intro exI [of _ "set_pc i Waiting sm"]) (simp add: at_select_def set_pc_def)
  show ?thesis
  proof (cases "sl_PC (ss_Sensors sim ! i)")
    case Waiting
    with assms show ?thesis by (intro exI [of _ sim]) (simp add: at_select_def)
  next
    case Advanced
    from fin [OF assms this] show ?thesis by blast
  next
    case (Snapshot heat)
    note adv = sim_act.advance [OF assms Snapshot, of cfg "\<lambda>_. 0"]
    let ?sm = "set_pc i Advanced (on_room (sl_Room (ss_Sensors sim ! i))
       (apply_advance (ss_Models sim ! sl_Room (ss_Sensors sim ! i)) heat (cf_SimulatedTickSeconds cfg) (\<lambda>_. 0)) sim)"
    have "i < length (ss_Sensors ?sm)" "sl_PC (ss_Sensors ?sm ! i) = Advanced"
      using assms by (simp_all add: set_pc_def on_room_def)
    from fin [OF this] adv sim_loops_act [OF adv] show ?thesis by (metis converse_rtranclp_into_rtranclp r_into_rtranclp)
  qed
qed

lemma loop_leaves:
  assumes "stopping s sim" and "a \<in> set (sim_loops sim)" and "0 < cf_EffectivePublishInterval cfg" and "0 < watchdogTimeout cfg"
  shows "\<exists>s' sim'. (run_step c fs ph cfg)\<^sup>*\<^sup>* s s' \<and> stopping s' sim' \<and> sim_loops sim' = sim_loops sim
     \<and> insert a (set (sp_left s)) \<subseteq> set (sp_left s')"
proof (cases "a \<in> set (sp_left s)")
  case True
  with assms(1) show ?thesis by blast
next
  case False
  have ticks: "sim_ticker cfg b = Inr ()" for b
    using assms(3,4) by (cases b) (simp_all add: sim_ticker_def NewTicker_def)
  show ?thesis
  proof (cases a)
    case (SensorLoop i)
    with assms(2) have "i < length (ss_Sensors sim)" by (auto simp: sim_loops_def)
    from sensor_settles [OF this, of cfg] obtain sim' where sim':
      "(\<lambda>sim sim'. sim_act cfg (SensorLoop i) sim sim')\<^sup>*\<^sup>* sim sim'" "at_select cfg sim' (SensorLoop i)" "sim_loops sim' = sim_loops sim"
      by blast
    have "may_act s (SensorLoop i)" using False SensorLoop by (simp add: may_act_def)
    from leave_after [OF assms(1) this ticks sim'(1,2), of c fs ph] obtain s' where
      "(run_step c fs ph cfg)\<^sup>*\<^sup>* s s'" "stopping s' sim'" "set (sp_left s') = insert (SensorLoop i) (set (sp_left s))" by blast
    with sim'(3) SensorLoop show ?thesis by (intro exI [of _ s'] exI [of _ sim']) simp
  next
    case (ActuatorLoop j)
    with assms(2) have j: "j < length (ss_Actuators sim)" by (auto simp: sim_loops_def)
    have sel: "at_select cfg sim a" using ActuatorLoop j ticks by (simp add: at_select_def)
    have leave: "\<exists>s' sim'. (run_step c fs ph cfg)\<^sup>*\<^sup>* t s' \<and> stopping s' sim' \<and> sim_loops sim' = sim_loops sim
        \<and> insert a (set (sp_left t)) \<subseteq> set (sp_left s')"
      if "stopping t sim" "j \<in> set (sp_subscribed t)" "a \<notin> set (sp_left t)" for t
    proof -
      have "may_act t a" using that ActuatorLoop by (simp add: may_act_def)
      from leave_now [OF that(1) this sel, of c fs ph] obtain s' where
        "(run_step c fs ph cfg)\<^sup>*\<^sup>* t s'" "stopping s' sim" "set (sp_left s') = insert a (set (sp_left t))" by blast
      then show ?thesis by (intro exI [of _ s'] exI [of _ sim]) simp
    qed
    obtain r w where sub: "mqtt_Subscribe ph (cmdTopic (ss_Actuators sim ! j)) 2 (sp_world s) = (r, w)" by fastforce
    consider "j \<in> set (sp_subscribed s)" | "j \<notin> set (sp_subscribed s)" "r = Inr ()" | e where "j \<notin> set (sp_subscribed s)" "r = Inl e"
      by (cases r) auto
    then show ?thesis
    proof cases
      case 1
      from leave [OF assms(1) this False] show ?thesis .
    next
      case 2
      let ?t = "s\<lparr>sp_world := w, sp_subscribed := j # sp_subscribed s\<rparr>"
      have "run_step c fs ph cfg s ?t"
        using assms(1) False 2 sub j ActuatorLoop by (intro run_step.subscribed [of _ sim]) (simp_all add: stopping_def)
      moreover from leave [of ?t] assms(1) False obtain s' sim' where "(run_step c fs ph cfg)\<^sup>*\<^sup>* ?t s'" "stopping s' sim'"
        "sim_loops sim' = sim_loops sim" "insert a (set (sp_left s)) \<subseteq> set (sp_left s')" by (auto simp: stopping_def)
      ultimately show ?thesis by (meson converse_rtranclp_into_rtranclp)
    next
      case 3
      have "run_step c fs ph cfg s (s\<lparr>sp_world := w, sp_left := ActuatorLoop j # sp_left s\<rparr>)"
        using assms(1) False 3 sub j ActuatorLoop by (intro run_step.subscribe_fails [of _ sim]) (simp_all add: stopping_def)
      with assms(1) ActuatorLoop show ?thesis
        by (intro exI [of _ "s\<lparr>sp_world := w, sp_left := ActuatorLoop j # sp_left s\<rparr>"] exI [of _ sim]) (auto simp: stopping_def)
    qed
  next
    case (CommandHandler j)
    with assms(2) show ?thesis by (auto simp: sim_loops_def)
  qed
qed

lemma loops_leave:
  assumes "0 < cf_EffectivePublishInterval cfg" and "0 < watchdogTimeout cfg"
    and "stopping s sim" and "set as \<subseteq> set (sim_loops sim)"
  shows "\<exists>s' sim'. (run_step c fs ph cfg)\<^sup>*\<^sup>* s s' \<and> stopping s' sim' \<and> sim_loops sim' = sim_loops sim
     \<and> set as \<union> set (sp_left s) \<subseteq> set (sp_left s')"
  using assms(3,4)
proof (induction as arbitrary: s sim)
  case Nil
  then show ?case by auto
next
  case (Cons a as)
  from loop_leaves [OF Cons.prems(1) _ assms(1,2), of a c fs ph] Cons.prems(2) obtain s1 sim1 where
    1: "(run_step c fs ph cfg)\<^sup>*\<^sup>* s s1" "stopping s1 sim1" "sim_loops sim1 = sim_loops sim" "insert a (set (sp_left s)) \<subseteq> set (sp_left s1)"
    by auto
  from Cons.IH [OF 1(2)] 1(3) Cons.prems(2) obtain s2 sim2 where
    2: "(run_step c fs ph cfg)\<^sup>*\<^sup>* s1 s2" "stopping s2 sim2" "sim_loops sim2 = sim_loops sim" "set as \<union> set (sp_left s1) \<subseteq> set (sp_left s2)"
    by auto
  from rtranclp_trans [OF 1(1) 2(1)] 2(2,3,4) 1(4) show ?case by (intro exI conjI) (assumption+, auto)
qed

lemma finishes:
  assumes "stopping s sim" and "set (sim_loops sim) \<subseteq> set (sp_left s)"
  shows "\<exists>s'. (run_step c fs ph cfg)\<^sup>*\<^sup>* s s' \<and> sp_pc s' = Returned None"
proof -
  let ?t = "s\<lparr>sp_routine := Gone, sp_errCh := Some None\<rparr>"
  have "run_step c fs ph cfg s ?t" using assms by (intro run_step.all_left) (simp_all add: stopping_def)
  moreover have "run_step c fs ph cfg ?t (?t\<lparr>sp_pc := Returned None\<rparr>)"
    using assms(1) by (intro run_step.finished) (simp_all add: stopping_def)
  ultimately have "(run_step c fs ph cfg)\<^sup>*\<^sup>* s (?t\<lparr>sp_pc := Returned None\<rparr>)" by (meson rtranclp.rtrancl_into_rtrancl r_into_rtranclp)
  then show ?thesis by (intro exI conjI) (assumption, simp)
qed

lemma looping_finishes:
  assumes "0 < cf_EffectivePublishInterval cfg" and "0 < watchdogTimeout cfg" and "stopping s sim"
  shows "\<exists>s'. (run_step c fs ph cfg)\<^sup>*\<^sup>* s s' \<and> sp_pc s' = Returned None"
proof -
  from loops_leave [OF assms order_refl, of c fs ph] obtain s1 sim1 where
    1: "(run_step c fs ph cfg)\<^sup>*\<^sup>* s s1" "stopping s1 sim1" "sim_loops sim1 = sim_loops sim"
      "set (sim_loops sim) \<union> set (sp_left s) \<subseteq> set (sp_left s1)" by blast
  from finishes [OF 1(2), of c fs ph cfg] 1(3,4) obtain s2 where
    "(run_step c fs ph cfg)\<^sup>*\<^sup>* s1 s2" "sp_pc s2 = Returned None" by auto
  with 1(1) show ?thesis by (meson rtranclp_trans)
qed

text \<open>C29: The simulator can always stop: in every state a run reaches after the signal, with loops in the middle of a
  tick, subscriptions pending or failing and no matter what the API and the broker answered, the process can
  go on to a clean exit, provided that its two intervals are positive.\<close>

theorem simulator_shuts_down:
  assumes "(run_step c fs ph cfg)\<^sup>*\<^sup>* (init_process w0) s" and "sp_pc s = Awaiting"
    and "0 < cf_EffectivePublishInterval cfg" and "0 < watchdogTimeout cfg"
  shows "\<exists>s'. (run_step c fs ph cfg)\<^sup>*\<^sup>* s s' \<and> sp_pc s' = Returned None"
proof -
  from process.reachable_inv [OF assms(1) proc_ok_init] assms(2) have
    ch: "sp_errCh s = (if sp_routine s = Gone then Some None else None)" and cancelled: "sp_cancelled s"
    by (simp_all add: proc_ok_def)
  show ?thesis
  proof (cases "sp_routine s")
    case Gone
    with ch have "run_step c fs ph cfg s (s\<lparr>sp_pc := Returned None\<rparr>)" using assms(2) by (intro run_step.finished) simp_all
    then show ?thesis by (intro exI conjI) (erule r_into_rtranclp, simp)
  next
    case (Looping sim)
    with assms(2) cancelled have "stopping s sim" by (simp add: stopping_def)
    with looping_finishes [OF assms(3,4)] show ?thesis by blast
  next
    case Unspawned
    show ?thesis
    proof (cases "simulator_Run cfg (sp_users s) 0")
      case None
      let ?t = "s\<lparr>sp_routine := Gone, sp_errCh := Some None\<rparr>"
      have "run_step c fs ph cfg s ?t" using assms(2) Unspawned None by (intro run_step.no_devices) simp_all
      moreover have "run_step c fs ph cfg ?t (?t\<lparr>sp_pc := Returned None\<rparr>)" using assms(2) by (intro run_step.finished) simp_all
      ultimately have "(run_step c fs ph cfg)\<^sup>*\<^sup>* s (?t\<lparr>sp_pc := Returned None\<rparr>)" by (meson rtranclp.rtrancl_into_rtrancl r_into_rtranclp)
      then show ?thesis by (intro exI conjI) (assumption, simp)
    next
      case (Some sim)
      then have "run_step c fs ph cfg s (s\<lparr>sp_routine := Looping sim\<rparr>)"
        using assms(2) Unspawned by (intro run_step.spawned [of _ _ 0]) simp_all
      moreover have "stopping (s\<lparr>sp_routine := Looping sim\<rparr>) sim" using assms(2) cancelled by (simp add: stopping_def)
      ultimately show ?thesis using looping_finishes [OF assms(3,4)] by (meson converse_rtranclp_into_rtranclp)
    qed
  qed
qed

theorem simulator_shuts_down_witness:
  "\<exists>s s'. (run_step agreeable no_files open_broker demo_cfg)\<^sup>*\<^sup>* (init_process ()) s \<and> sp_pc s = Awaiting
     \<and> (run_step agreeable no_files open_broker demo_cfg)\<^sup>*\<^sup>* s s' \<and> sp_pc s' = Returned None"
proof -
  let ?R = "run_step agreeable no_files open_broker demo_cfg" and ?s = "init_process ()"
  from demo_provisions obtain users where run: "provisioning_Run agreeable no_files demo_cfg () = (Inr users, ())" by blast
  let ?s1 = "?s\<lparr>sp_users := users, sp_pc := Dialing\<rparr>"
  have s1: "?R ?s ?s1"
    using run_step.provisioned [of ?s agreeable no_files demo_cfg users "()" open_broker] run by (simp add: init_process_def)
  have s2: "?R ?s1 (?s1\<lparr>sp_pc := Selecting\<rparr>)"
    using run_step.connected [of ?s1 open_broker demo_cfg "()" agreeable no_files]
    by (simp add: init_process_def mqtt_NewClient_def awaited_def await_def open_broker_def)
  let ?s3 = "?s1\<lparr>sp_cancelled := True, sp_pc := Awaiting\<rparr>"
  have s3: "?R (?s1\<lparr>sp_pc := Selecting\<rparr>) ?s3"
    using run_step.signal [of "?s1\<lparr>sp_pc := Selecting\<rparr>" agreeable no_files open_broker demo_cfg] by (simp add: init_process_def)
  from s1 s2 s3 have reach: "?R\<^sup>*\<^sup>* ?s ?s3" by (meson converse_rtranclp_into_rtranclp rtranclp.rtrancl_refl)
  have "0 < cf_EffectivePublishInterval demo_cfg" "0 < watchdogTimeout demo_cfg"
    by (simp_all add: demo_cfg_def Second_def watchdogTimeout_def WatchdogTimeoutSeconds_def watchdogMultiplier_def wrap64_def)
  from simulator_shuts_down [OF reach _ this] reach show ?thesis by (metis (no_types, lifting) sim_process.select_convs(2) sim_process.surjective sim_process.update_convs(2))
qed

text \<open>\<open>config.Load\<close> accepts a control tick of zero seconds; the first actuator loop that has subscribed then panics.\<close>

lemma zero_tick_crashes:
  assumes "Load ld name = Inr cfg" and "ld_Getenv ld ''CONTROL_TICK_INTERVAL_SECONDS'' = ''0''"
  shows "sim_ticker cfg (ActuatorLoop j) = Inl (Panic ''non-positive interval for NewTicker'')"
proof -
  have "Atoi ''0'' = Some 0" by (subst Atoi_1) (simp_all add: is_digit_def digit_val_def)
  with assms have "cf_BaseTickSeconds cfg = 0"
    by (auto simp: Load_def bindR_Inr mapErrR_Inr Let_def mustGetEnvInt_def mustGetEnv_def)
  then show ?thesis
    by (simp add: sim_ticker_def NewTicker_def watchdogTimeout_def WatchdogTimeoutSeconds_def wrap64_id in_int64_def)
qed

end
