(* ===== verification/Debug.thy ===== *)
theory Debug
  imports Stream
begin

text \<open>
  Package \<open>device-service/internal/debug\<close>: the log lines of the debug levels. The package variables are a
  record, every function returns the lines it prints. The texts of floats, times and UUIDs are the
  fields of \<open>formats\<close>; a \<open>range\<close> over a map takes the keys in the order \<open>order n\<close> gives, \<open>n\<close> being the number of
  the statement (and of its execution), since no two of them need agree.
\<close>

section \<open>Levels\<close>

type_synonym Level = int

definition LevelOff :: Level where "LevelOff = 0"

definition LevelInfo :: Level where "LevelInfo = 1"

definition LevelVerbose :: Level where "LevelVerbose = 2"

record debug_state =
  db_level :: Level
  db_traceIngestion :: bool
  db_traceTick :: bool

definition bool_text :: "bool \<Rightarrow> string" where
  "bool_text b = (if b then ''true'' else ''false'')"

definition SetTraceIngestion :: "bool \<Rightarrow> debug_state \<Rightarrow> debug_state" where
  "SetTraceIngestion v g = g\<lparr>db_traceIngestion := v\<rparr>"

definition SetTraceTick :: "bool \<Rightarrow> debug_state \<Rightarrow> debug_state" where
  "SetTraceTick v g = g\<lparr>db_traceTick := v\<rparr>"

definition Level_String :: "Level \<Rightarrow> string" where
  "Level_String l = (if l = LevelInfo then ''info'' else if l = LevelVerbose then ''verbose'' else ''off'')"

definition SetLevel :: "Level \<Rightarrow> debug_state \<Rightarrow> string list \<times> debug_state" where
  "SetLevel l g =
     (if LevelOff < l
      then [''debug: level='' @ Level_String l @ '' trace_ingestion='' @ bool_text (db_traceIngestion g)
              @ '' trace_tick='' @ bool_text (db_traceTick g)]
      else [], g\<lparr>db_level := l\<rparr>)"

definition ParseLevel :: "string \<Rightarrow> Level" where
  "ParseLevel s = (if s = ''info'' then LevelInfo else if s = ''verbose'' then LevelVerbose else LevelOff)"

definition atLevel :: "debug_state \<Rightarrow> Level \<Rightarrow> bool" where
  "atLevel g l \<longleftrightarrow> l \<le> db_level g"

definition AtInfo :: "debug_state \<Rightarrow> bool" where
  "AtInfo g \<longleftrightarrow> atLevel g LevelInfo"

definition AtIngestion :: "debug_state \<Rightarrow> bool" where
  "AtIngestion g \<longleftrightarrow> atLevel g LevelInfo \<and> db_traceIngestion g"

section \<open>Texts\<close>

record formats =
  fm_1f :: "float64 \<Rightarrow> string"
  fm_2f :: "float64 \<Rightarrow> string"
  fm_uuid :: "uuid \<Rightarrow> string"
  fm_clock :: "instant \<Rightarrow> string"
  fm_stamp :: "instant \<Rightarrow> string"
  fm_year :: "instant \<Rightarrow> int"

type_synonym map_order = "nat \<Rightarrow> string set \<Rightarrow> string list"

definition enumerates :: "map_order \<Rightarrow> bool" where
  "enumerates order \<longleftrightarrow> (\<forall>n S. finite S \<longrightarrow> distinct (order n S) \<and> set (order n S) = S)"

fun Join :: "string list \<Rightarrow> string" where
  "Join [] = []"
| "Join [s] = s"
| "Join (s # ss) = s @ '', '' @ Join ss"

definition activeDays :: "bool list \<Rightarrow> string list" where
  "activeDays dow = map fst (filter snd (zip [''Mon'', ''Tue'', ''Wed'', ''Thu'', ''Fri'', ''Sat'', ''Sun'']
     (map (\<lambda>i. dow ! i) [1, 2, 3, 4, 5, 6, 7])))"

definition sortedKeys :: "map_order \<Rightarrow> (string \<rightharpoonup> string list) \<Rightarrow> string list" where
  "sortedKeys order m = sort (order 0 (dom m))"

definition sensorTypeList :: "map_order \<Rightarrow> (string \<rightharpoonup> SensorEntry) \<Rightarrow> string list" where
  "sensorTypeList order m = sort (order 1 (dom m))"

definition actuatorTypeList :: "map_order \<Rightarrow> (string \<rightharpoonup> ActuatorEntry) \<Rightarrow> string list" where
  "actuatorTypeList order m = sort (order 2 (dom m))"

definition formatFloat64Ptr :: "formats \<Rightarrow> float64 option \<Rightarrow> string" where
  "formatFloat64Ptr fm v = (case v of None \<Rightarrow> ''none'' | Some x \<Rightarrow> fm_2f fm x)"

definition formatInt16Ptr :: "int16 option \<Rightarrow> string" where
  "formatInt16Ptr v = (case v of None \<Rightarrow> ''none'' | Some x \<Rightarrow> int_text (sint x))"

section \<open>A room at Verbose\<close>

definition logDesiredState :: "formats \<Rightarrow> map_order \<Rightarrow> DesiredStateCache \<Rightarrow> string list" where
  "logDesiredState fm order ds =
     [''  desired_state:'', ''    mode: '' @ dsc_Mode ds]
     @ map (\<lambda>sensorType. case dsc_Targets ds sensorType of
         Some (Some t) \<Rightarrow> ''    target_'' @ sensorType @ '': '' @ fm_2f fm t
       | _ \<Rightarrow> ''    target_'' @ sensorType @ '': nil'') (order 3 (dom (dsc_Targets ds)))
     @ [case dsc_ManualOverrideUntil ds of
         None \<Rightarrow> ''    manual_override_until: none''
       | Some t \<Rightarrow> if fm_year fm t = 9999 then ''    manual_override_until: indefinite''
           else ''    manual_override_until: '' @ fm_stamp fm t]"

definition period_lines :: "formats \<Rightarrow> map_order \<Rightarrow> nat \<times> SchedulePeriodCache \<Rightarrow> string list" where
  "period_lines fm order ip = (case ip of (i, p) \<Rightarrow>
     [''  period['' @ int_text (int i) @ ''] '' @ fm_uuid fm (spc_ID p) @ '':'',
      ''    days:  ['' @ Join (activeDays (spc_DaysOfWeek p)) @ '']'',
      ''    start: '' @ dec02 (quot (spc_StartMinutes p) 60) @ '':'' @ dec02 (spc_StartMinutes p - 60 * quot (spc_StartMinutes p) 60),
      ''    end:   '' @ dec02 (quot (spc_EndMinutes p) 60) @ '':'' @ dec02 (spc_EndMinutes p - 60 * quot (spc_EndMinutes p) 60),
      ''    mode:  '' @ spc_Mode p]
     @ concat (map (\<lambda>sensorType. case spc_Targets p sensorType of
         Some (Some t) \<Rightarrow> [''    target_'' @ sensorType @ '': '' @ fm_2f fm t]
       | _ \<Rightarrow> []) (order (9 + i) (dom (spc_Targets p)))))"

definition logPeriods :: "formats \<Rightarrow> map_order \<Rightarrow> SchedulePeriodCache list \<Rightarrow> string list" where
  "logPeriods fm order periods =
     (''  active_periods: '' @ int_text (int (length periods)))
     # concat (map (period_lines fm order) (enumerate 0 periods))"

definition logActuatorHwIDs :: "map_order \<Rightarrow> (string \<rightharpoonup> string list) \<Rightarrow> string list" where
  "logActuatorHwIDs order m =
     ''  actuator_hw_ids:''
     # map (\<lambda>actuatorType. ''    '' @ actuatorType @ '': ['' @ Join (slice_at m actuatorType) @ '']'') (sortedKeys order m)"

definition logActuatorStates :: "map_order \<Rightarrow> actuator_states \<Rightarrow> string list" where
  "logActuatorStates order states =
     ''  actuator_states:''
     # (if states = Map.empty then [''    none'']
        else map (\<lambda>actuatorType. ''    '' @ actuatorType @ '': '' @ bool_text (states actuatorType = Some True))
          (order 5 (dom states)))"

definition logLatestReadings :: "formats \<Rightarrow> map_order \<Rightarrow> latest_readings \<Rightarrow> string list" where
  "logLatestReadings fm order readings =
     ''  latest_readings:''
     # (if readings = Map.empty then [''    none'']
        else map (\<lambda>sensorType. let rs = slice_at readings sensorType
            in if rs = [] then ''    '' @ sensorType @ '': no readings''
               else ''    '' @ sensorType @ '': ['' @ Join (map (\<lambda>r. fm_2f fm (tr_Value r) @ ''@'' @ fm_clock fm (tr_Timestamp r)) rs) @ '']'')
          (order 6 (dom readings)))"

section \<open>Cache inspection\<close>

text \<open>A room is printed from what its read lock shows.\<close>

definition LogRoom :: "debug_state \<Rightarrow> formats \<Rightarrow> map_order \<Rightarrow> RoomView \<Rightarrow> string list" where
  "LogRoom g fm order rc =
     (if \<not> atLevel g LevelInfo then []
      else if atLevel g LevelVerbose then
        [''cache: room '' @ fm_uuid fm (rc_RoomID rc) @ '':'',
         ''  timezone:      '' @ rc_UserTimezone rc,
         ''  deadband_temp: '' @ fm_1f fm (rc_DeadbandTemp rc),
         ''  deadband_hum:  '' @ fm_1f fm (rc_DeadbandHum rc)]
        @ logDesiredState fm order (rc_DesiredState rc)
        @ logPeriods fm order (rc_ActivePeriods rc)
        @ logActuatorHwIDs order (rc_ActuatorHwIDs rc)
        @ logActuatorStates order (rc_ActuatorStates rc)
        @ logLatestReadings fm order (rc_LatestReadings rc)
        @ [case rc_LastActivePeriod rc of
             Some p \<Rightarrow> ''  last_active_period: '' @ fm_uuid fm (spc_ID p)
           | None \<Rightarrow> ''  last_active_period: none'']
      else
        [''cache: room '' @ fm_uuid fm (rc_RoomID rc) @ '': mode='' @ dsc_Mode (rc_DesiredState rc)
           @ '' periods='' @ int_text (int (length (rc_ActivePeriods rc)))
           @ '' actuators=['' @ Join (sortedKeys order (rc_ActuatorHwIDs rc)) @ '']''])"

definition LogDevice :: "debug_state \<Rightarrow> formats \<Rightarrow> map_order \<Rightarrow> DeviceCache \<Rightarrow> string list" where
  "LogDevice g fm order dc =
     (if \<not> atLevel g LevelInfo then []
      else let roomStr = (case GetRoomID dc of None \<Rightarrow> ''unassigned'' | Some r \<Rightarrow> fm_uuid fm r)
      in if atLevel g LevelVerbose then
        [''cache: device '' @ dc_HwID dc @ '':'',
         ''  device_id: '' @ fm_uuid fm (dc_DeviceID dc),
         ''  room_id:   '' @ roomStr,
         ''  sensors:   '' @ int_text (int (card (dom (dc_Sensors dc))))]
        @ concat (map (\<lambda>k. case dc_Sensors dc k of None \<Rightarrow> []
            | Some s \<Rightarrow> [''    '' @ se_MeasurementType s @ '': '' @ fm_uuid fm (se_SensorID s)]) (order 7 (dom (dc_Sensors dc))))
        @ [''  actuators: '' @ int_text (int (card (dom (dc_Actuators dc))))]
        @ concat (map (\<lambda>k. case dc_Actuators dc k of None \<Rightarrow> []
            | Some a \<Rightarrow> [''    '' @ ae_ActuatorType a @ '': '' @ fm_uuid fm (ae_ActuatorID a)]) (order 8 (dom (dc_Actuators dc))))
      else
        [''cache: device '' @ dc_HwID dc @ '': room='' @ roomStr
           @ '' sensors=['' @ Join (sensorTypeList order (dc_Sensors dc))
           @ ''] actuators=['' @ Join (actuatorTypeList order (dc_Actuators dc)) @ '']''])"

text \<open>\<open>RoomIDs()\<close> and \<open>DeviceHwIDs()\<close> have answered with the lists; an entry that has gone since is skipped.\<close>

definition LogStore :: "debug_state \<Rightarrow> formats \<Rightarrow> (uuid \<Rightarrow> map_order) \<Rightarrow> uuid list \<Rightarrow> Store \<Rightarrow> string list" where
  "LogStore g fm order roomIDs store =
     (if \<not> atLevel g LevelInfo then []
      else (''cache: store: '' @ int_text (int (length roomIDs)) @ '' rooms'')
        # concat (map (\<lambda>i. case room_view store i of None \<Rightarrow> [] | Some rc \<Rightarrow> LogRoom g fm (order i) rc) roomIDs))"

definition LogDevices :: "debug_state \<Rightarrow> formats \<Rightarrow> (string \<Rightarrow> map_order) \<Rightarrow> string list \<Rightarrow> Store \<Rightarrow> string list" where
  "LogDevices g fm order hwIDs store =
     (if \<not> atLevel g LevelInfo then []
      else (''cache: devices: '' @ int_text (int (length hwIDs)))
        # concat (map (\<lambda>h. case Device store h of None \<Rightarrow> [] | Some dc \<Rightarrow> LogDevice g fm (order h) dc) hwIDs))"

section \<open>Events, ticks, messages\<close>

text \<open>\<open>values["room_id"].(string)\<close> with the failure ignored.\<close>

definition string_field :: "XValues \<Rightarrow> string \<Rightarrow> string" where
  "string_field values key = (case values key of Some (StringV s) \<Rightarrow> s | _ \<Rightarrow> [])"

definition LogStreamEvent :: "debug_state \<Rightarrow> string \<Rightarrow> string \<Rightarrow> XValues \<Rightarrow> string list" where
  "LogStreamEvent g event msgID values =
     (if \<not> atLevel g LevelInfo then []
      else let roomID = string_field values ''room_id''; hwID = string_field values ''hw_id''
      in if hwID \<noteq> []
         then [''stream: event='' @ event @ '' msg='' @ msgID @ '' room='' @ roomID @ '' hw_id='' @ hwID]
         else [''stream: event='' @ event @ '' msg='' @ msgID @ '' room='' @ roomID])"

definition average_line :: "formats \<Rightarrow> string \<Rightarrow> float64 option \<Rightarrow> int16 option \<Rightarrow> float64 option \<Rightarrow> string" where
  "average_line fm what avg n targ = (case avg of
     Some a \<Rightarrow> ''tick:   '' @ what @ ''='' @ fm_2f fm a @ '' (n='' @ formatInt16Ptr n @ '') target='' @ formatFloat64Ptr fm targ
   | None \<Rightarrow> ''tick:   '' @ what @ ''=none target='' @ formatFloat64Ptr fm targ)"

definition LogTick :: "debug_state \<Rightarrow> formats \<Rightarrow> uuid \<Rightarrow> TickResult \<Rightarrow> string list" where
  "LogTick g fm roomID result =
     (if \<not> atLevel g LevelInfo \<or> \<not> db_traceTick g then []
      else let entry = tk_LogEntry result
      in (''tick: room '' @ fm_uuid fm roomID @ '': source='' @ cle_ControlSource entry @ '' mode='' @ cle_Mode entry
            @ '' commands='' @ int_text (int (length (tk_Commands result))))
         # (if \<not> atLevel g LevelVerbose then []
            else (if tk_Commands result = [] then [''tick:   no commands''] else [])
              @ map (\<lambda>cmd. ''tick:   cmd: hw_id='' @ ac_HwID cmd @ '' actuator='' @ ac_ActuatorType cmd
                  @ '' state='' @ bool_text (ac_State cmd)) (tk_Commands result)
              @ [average_line fm ''avg_temp'' (cle_AvgTemp entry) (cle_ReadingCountTemp entry) (cle_TargetTemp entry),
                 average_line fm ''avg_hum'' (cle_AvgHum entry) (cle_ReadingCountHum entry) (cle_TargetHum entry)]
              @ (case cle_HeaterCmd entry of None \<Rightarrow> [] | Some c \<Rightarrow> [''tick:   heater_cmd='' @ int_text (sint c)])
              @ (case cle_HumidifierCmd entry of None \<Rightarrow> [] | Some c \<Rightarrow> [''tick:   humidifier_cmd='' @ int_text (sint c)])))"

definition LogIngestion :: "debug_state \<Rightarrow> formats \<Rightarrow> string \<Rightarrow> uuid \<Rightarrow> string list \<Rightarrow> string list" where
  "LogIngestion g fm hwID roomID types =
     (if \<not> atLevel g LevelInfo \<or> \<not> db_traceIngestion g then []
      else [''ingestion: hw_id='' @ hwID @ '' room='' @ fm_uuid fm roomID @ '' types=['' @ Join types @ '']''])"

section \<open>What is printed\<close>

text \<open>Sorting makes the lists of keys independent of the map's order.\<close>

lemma sorted_order: "enumerates order \<Longrightarrow> finite S \<Longrightarrow> sort (order n S) = sorted_list_of_set S"
  using sorted_list_of_set.idem_if_sorted_distinct [of "sort (order n S)"] by (simp add: enumerates_def)

text \<open>At Info the line of a room, or of a device, does not depend on map orders.\<close>

lemma info_room_deterministic:
  assumes "\<not> atLevel g LevelVerbose" and "enumerates order" and "enumerates order'" and "finite (dom (rc_ActuatorHwIDs rc))"
  shows "LogRoom g fm order rc = LogRoom g fm order' rc"
  using assms by (simp add: LogRoom_def sortedKeys_def sorted_order)

lemma info_device_deterministic:
  assumes "\<not> atLevel g LevelVerbose" and "enumerates order" and "enumerates order'"
    and "finite (dom (dc_Sensors dc))" and "finite (dom (dc_Actuators dc))"
  shows "LogDevice g fm order dc = LogDevice g fm order' dc"
  using assms by (simp add: LogDevice_def sensorTypeList_def actuatorTypeList_def sorted_order)

text \<open>Below Info nothing is printed, and a trace needs its flag as well.\<close>

lemma silent_below_info:
  assumes "db_level g < LevelInfo"
  shows "LogRoom g fm order rc = []" "LogDevice g fm order dc = []" "LogStore g fm orders ids st = []"
    "LogDevices g fm orders' hws st = []" "LogStreamEvent g ev i vs = []" "LogTick g fm r tk = []" "LogIngestion g fm h r ts = []"
  using assms by (simp_all add: LogRoom_def LogDevice_def LogStore_def LogDevices_def LogStreamEvent_def
      LogTick_def LogIngestion_def atLevel_def)

lemma traces_gated:
  "LogIngestion g fm h r ts \<noteq> [] \<longleftrightarrow> AtIngestion g" "LogTick g fm r tk \<noteq> [] \<longleftrightarrow> AtInfo g \<and> db_traceTick g"
  by (simp_all add: LogIngestion_def AtIngestion_def LogTick_def AtInfo_def Let_def)

text \<open>A level survives its text; anything unknown is off.\<close>

lemma ParseLevel_String: "l \<in> {LevelOff, LevelInfo, LevelVerbose} \<Longrightarrow> ParseLevel (Level_String l) = l"
  by (auto simp: ParseLevel_def Level_String_def LevelOff_def LevelInfo_def LevelVerbose_def)

text \<open>At Info a dump has one line per cached room after its heading.\<close>

lemma info_store_lines:
  assumes "AtInfo g" and "\<not> atLevel g LevelVerbose" and "\<And>i. i \<in> set ids \<Longrightarrow> room_view st i \<noteq> None"
  shows "length (LogStore g fm order ids st) = Suc (length ids)"
proof -
  have "length (concat (map (\<lambda>i. case room_view st i of None \<Rightarrow> [] | Some rc \<Rightarrow> LogRoom g fm (order i) rc) js)) = length js"
    if "set js \<subseteq> set ids" for js
    using that assms by (induction js) (auto simp: LogRoom_def AtInfo_def split: option.split)
  with assms(1) show ?thesis by (simp add: LogStore_def AtInfo_def)
qed

text \<open>The days listed are the flags 1 to 7.\<close>

lemma activeDays_count:
  assumes "length dow = 8"
  shows "length (activeDays dow) = length (filter id (tl dow))"
proof -
  from assms obtain a b c d e f h i where "dow = [a, b, c, d, e, f, h, i]"
    by (auto simp: length_Suc_conv eval_nat_numeral)
  then show ?thesis by (cases b; cases c; cases d; cases e; cases f; cases h; cases i) (simp_all add: activeDays_def)
qed

end
